(* ===== verification/Prelude.thy ===== *)
theory Prelude
  imports Main "HOL-Library.Word" "HOL-Library.AList" "HOL-Library.Char_ord"
    "HOL-Library.List_Lexorder"
begin

text \<open>
  Shared ground of the development of \<open>server/freebsd_ref/main.cpp\<close>: the names of the
  machine-integer types, the characters the code spells out, the few functions of the C++
  standard library it leans on (\<open>std::isspace\<close>, \<open>std::getline\<close>, \<open>std::to_string\<close>,
  \<open>std::string::find\<close>), the theorem collections of the component theories, and generic
  lemmas on lists used by more than one of them.

  A \<open>std::string\<close> is a \<open>string\<close>, a list of bytes. A \<open>size_t\<close> that only counts
  elements of a container is a \<open>nat\<close>; the fixed-width integers of the data model are words.
\<close>

unbundle bit_operations_syntax

named_theorems render_simps \<comment> \<open>how the text renderers act on members and literals\<close>
named_theorems table_simps \<comment> \<open>how the server's session table is read and written\<close>

type_synonym u8 = "8 word"
type_synonym u16 = "16 word"
type_synonym u32 = "32 word"

text \<open>A \<open>Clock::time_point\<close>: microseconds since the epoch, the tick of \<open>system_clock\<close> in libc++.\<close>

type_synonym time_point = int

abbreviation dquote :: char where "dquote \<equiv> CHR 0x22"
abbreviation bslash :: char where "bslash \<equiv> CHR 0x5C"
abbreviation newline :: char where "newline \<equiv> CHR 0x0A"
abbreviation creturn :: char where "creturn \<equiv> CHR 0x0D"
abbreviation htab :: char where "htab \<equiv> CHR 0x09"

abbreviation byte_of :: "char \<Rightarrow> nat" where
  "byte_of c \<equiv> of_char c"

text \<open>\<open>static_cast<char>\<close> keeps the low eight bits.\<close>

definition char_cast :: "u32 \<Rightarrow> char" where
  "char_cast w = char_of (unat w)"

section \<open>Standard library functions\<close>

text \<open>\<open>std::isspace\<close> in the C locale.\<close>

definition isspace :: "char \<Rightarrow> bool" where
  "isspace c \<longleftrightarrow> c \<in> {CHR '' '', htab, newline, CHR 0x0B, CHR 0x0C, creturn}"

text \<open>Decimal rendering, as \<open>operator<<\<close> and \<open>std::to_string\<close> print an integer.\<close>

definition digit_char :: "nat \<Rightarrow> char" where
  "digit_char d = ''0123456789abcdef'' ! d"

fun dec_of_nat :: "nat \<Rightarrow> string" where
  "dec_of_nat n = (if n < 10 then [digit_char n]
     else dec_of_nat (n div 10) @ [digit_char (n mod 10)])"

declare dec_of_nat.simps [simp del]

definition dec_of_int :: "int \<Rightarrow> string" where
  "dec_of_int i = (if i < 0 then ''-'' @ dec_of_nat (nat (- i)) else dec_of_nat (nat i))"

definition dec_of_word :: "'a::len word \<Rightarrow> string" where
  "dec_of_word w = dec_of_nat (unat w)"

text \<open>Hexadecimal rendering with \<open>std::hex\<close>, and \<open>std::setw\<close> with \<open>std::setfill\<close>.\<close>

fun hex_of_nat :: "nat \<Rightarrow> string" where
  "hex_of_nat n = (if n < 16 then [digit_char n]
     else hex_of_nat (n div 16) @ [digit_char (n mod 16)])"

declare hex_of_nat.simps [simp del]

definition setw :: "nat \<Rightarrow> char \<Rightarrow> string \<Rightarrow> string" where
  "setw w c s = replicate (w - length s) c @ s"

text \<open>
  Repeated \<open>std::getline (input, current, delimiter)\<close> on a string stream: the pieces between
  delimiters, without the empty piece after a final delimiter.
\<close>

fun getlines_from :: "char \<Rightarrow> string \<Rightarrow> string \<Rightarrow> string list" where
  "getlines_from d cur [] = (if cur = [] then [] else [cur])"
| "getlines_from d cur (c # cs) =
     (if c = d then cur # getlines_from d [] cs else getlines_from d (cur @ [c]) cs)"

definition getlines :: "char \<Rightarrow> string \<Rightarrow> string list" where
  "getlines d s = getlines_from d [] s"

text \<open>\<open>haystack.find (needle)\<close>: the position of the first occurrence, \<open>None\<close> for \<open>npos\<close>.\<close>

definition starts_with :: "string \<Rightarrow> string \<Rightarrow> bool" where
  "starts_with s p \<longleftrightarrow> take (length p) s = p"

fun find_sub :: "string \<Rightarrow> string \<Rightarrow> nat option" where
  "find_sub s p = (if starts_with s p then Some 0
     else (case s of [] \<Rightarrow> None | _ # r \<Rightarrow> map_option Suc (find_sub r p)))"

declare find_sub.simps [simp del]

section \<open>Generic lemmas\<close>

definition is_digit :: "char \<Rightarrow> bool" where
  "is_digit c \<longleftrightarrow> CHR ''0'' \<le> c \<and> c \<le> CHR ''9''"

lemma is_digit_digit_char: "d < 10 \<Longrightarrow> is_digit (digit_char d)"
proof -
  assume "d < 10"
  then have "d = 0 \<or> d = 1 \<or> d = 2 \<or> d = 3 \<or> d = 4 \<or> d = 5 \<or> d = 6 \<or> d = 7 \<or> d = 8 \<or> d = 9"
    by arith
  then show ?thesis by (auto simp: digit_char_def is_digit_def less_eq_char_def)
qed

lemma dec_of_nat_digits: "\<forall>c \<in> set (dec_of_nat n). is_digit c"
proof (induction n rule: dec_of_nat.induct)
  case (1 n)
  show ?case
  proof (cases "n < 10")
    case True
    then show ?thesis by (subst dec_of_nat.simps) (simp add: is_digit_digit_char)
  next
    case False
    with 1 show ?thesis
      by (subst dec_of_nat.simps) (auto simp: is_digit_digit_char)
  qed
qed

lemma dec_of_nat_not_Nil [simp]: "dec_of_nat n \<noteq> []"
  by (subst dec_of_nat.simps) simp

lemma dec_of_nat_first: "\<exists>c t. dec_of_nat n = c # t \<and> is_digit c"
  using dec_of_nat_digits [of n] dec_of_nat_not_Nil [of n] by (cases "dec_of_nat n") auto

text \<open>The value of a string of digits, as \<open>strtoul\<close> and \<open>strtol\<close> accumulate it.\<close>

definition digits_value :: "string \<Rightarrow> nat" where
  "digits_value digits = foldl (\<lambda>n c. 10 * n + (byte_of c - byte_of (CHR ''0''))) 0 digits"

lemma digits_value_snoc: "d < 10 \<Longrightarrow> digits_value (ds @ [digit_char d]) = 10 * digits_value ds + d"
proof -
  assume "d < 10"
  then have "d = 0 \<or> d = 1 \<or> d = 2 \<or> d = 3 \<or> d = 4 \<or> d = 5 \<or> d = 6 \<or> d = 7 \<or> d = 8 \<or> d = 9" by arith
  then show ?thesis by (auto simp: digit_char_def digits_value_def)
qed

lemma digits_value_Nil [simp]: "digits_value [] = 0"
  by (simp add: digits_value_def)

lemma digits_value_dec: "digits_value (dec_of_nat n) = n"
proof (induction n rule: dec_of_nat.induct)
  case (1 n)
  show ?case
  proof (cases "n < 10")
    case True
    then show ?thesis using digits_value_snoc [of n "[]"] by (subst dec_of_nat.simps) simp
  next
    case False
    have "dec_of_nat n = dec_of_nat (n div 10) @ [digit_char (n mod 10)]"
      using False by (subst dec_of_nat.simps) simp
    with 1 [OF False] show ?thesis by (simp add: digits_value_snoc)
  qed
qed

lemma find_sub_Some:
  "find_sub s p = Some i \<Longrightarrow> i + length p \<le> length s \<and> take (length p) (drop i s) = p"
proof (induction s arbitrary: i)
  case Nil
  then show ?case
    by (subst (asm) find_sub.simps) (auto simp: starts_with_def split: if_splits)
next
  case (Cons c s)
  show ?case
  proof (cases "starts_with (c # s) p")
    case True
    with Cons.prems have "i = 0" by (subst (asm) find_sub.simps) simp
    moreover from True have "length (take (length p) (c # s)) = length p"
      by (simp only: starts_with_def)
    then have "length p \<le> length (c # s)" by simp
    ultimately show ?thesis using True by (simp add: starts_with_def)
  next
    case False
    with Cons.prems obtain j where "find_sub s p = Some j" "i = Suc j"
      by (subst (asm) find_sub.simps) auto
    with Cons.IH [of j] show ?thesis by simp
  qed
qed

lemma getlines_from_no_delim:
  "d \<notin> set s \<Longrightarrow> getlines_from d cur s = (if cur @ s = [] then [] else [cur @ s])"
  by (induction s arbitrary: cur) auto

lemma getlines_no_delim:
  "d \<notin> set s \<Longrightarrow> s \<noteq> [] \<Longrightarrow> getlines d s = [s]"
  by (simp add: getlines_def getlines_from_no_delim)

lemma getlines_from_piece:
  "p \<in> set (getlines_from d cur s) \<Longrightarrow> d \<notin> set cur \<Longrightarrow> d \<notin> set p"
  by (induction s arbitrary: cur) (fastforce split: if_splits)+

lemma getlines_piece: "p \<in> set (getlines d s) \<Longrightarrow> d \<notin> set p"
  by (auto simp: getlines_def dest: getlines_from_piece)

lemma getlines_from_piece_append:
  "d \<notin> set p \<Longrightarrow> getlines_from d cur (p @ d # s) = (cur @ p) # getlines_from d [] s"
  by (induction p arbitrary: cur) auto

lemma getlines_cons: "d \<notin> set p \<Longrightarrow> getlines d (p @ d # s) = p # getlines d s"
  by (simp add: getlines_def getlines_from_piece_append)

end
