(* ===== verification/Text_Util.thy ===== *)
theory Text_Util
  imports Prelude
begin

text \<open>
  The string helpers of \<open>main.cpp\<close> (lines 219 to 295, 365 to 397 and 567 to 600):
  \<open>trim\<close>, \<open>split\<close>, \<open>join\<close>, the JSON and HTML escapers, and the array renderers. The two
  escapers share the interface \<open>clean_escape\<close> (no forbidden byte comes out) and, with a
  decoder, \<open>decodable_escape\<close> (nothing is lost); the lemmas proved once in those locales are
  used by the event stream, the HTML page and the JSON round trip.
\<close>

section \<open>Definitions\<close>

text \<open>The two loops of \<open>trim\<close>: \<open>start\<close> moves right, then \<open>end\<close> (here \<open>stop\<close>) moves left down to \<open>start\<close>.\<close>

function trim_start :: "string \<Rightarrow> nat \<Rightarrow> nat" where
  "trim_start value start =
     (if start < length value \<and> isspace (value ! start) then trim_start value (Suc start) else start)"
  by pat_completeness auto
termination
  by (relation "measure (\<lambda>(value, start). length value - start)") auto

fun trim_end :: "string \<Rightarrow> nat \<Rightarrow> nat \<Rightarrow> nat" where
  "trim_end value start stop =
     (if start < stop \<and> isspace (value ! (stop - 1)) then trim_end value start (stop - 1) else stop)"

declare trim_start.simps [simp del] trim_end.simps [simp del]

definition trim :: "string \<Rightarrow> string" where
  "trim value =
     (let start = trim_start value 0;
          stop = trim_end value start (length value)
      in take (stop - start) (drop start value))"

definition split :: "string \<Rightarrow> char \<Rightarrow> string list" where
  "split value delimiter = filter (\<lambda>current. current \<noteq> []) (map trim (getlines delimiter value))"

fun join :: "string list \<Rightarrow> string \<Rightarrow> string" where
  "join [] delimiter = []"
| "join [v] delimiter = v"
| "join (v # w # vs) delimiter = v @ delimiter @ join (w # vs) delimiter"

definition json_escape_char :: "char \<Rightarrow> string" where
  "json_escape_char ch =
     (if ch = bslash then [bslash, bslash]
      else if ch = dquote then [bslash, dquote]
      else if ch = newline then [bslash, CHR ''n'']
      else if ch = creturn then [bslash, CHR ''r'']
      else if ch = htab then [bslash, CHR ''t'']
      else if byte_of ch < 0x20 then [bslash, CHR ''u''] @ setw 4 (CHR ''0'') (hex_of_nat (byte_of ch))
      else [ch])"

definition json_escape :: "string \<Rightarrow> string" where
  "json_escape value = concat (map json_escape_char value)"

definition json_quote :: "string \<Rightarrow> string" where
  "json_quote value = [dquote] @ json_escape value @ [dquote]"

definition json_array_strings :: "string list \<Rightarrow> string" where
  "json_array_strings values = ''['' @ join (map json_quote values) '','' @ '']''"

definition json_array_uint8 :: "u8 list \<Rightarrow> string" where
  "json_array_uint8 values = ''['' @ join (map dec_of_word values) '','' @ '']''"

definition json_bool :: "bool \<Rightarrow> string" where
  "json_bool value = (if value then ''true'' else ''false'')"

definition json_error :: "string \<Rightarrow> string" where
  "json_error message = ''{\"error\":'' @ json_quote message @ ''}''"

definition html_escape_char :: "char \<Rightarrow> string" where
  "html_escape_char ch =
     (if ch = CHR ''&'' then ''&amp;''
      else if ch = CHR ''<'' then ''&lt;''
      else if ch = CHR ''>'' then ''&gt;''
      else if ch = dquote then ''&quot;''
      else if ch = CHR 0x27 then ''&#39;''
      else [ch])"

definition html_escape :: "string \<Rightarrow> string" where
  "html_escape value = concat (map html_escape_char value)"

section \<open>Trimming and splitting\<close>

lemma trim_start_drop:
  "start \<le> length v \<Longrightarrow> drop (trim_start v start) v = dropWhile isspace (drop start v)
     \<and> start \<le> trim_start v start \<and> trim_start v start \<le> length v"
proof (induction v start rule: trim_start.induct)
  case (1 v start)
  show ?case
  proof (cases "start < length v \<and> isspace (v ! start)")
    case True
    then have "drop start v = v ! start # drop (Suc start) v"
      by (simp add: Cons_nth_drop_Suc)
    with True 1 show ?thesis by (auto simp: trim_start.simps [of v start])
  next
    case False
    have "dropWhile isspace (drop start v) = drop start v"
    proof (cases "start < length v")
      case True
      with False show ?thesis
        by (metis Cons_nth_drop_Suc dropWhile.simps(2))
    qed simp
    with False 1 show ?thesis by (auto simp: trim_start.simps [of v start])
  qed
qed

lemma trim_end_take:
  "start \<le> e \<Longrightarrow> e \<le> length v \<Longrightarrow>
     take (trim_end v start e - start) (drop start v)
       = rev (dropWhile isspace (rev (take (e - start) (drop start v))))"
proof (induction v start e rule: trim_end.induct)
  case (1 v start e)
  show ?case
  proof (cases "start < e")
    case True
    then have e: "e - start = Suc (e - 1 - start)" by simp
    with True 1 have t: "take (e - start) (drop start v)
        = take (e - 1 - start) (drop start v) @ [v ! (e - 1)]"
      by (simp add: take_Suc_conv_app_nth)
    show ?thesis
    proof (cases "isspace (v ! (e - 1))")
      case True
      with \<open>start < e\<close> 1 t show ?thesis by (simp add: trim_end.simps [of v start e])
    next
      case False
      with t show ?thesis by (simp add: trim_end.simps [of v start e])
    qed
  next
    case False
    then show ?thesis by (simp add: trim_end.simps [of v start e])
  qed
qed

lemma trim_eq: "trim v = rev (dropWhile isspace (rev (dropWhile isspace v)))"
proof -
  let ?s = "trim_start v 0"
  have s: "drop ?s v = dropWhile isspace v" "?s \<le> length v"
    using trim_start_drop [of 0 v] by auto
  have "trim v = rev (dropWhile isspace (rev (take (length v - ?s) (drop ?s v))))"
    using trim_end_take [of ?s "length v" v] s(2) by (simp add: trim_def Let_def)
  also have "take (length v - ?s) (drop ?s v) = drop ?s v" by simp
  finally show ?thesis using s(1) by simp
qed

lemma trim_ends: "trim v \<noteq> [] \<Longrightarrow> \<not> isspace (hd (trim v)) \<and> \<not> isspace (last (trim v))"
proof -
  assume ne: "trim v \<noteq> []"
  define w where "w = dropWhile isspace v"
  have t: "trim v = rev (dropWhile isspace (rev w))" by (simp add: trim_eq w_def)
  with ne have "dropWhile isspace (rev w) \<noteq> []" by simp
  then have l: "\<not> isspace (hd (dropWhile isspace (rev w)))" by (rule hd_dropWhile)
  have "w = trim v @ rev (takeWhile isspace (rev w))"
    unfolding t by (metis rev_append rev_rev_ident takeWhile_dropWhile_id)
  with ne have "hd w = hd (trim v)" and "w \<noteq> []" by (metis hd_append2, metis append_is_Nil_conv)
  moreover from \<open>w \<noteq> []\<close> have "\<not> isspace (hd w)" unfolding w_def by (rule hd_dropWhile)
  ultimately show ?thesis using l ne by (simp add: t hd_rev last_rev)
qed

lemma trim_id:
  "v = [] \<or> (\<not> isspace (hd v) \<and> \<not> isspace (last v)) \<Longrightarrow> trim v = v"
proof (cases "v = []")
  case False
  assume "v = [] \<or> (\<not> isspace (hd v) \<and> \<not> isspace (last v))"
  with False have h: "\<not> isspace (hd v)" and l: "\<not> isspace (hd (rev v))" by (auto simp: hd_rev)
  have "dropWhile isspace v = v" using h False by (cases v) auto
  moreover have "dropWhile isspace (rev v) = rev v" using l False by (cases "rev v") auto
  ultimately show ?thesis by (simp add: trim_eq)
qed (simp add: trim_eq)

lemma trim_idem: "trim (trim v) = trim v"
  using trim_ends [of v] by (intro trim_id) blast

lemma split_pieces: "p \<in> set (split v d) \<Longrightarrow> p \<noteq> [] \<and> trim p = p"
  by (auto simp: split_def trim_idem)

lemma getlines_join:
  "\<forall>v \<in> set vs. d \<notin> set v \<and> v \<noteq> [] \<Longrightarrow> getlines d (join vs [d]) = vs"
proof (induction vs "[d]" rule: join.induct)
  case 1
  then show ?case by (simp add: getlines_def)
next
  case (2 v)
  then show ?case by (simp add: getlines_no_delim)
next
  case (3 v w vs)
  then show ?case by (simp add: getlines_cons)
qed

lemma split_join:
  "\<forall>v \<in> set vs. d \<notin> set v \<and> v \<noteq> [] \<and> trim v = v \<Longrightarrow> split (join vs [d]) d = vs"
proof -
  assume a: "\<forall>v \<in> set vs. d \<notin> set v \<and> v \<noteq> [] \<and> trim v = v"
  then have "map trim vs = vs" by (simp add: map_idI)
  moreover from a have "filter (\<lambda>c. c \<noteq> []) vs = vs" by (simp add: filter_id_conv)
  ultimately show ?thesis using a by (simp add: split_def getlines_join)
qed

section \<open>Escapers as an interface\<close>

locale clean_escape =
  fixes esc :: "char \<Rightarrow> string"
    and forbidden :: "char \<Rightarrow> bool"
  assumes esc_clean: "c \<in> set (esc x) \<Longrightarrow> \<not> forbidden c"
    and esc_not_Nil: "esc x \<noteq> []"
begin

lemma escaped_clean: "c \<in> set (concat (map esc s)) \<Longrightarrow> \<not> forbidden c"
  using esc_clean by auto

lemma escaped_length: "length s \<le> length (concat (map esc s))"
proof (induction s)
  case (Cons x s)
  have "Suc 0 \<le> length (esc x)" using esc_not_Nil [of x] by (cases "esc x") auto
  with Cons show ?case by simp
qed simp

end

text \<open>
  A decoder reads one source byte off the front of an escaped text. With one, escaping is
  injective: two different texts never render alike.
\<close>

locale decodable_escape = clean_escape +
  fixes dec :: "string \<Rightarrow> (char \<times> string) option"
  assumes dec_esc: "dec (esc x @ r) = Some (x, r)"
begin

lemma escaped_cancel:
  "concat (map esc s) = concat (map esc t) \<Longrightarrow> s = t"
proof (induction s arbitrary: t)
  case Nil
  then show ?case using esc_not_Nil by (cases t) auto
next
  case (Cons x s)
  show ?case
  proof (cases t)
    case Nil
    with Cons.prems show ?thesis using esc_not_Nil by auto
  next
    case (Cons y t')
    with Cons.prems have "dec (esc x @ concat (map esc s)) = dec (esc y @ concat (map esc t'))"
      by simp
    then have "x = y" "concat (map esc s) = concat (map esc t')"
      by (simp_all add: dec_esc)
    with Cons.IH Cons show ?thesis by blast
  qed
qed

lemma escaped_inj: "inj (\<lambda>s. concat (map esc s))"
  by (rule injI) (rule escaped_cancel)

end

section \<open>The HTML escaper provides the interface\<close>

definition html_special :: "char \<Rightarrow> bool" where
  "html_special c \<longleftrightarrow> c \<in> {CHR ''<'', CHR ''>'', dquote, CHR 0x27}"

fun html_unescape_one :: "string \<Rightarrow> (char \<times> string) option" where
  "html_unescape_one [] = None"
| "html_unescape_one (c # r) =
     (if c \<noteq> CHR ''&'' then Some (c, r)
      else if starts_with r ''amp;'' then Some (CHR ''&'', drop 4 r)
      else if starts_with r ''lt;'' then Some (CHR ''<'', drop 3 r)
      else if starts_with r ''gt;'' then Some (CHR ''>'', drop 3 r)
      else if starts_with r ''quot;'' then Some (dquote, drop 5 r)
      else if starts_with r ''#39;'' then Some (CHR 0x27, drop 4 r)
      else None)"

interpretation html: decodable_escape html_escape_char html_special html_unescape_one
proof
  show "\<And>c x. c \<in> set (html_escape_char x) \<Longrightarrow> \<not> html_special c"
    by (auto simp: html_escape_char_def html_special_def split: if_splits)
  show "\<And>x. html_escape_char x \<noteq> []"
    by (simp add: html_escape_char_def)
  show "\<And>x r. html_unescape_one (html_escape_char x @ r) = Some (x, r)"
    by (simp add: html_escape_char_def starts_with_def)
qed

lemma html_escape_clean: "c \<in> set (html_escape s) \<Longrightarrow> \<not> html_special c"
  unfolding html_escape_def by (rule html.escaped_clean)

lemma html_escape_inj: "html_escape s = html_escape t \<Longrightarrow> s = t"
  unfolding html_escape_def by (rule html.escaped_cancel)

section \<open>The JSON escaper: no control byte comes out\<close>

definition control_byte :: "char \<Rightarrow> bool" where
  "control_byte c \<longleftrightarrow> byte_of c < 0x20"

lemma hex_of_nat_small:
  "n < 0x20 \<Longrightarrow> setw 4 (CHR ''0'') (hex_of_nat n) = [CHR ''0'', CHR ''0'', digit_char (n div 16), digit_char (n mod 16)]"
proof (cases "n < 16")
  case True
  then have "hex_of_nat n = [digit_char n]" by (subst hex_of_nat.simps) simp
  moreover have "replicate 3 (CHR ''0'') = [CHR ''0'', CHR ''0'', digit_char 0]"
    by (simp add: digit_char_def numeral_eq_Suc)
  ultimately show ?thesis using True by (simp add: setw_def)
next
  case False
  assume "n < 0x20"
  with False have d: "n div 16 = 1" by simp
  have "hex_of_nat 1 = [digit_char 1]" by (subst hex_of_nat.simps) simp
  with d False have "hex_of_nat n = [digit_char 1, digit_char (n mod 16)]"
    by (subst hex_of_nat.simps) simp
  moreover have "replicate 2 (CHR ''0'') = [CHR ''0'', CHR ''0'']"
    by (simp add: numeral_eq_Suc)
  ultimately show ?thesis using d by (simp add: setw_def)
qed

lemma digit_char_cases:
  "d < 16 \<Longrightarrow> digit_char d \<in> set ''0123456789abcdef''"
  unfolding digit_char_def by (rule nth_mem) simp

lemma digit_char_not_control: "d < 16 \<Longrightarrow> \<not> control_byte (digit_char d)"
proof -
  assume "d < 16"
  then have "digit_char d \<in> set ''0123456789abcdef''" by (rule digit_char_cases)
  then show ?thesis by (auto simp: control_byte_def)
qed

interpretation json_clean: clean_escape json_escape_char control_byte
proof
  show "\<And>c x. c \<in> set (json_escape_char x) \<Longrightarrow> \<not> control_byte c"
  proof -
    fix c x assume c: "c \<in> set (json_escape_char x)"
    have d: "byte_of x < 0x20 \<Longrightarrow> \<not> control_byte (digit_char (byte_of x div 16))
        \<and> \<not> control_byte (digit_char (byte_of x mod 16))"
      by (intro conjI digit_char_not_control) auto
    have "\<not> control_byte (CHR ''0'')" "\<not> control_byte (CHR ''u'')" "\<not> control_byte (CHR ''n'')"
      "\<not> control_byte (CHR ''r'')" "\<not> control_byte (CHR ''t'')" "\<not> control_byte bslash"
      "\<not> control_byte dquote"
      by (simp_all add: control_byte_def)
    with c d show "\<not> control_byte c"
      by (auto simp: json_escape_char_def hex_of_nat_small control_byte_def split: if_splits)
  qed
  show "\<And>x. json_escape_char x \<noteq> []"
    by (simp add: json_escape_char_def)
qed

lemma json_quote_clean: "c \<in> set (json_quote s) \<Longrightarrow> \<not> control_byte c"
  using json_clean.escaped_clean [of c s]
  by (auto simp: json_quote_def json_escape_def control_byte_def)

end
