(* ===== verification/Json_Parse.thy ===== *)
theory Json_Parse
  imports Text_Util "HOL-Library.Sublist"
begin

text \<open>
  The JSON reader (\<open>main.cpp\<close>, lines 620 to 893). The code keeps a cursor \<open>i\<close> into
  \<open>input\<close>; here the cursor is the text that is left, \<open>drop i input\<close>, so \<open>i >= input.size ()\<close>
  is the empty list. A parser returns \<open>Inl\<close> of the error text or \<open>Inr\<close> of the value and the
  text left. The functions of the descent call each other as in the source; that they
  terminate is proved, from the fact that every parser that succeeds has consumed input.
\<close>

section \<open>Strings\<close>

definition append_utf8_codepoint :: "u32 \<Rightarrow> string option" where
  "append_utf8_codepoint codepoint =
     (if codepoint \<le> 0x7F then Some [char_cast codepoint]
      else if codepoint \<le> 0x7FF then Some
        [char_cast (0xC0 OR (drop_bit 6 codepoint AND 0x1F)),
         char_cast (0x80 OR (codepoint AND 0x3F))]
      else if 0xD800 \<le> codepoint \<and> codepoint \<le> 0xDFFF then None
      else if codepoint \<le> 0xFFFF then Some
        [char_cast (0xE0 OR (drop_bit 12 codepoint AND 0x0F)),
         char_cast (0x80 OR (drop_bit 6 codepoint AND 0x3F)),
         char_cast (0x80 OR (codepoint AND 0x3F))]
      else if codepoint \<le> 0x10FFFF then Some
        [char_cast (0xF0 OR (drop_bit 18 codepoint AND 0x07)),
         char_cast (0x80 OR (drop_bit 12 codepoint AND 0x3F)),
         char_cast (0x80 OR (drop_bit 6 codepoint AND 0x3F)),
         char_cast (0x80 OR (codepoint AND 0x3F))]
      else None)"

definition skip_json_ws :: "string \<Rightarrow> string" where
  "skip_json_ws s = dropWhile isspace s"

text \<open>One hexadecimal digit of a \<open>\u\<close> escape, and the loop over the four of them.\<close>

definition hex_digit_value :: "char \<Rightarrow> u32 option" where
  "hex_digit_value d =
     (if CHR ''0'' \<le> d \<and> d \<le> CHR ''9'' then Some (word_of_nat (byte_of d - byte_of (CHR ''0'')))
      else if CHR ''a'' \<le> d \<and> d \<le> CHR ''f'' then Some (word_of_nat (byte_of d - byte_of (CHR ''a'') + 10))
      else if CHR ''A'' \<le> d \<and> d \<le> CHR ''F'' then Some (word_of_nat (byte_of d - byte_of (CHR ''A'') + 10))
      else None)"

fun json_hex_loop :: "nat \<Rightarrow> u32 \<Rightarrow> string \<Rightarrow> (u32 \<times> string) option" where
  "json_hex_loop 0 codepoint s = Some (codepoint, s)"
| "json_hex_loop (Suc n) codepoint [] = None"
| "json_hex_loop (Suc n) codepoint (d # s) =
     (case hex_digit_value d of None \<Rightarrow> None
      | Some v \<Rightarrow> json_hex_loop n (push_bit 4 codepoint OR v) s)"

text \<open>The \<open>switch\<close> on the character after a backslash: the bytes to append, and the rest.\<close>

fun json_string_escape :: "string \<Rightarrow> string + (string \<times> string)" where
  "json_string_escape [] = Inl ''invalid JSON escape''"
| "json_string_escape (esc # r) =
     (if esc = dquote \<or> esc = bslash \<or> esc = CHR ''/'' then Inr ([esc], r)
      else if esc = CHR ''b'' then Inr ([CHR 0x08], r)
      else if esc = CHR ''f'' then Inr ([CHR 0x0C], r)
      else if esc = CHR ''n'' then Inr ([newline], r)
      else if esc = CHR ''r'' then Inr ([creturn], r)
      else if esc = CHR ''t'' then Inr ([htab], r)
      else if esc = CHR ''u'' then
        (if length r < 4 then Inl ''invalid JSON unicode escape''
         else case json_hex_loop 4 0 r of
             None \<Rightarrow> Inl ''invalid JSON unicode escape''
           | Some (codepoint, r') \<Rightarrow>
               (case append_utf8_codepoint codepoint of
                  None \<Rightarrow> Inl ''unsupported JSON unicode escape''
                | Some bytes \<Rightarrow> Inr (bytes, r')))
      else Inl ''unsupported JSON escape'')"

lemma json_hex_loop_suffix: "json_hex_loop n cp s = Some (v, r) \<Longrightarrow> suffix r s"
  by (induction n cp s rule: json_hex_loop.induct)
    (auto split: option.splits intro: suffix_ConsI)

lemma json_string_escape_suffix: "json_string_escape s = Inr (b, r) \<Longrightarrow> strict_suffix r s"
  by (cases s) (auto split: if_splits option.splits prod.splits dest!: json_hex_loop_suffix
    simp: strict_suffix_def suffix_def)

lemma strict_suffix_Cons: "strict_suffix s (c # s)"
  by (simp add: strict_suffix_def suffix_def)

lemma strict_suffix_length: "strict_suffix r s \<Longrightarrow> length r < length s"
  by (auto simp: strict_suffix_def suffix_def)

function json_string_loop :: "string \<Rightarrow> string \<Rightarrow> string + (string \<times> string)" where
  "json_string_loop [] buffer = Inl ''unterminated JSON string''"
| "json_string_loop (ch # r) buffer =
     (if ch = dquote then Inr (buffer, r)
      else if ch = bslash then
        (case json_string_escape r of
           Inl error \<Rightarrow> Inl error
         | Inr (bytes, r') \<Rightarrow> json_string_loop r' (buffer @ bytes))
      else json_string_loop r (buffer @ [ch]))"
  by pat_completeness auto
termination
  by (relation "measure (\<lambda>(s, buffer). length s)")
    (auto dest!: json_string_escape_suffix strict_suffix_length)

fun parse_json_string_value :: "string \<Rightarrow> string + (string \<times> string)" where
  "parse_json_string_value [] = Inl ''expected JSON string''"
| "parse_json_string_value (c # r) =
     (if c \<noteq> dquote then Inl ''expected JSON string'' else json_string_loop r [])"

section \<open>Values\<close>

text \<open>
  \<open>JsonValue\<close>: the tag says which member holds the value. An object is an association list
  that \<open>AList.update\<close> writes as \<open>object_value[key] = value\<close> does: a later entry replaces an
  earlier one under the same key.
\<close>

datatype json_value =
    JsonString string
  | JsonObject "(string \<times> json_value) list"
  | JsonArray "json_value list"

text \<open>The messages that quote a character.\<close>

definition expected_colon :: string where
  "expected_colon = ''expected '' @ [CHR 0x27, CHR '':'', CHR 0x27]"

definition expected_comma :: string where
  "expected_comma = ''expected '' @ [CHR 0x27, CHR '','', CHR 0x27]"

function parse_json_value :: "string \<Rightarrow> string + (json_value \<times> string)"
  and parse_json_object_value :: "string \<Rightarrow> string + (json_value \<times> string)"
  and json_object_loop :: "string \<Rightarrow> (string \<times> json_value) list \<Rightarrow> string + (json_value \<times> string)"
  and parse_json_array_value :: "string \<Rightarrow> string + (json_value \<times> string)"
  and json_array_loop :: "string \<Rightarrow> json_value list \<Rightarrow> string + (json_value \<times> string)"
where
  "parse_json_value s =
     (case skip_json_ws s of
        [] \<Rightarrow> Inl ''expected JSON value''
      | c # r \<Rightarrow>
          if c = dquote then
            (case parse_json_string_value (c # r) of
               Inl error \<Rightarrow> Inl error
             | Inr (v, r') \<Rightarrow> Inr (JsonString v, r'))
          else if c = CHR ''{'' then parse_json_object_value (c # r)
          else if c = CHR ''['' then parse_json_array_value (c # r)
          else Inl ''unsupported JSON value'')"
| "parse_json_object_value s =
     (case skip_json_ws s of
        [] \<Rightarrow> Inl ''expected JSON object''
      | c # r \<Rightarrow>
          if c \<noteq> CHR ''{'' then Inl ''expected JSON object''
          else (case skip_json_ws r of
                  [] \<Rightarrow> json_object_loop [] []
                | d # r' \<Rightarrow> if d = CHR ''}'' then Inr (JsonObject [], r')
                            else json_object_loop (d # r') []))"
| "json_object_loop s acc =
     (if s = [] then Inl ''unterminated JSON object''
      else case parse_json_string_value (skip_json_ws s) of
             Inl error \<Rightarrow> Inl error
           | Inr (key, r) \<Rightarrow>
               (case skip_json_ws r of
                  [] \<Rightarrow> Inl expected_colon
                | c # r1 \<Rightarrow>
                    if c \<noteq> CHR '':'' then Inl expected_colon
                    else (case parse_json_value r1 of
                            Inl error \<Rightarrow> Inl error
                          | Inr (v, r2) \<Rightarrow>
                              (case skip_json_ws r2 of
                                 [] \<Rightarrow> Inl ''unterminated JSON object''
                               | d # r3 \<Rightarrow>
                                   if d = CHR ''}'' then Inr (JsonObject (AList.update key v acc), r3)
                                   else if d \<noteq> CHR '','' then Inl expected_comma
                                   else json_object_loop r3 (AList.update key v acc)))))"
| "parse_json_array_value s =
     (case skip_json_ws s of
        [] \<Rightarrow> Inl ''expected JSON array''
      | c # r \<Rightarrow>
          if c \<noteq> CHR ''['' then Inl ''expected JSON array''
          else (case skip_json_ws r of
                  [] \<Rightarrow> json_array_loop [] []
                | d # r' \<Rightarrow> if d = CHR '']'' then Inr (JsonArray [], r')
                            else json_array_loop (d # r') []))"
| "json_array_loop s acc =
     (if s = [] then Inl ''unterminated JSON array''
      else case parse_json_value s of
             Inl error \<Rightarrow> Inl error
           | Inr (v, r) \<Rightarrow>
               (case skip_json_ws r of
                  [] \<Rightarrow> Inl ''unterminated JSON array''
                | d # r1 \<Rightarrow>
                    if d = CHR '']'' then Inr (JsonArray (acc @ [v]), r1)
                    else if d \<noteq> CHR '','' then Inl expected_comma
                    else json_array_loop r1 (acc @ [v])))"
  by pat_completeness auto

section \<open>Every success consumes input\<close>

lemma skip_json_ws_suffix: "suffix (skip_json_ws s) s"
  unfolding skip_json_ws_def by (rule suffix_dropWhile)

lemma json_string_loop_suffix: "json_string_loop s b = Inr (v, r) \<Longrightarrow> strict_suffix r s"
proof (induction s b arbitrary: v r rule: json_string_loop.induct)
  case (2 ch s buffer)
  show ?case
  proof (cases "ch \<noteq> dquote \<and> ch = bslash")
    case True
    with 2(3) obtain bytes r' where e: "json_string_escape s = Inr (bytes, r')"
      and l: "json_string_loop r' (buffer @ bytes) = Inr (v, r)"
      by (auto split: sum.splits)
    have "strict_suffix r r'" using 2(1) True e l by blast
    also have "strict_suffix r' s" using e by (rule json_string_escape_suffix)
    finally show ?thesis using strict_suffix_Cons by (rule suffix_order.less_trans)
  next
    case False
    with 2(3) consider "r = s" | "json_string_loop s (buffer @ [ch]) = Inr (v, r)" "ch \<noteq> dquote"
      by (auto split: if_splits)
    then show ?thesis
    proof cases
      case 1
      then show ?thesis using strict_suffix_Cons by simp
    next
      case 2
      then have "strict_suffix r s" using "2.IH"(2) False by blast
      then show ?thesis using strict_suffix_Cons by (rule suffix_order.less_trans)
    qed
  qed
qed simp

lemma parse_json_string_suffix: "parse_json_string_value s = Inr (v, r) \<Longrightarrow> strict_suffix r s"
  by (cases s) (auto split: if_splits dest!: json_string_loop_suffix
    simp: strict_suffix_def suffix_def)

definition shorter :: "string + ('a \<times> string) \<Rightarrow> string \<Rightarrow> bool" where
  "shorter res s \<longleftrightarrow> (\<forall>v r. res = Inr (v, r) \<longrightarrow> length r < length s)"

lemma shorter_Inl [simp]: "shorter (Inl e) s"
  by (simp add: shorter_def)

lemma shorter_Inr [simp]: "shorter (Inr (v, r)) s \<longleftrightarrow> length r < length s"
  by (simp add: shorter_def)

lemma shorter_le: "shorter res t \<Longrightarrow> length t \<le> length s \<Longrightarrow> shorter res s"
  by (auto simp: shorter_def)

lemma shorterD: "shorter res s \<Longrightarrow> res = Inr (v, r) \<Longrightarrow> length r < length s"
  by (simp add: shorter_def)

lemma skip_ws_le: "length (skip_json_ws s) \<le> length s"
  by (simp add: suffix_length_le skip_json_ws_suffix)

lemma skip_ws_Cons: "skip_json_ws s = c # r \<Longrightarrow> length r < length s"
  using skip_ws_le [of s] by simp

lemma parse_string_shorter: "parse_json_string_value s = Inr (v, r) \<Longrightarrow> length r < length s"
  by (rule strict_suffix_length) (rule parse_json_string_suffix)

lemma parse_json_dom_shorter:
  "parse_json_value_parse_json_object_value_json_object_loop_parse_json_array_value_json_array_loop_dom (Inl (Inl s))
    \<Longrightarrow> shorter (parse_json_value s) s"
  "parse_json_value_parse_json_object_value_json_object_loop_parse_json_array_value_json_array_loop_dom (Inl (Inr s))
    \<Longrightarrow> shorter (parse_json_object_value s) s"
  "parse_json_value_parse_json_object_value_json_object_loop_parse_json_array_value_json_array_loop_dom (Inr (Inl (s, members)))
    \<Longrightarrow> shorter (json_object_loop s members) s"
  "parse_json_value_parse_json_object_value_json_object_loop_parse_json_array_value_json_array_loop_dom (Inr (Inr (Inl s)))
    \<Longrightarrow> shorter (parse_json_array_value s) s"
  "parse_json_value_parse_json_object_value_json_object_loop_parse_json_array_value_json_array_loop_dom (Inr (Inr (Inr (s, elements))))
    \<Longrightarrow> shorter (json_array_loop s elements) s"
proof (induction s and s and s members and s and s elements
    rule: parse_json_value_parse_json_object_value_json_object_loop_parse_json_array_value_json_array_loop.pinduct)
  case (1 s)
  have le: "skip_json_ws s = c # r \<Longrightarrow> length (c # r) \<le> length s" for c r
    using skip_ws_le [of s] by simp
  have str: "parse_json_string_value (c # r) = Inr (v, r') \<Longrightarrow> skip_json_ws s = c # r \<Longrightarrow> length r' < length s" for c r v r'
    using le parse_string_shorter by fastforce
  show ?case
    unfolding parse_json_value.psimps [OF 1(1)]
    using shorter_le [OF 1(2) le] shorter_le [OF 1(3) le] str
    by (auto simp del: parse_json_string_value.simps split: list.split sum.split)
next
  case (2 s)
  have le: "skip_json_ws s = c # r \<Longrightarrow> skip_json_ws r = d # r' \<Longrightarrow> length (d # r') \<le> length s" for c r d r'
    using skip_ws_le [of s] skip_ws_le [of r] by simp
  show ?case
    unfolding parse_json_object_value.psimps [OF 2(1)]
    using shorter_le [OF 2(2)] shorter_le [OF 2(3) le] le
    by (fastforce simp: Suc_le_eq split: list.split)
next
  case (3 s acc)
  show ?case
  proof (cases "json_object_loop s acc")
    case (Inr b)
    then obtain key r0 c r1 where s: "s \<noteq> []" and k: "parse_json_string_value (skip_json_ws s) = Inr (key, r0)"
      and c: "skip_json_ws r0 = c # r1" "\<not> c \<noteq> CHR '':''"
      unfolding json_object_loop.psimps [OF 3(1)] by (auto split: if_splits sum.splits list.splits)
    from Inr s k c obtain x r2 d r3 where v: "parse_json_value r1 = Inr (x, r2)" and d: "skip_json_ws r2 = d # r3"
      and res: "(if d = CHR ''}'' then Inr (JsonObject (AList.update key x acc), r3)
        else if d \<noteq> CHR '','' then Inl expected_comma
        else json_object_loop r3 (AList.update key x acc)) = Inr b"
      unfolding json_object_loop.psimps [OF 3(1)] by (auto split: sum.splits list.splits)
    have "length r3 < length s"
      using skip_ws_Cons [OF d] shorterD [OF 3(2) [OF s k refl c] v] skip_ws_Cons [OF c(1)]
        parse_string_shorter [OF k] skip_ws_le [of s] by linarith
    moreover have "shorter (json_object_loop r3 (AList.update key x acc)) r3" if "d \<noteq> CHR ''}''" "\<not> d \<noteq> CHR '',''"
      using 3(3) [OF s k refl c v refl d that] .
    ultimately show ?thesis
      using res Inr by (auto simp: shorter_def split: if_splits)
  qed simp
next
  case (4 s)
  have le: "skip_json_ws s = c # r \<Longrightarrow> skip_json_ws r = d # r' \<Longrightarrow> length (d # r') \<le> length s" for c r d r'
    using skip_ws_le [of s] skip_ws_le [of r] by simp
  show ?case
    unfolding parse_json_array_value.psimps [OF 4(1)]
    using shorter_le [OF 4(2)] shorter_le [OF 4(3) le] le
    by (fastforce simp: Suc_le_eq split: list.split)
next
  case (5 s acc)
  show ?case
  proof (cases "json_array_loop s acc")
    case (Inr b)
    then obtain x r d r1 where s: "s \<noteq> []" and v: "parse_json_value s = Inr (x, r)" and d: "skip_json_ws r = d # r1"
      and res: "(if d = CHR '']'' then Inr (JsonArray (acc @ [x]), r1)
        else if d \<noteq> CHR '','' then Inl expected_comma
        else json_array_loop r1 (acc @ [x])) = Inr b"
      unfolding json_array_loop.psimps [OF 5(1)] by (auto split: if_splits sum.splits list.splits)
    have "length r1 < length s"
      using skip_ws_Cons [OF d] shorterD [OF 5(2) [OF s] v] by linarith
    moreover have "shorter (json_array_loop r1 (acc @ [x])) r1" if "d \<noteq> CHR '']''" "\<not> d \<noteq> CHR '',''"
      using 5(3) [OF s v refl d that] .
    ultimately show ?thesis
      using res Inr by (auto simp: shorter_def split: if_splits)
  qed simp
qed
lemma skip_ws_lengths:
  "skip_json_ws s = c # r \<Longrightarrow> Suc (length r) \<le> length s"
  using skip_ws_le [of s] by simp

lemma json_parse_dom: "All parse_json_value_parse_json_object_value_json_object_loop_parse_json_array_value_json_array_loop_dom"
proof (rule "parse_json_value_parse_json_object_value_json_object_loop_parse_json_array_value_json_array_loop.termination"
    [where R = "measure (\<lambda>x. case x of
      Inl (Inl s) \<Rightarrow> 3 * length s + 1
    | Inl (Inr s) \<Rightarrow> 3 * length s
    | Inr (Inl (s, acc)) \<Rightarrow> 3 * length s + 2
    | Inr (Inr (Inl s)) \<Rightarrow> 3 * length s
    | Inr (Inr (Inr (s, acc))) \<Rightarrow> 3 * length s + 2)"], goal_cases)
  case (6 s acc b key r0 c r1)
  then show ?case
    using skip_ws_lengths parse_string_shorter skip_ws_le [of s] by fastforce
next
  case (7 s acc b key r0 c r1 b' x r2 d r3)
  have "length r2 < length r1"
    using shorterD [OF parse_json_dom_shorter(1)] 7 by metis
  then show ?case
    using 7 skip_ws_lengths [of r2] skip_ws_lengths [of r0] parse_string_shorter [of "skip_json_ws s" key r0] skip_ws_le [of s]
    by simp
next
  case (11 s acc b x r d r1)
  have "length r < length s"
    using shorterD [OF parse_json_dom_shorter(1)] 11 by metis
  then show ?case
    using 11 skip_ws_lengths [of r] by simp
qed (auto dest!: skip_ws_lengths)

termination parse_json_value
  by (rule json_parse_dom)

declare parse_json_value.simps [simp del]
declare parse_json_object_value.simps [simp del]
declare json_object_loop.simps [simp del]
declare parse_json_array_value.simps [simp del]
declare json_array_loop.simps [simp del]

lemmas json_parse_simps = parse_json_value.simps parse_json_object_value.simps
  json_object_loop.simps parse_json_array_value.simps json_array_loop.simps

text \<open>The two entry points of the request handlers.\<close>

definition parse_json_root_object :: "string \<Rightarrow> string + (string \<times> json_value) list" where
  "parse_json_root_object input =
     (case parse_json_object_value input of
        Inl error \<Rightarrow> Inl error
      | Inr (out, r) \<Rightarrow>
          if skip_json_ws r \<noteq> [] then Inl ''unexpected trailing JSON content''
          else (case out of JsonObject members \<Rightarrow> Inr members | _ \<Rightarrow> Inr []))"

text \<open>
  \<open>parse_simple_json_object\<close> copies the members of a flat object. The iteration order of the
  map does not matter: a member that is not a string ends it with the same error.
\<close>

fun simple_members :: "(string \<times> json_value) list \<Rightarrow> string + (string \<rightharpoonup> string)" where
  "simple_members [] = Inr Map.empty"
| "simple_members ((key, v) # rest) =
     (case v of
        JsonString s \<Rightarrow> (case simple_members rest of Inl e \<Rightarrow> Inl e | Inr m \<Rightarrow> Inr (m(key \<mapsto> s)))
      | _ \<Rightarrow> Inl ''expected string JSON value'')"

definition parse_simple_json_object :: "string \<Rightarrow> string + (string \<rightharpoonup> string)" where
  "parse_simple_json_object input =
     (case parse_json_root_object input of
        Inl error \<Rightarrow> Inl error
      | Inr members \<Rightarrow> simple_members members)"

section \<open>The interface of a parser\<close>

text \<open>
  What the loops and the callers rely on: a parser that succeeds has consumed input. It
  follows that it fails at the end of the input and that a run of it cannot succeed more
  often than there are bytes.
\<close>

locale consuming_parser =
  fixes parse :: "string \<Rightarrow> string + ('a \<times> string)"
  assumes consumes: "shorter (parse s) s"
begin

lemma fails_at_end: "\<exists>e. parse [] = Inl e"
  using consumes [of "[]"] by (cases "parse []") (auto simp: shorter_def)

fun parse_times :: "nat \<Rightarrow> string \<Rightarrow> string option" where
  "parse_times 0 s = Some s"
| "parse_times (Suc n) s = (case parse s of Inl e \<Rightarrow> None | Inr (v, r) \<Rightarrow> parse_times n r)"

lemma parse_times_bound: "parse_times n s = Some r \<Longrightarrow> n + length r \<le> length s"
proof (induction n s rule: parse_times.induct)
  case (2 n s)
  then obtain v r' where "parse s = Inr (v, r')" "parse_times n r' = Some r"
    by (auto split: sum.splits)
  with 2 shorterD [OF consumes, of s v r'] show ?case by fastforce
qed simp

end

lemma json_parsers_shorter:
  "shorter (parse_json_value s) s"
  "shorter (parse_json_object_value s) s"
  "shorter (json_object_loop s members) s"
  "shorter (parse_json_array_value s) s"
  "shorter (json_array_loop s elements) s"
  by (rule parse_json_dom_shorter [OF json_parse_dom [rule_format]])+

interpretation json_string: consuming_parser parse_json_string_value
  by unfold_locales (auto simp: shorter_def dest: parse_string_shorter)

interpretation json_value: consuming_parser parse_json_value
  by unfold_locales (rule json_parsers_shorter)

interpretation json_object: consuming_parser parse_json_object_value
  by unfold_locales (rule json_parsers_shorter)

interpretation json_array: consuming_parser parse_json_array_value
  by unfold_locales (rule json_parsers_shorter)

end
