(* ===== verification/Model_Types.thy ===== *)
theory Model_Types
  imports Prelude
begin

text \<open>
  The data model of the server (\<open>main.cpp\<close>, lines 40 to 217 and 297 to 363): one record per
  struct with the fields of the source in their order, one datatype per enum, the names they
  are printed under, and the time stamps. A \<open>FeatureDefinition*\<close> is the definition itself:
  the catalogue is built once and never written afterwards.
\<close>

section \<open>Constants\<close>

definition kBacklog :: int where "kBacklog = 16"
definition kBufferSize :: nat where "kBufferSize = 262144"
definition kSctpChunkAsconf :: u8 where "kSctpChunkAsconf = 0xc1"
definition kSctpChunkAsconfAck :: u8 where "kSctpChunkAsconfAck = 0x80"

section \<open>Contracts\<close>

record message_spec =
  ms_payload :: string
  ms_stream :: u16
  ms_ppid :: u32
  ms_size_bytes :: nat
  ms_unordered :: bool
  ms_pr_policy :: string
  ms_pr_value :: u32
  ms_auth_key_id :: u16

definition MessageSpec :: "string \<Rightarrow> u16 \<Rightarrow> u32 \<Rightarrow> message_spec" where
  "MessageSpec payload stream ppid = \<lparr>ms_payload = payload, ms_stream = stream, ms_ppid = ppid,
     ms_size_bytes = 0, ms_unordered = False, ms_pr_policy = '''', ms_pr_value = 0, ms_auth_key_id = 0\<rparr>"

record auth_contract =
  ac_chunk_types :: "u8 list"
  ac_primary_key_id :: u16
  ac_primary_secret :: string
  ac_secondary_key_id :: u16
  ac_secondary_secret :: string

record address_reconfig_contract =
  ar_add_addresses :: "string list"
  ar_remove_addresses :: "string list"

record interleaving_contract =
  ic_fragment_interleave_level :: int
  ic_large_message_size :: nat
  ic_large_stream :: u16
  ic_large_ppid :: u32
  ic_small_stream :: u16
  ic_small_ppid :: u32
  ic_small_message_count :: int

record scheduler_contract =
  sc_policy :: string
  sc_primary_stream :: u16
  sc_secondary_stream :: u16
  sc_primary_value :: u16
  sc_secondary_value :: u16
  sc_message_count :: int

record socket_tuning_contract =
  st_delayed_sack_delay_ms :: u32
  st_delayed_sack_freq :: u32
  st_max_burst :: u32
  st_maxseg :: u32

record one_to_many_contract =
  om_expected_associations :: nat
  om_same_socket_required :: bool
  om_require_distinct_assoc_ids :: bool

section \<open>Enums\<close>

datatype completion_mode = ServerObserved | AgentReported | Hybrid

datatype scenario_kind = AgentOnly | ReceiveMessages | ReceiveMessagesMultiTarget
  | SendAfterTrigger | ReceivePRMessages

datatype feature_state = Pending | Active | Passed | Failed | Unsupported | TimedOut

text \<open>The two overloads of \<open>to_string\<close>.\<close>

fun mode_to_string :: "completion_mode \<Rightarrow> string" where
  "mode_to_string ServerObserved = ''server_observed''"
| "mode_to_string AgentReported = ''agent_reported''"
| "mode_to_string Hybrid = ''hybrid''"

fun state_to_string :: "feature_state \<Rightarrow> string" where
  "state_to_string Pending = ''pending''"
| "state_to_string Active = ''active''"
| "state_to_string Passed = ''passed''"
| "state_to_string Failed = ''failed''"
| "state_to_string Unsupported = ''unsupported''"
| "state_to_string TimedOut = ''timed_out''"

text \<open>
  The lifecycle order: a feature starts pending, may become active, and ends in one of four
  terminal states. The library's order class gives transitivity and antisymmetry to the proofs
  that no operation moves a feature backwards.
\<close>

fun terminal :: "feature_state \<Rightarrow> bool" where
  "terminal Pending = False"
| "terminal Active = False"
| "terminal _ = True"

instantiation feature_state :: order
begin

definition less_eq_feature_state :: "feature_state \<Rightarrow> feature_state \<Rightarrow> bool" where
  "s \<le> t \<longleftrightarrow> s = t \<or> s = Pending \<or> (s = Active \<and> terminal t)"

definition less_feature_state :: "feature_state \<Rightarrow> feature_state \<Rightarrow> bool" where
  "s < t \<longleftrightarrow> s \<le> t \<and> s \<noteq> (t :: feature_state)"

instance
proof
  fix s t u :: feature_state
  show "s < t \<longleftrightarrow> s \<le> t \<and> \<not> t \<le> s"
    by (cases s; cases t) (auto simp: less_eq_feature_state_def less_feature_state_def)
  show "s \<le> s" by (simp add: less_eq_feature_state_def)
  show "s \<le> t \<Longrightarrow> t \<le> u \<Longrightarrow> s \<le> u"
    by (cases s; cases t; cases u) (auto simp: less_eq_feature_state_def)
  show "s \<le> t \<Longrightarrow> t \<le> s \<Longrightarrow> s = t"
    by (cases s; cases t) (auto simp: less_eq_feature_state_def)
qed

end

lemma terminal_le: "terminal s \<Longrightarrow> s \<le> t \<longleftrightarrow> t = s"
  by (cases s) (auto simp: less_eq_feature_state_def)

lemma terminal_iff: "terminal s \<longleftrightarrow> s \<noteq> Pending \<and> s \<noteq> Active"
  by (cases s) auto

lemma state_to_string_inj: "state_to_string s = state_to_string t \<Longrightarrow> s = t"
  by (cases s; cases t) simp_all

section \<open>Features, executions, sessions\<close>

record rfc_reference =
  rr_rfc :: string
  rr_section :: string
  rr_title :: string
  rr_url :: string

record feature_definition =
  fd_id :: string
  fd_title :: string
  fd_category :: string
  fd_summary :: string
  fd_rfc_references :: "rfc_reference list"
  fd_instructions_text :: string
  fd_completion_mode :: completion_mode
  fd_scenario_kind :: scenario_kind
  fd_timeout_seconds :: int
  fd_bind_address_count :: nat
  fd_client_socket_options :: "string list"
  fd_client_subscriptions :: "string list"
  fd_client_send_messages :: "message_spec list"
  fd_server_send_messages :: "message_spec list"
  fd_report_prompt :: string
  fd_trigger_payload :: string
  fd_negative_connect_target :: string
  fd_expected_peer_addr_count :: nat
  fd_auth :: "auth_contract option"
  fd_address_reconfig :: "address_reconfig_contract option"
  fd_interleaving :: "interleaving_contract option"
  fd_scheduler :: "scheduler_contract option"
  fd_socket_tuning :: "socket_tuning_contract option"
  fd_one_to_many :: "one_to_many_contract option"
  fd_manual_setup_required :: bool
  fd_manual_setup_instructions :: "string list"

definition default_feature :: feature_definition where
  "default_feature = \<lparr>fd_id = '''', fd_title = '''', fd_category = '''', fd_summary = '''',
     fd_rfc_references = [], fd_instructions_text = '''',
     fd_completion_mode = ServerObserved, fd_scenario_kind = AgentOnly,
     fd_timeout_seconds = 20, fd_bind_address_count = 1,
     fd_client_socket_options = [], fd_client_subscriptions = [],
     fd_client_send_messages = [], fd_server_send_messages = [],
     fd_report_prompt = '''', fd_trigger_payload = '''', fd_negative_connect_target = '''',
     fd_expected_peer_addr_count = 0,
     fd_auth = None, fd_address_reconfig = None, fd_interleaving = None,
     fd_scheduler = None, fd_socket_tuning = None, fd_one_to_many = None,
     fd_manual_setup_required = False, fd_manual_setup_instructions = []\<rparr>"

record feature_execution =
  fx_definition :: feature_definition
  fx_state :: feature_state
  fx_message :: string
  fx_evidence_kind :: string
  fx_evidence_text :: string
  fx_report_text :: string
  fx_contract_json :: string
  fx_network_complete :: bool
  fx_agent_complete :: bool
  fx_active_fds :: "int list"
  fx_assoc_ids :: "string list"
  fx_started_at :: time_point
  fx_deadline_at :: time_point
  fx_finished_at :: time_point

definition FeatureExecution :: "feature_definition \<Rightarrow> feature_execution" where
  "FeatureExecution feature = \<lparr>fx_definition = feature, fx_state = Pending,
     fx_message = ''not started'', fx_evidence_kind = '''', fx_evidence_text = '''',
     fx_report_text = '''', fx_contract_json = '''',
     fx_network_complete = False, fx_agent_complete = False,
     fx_active_fds = [], fx_assoc_ids = [],
     fx_started_at = 0, fx_deadline_at = 0, fx_finished_at = 0\<rparr>"

record session =
  ss_id :: string
  ss_agent_name :: string
  ss_environment_name :: string
  ss_created_at :: time_point
  ss_features :: "string \<rightharpoonup> feature_execution"
  ss_active_feature_id :: string

record server_options =
  so_http_host :: string
  so_http_port :: u16
  so_sctp_bind_addrs :: "string list"
  so_sctp_advertise_addrs :: "string list"

definition default_options :: server_options where
  "default_options = \<lparr>so_http_host = ''0.0.0.0'', so_http_port = 8080,
     so_sctp_bind_addrs = [''127.0.0.1'', ''127.0.0.2''], so_sctp_advertise_addrs = []\<rparr>"

record http_request =
  rq_method :: string
  rq_path :: string
  rq_body :: string
  rq_headers :: "string \<rightharpoonup> string"

record http_response =
  rs_status :: int
  rs_body :: string
  rs_content_type :: string
  rs_headers :: "(string \<times> string) list"

text \<open>The aggregate initialisers \<open>{status, body}\<close> and \<open>{status, body, content_type}\<close>.\<close>

definition HttpResponse :: "int \<Rightarrow> string \<Rightarrow> http_response" where
  "HttpResponse status body = \<lparr>rs_status = status, rs_body = body,
     rs_content_type = ''application/json'', rs_headers = []\<rparr>"

definition HttpResponseTyped :: "int \<Rightarrow> string \<Rightarrow> string \<Rightarrow> http_response" where
  "HttpResponseTyped status body content_type = \<lparr>rs_status = status, rs_body = body,
     rs_content_type = content_type, rs_headers = []\<rparr>"

record listening_socket =
  ls_fd :: int
  ls_bind_addrs :: "string list"
  ls_advertise_addrs :: "string list"

definition http_status_text :: "int \<Rightarrow> string" where
  "http_status_text status =
     (if status = 200 then ''OK''
      else if status = 201 then ''Created''
      else if status = 400 then ''Bad Request''
      else if status = 404 then ''Not Found''
      else if status = 409 then ''Conflict''
      else if status = 500 then ''Internal Server Error''
      else ''Status'')"

section \<open>Time stamps\<close>

text \<open>
  \<open>gmtime_r\<close> on whole seconds: the proleptic Gregorian date of a day number (days since
  1970-01-01), computed in 400-year eras whose years start in March, and the time of day.
\<close>

definition civil_from_days :: "int \<Rightarrow> int \<times> int \<times> int" where
  "civil_from_days days =
     (let z = days + 719468;
          era = z div 146097;
          doe = z mod 146097;
          yoe = (doe - doe div 1460 + doe div 36524 - doe div 146096) div 365;
          doy = doe - (365 * yoe + yoe div 4 - yoe div 100);
          mp = (5 * doy + 2) div 153;
          d = doy - (153 * mp + 2) div 5 + 1;
          m = (if mp < 10 then mp + 3 else mp - 9)
      in (yoe + era * 400 + (if m \<le> 2 then 1 else 0), m, d))"

definition two_digits :: "int \<Rightarrow> string" where
  "two_digits i = setw 2 (CHR ''0'') (dec_of_int i)"

text \<open>\<open>Clock::to_time_t\<close> truncates the microseconds towards zero.\<close>

definition to_time_t :: "time_point \<Rightarrow> int" where
  "to_time_t point = (if 0 \<le> point then point div 1000000 else - ((- point) div 1000000))"

definition iso_time :: "time_point \<Rightarrow> string" where
  "iso_time point =
     (if point = 0 then ''''
      else let seconds = to_time_t point;
               sod = seconds mod 86400
           in (case civil_from_days (seconds div 86400) of (y, m, d) \<Rightarrow>
                dec_of_int y @ ''-'' @ two_digits m @ ''-'' @ two_digits d @ ''T'' @
                two_digits (sod div 3600) @ '':'' @ two_digits (sod mod 3600 div 60) @ '':'' @
                two_digits (sod mod 60) @ ''Z''))"

end
