(* ===== verification/Json_Render.thy ===== *)
theory Json_Render
  imports Text_Util Model_Types
begin

text \<open>
  The renderers of the contract parts (\<open>main.cpp\<close>, lines 399 to 565), the payload
  materialisation both sides of a scenario agree on (lines 429 to 446), and
  \<open>build_contract\<close> (lines 3861 to 3894), the JSON object a client receives from \<open>start\<close>.
\<close>

section \<open>RFC references\<close>

definition make_rfc_reference :: "string \<Rightarrow> string \<Rightarrow> string \<Rightarrow> rfc_reference" where
  "make_rfc_reference rfc_number sect title =
     \<lparr>rr_rfc = ''RFC '' @ rfc_number, rr_section = sect, rr_title = title,
      rr_url = ''https://www.rfc-editor.org/rfc/rfc'' @ rfc_number @ ''.html#section-'' @ sect\<rparr>"

definition json_rfc_reference :: "rfc_reference \<Rightarrow> string" where
  "json_rfc_reference r = ''{''
     @ ''\"rfc\":'' @ json_quote (rr_rfc r) @ '',''
     @ ''\"section\":'' @ json_quote (rr_section r) @ '',''
     @ ''\"title\":'' @ json_quote (rr_title r) @ '',''
     @ ''\"url\":'' @ json_quote (rr_url r)
     @ ''}''"

definition json_rfc_references :: "rfc_reference list \<Rightarrow> string" where
  "json_rfc_references values = ''['' @ join (map json_rfc_reference values) '','' @ '']''"

section \<open>Messages and their payloads\<close>

text \<open>
  The loop of \<open>materialize_payload\<close>. It is entered with a nonempty payload only, which the
  guard repeats so that the recursion is total.
\<close>

function materialize_loop :: "string \<Rightarrow> nat \<Rightarrow> string \<Rightarrow> string" where
  "materialize_loop payload size_bytes out =
     (if length out < size_bytes \<and> payload \<noteq> []
      then let remaining = size_bytes - length out
           in materialize_loop payload size_bytes
                (if remaining \<ge> length payload then out @ payload else out @ take remaining payload)
      else out)"
  by pat_completeness auto
termination
  by (relation "measure (\<lambda>(payload, size_bytes, out). size_bytes - length out)")
    (auto simp: Let_def simp flip: length_greater_0_conv)

declare materialize_loop.simps [simp del]

definition materialize_payload :: "message_spec \<Rightarrow> string" where
  "materialize_payload message =
     (if ms_size_bytes message = 0 \<or> ms_size_bytes message \<le> length (ms_payload message)
      then ms_payload message
      else if ms_payload message = [] then replicate (ms_size_bytes message) (CHR ''x'')
      else materialize_loop (ms_payload message) (ms_size_bytes message) [])"

definition json_message :: "message_spec \<Rightarrow> string" where
  "json_message v = ''{''
     @ ''\"payload\":'' @ json_quote (ms_payload v) @ '',''
     @ ''\"stream\":'' @ dec_of_word (ms_stream v) @ '',''
     @ ''\"ppid\":'' @ dec_of_word (ms_ppid v)
     @ (if ms_size_bytes v \<noteq> 0 then '',\"size_bytes\":'' @ dec_of_nat (ms_size_bytes v) else [])
     @ (if ms_unordered v then '',\"unordered\":true'' else [])
     @ (if ms_pr_policy v \<noteq> [] then '',\"pr_policy\":'' @ json_quote (ms_pr_policy v) else [])
     @ (if ms_pr_value v \<noteq> 0 then '',\"pr_value\":'' @ dec_of_word (ms_pr_value v) else [])
     @ (if ms_auth_key_id v \<noteq> 0 then '',\"auth_key_id\":'' @ dec_of_word (ms_auth_key_id v) else [])
     @ ''}''"

definition json_messages :: "message_spec list \<Rightarrow> string" where
  "json_messages values = ''['' @ join (map json_message values) '','' @ '']''"

section \<open>Contract parts\<close>

definition json_auth_contract :: "auth_contract \<Rightarrow> string" where
  "json_auth_contract auth = ''{''
     @ ''\"chunk_types\":'' @ json_array_uint8 (ac_chunk_types auth) @ '',''
     @ ''\"primary_key_id\":'' @ dec_of_word (ac_primary_key_id auth) @ '',''
     @ ''\"primary_secret\":'' @ json_quote (ac_primary_secret auth) @ '',''
     @ ''\"secondary_key_id\":'' @ dec_of_word (ac_secondary_key_id auth) @ '',''
     @ ''\"secondary_secret\":'' @ json_quote (ac_secondary_secret auth)
     @ ''}''"

definition json_address_reconfig_contract :: "address_reconfig_contract \<Rightarrow> string" where
  "json_address_reconfig_contract config = ''{''
     @ ''\"add_addresses\":'' @ json_array_strings (ar_add_addresses config) @ '',''
     @ ''\"remove_addresses\":'' @ json_array_strings (ar_remove_addresses config)
     @ ''}''"

definition json_interleaving_contract :: "interleaving_contract \<Rightarrow> string" where
  "json_interleaving_contract config = ''{''
     @ ''\"fragment_interleave_level\":'' @ dec_of_int (ic_fragment_interleave_level config) @ '',''
     @ ''\"large_message_size\":'' @ dec_of_nat (ic_large_message_size config) @ '',''
     @ ''\"large_stream\":'' @ dec_of_word (ic_large_stream config) @ '',''
     @ ''\"large_ppid\":'' @ dec_of_word (ic_large_ppid config) @ '',''
     @ ''\"small_stream\":'' @ dec_of_word (ic_small_stream config) @ '',''
     @ ''\"small_ppid\":'' @ dec_of_word (ic_small_ppid config) @ '',''
     @ ''\"small_message_count\":'' @ dec_of_int (ic_small_message_count config)
     @ ''}''"

definition json_scheduler_contract :: "scheduler_contract \<Rightarrow> string" where
  "json_scheduler_contract config = ''{''
     @ ''\"policy\":'' @ json_quote (sc_policy config) @ '',''
     @ ''\"primary_stream\":'' @ dec_of_word (sc_primary_stream config) @ '',''
     @ ''\"secondary_stream\":'' @ dec_of_word (sc_secondary_stream config) @ '',''
     @ ''\"primary_value\":'' @ dec_of_word (sc_primary_value config) @ '',''
     @ ''\"secondary_value\":'' @ dec_of_word (sc_secondary_value config) @ '',''
     @ ''\"message_count\":'' @ dec_of_int (sc_message_count config)
     @ ''}''"

text \<open>
  The lambda \<open>append\<close> of \<open>json_socket_tuning_contract\<close> writes nothing for a zero value and a
  comma before every written entry but the first.
\<close>

definition tuning_entry :: "string \<Rightarrow> u32 \<Rightarrow> bool \<times> string \<Rightarrow> bool \<times> string" where
  "tuning_entry key v = (\<lambda>(first, out).
     if v = 0 then (first, out)
     else (False, out @ (if first then [] else '','') @ json_quote key @ '':'' @ dec_of_word v))"

definition json_socket_tuning_contract :: "socket_tuning_contract \<Rightarrow> string" where
  "json_socket_tuning_contract config =
     (let acc = (True, ''{'');
          acc = tuning_entry ''delayed_sack_delay_ms'' (st_delayed_sack_delay_ms config) acc;
          acc = tuning_entry ''delayed_sack_freq'' (st_delayed_sack_freq config) acc;
          acc = tuning_entry ''max_burst'' (st_max_burst config) acc;
          acc = tuning_entry ''maxseg'' (st_maxseg config) acc
      in snd acc @ ''}'')"

definition json_one_to_many_contract :: "one_to_many_contract \<Rightarrow> string" where
  "json_one_to_many_contract config = ''{''
     @ ''\"expected_associations\":'' @ dec_of_nat (om_expected_associations config) @ '',''
     @ ''\"same_socket_required\":'' @ json_bool (om_same_socket_required config) @ '',''
     @ ''\"require_distinct_assoc_ids\":'' @ json_bool (om_require_distinct_assoc_ids config)
     @ ''}''"

definition optional_part :: "string \<Rightarrow> ('a \<Rightarrow> string) \<Rightarrow> 'a option \<Rightarrow> string" where
  "optional_part key render v = (case v of None \<Rightarrow> [] | Some x \<Rightarrow> key @ render x)"

definition build_contract :: "feature_definition \<Rightarrow> string list \<Rightarrow> string" where
  "build_contract feature connect_addrs = ''{''
     @ ''\"feature_id\":'' @ json_quote (fd_id feature) @ '',''
     @ ''\"completion_mode\":'' @ json_quote (mode_to_string (fd_completion_mode feature)) @ '',''
     @ ''\"transport\":\"sctp4\",''
     @ ''\"connect_addresses\":'' @ json_array_strings connect_addrs @ '',''
     @ ''\"client_socket_options\":'' @ json_array_strings (fd_client_socket_options feature) @ '',''
     @ ''\"client_subscriptions\":'' @ json_array_strings (fd_client_subscriptions feature) @ '',''
     @ ''\"client_send_messages\":'' @ json_messages (fd_client_send_messages feature) @ '',''
     @ ''\"server_send_messages\":'' @ json_messages (fd_server_send_messages feature) @ '',''
     @ ''\"trigger_payload\":'' @ json_quote (fd_trigger_payload feature) @ '',''
     @ ''\"negative_connect_target\":'' @ json_quote (fd_negative_connect_target feature) @ '',''
     @ ''\"timeout_seconds\":'' @ dec_of_int (fd_timeout_seconds feature) @ '',''
     @ ''\"manual_setup_required\":'' @ json_bool (fd_manual_setup_required feature) @ '',''
     @ ''\"manual_setup_instructions\":'' @ json_array_strings (fd_manual_setup_instructions feature) @ '',''
     @ ''\"report_prompt\":'' @ json_quote (fd_report_prompt feature) @ '',''
     @ ''\"instructions_text\":'' @ json_quote (fd_instructions_text feature)
     @ optional_part '',\"auth\":'' json_auth_contract (fd_auth feature)
     @ optional_part '',\"address_reconfig\":'' json_address_reconfig_contract (fd_address_reconfig feature)
     @ optional_part '',\"interleaving\":'' json_interleaving_contract (fd_interleaving feature)
     @ optional_part '',\"scheduler\":'' json_scheduler_contract (fd_scheduler feature)
     @ optional_part '',\"socket_tuning\":'' json_socket_tuning_contract (fd_socket_tuning feature)
     @ optional_part '',\"one_to_many\":'' json_one_to_many_contract (fd_one_to_many feature)
     @ ''}''"

text \<open>\<open>FeatureJsonLocked\<close> (lines 2679 to 2703): the state of one execution.\<close>

definition FeatureJsonLocked :: "feature_execution \<Rightarrow> bool \<Rightarrow> string" where
  "FeatureJsonLocked execution include_contract = ''{''
     @ ''\"id\":'' @ json_quote (fd_id (fx_definition execution)) @ '',''
     @ ''\"title\":'' @ json_quote (fd_title (fx_definition execution)) @ '',''
     @ ''\"category\":'' @ json_quote (fd_category (fx_definition execution)) @ '',''
     @ ''\"completion_mode\":'' @ json_quote (mode_to_string (fd_completion_mode (fx_definition execution))) @ '',''
     @ ''\"manual_setup_required\":'' @ json_bool (fd_manual_setup_required (fx_definition execution)) @ '',''
     @ ''\"manual_setup_instructions\":'' @ json_array_strings (fd_manual_setup_instructions (fx_definition execution)) @ '',''
     @ ''\"rfc_references\":'' @ json_rfc_references (fd_rfc_references (fx_definition execution)) @ '',''
     @ ''\"state\":'' @ json_quote (state_to_string (fx_state execution)) @ '',''
     @ ''\"message\":'' @ json_quote (fx_message execution) @ '',''
     @ ''\"started_at\":'' @ json_quote (iso_time (fx_started_at execution)) @ '',''
     @ ''\"deadline_at\":'' @ json_quote (iso_time (fx_deadline_at execution)) @ '',''
     @ ''\"finished_at\":'' @ json_quote (iso_time (fx_finished_at execution)) @ '',''
     @ ''\"evidence_kind\":'' @ json_quote (fx_evidence_kind execution) @ '',''
     @ ''\"evidence_text\":'' @ json_quote (fx_evidence_text execution) @ '',''
     @ ''\"report_text\":'' @ json_quote (fx_report_text execution) @ '',''
     @ ''\"assoc_ids\":'' @ json_array_strings (fx_assoc_ids execution)
     @ (if include_contract \<and> fx_contract_json execution \<noteq> []
        then '',\"contract\":'' @ fx_contract_json execution else [])
     @ ''}''"

section \<open>The materialised payload\<close>

text \<open>
  The reference: the first \<open>n\<close> bytes of the payload repeated for ever.
\<close>

definition cyclic_prefix :: "string \<Rightarrow> nat \<Rightarrow> string" where
  "cyclic_prefix p n = map (\<lambda>i. p ! (i mod length p)) [0..<n]"

lemma length_cyclic_prefix [simp]: "length (cyclic_prefix p n) = n"
  by (simp add: cyclic_prefix_def)

lemma cyclic_prefix_add:
  assumes "p \<noteq> []" "n mod length p = 0"
  shows "cyclic_prefix p (n + m) = cyclic_prefix p n @ cyclic_prefix p m"
proof -
  have "[0..<n + m] = [0..<n] @ [n..<n + m]" by (rule upt_add_eq_append) simp
  also have "[n..<n + m] = map (\<lambda>i. i + n) [0..<m]"
    by (simp add: map_add_upt add.commute)
  finally have "[0..<n + m] = [0..<n] @ map (\<lambda>i. i + n) [0..<m]" .
  moreover have "(i + n) mod length p = i mod length p" for i
    using mod_add_right_eq [of i n "length p"] assms(2) by simp
  ultimately show ?thesis by (simp add: cyclic_prefix_def)
qed

lemma cyclic_prefix_short: "m \<le> length p \<Longrightarrow> cyclic_prefix p m = take m p"
  by (rule nth_equalityI) (auto simp: cyclic_prefix_def)

lemma materialize_loop_cyclic:
  "p \<noteq> [] \<Longrightarrow> out = cyclic_prefix p (length out) \<Longrightarrow> length out mod length p = 0 \<Longrightarrow> length out \<le> n \<Longrightarrow>
    materialize_loop p n out = cyclic_prefix p n"
proof (induction p n out rule: materialize_loop.induct)
  case (1 p n out)
  let ?r = "n - length out"
  show ?case
  proof (cases "length out < n \<and> p \<noteq> []")
    case False
    with 1 have "n = length out" by simp
    moreover have "materialize_loop p n out = out"
      using False by (simp only: materialize_loop.simps [of p n out] if_False)
    ultimately show ?thesis using 1 by simp
  next
    case True
    note split_out = cyclic_prefix_add [of p "length out"]
    show ?thesis
    proof (cases "?r \<ge> length p")
      case full: True
      have e: "out @ p = cyclic_prefix p (length (out @ p))"
        using split_out [of "length p"] 1 True by (simp add: cyclic_prefix_short)
      have "length (out @ p) mod length p = 0" "length (out @ p) \<le> n"
        using 1 full True by auto
      then have "materialize_loop p n (out @ p) = cyclic_prefix p n"
        using 1(1) [OF True refl] full e 1(2) by presburger
      with True full show ?thesis by (simp add: materialize_loop.simps [of p n out] Let_def)
    next
      case False
      have "out @ take ?r p = cyclic_prefix p n"
        using split_out [of ?r] 1 True False by (simp add: cyclic_prefix_short)
      moreover have "materialize_loop p n (out @ take ?r p) = out @ take ?r p"
        using True False by (subst materialize_loop.simps) simp
      ultimately show ?thesis using True False
        by (simp add: materialize_loop.simps [of p n out] Let_def)
    qed
  qed
qed

lemma materialize_payload_eq:
  "materialize_payload m =
     (if ms_size_bytes m \<le> length (ms_payload m) then ms_payload m
      else cyclic_prefix (if ms_payload m = [] then ''x'' else ms_payload m) (ms_size_bytes m))"
proof -
  have x: "cyclic_prefix ''x'' n = replicate n (CHR ''x'')" for n
    by (simp add: cyclic_prefix_def map_replicate_trivial map_replicate_const)
  have l: "ms_payload m \<noteq> [] \<Longrightarrow> materialize_loop (ms_payload m) n [] = cyclic_prefix (ms_payload m) n" for n
    by (rule materialize_loop_cyclic) (auto simp: cyclic_prefix_def)
  show ?thesis by (auto simp: materialize_payload_def x l)
qed

lemma materialize_payload_length:
  "length (materialize_payload m) = max (length (ms_payload m)) (ms_size_bytes m)"
  by (simp add: materialize_payload_eq cyclic_prefix_def)

lemma materialize_payload_default [simp]:
  "ms_size_bytes m = 0 \<Longrightarrow> materialize_payload m = ms_payload m"
  by (simp add: materialize_payload_def)

end
