(* ===== verification/Lifecycle.thy ===== *)
theory Lifecycle
  imports Model_Types "HOL-Library.Multiset"
begin

text \<open>
  The life of one feature execution (\<open>main.cpp\<close>, lines 1110 to 1206 and 3850 to 3859): the
  machine that the request handlers and the worker threads of a session share, the operations
  on the descriptors an execution owns, activation, and the three ways the server itself
  settles an execution: \<open>mark_failed\<close>, \<open>mark_network_complete\<close> and \<open>maybe_timeout\<close>.

  A \<open>machine\<close> is one \<open>Session\<close> object with what its operations do to the outside: the logs of
  the descriptors \<open>socket\<close> returned and of those passed to \<open>close\<close>, in order, and the readings of \<open>Clock::now ()\<close>, which are an
  input (the \<open>n\<close>-th reading is \<open>m_clock n\<close>) consumed one by one. The code's
  \<open>shared_ptr<FeatureExecution>\<close> is the key of the execution in the session's map. The block
  each operation runs under the execution's mutex is a definition of its own (\<open>_locked\<close>): here
  the blocks are composed as one thread runs them, and the theory Interleaving runs the same
  blocks from several threads.
\<close>

section \<open>The session machine\<close>

record machine =
  m_session :: session
  m_opened :: "int list"
  m_closed :: "int list"
  m_clock :: "nat \<Rightarrow> time_point"
  m_reads :: nat

definition execution_at :: "machine \<Rightarrow> string \<Rightarrow> feature_execution option" where
  "execution_at m fid = ss_features (m_session m) fid"

definition active_feature :: "machine \<Rightarrow> string" where
  "active_feature m = ss_active_feature_id (m_session m)"

definition put_execution :: "string \<Rightarrow> feature_execution \<Rightarrow> machine \<Rightarrow> machine" where
  "put_execution fid ex m = m\<lparr>m_session := (m_session m)\<lparr>ss_features := (ss_features (m_session m))(fid \<mapsto> ex)\<rparr>\<rparr>"

definition set_active_feature :: "string \<Rightarrow> machine \<Rightarrow> machine" where
  "set_active_feature fid m = m\<lparr>m_session := (m_session m)\<lparr>ss_active_feature_id := fid\<rparr>\<rparr>"

definition Clock_now :: "machine \<Rightarrow> time_point \<times> machine" where
  "Clock_now m = (m_clock m (m_reads m), m\<lparr>m_reads := Suc (m_reads m)\<rparr>)"

definition close_fd :: "int \<Rightarrow> machine \<Rightarrow> machine" where
  "close_fd fd m = m\<lparr>m_closed := m_closed m @ [fd]\<rparr>"

definition open_fd :: "int \<Rightarrow> machine \<Rightarrow> machine" where
  "open_fd fd m = m\<lparr>m_opened := m_opened m @ [fd]\<rparr>"

text \<open>\<open>execution->definition->id\<close>.\<close>

definition definition_id :: "string \<Rightarrow> machine \<Rightarrow> string" where
  "definition_id fid m = (case execution_at m fid of None \<Rightarrow> fid | Some ex \<Rightarrow> fd_id (fx_definition ex))"

section \<open>Operations\<close>

definition clear_active_feature :: "string \<Rightarrow> machine \<Rightarrow> machine" where
  "clear_active_feature feature_id m =
     (if active_feature m = feature_id then set_active_feature '''' m else m)"

definition set_active_fds :: "string \<Rightarrow> int list \<Rightarrow> machine \<Rightarrow> machine" where
  "set_active_fds fid fds m =
     (case execution_at m fid of None \<Rightarrow> m | Some ex \<Rightarrow> put_execution fid (ex\<lparr>fx_active_fds := fds\<rparr>) m)"

definition set_active_fd :: "string \<Rightarrow> int \<Rightarrow> machine \<Rightarrow> machine" where
  "set_active_fd fid fd m =
     (case execution_at m fid of None \<Rightarrow> m | Some ex \<Rightarrow> put_execution fid (ex\<lparr>fx_active_fds := [fd]\<rparr>) m)"

definition take_active_fds :: "string \<Rightarrow> machine \<Rightarrow> int list \<times> machine" where
  "take_active_fds fid m =
     (case execution_at m fid of None \<Rightarrow> ([], m)
      | Some ex \<Rightarrow> (fx_active_fds ex, put_execution fid (ex\<lparr>fx_active_fds := []\<rparr>) m))"

fun close_all :: "int list \<Rightarrow> machine \<Rightarrow> machine" where
  "close_all [] m = m"
| "close_all (fd # fds) m = close_all fds (if 0 \<le> fd then close_fd fd m else m)"

definition close_active_fds :: "string \<Rightarrow> machine \<Rightarrow> machine" where
  "close_active_fds fid m = (case take_active_fds fid m of (fds, m') \<Rightarrow> close_all fds m')"

definition mark_failed_locked :: "string \<Rightarrow> string \<Rightarrow> machine \<Rightarrow> bool \<times> machine" where
  "mark_failed_locked fid message m =
     (case execution_at m fid of None \<Rightarrow> (False, m)
      | Some ex \<Rightarrow>
          if fx_state ex \<noteq> Active then (False, m)
          else case Clock_now m of (now, m') \<Rightarrow>
            (True, put_execution fid (ex\<lparr>fx_state := Failed, fx_message := message, fx_finished_at := now\<rparr>) m'))"

definition mark_failed :: "string \<Rightarrow> string \<Rightarrow> machine \<Rightarrow> machine" where
  "mark_failed fid message m =
     (case mark_failed_locked fid message m of (proceed, m1) \<Rightarrow>
        if \<not> proceed then m1
        else let m2 = close_active_fds fid m1 in clear_active_feature (definition_id fid m2) m2)"

text \<open>\<open>None\<close> is the early return; \<open>Some finished\<close> goes on to close the descriptors.\<close>

definition mark_network_complete_locked :: "string \<Rightarrow> machine \<Rightarrow> bool option \<times> machine" where
  "mark_network_complete_locked fid m =
     (case execution_at m fid of None \<Rightarrow> (None, m)
      | Some ex \<Rightarrow>
          if fx_state ex \<noteq> Active then (None, m)
          else let ex = ex\<lparr>fx_network_complete := True\<rparr>
               in if fd_completion_mode (fx_definition ex) = ServerObserved \<or> fx_agent_complete ex
                  then case Clock_now m of (now, m') \<Rightarrow>
                    (Some True, put_execution fid (ex\<lparr>fx_state := Passed,
                       fx_message := ''scenario completed successfully'', fx_finished_at := now\<rparr>) m')
                  else (Some False, put_execution fid (ex\<lparr>fx_message :=
                       ''server observed SCTP behavior; waiting for client completion report''\<rparr>) m))"

definition mark_network_complete :: "string \<Rightarrow> machine \<Rightarrow> machine" where
  "mark_network_complete fid m =
     (case mark_network_complete_locked fid m of (r, m1) \<Rightarrow>
        (case r of None \<Rightarrow> m1
         | Some finished \<Rightarrow>
             let m2 = close_active_fds fid m1
             in if finished then clear_active_feature (definition_id fid m2) m2 else m2))"

text \<open>The clock is read once for the comparison and once more for \<open>finished_at\<close>.\<close>

definition maybe_timeout_locked :: "string \<Rightarrow> machine \<Rightarrow> bool \<times> machine" where
  "maybe_timeout_locked fid m =
     (case execution_at m fid of None \<Rightarrow> (False, m)
      | Some ex \<Rightarrow>
          if fx_state ex \<noteq> Active then (False, m)
          else case Clock_now m of (now, m') \<Rightarrow>
            if now < fx_deadline_at ex then (False, m')
            else case Clock_now m' of (now', m'') \<Rightarrow>
              (True, put_execution fid (ex\<lparr>fx_state := TimedOut, fx_message := ''scenario timed out'',
                 fx_finished_at := now'\<rparr>) m''))"

definition maybe_timeout :: "string \<Rightarrow> machine \<Rightarrow> machine" where
  "maybe_timeout fid m =
     (case maybe_timeout_locked fid m of (finished, m1) \<Rightarrow>
        if \<not> finished then m1
        else let m2 = close_active_fds fid m1 in clear_active_feature (definition_id fid m2) m2)"

definition activate_execution :: "string \<Rightarrow> machine \<Rightarrow> machine" where
  "activate_execution fid m =
     (case execution_at m fid of None \<Rightarrow> m
      | Some ex \<Rightarrow> (case Clock_now m of (now, m') \<Rightarrow>
          put_execution fid (ex\<lparr>fx_state := Active,
            fx_message := (if fd_completion_mode (fx_definition ex) = AgentReported
                           then ''waiting for client completion report'' else ''scenario active''),
            fx_started_at := now,
            fx_deadline_at := now + fd_timeout_seconds (fx_definition ex) * 1000000\<rparr>) m'))"

section \<open>Reading the machine after a write\<close>

lemma execution_at_put [simp]:
  "execution_at (put_execution fid ex m) g = (if g = fid then Some ex else execution_at m g)"
  by (simp add: execution_at_def put_execution_def)

lemma active_feature_put [simp]: "active_feature (put_execution fid ex m) = active_feature m"
  by (simp add: active_feature_def put_execution_def)

lemma closed_put [simp]: "m_closed (put_execution fid ex m) = m_closed m"
  by (simp add: put_execution_def)

lemma opened_put [simp]: "m_opened (put_execution fid ex m) = m_opened m"
  by (simp add: put_execution_def)

lemma execution_at_set_active [simp]: "execution_at (set_active_feature f m) g = execution_at m g"
  by (simp add: execution_at_def set_active_feature_def)

lemma active_feature_set_active [simp]: "active_feature (set_active_feature f m) = f"
  by (simp add: active_feature_def set_active_feature_def)

lemma closed_set_active [simp]: "m_closed (set_active_feature f m) = m_closed m"
  by (simp add: set_active_feature_def)

lemma opened_set_active [simp]: "m_opened (set_active_feature f m) = m_opened m"
  by (simp add: set_active_feature_def)

lemma execution_at_reads [simp]: "execution_at (m\<lparr>m_reads := n\<rparr>) g = execution_at m g"
  by (simp add: execution_at_def)

lemma active_feature_reads [simp]: "active_feature (m\<lparr>m_reads := n\<rparr>) = active_feature m"
  by (simp add: active_feature_def)

lemma execution_at_close_fd [simp]: "execution_at (close_fd fd m) g = execution_at m g"
  by (simp add: execution_at_def close_fd_def)

lemma active_feature_close_fd [simp]: "active_feature (close_fd fd m) = active_feature m"
  by (simp add: active_feature_def close_fd_def)

lemma execution_at_close_all [simp]: "execution_at (close_all fds m) g = execution_at m g"
  by (induction fds m rule: close_all.induct) auto

lemma active_feature_close_all [simp]: "active_feature (close_all fds m) = active_feature m"
  by (induction fds m rule: close_all.induct) auto

lemma closed_close_all [simp]:
  "m_closed (close_all fds m) = m_closed m @ filter (\<lambda>fd. 0 \<le> fd) fds"
  by (induction fds m rule: close_all.induct) (auto simp: close_fd_def)

lemma execution_at_close_active [simp]:
  "execution_at (close_active_fds fid m) g =
     (if g = fid then map_option (\<lambda>ex. ex\<lparr>fx_active_fds := []\<rparr>) (execution_at m fid) else execution_at m g)"
  by (auto simp: close_active_fds_def take_active_fds_def split: option.splits)

lemma active_feature_close_active [simp]: "active_feature (close_active_fds fid m) = active_feature m"
  by (auto simp: close_active_fds_def take_active_fds_def split: option.splits)

lemma execution_at_clear [simp]: "execution_at (clear_active_feature f m) g = execution_at m g"
  by (simp add: clear_active_feature_def)

lemma active_feature_clear [simp]:
  "active_feature (clear_active_feature f m) = (if active_feature m = f then '''' else active_feature m)"
  by (simp add: clear_active_feature_def)

lemma closed_clear [simp]: "m_closed (clear_active_feature f m) = m_closed m"
  by (simp add: clear_active_feature_def)

lemma opened_clear [simp]: "m_opened (clear_active_feature f m) = m_opened m"
  by (simp add: clear_active_feature_def)

lemma execution_at_open_fd [simp]: "execution_at (open_fd fd m) g = execution_at m g"
  by (simp add: execution_at_def open_fd_def)

lemma active_feature_open_fd [simp]: "active_feature (open_fd fd m) = active_feature m"
  by (simp add: active_feature_def open_fd_def)

lemma opened_close_all [simp]: "m_opened (close_all fds m) = m_opened m"
  by (induction fds m rule: close_all.induct) (auto simp: close_fd_def)

lemma opened_close_active [simp]: "m_opened (close_active_fds fid m) = m_opened m"
  by (auto simp: close_active_fds_def take_active_fds_def split: option.splits)

text \<open>The id of the session; no operation changes it.\<close>

definition session_id_of :: "machine \<Rightarrow> string" where
  "session_id_of m = ss_id (m_session m)"

lemma session_id_writes [simp]:
  "session_id_of (put_execution fid ex m) = session_id_of m" "session_id_of (set_active_feature f m) = session_id_of m"
  "session_id_of (m\<lparr>m_reads := n\<rparr>) = session_id_of m" "session_id_of (close_fd fd m) = session_id_of m"
  "session_id_of (open_fd fd m) = session_id_of m" "session_id_of (clear_active_feature f m) = session_id_of m"
  by (simp_all add: session_id_of_def put_execution_def set_active_feature_def close_fd_def open_fd_def clear_active_feature_def)

lemma session_id_close [simp]:
  "session_id_of (close_all fds m) = session_id_of m" "session_id_of (close_active_fds fid m) = session_id_of m"
proof -
  show all: "session_id_of (close_all fds m) = session_id_of m" for fds m
    by (induction fds m rule: close_all.induct) auto
  show "session_id_of (close_active_fds fid m) = session_id_of m"
    by (simp add: close_active_fds_def take_active_fds_def all split: option.split)
qed

text \<open>The descriptors an execution owns, and the log of closed ones.\<close>

definition owned_fds :: "feature_execution \<Rightarrow> int list" where
  "owned_fds ex = filter (\<lambda>fd. 0 \<le> fd) (fx_active_fds ex)"

lemma closed_close_active [simp]:
  "m_closed (close_active_fds fid m) =
     m_closed m @ (case execution_at m fid of None \<Rightarrow> [] | Some ex \<Rightarrow> owned_fds ex)"
  by (auto simp: close_active_fds_def take_active_fds_def owned_fds_def split: option.splits)

lemmas lifecycle_defs =
  mark_failed_def mark_failed_locked_def
  mark_network_complete_def mark_network_complete_locked_def
  maybe_timeout_def maybe_timeout_locked_def Clock_now_def definition_id_def

section \<open>The invariant\<close>

text \<open>What a completion mode asks for before a feature may count as passed.\<close>

definition earned :: "feature_execution \<Rightarrow> bool" where
  "earned ex = (case fd_completion_mode (fx_definition ex) of
      ServerObserved \<Rightarrow> fx_network_complete ex
    | AgentReported \<Rightarrow> fx_agent_complete ex
    | Hybrid \<Rightarrow> fx_network_complete ex \<and> fx_agent_complete ex)"

lemma earned_iff:
  "earned ex \<longleftrightarrow>
     (fd_completion_mode (fx_definition ex) \<noteq> AgentReported \<longrightarrow> fx_network_complete ex) \<and>
     (fd_completion_mode (fx_definition ex) \<noteq> ServerObserved \<longrightarrow> fx_agent_complete ex)"
  by (simp add: earned_def split: completion_mode.split)

text \<open>
  One execution: it is filed under its own nonempty id; a pending one is untouched; a settled
  one owns no descriptor; it counts as passed exactly when that was earned.
\<close>

definition execution_ok :: "string \<Rightarrow> feature_execution \<Rightarrow> bool" where
  "execution_ok fid ex \<longleftrightarrow>
     fd_id (fx_definition ex) = fid \<and> fid \<noteq> '''' \<and>
     (fx_state ex = Pending \<longrightarrow> fx_active_fds ex = [] \<and> \<not> fx_network_complete ex \<and> \<not> fx_agent_complete ex) \<and>
     (terminal (fx_state ex) \<longrightarrow> fx_active_fds ex = []) \<and>
     (fx_state ex = Passed \<longrightarrow> earned ex) \<and>
     (fx_state ex = Active \<longrightarrow> \<not> earned ex) \<and>
     (fd_completion_mode (fx_definition ex) = ServerObserved \<longrightarrow> \<not> fx_agent_complete ex)"

text \<open>
  The session: every execution is well formed, and \<open>active_feature_id\<close> names the active
  feature, if there is one, and nothing otherwise. So at most one feature is active.
\<close>

definition session_ok :: "machine \<Rightarrow> bool" where
  "session_ok m \<longleftrightarrow>
     (\<forall>fid ex. execution_at m fid = Some ex \<longrightarrow> execution_ok fid ex) \<and>
     (\<forall>fid ex. execution_at m fid = Some ex \<and> fx_state ex = Active \<longrightarrow> active_feature m = fid) \<and>
     (active_feature m \<noteq> '''' \<longrightarrow>
        (\<exists>ex. execution_at m (active_feature m) = Some ex \<and> fx_state ex = Active))"

lemma session_okD:
  assumes "session_ok m"
  shows "execution_at m fid = Some ex \<Longrightarrow> execution_ok fid ex"
    and "execution_at m fid = Some ex \<Longrightarrow> fx_state ex = Active \<Longrightarrow> active_feature m = fid"
    and "active_feature m \<noteq> '''' \<Longrightarrow>
      \<exists>ex. execution_at m (active_feature m) = Some ex \<and> fx_state ex = Active"
  using assms by (simp_all add: session_ok_def)

lemma session_okI:
  assumes "\<And>fid ex. execution_at m fid = Some ex \<Longrightarrow> execution_ok fid ex"
    and "\<And>fid ex. execution_at m fid = Some ex \<Longrightarrow> fx_state ex = Active \<Longrightarrow> fid = active_feature m"
    and "active_feature m \<noteq> '''' \<Longrightarrow>
      \<exists>ex. execution_at m (active_feature m) = Some ex \<and> fx_state ex = Active"
  shows "session_ok m"
  unfolding session_ok_def using assms by blast

lemma session_ok_one_active:
  assumes "session_ok m"
    and "execution_at m f = Some a" "fx_state a = Active"
    and "execution_at m g = Some b" "fx_state b = Active"
  shows "f = g"
  using session_okD(2) [OF assms(1)] assms(2-) by metis

text \<open>
  The descriptors the session holds are those of its active feature. They are accounted for
  when every descriptor ever opened was either closed, exactly once, or is still held.
\<close>

definition held_fds :: "machine \<Rightarrow> int list" where
  "held_fds m = (case execution_at m (active_feature m) of None \<Rightarrow> [] | Some ex \<Rightarrow> owned_fds ex)"

definition fds_accounted :: "machine \<Rightarrow> bool" where
  "fds_accounted m \<longleftrightarrow> mset (m_opened m) = mset (m_closed m) + mset (held_fds m)"

lemma session_ok_unnamed: "session_ok m \<Longrightarrow> execution_at m '''' = None"
  using session_okD(1) [of m "''''"] by (cases "execution_at m ''''") (auto simp: execution_ok_def)

lemma owned_not_active:
  assumes "session_ok m" "execution_at m fid = Some ex" "fx_state ex \<noteq> Active"
  shows "owned_fds ex = []"
  using session_okD(1) [OF assms(1,2)] assms(3)
  by (cases "fx_state ex") (auto simp: execution_ok_def owned_fds_def)

section \<open>The contract of an operation on one feature\<close>

text \<open>
  What the server relies on in every operation that works on feature \<open>fid\<close> of a session: it
  leaves the other features alone, never moves its own one backwards, keeps its record well
  formed, releases \<open>active_feature_id\<close> exactly when the feature stops being active, and closes
  each descriptor it takes away from the execution exactly once.
\<close>

locale feature_operation =
  fixes step :: "machine \<Rightarrow> machine" and fid :: string
  assumes other_executions: "g \<noteq> fid \<Longrightarrow> execution_at (step m) g = execution_at m g"
    and unknown_feature: "execution_at m fid = None \<Longrightarrow>
      execution_at (step m) fid = None \<and> active_feature (step m) = active_feature m"
    and closes_none_unknown: "execution_at m fid = None \<Longrightarrow> m_closed (step m) = m_closed m"
    and forward: "execution_at m fid = Some ex \<Longrightarrow> \<exists>ex'. execution_at (step m) fid = Some ex'
      \<and> fx_definition ex' = fx_definition ex \<and> fx_state ex \<le> fx_state ex'"
    and keeps_execution: "execution_at m fid = Some ex \<Longrightarrow> execution_ok fid ex \<Longrightarrow>
      execution_at (step m) fid = Some ex' \<Longrightarrow> execution_ok fid ex'"
    and keeps_active: "execution_at m fid = Some ex \<Longrightarrow> execution_ok fid ex \<Longrightarrow>
      execution_at (step m) fid = Some ex' \<Longrightarrow> fx_state ex' = Active \<Longrightarrow>
      fx_state ex = Active \<and> active_feature (step m) = active_feature m"
    and releases_active: "execution_at m fid = Some ex \<Longrightarrow> execution_ok fid ex \<Longrightarrow>
      execution_at (step m) fid = Some ex' \<Longrightarrow> fx_state ex' \<noteq> Active \<Longrightarrow>
      (fx_state ex \<noteq> Active \<and> active_feature (step m) = active_feature m) \<or>
      active_feature (step m) = (if active_feature m = fid then '''' else active_feature m)"
    and conserves_fds: "execution_at m fid = Some ex \<Longrightarrow> execution_at (step m) fid = Some ex' \<Longrightarrow>
      m_closed (step m) @ owned_fds ex' = m_closed m @ owned_fds ex"
    and opens_no_fd: "m_opened (step m) = m_opened m"
begin

lemma keeps_session:
  assumes ok: "session_ok m"
  shows "session_ok (step m)"
proof (cases "execution_at m fid")
  case None
  then have same: "execution_at (step m) g = execution_at m g" for g
    using other_executions unknown_feature by (cases "g = fid") auto
  moreover have "active_feature (step m) = active_feature m" using unknown_feature None by blast
  ultimately show ?thesis using ok by (simp add: session_ok_def)
next
  case (Some ex)
  then obtain ex' where ex': "execution_at (step m) fid = Some ex'" using forward by blast
  have ex_ok: "execution_ok fid ex" using ok Some by (rule session_okD)
  have act: "fx_state ex = Active \<longleftrightarrow> active_feature m = fid"
  proof
    show "fx_state ex = Active \<Longrightarrow> active_feature m = fid" by (rule session_okD(2) [OF ok Some])
    assume a: "active_feature m = fid"
    moreover from ex_ok have "fid \<noteq> ''''" by (simp add: execution_ok_def)
    ultimately show "fx_state ex = Active" using session_okD(3) [OF ok] Some by auto
  qed
  have one: "execution_ok g e" if "execution_at (step m) g = Some e" for g e
  proof (cases "g = fid")
    case True
    then show ?thesis using that keeps_execution [OF Some ex_ok] by simp
  next
    case False
    then show ?thesis using that other_executions [OF False] session_okD(1) [OF ok, of g e] by simp
  qed
  show ?thesis
  proof (cases "fx_state ex' = Active")
    case True
    with keeps_active [OF Some ex_ok ex'] have "fx_state ex = Active"
      and "active_feature (step m) = active_feature m" by auto
    with act have af: "active_feature (step m) = fid" by simp
    have only: "g = fid" if "execution_at (step m) g = Some e" "fx_state e = Active" for g e
      using that session_okD(2) [OF ok, of g e] other_executions [of g m] act \<open>fx_state ex = Active\<close>
      by (cases "g = fid") auto
    show ?thesis
    proof (rule session_okI)
      show "g = active_feature (step m)" if "execution_at (step m) g = Some e" "fx_state e = Active" for g e
        using only [OF that] af by simp
    qed (use one ex' True af in auto)
  next
    case False
    with releases_active [OF Some ex_ok ex'] act
    have af: "active_feature (step m) = (if active_feature m = fid then '''' else active_feature m)"
      by auto
    have other: "execution_at m g = Some e \<and> g \<noteq> fid"
      if "execution_at (step m) g = Some e" "fx_state e = Active" for g e
      using that other_executions ex' False by (cases "g = fid") auto
    have "g = active_feature (step m)"
      if "execution_at (step m) g = Some e" "fx_state e = Active" for g e
      using other [OF that] that(2) session_okD(2) [OF ok, of g e] af by auto
    moreover have "\<exists>e. execution_at (step m) (active_feature (step m)) = Some e \<and> fx_state e = Active"
      if "active_feature (step m) \<noteq> ''''"
      using that af session_okD(3) [OF ok] other_executions [of "active_feature m" m]
      by (auto split: if_splits)
    ultimately show ?thesis using one by (rule session_okI [rotated])
  qed
qed

lemma keeps_fds:
  assumes ok: "session_ok m" and fds: "fds_accounted m"
  shows "fds_accounted (step m)"
proof (cases "execution_at m fid")
  case None
  moreover have "execution_at (step m) g = execution_at m g" for g
    using other_executions unknown_feature None by (cases "g = fid") auto
  ultimately show ?thesis
    using fds unknown_feature opens_no_fd closes_none_unknown by (simp add: fds_accounted_def held_fds_def)
next
  case (Some ex)
  then obtain ex' where ex': "execution_at (step m) fid = Some ex'" using forward by blast
  have ex_ok: "execution_ok fid ex" using ok Some by (rule session_okD)
  have ok': "session_ok (step m)" by (rule keeps_session [OF ok])
  have log: "m_closed (step m) @ owned_fds ex' = m_closed m @ owned_fds ex"
    by (rule conserves_fds [OF Some ex'])
  have held: "held_fds n = (if active_feature n = fid then owned_fds e else held_fds n)"
    if "execution_at n fid = Some e" for n e
    using that by (simp add: held_fds_def)
  show ?thesis
  proof (cases "active_feature m = fid")
    case True
    have "held_fds (step m) = owned_fds ex'"
    proof (cases "fx_state ex' = Active")
      case True
      then show ?thesis using session_okD(2) [OF ok' ex' True] ex' by (simp add: held_fds_def)
    next
      case False
      have "active_feature (step m) = ''''"
        using releases_active [OF Some ex_ok ex' False] True session_okD(3) [OF ok] Some ex_ok
        by (auto simp: execution_ok_def)
      then show ?thesis
        using session_ok_unnamed [OF ok'] owned_not_active [OF ok' ex' False] by (simp add: held_fds_def)
    qed
    moreover have "held_fds m = owned_fds ex" using True Some by (simp add: held_fds_def)
    ultimately show ?thesis
      using fds log opens_no_fd unfolding fds_accounted_def by (metis mset_append)
  next
    case False
    then have na: "fx_state ex \<noteq> Active" using session_okD(2) [OF ok Some] by auto
    then have na': "fx_state ex' \<noteq> Active" using keeps_active [OF Some ex_ok ex'] by auto
    have "active_feature (step m) = active_feature m"
      using releases_active [OF Some ex_ok ex' na'] False by auto
    then have "held_fds (step m) = held_fds m"
      using other_executions [of "active_feature m" m] False by (simp add: held_fds_def)
    moreover have "m_closed (step m) = m_closed m"
      using log owned_not_active [OF ok Some na] owned_not_active [OF ok' ex' na'] by simp
    ultimately show ?thesis using fds opens_no_fd by (simp add: fds_accounted_def)
  qed
qed

lemma never_backwards:
  "execution_at m g = Some ex \<Longrightarrow> \<exists>ex'. execution_at (step m) g = Some ex' \<and> fx_state ex \<le> fx_state ex'"
  using other_executions forward by (cases "g = fid") fastforce+

lemma terminal_kept:
  "execution_at m g = Some ex \<Longrightarrow> terminal (fx_state ex) \<Longrightarrow>
    \<exists>ex'. execution_at (step m) g = Some ex' \<and> fx_state ex' = fx_state ex"
  using never_backwards [of m g ex] by (auto simp: terminal_le)

end

section \<open>The contract is closed under composition\<close>

lemma feature_operation_compose:
  assumes "feature_operation f fid" "feature_operation g fid"
  shows "feature_operation (\<lambda>m. g (f m)) fid"
proof
  note f = assms(1) and g = assms(2)
  fix m ex ex2 h
  show "h \<noteq> fid \<Longrightarrow> execution_at (g (f m)) h = execution_at m h"
    by (simp add: feature_operation.other_executions [OF f] feature_operation.other_executions [OF g])
  show "execution_at m fid = None \<Longrightarrow>
      execution_at (g (f m)) fid = None \<and> active_feature (g (f m)) = active_feature m"
    by (simp add: feature_operation.unknown_feature [OF f] feature_operation.unknown_feature [OF g])
  show "execution_at m fid = None \<Longrightarrow> m_closed (g (f m)) = m_closed m"
    by (simp add: feature_operation.unknown_feature [OF f] feature_operation.closes_none_unknown [OF f]
        feature_operation.closes_none_unknown [OF g])
  show "m_opened (g (f m)) = m_opened m"
    by (simp add: feature_operation.opens_no_fd [OF f] feature_operation.opens_no_fd [OF g])
  assume ex: "execution_at m fid = Some ex"
  obtain ex1 where ex1: "execution_at (f m) fid = Some ex1"
    and d1: "fx_definition ex1 = fx_definition ex" "fx_state ex \<le> fx_state ex1"
    using feature_operation.forward [OF f ex] by blast
  show "\<exists>ex'. execution_at (g (f m)) fid = Some ex' \<and> fx_definition ex' = fx_definition ex \<and> fx_state ex \<le> fx_state ex'"
    using feature_operation.forward [OF g ex1] d1 order_trans by metis
  assume ex2: "execution_at (g (f m)) fid = Some ex2"
  show "m_closed (g (f m)) @ owned_fds ex2 = m_closed m @ owned_fds ex"
    using feature_operation.conserves_fds [OF f ex ex1] feature_operation.conserves_fds [OF g ex1 ex2] by simp
  assume ok: "execution_ok fid ex"
  have ok1: "execution_ok fid ex1" by (rule feature_operation.keeps_execution [OF f ex ok ex1])
  show "execution_ok fid ex2" by (rule feature_operation.keeps_execution [OF g ex1 ok1 ex2])
  show "fx_state ex = Active \<and> active_feature (g (f m)) = active_feature m" if "fx_state ex2 = Active"
    using feature_operation.keeps_active [OF g ex1 ok1 ex2 that] feature_operation.keeps_active [OF f ex ok ex1]
    by simp
  show "(fx_state ex \<noteq> Active \<and> active_feature (g (f m)) = active_feature m) \<or>
      active_feature (g (f m)) = (if active_feature m = fid then '''' else active_feature m)"
    if "fx_state ex2 \<noteq> Active"
  proof (cases "fx_state ex1 = Active")
    case True
    with feature_operation.keeps_active [OF f ex ok ex1]
    have "fx_state ex = Active" "active_feature (f m) = active_feature m" by auto
    then show ?thesis using feature_operation.releases_active [OF g ex1 ok1 ex2 that] True by auto
  next
    case False
    show ?thesis
      using feature_operation.releases_active [OF g ex1 ok1 ex2 that]
        feature_operation.releases_active [OF f ex ok ex1 False] by (auto split: if_splits)
  qed
qed

section \<open>The server's own operations fulfil the contract\<close>

lemmas state_order = less_eq_feature_state_def

interpretation failing: feature_operation "mark_failed fid message" fid for fid message
  by unfold_locales
    (auto simp: lifecycle_defs execution_ok_def owned_fds_def earned_iff state_order Let_def
      split: option.splits if_splits)

interpretation completing: feature_operation "mark_network_complete fid" fid for fid
  by unfold_locales
    (auto simp: lifecycle_defs execution_ok_def owned_fds_def earned_iff state_order Let_def
      split: option.splits if_splits completion_mode.splits)

interpretation timing_out: feature_operation "maybe_timeout fid" fid for fid
  by unfold_locales
    (auto simp: lifecycle_defs execution_ok_def owned_fds_def earned_iff state_order Let_def
      split: option.splits if_splits)

end
