(* ===== verification/Sockets.thy ===== *)
theory Sockets
  imports Text_Util Lifecycle
begin

text \<open>
  The listening SCTP sockets (\<open>main.cpp\<close>, lines 895 to 1108). The kernel is not part of the
  program: a \<open>listen_os\<close> holds what the system calls of one \<open>create_listening_socket\<close> answer,
  an errno on failure, in the order they are made. \<open>strerror\<close> is among them.
\<close>

section \<open>Addresses\<close>

definition with_port :: "string list \<Rightarrow> u16 \<Rightarrow> string list" where
  "with_port addrs port = map (\<lambda>addr. addr @ '':'' @ dec_of_word port) addrs"

definition missing_bind_message :: "string \<Rightarrow> string" where
  "missing_bind_message address =
     (if address = ''127.0.0.2''
      then ''address 127.0.0.2 is not configured on the FreeBSD host; run `ifconfig lo0 alias 127.0.0.2/8` as root''
      else ''address '' @ address @
        '' is not configured on the FreeBSD host; add it to a local interface or change --sctp-addrs'')"

text \<open>
  A socket address as \<open>sctp_getpaddrs\<close> lists it: the family and, for \<open>AF_INET\<close>, what
  \<open>inet_ntop\<close> makes of the address, with the port in host order.
\<close>

record sock_addr =
  sa_is_inet :: bool
  sa_host :: "string option"
  sa_port :: u16

definition format_sockaddr :: "sock_addr \<Rightarrow> string" where
  "format_sockaddr address =
     (if \<not> sa_is_inet address then ''''
      else case sa_host address of None \<Rightarrow> ''''
        | Some host \<Rightarrow> host @ '':'' @ dec_of_word (sa_port address))"

text \<open>\<open>None\<close>: \<open>sctp_getpaddrs\<close> returned no address.\<close>

definition load_peer_addrs :: "sock_addr list option \<Rightarrow> string list" where
  "load_peer_addrs addrs =
     (case addrs of None \<Rightarrow> []
      | Some xs \<Rightarrow> filter (\<lambda>rendered. rendered \<noteq> []) (map format_sockaddr xs))"

section \<open>System calls\<close>

text \<open>\<open>EADDRNOTAVAIL\<close> of FreeBSD's \<open>errno.h\<close>.\<close>

definition EADDRNOTAVAIL :: int where "EADDRNOTAVAIL = 49"

record listen_os =
  os_strerror :: "int \<Rightarrow> string"
  os_socket :: "int + int"
  os_set_initmsg :: "int option"
  os_set_events :: "int option"
  os_set_recvrcvinfo :: "int option"
  os_set_rcvtimeo :: "int option"
  os_inet_pton :: "string \<Rightarrow> bool"
  os_bind :: "int option"
  os_getsockname_first :: "int + u16"
  os_bindx :: "int option"
  os_listen :: "int option"
  os_getsockname :: "int + u16"

definition set_socket_timeout :: "listen_os \<Rightarrow> string option" where
  "set_socket_timeout os = map_option (os_strerror os) (os_set_rcvtimeo os)"

definition apply_server_subscriptions :: "listen_os \<Rightarrow> string option" where
  "apply_server_subscriptions os =
     (case os_set_events os of
        Some e \<Rightarrow> Some (os_strerror os e)
      | None \<Rightarrow> map_option (os_strerror os) (os_set_recvrcvinfo os))"

definition apply_server_initmsg :: "listen_os \<Rightarrow> string option" where
  "apply_server_initmsg os = map_option (os_strerror os) (os_set_initmsg os)"

text \<open>The loop over \<open>inet_pton\<close>: the first address that is not IPv4.\<close>

fun first_invalid :: "(string \<Rightarrow> bool) \<Rightarrow> string list \<Rightarrow> string option" where
  "first_invalid valid [] = None"
| "first_invalid valid (addr # addrs) = (if valid addr then first_invalid valid addrs else Some addr)"

definition bind_error :: "listen_os \<Rightarrow> int \<Rightarrow> string \<Rightarrow> string" where
  "bind_error os bind_errno addr =
     (if bind_errno = EADDRNOTAVAIL then missing_bind_message addr else os_strerror os bind_errno)"

text \<open>Lines 1037 to 1090: from the open descriptor to a listening one, or the error.\<close>

definition configure_socket :: "listen_os \<Rightarrow> string list \<Rightarrow> nat \<Rightarrow> string option" where
  "configure_socket os addrs bind_count =
     (case apply_server_initmsg os of Some e \<Rightarrow> Some e
      | None \<Rightarrow> (case apply_server_subscriptions os of Some e \<Rightarrow> Some e
      | None \<Rightarrow> (case set_socket_timeout os of Some e \<Rightarrow> Some e
      | None \<Rightarrow> (case first_invalid (os_inet_pton os) (take bind_count addrs) of
          Some addr \<Rightarrow> Some (''invalid IPv4 bind address '' @ addr)
      | None \<Rightarrow> (case os_bind os of Some e \<Rightarrow> Some (bind_error os e (addrs ! 0))
      | None \<Rightarrow> (case (if bind_count > 1
                    then (case os_getsockname_first os of
                            Inl e \<Rightarrow> Some (os_strerror os e)
                          | Inr port \<Rightarrow> map_option (\<lambda>e. bind_error os e (addrs ! 1)) (os_bindx os))
                    else None) of Some e \<Rightarrow> Some e
      | None \<Rightarrow> map_option (os_strerror os) (os_listen os)))))))"

definition create_listening_socket ::
  "listen_os \<Rightarrow> server_options \<Rightarrow> nat \<Rightarrow> machine \<Rightarrow> (string + listening_socket) \<times> machine" where
  "create_listening_socket os options bind_count m =
     (if length (so_sctp_bind_addrs options) < bind_count
      then (Inl (''feature requires '' @ dec_of_nat bind_count @
             '' SCTP addresses; restart the server with --sctp-addrs containing enough local addresses''), m)
      else let advertise = (if so_sctp_advertise_addrs options = [] then so_sctp_bind_addrs options
                            else so_sctp_advertise_addrs options)
      in if length advertise < bind_count
      then (Inl (''feature requires '' @ dec_of_nat bind_count @
             '' advertised SCTP addresses; restart the server with --advertise-addrs containing enough addresses''), m)
      else case os_socket os of
        Inl e \<Rightarrow> (Inl (os_strerror os e), m)
      | Inr fd \<Rightarrow>
          let m = open_fd fd m in
          (case configure_socket os (so_sctp_bind_addrs options) bind_count of
             Some error \<Rightarrow> (Inl error, close_fd fd m)
           | None \<Rightarrow>
               (case os_getsockname os of
                  Inl e \<Rightarrow> (Inl (os_strerror os e), close_fd fd m)
                | Inr port \<Rightarrow>
                    (Inr \<lparr>ls_fd = fd,
                          ls_bind_addrs = with_port (take bind_count (so_sctp_bind_addrs options)) port,
                          ls_advertise_addrs = with_port (take bind_count advertise) port\<rparr>, m))))"

section \<open>What a caller may rely on\<close>

lemma create_keeps_session:
  "m_session (snd (create_listening_socket os options n m)) = m_session m"
  by (auto simp: create_listening_socket_def close_fd_def open_fd_def Let_def split: sum.splits option.splits)

lemma create_keeps_executions [simp]:
  "create_listening_socket os options n m = (r, m') \<Longrightarrow> execution_at m' g = execution_at m g"
  using create_keeps_session [of os options n m] by (simp add: execution_at_def)

lemma create_keeps_active [simp]:
  "create_listening_socket os options n m = (r, m') \<Longrightarrow> active_feature m' = active_feature m"
  using create_keeps_session [of os options n m] by (simp add: active_feature_def)

lemma create_keeps_id:
  "create_listening_socket os options n m = (r, m') \<Longrightarrow> session_id_of m' = session_id_of m"
  using create_keeps_session [of os options n m] by (simp add: session_id_of_def)

text \<open>
  The descriptors a caller is handed, when it is handed any, are the ones the logs leave open.
\<close>

definition leaves_open :: "int list \<Rightarrow> machine \<Rightarrow> machine \<Rightarrow> bool" where
  "leaves_open fds m m' \<longleftrightarrow>
     mset (m_opened m') + mset (m_closed m) = mset (m_opened m) + mset (m_closed m') + mset fds"

lemma leaves_open_trans:
  assumes "leaves_open fds m m1" "leaves_open gds m1 m2"
  shows "leaves_open (fds @ gds) m m2"
  unfolding leaves_open_def
proof (rule multiset_eqI)
  fix fd
  have "count (mset (m_opened m1)) fd + count (mset (m_closed m)) fd =
      count (mset (m_opened m)) fd + count (mset (m_closed m1)) fd + count (mset fds) fd"
    using arg_cong [OF assms(1) [unfolded leaves_open_def], of "\<lambda>M. count M fd"] by simp
  moreover have "count (mset (m_opened m2)) fd + count (mset (m_closed m1)) fd =
      count (mset (m_opened m1)) fd + count (mset (m_closed m2)) fd + count (mset gds) fd"
    using arg_cong [OF assms(2) [unfolded leaves_open_def], of "\<lambda>M. count M fd"] by simp
  ultimately show "count (mset (m_opened m2) + mset (m_closed m)) fd =
      count (mset (m_opened m) + mset (m_closed m2) + mset (fds @ gds)) fd"
    by (simp del: mset_append add: mset_append)
qed

lemma create_accounts_fd:
  assumes "create_listening_socket os options n m = (r, m')"
  shows "leaves_open (case r of Inl e \<Rightarrow> [] | Inr ls \<Rightarrow> [ls_fd ls]) m m'"
  using assms
  by (auto simp: create_listening_socket_def leaves_open_def close_fd_def open_fd_def Let_def
      split: sum.splits option.splits if_splits)

lemma create_addresses:
  assumes "create_listening_socket os options n m = (Inr ls, m')"
  shows "length (ls_advertise_addrs ls) = n \<and> length (ls_bind_addrs ls) = n \<and> os_socket os = Inr (ls_fd ls)"
  using assms
  by (auto simp: create_listening_socket_def with_port_def Let_def
      split: sum.splits option.splits if_splits)

end
