(* ===== verification/Workers.thy ===== *)
theory Workers
  imports Json_Render Sockets
begin

text \<open>
  The four worker threads that watch the SCTP side of a feature (\<open>main.cpp\<close>, lines 1208 to
  1483). What \<open>sctp_recvv\<close> returns is the input: a list of results in the order of the calls.
  A worker's loop consumes it and ends in an outcome, or is still waiting in the call after
  the last one. Each worker is the loop and then the lifecycle operation of its outcome.
\<close>

section \<open>The receive call\<close>

text \<open>FreeBSD's \<open>errno.h\<close>: the two names are one number.\<close>

definition EWOULDBLOCK :: int where "EWOULDBLOCK = 35"
definition EAGAIN :: int where "EAGAIN = 35"

text \<open>
  A result: an errno, or a payload with whether \<open>flags\<close> has \<open>MSG_NOTIFICATION\<close>, and
  \<open>rcv_sid\<close>, \<open>rcv_ppid\<close> and \<open>rcv_assoc_id\<close> of the receive information.
\<close>

datatype recv_result =
    RecvError int
  | Received (rv_payload: string) (rv_notification: bool) (rv_sid: u16) (rv_ppid: u32) (rv_assoc_id: u32)

datatype worker_outcome = Waiting | Fails string | Completes

text \<open>The message of a failed receive, given what the worker says on a timeout.\<close>

definition recv_error_message :: "(int \<Rightarrow> string) \<Rightarrow> string \<Rightarrow> int \<Rightarrow> string" where
  "recv_error_message strerror timeout_message recv_errno =
     (if recv_errno = EWOULDBLOCK \<or> recv_errno = EAGAIN then timeout_message else strerror recv_errno)"

definition settle :: "string \<Rightarrow> worker_outcome \<Rightarrow> machine \<Rightarrow> machine" where
  "settle fid outcome m =
     (case outcome of Waiting \<Rightarrow> m | Fails message \<Rightarrow> mark_failed fid message m
      | Completes \<Rightarrow> mark_network_complete fid m)"

text \<open>The three checks of a received message against the expected one; \<open>None\<close> if all pass.\<close>

definition check_message :: "string \<Rightarrow> message_spec \<Rightarrow> string \<Rightarrow> u16 \<Rightarrow> u32 \<Rightarrow> string option" where
  "check_message fid expected received_payload sid ppid =
     (if materialize_payload expected \<noteq> received_payload then Some (''unexpected payload for feature '' @ fid)
      else if ms_stream expected \<noteq> sid then Some ''unexpected SCTP stream id''
      else if ms_ppid expected \<noteq> ppid then Some ''unexpected SCTP PPID''
      else None)"

section \<open>\<open>run_receive_worker\<close>\<close>

text \<open>
  \<open>expected\<close> is what is left of \<open>expected_messages\<close> from \<open>matched\<close> on. \<open>peers\<close> answers
  \<open>sctp_getpaddrs\<close> for an association.
\<close>

fun receive_loop :: "(int \<Rightarrow> string) \<Rightarrow> (u32 \<Rightarrow> sock_addr list option) \<Rightarrow> string \<Rightarrow> nat \<Rightarrow>
    bool \<Rightarrow> message_spec list \<Rightarrow> recv_result list \<Rightarrow> worker_outcome" where
  "receive_loop strerror peers fid expected_peer_addr_count checked [] events = Completes"
| "receive_loop strerror peers fid expected_peer_addr_count checked (expected # later) [] = Waiting"
| "receive_loop strerror peers fid expected_peer_addr_count checked (expected # later) (RecvError e # events) =
     Fails (recv_error_message strerror ''timed out waiting for SCTP client traffic'' e)"
| "receive_loop strerror peers fid expected_peer_addr_count checked (expected # later)
     (Received payload notification sid ppid assoc # events) =
     (if notification
      then receive_loop strerror peers fid expected_peer_addr_count checked (expected # later) events
      else case check_message fid expected payload sid ppid of
        Some message \<Rightarrow> Fails message
      | None \<Rightarrow>
          if \<not> checked \<and> expected_peer_addr_count > 0
          then (if length (load_peer_addrs (peers assoc)) < expected_peer_addr_count
                then Fails ''peer address enumeration did not return enough addresses''
                else receive_loop strerror peers fid expected_peer_addr_count True later events)
          else receive_loop strerror peers fid expected_peer_addr_count checked later events)"

definition run_receive_worker :: "(int \<Rightarrow> string) \<Rightarrow> (u32 \<Rightarrow> sock_addr list option) \<Rightarrow> string \<Rightarrow>
    message_spec list \<Rightarrow> nat \<Rightarrow> recv_result list \<Rightarrow> machine \<Rightarrow> machine" where
  "run_receive_worker strerror peers fid expected_messages expected_peer_addr_count events m =
     settle fid (receive_loop strerror peers (definition_id fid m) expected_peer_addr_count False expected_messages events) m"

section \<open>\<open>run_pr_receive_worker\<close>\<close>

fun pr_loop :: "(int \<Rightarrow> string) \<Rightarrow> string \<Rightarrow> string \<Rightarrow> bool \<Rightarrow> bool \<Rightarrow> recv_result list \<Rightarrow> worker_outcome" where
  "pr_loop strerror skipped final saw_skipped saw_final [] = Waiting"
| "pr_loop strerror skipped final saw_skipped saw_final (RecvError e # events) =
     (if (e = EWOULDBLOCK \<or> e = EAGAIN) \<and> saw_final
      then (if saw_skipped
            then Fails ''partially reliable SCTP message was delivered; apply the documented impairment before retrying''
            else Completes)
      else Fails (recv_error_message strerror ''timed out waiting for partially reliable SCTP traffic'' e))"
| "pr_loop strerror skipped final saw_skipped saw_final (Received payload notification sid ppid assoc # events) =
     (if notification then pr_loop strerror skipped final saw_skipped saw_final events
      else if payload = skipped then pr_loop strerror skipped final True saw_final events
      else if payload = final then pr_loop strerror skipped final saw_skipped True events
      else Fails ''unexpected SCTP payload for PR-SCTP scenario'')"

definition pr_outcome :: "(int \<Rightarrow> string) \<Rightarrow> message_spec list \<Rightarrow> recv_result list \<Rightarrow> worker_outcome" where
  "pr_outcome strerror expected_messages events =
     (if length expected_messages < 2 then Fails ''PR-SCTP feature is missing expected messages''
      else pr_loop strerror (materialize_payload (expected_messages ! 0))
        (materialize_payload (last expected_messages)) False False events)"

definition run_pr_receive_worker :: "(int \<Rightarrow> string) \<Rightarrow> string \<Rightarrow> message_spec list \<Rightarrow> recv_result list \<Rightarrow> machine \<Rightarrow> machine" where
  "run_pr_receive_worker strerror fid expected_messages events m =
     settle fid (pr_outcome strerror expected_messages events) m"

section \<open>\<open>run_receive_multi_target_worker\<close>\<close>

text \<open>One target: skip notifications, then check one message. \<open>Completes\<close> is the \<open>break\<close>.\<close>

fun target_loop :: "(int \<Rightarrow> string) \<Rightarrow> string \<Rightarrow> message_spec \<Rightarrow> recv_result list \<Rightarrow> worker_outcome" where
  "target_loop strerror fid expected [] = Waiting"
| "target_loop strerror fid expected (RecvError e # events) =
     Fails (recv_error_message strerror ''timed out waiting for one-to-many SCTP client traffic'' e)"
| "target_loop strerror fid expected (Received payload notification sid ppid assoc # events) =
     (if notification then target_loop strerror fid expected events
      else case check_message fid expected payload sid ppid of Some message \<Rightarrow> Fails message | None \<Rightarrow> Completes)"

text \<open>The targets in turn; \<open>queues\<close> holds what each descriptor's calls return.\<close>

fun multi_target_loop :: "(int \<Rightarrow> string) \<Rightarrow> string \<Rightarrow> message_spec list \<Rightarrow> recv_result list list \<Rightarrow> worker_outcome" where
  "multi_target_loop strerror fid [] queues = Completes"
| "multi_target_loop strerror fid (expected # later) [] = Waiting"
| "multi_target_loop strerror fid (expected # later) (queue # queues) =
     (case target_loop strerror fid expected queue of
        Completes \<Rightarrow> multi_target_loop strerror fid later queues
      | outcome \<Rightarrow> outcome)"

definition multi_target_outcome :: "(int \<Rightarrow> string) \<Rightarrow> string \<Rightarrow> int list \<Rightarrow> message_spec list \<Rightarrow>
    recv_result list list \<Rightarrow> worker_outcome" where
  "multi_target_outcome strerror fid fds expected_messages queues =
     (if length fds \<noteq> length expected_messages then Fails ''one-to-many scenario is missing listener sockets''
      else multi_target_loop strerror fid expected_messages queues)"

definition run_receive_multi_target_worker :: "(int \<Rightarrow> string) \<Rightarrow> string \<Rightarrow> int list \<Rightarrow> message_spec list \<Rightarrow>
    recv_result list list \<Rightarrow> machine \<Rightarrow> machine" where
  "run_receive_multi_target_worker strerror fid fds expected_messages queues m =
     settle fid (multi_target_outcome strerror (definition_id fid m) fds expected_messages queues) m"

section \<open>\<open>run_send_after_trigger_worker\<close>\<close>

text \<open>
  The trigger is compared with \<open>buffer\<close> as a C string: only up to the first zero byte.
\<close>

definition c_string :: "string \<Rightarrow> string" where
  "c_string payload = takeWhile (\<lambda>c. c \<noteq> CHR 0x00) payload"

text \<open>\<open>Inr\<close> of the association the trigger came from, or the outcome that ends the worker.\<close>

fun trigger_loop :: "(int \<Rightarrow> string) \<Rightarrow> string \<Rightarrow> recv_result list \<Rightarrow> worker_outcome + u32" where
  "trigger_loop strerror trigger_payload [] = Inl Waiting"
| "trigger_loop strerror trigger_payload (RecvError e # events) =
     Inl (Fails (recv_error_message strerror ''timed out waiting for trigger message'' e))"
| "trigger_loop strerror trigger_payload (Received payload notification sid ppid assoc # events) =
     (if notification then trigger_loop strerror trigger_payload events
      else if trigger_payload \<noteq> [] \<and> trigger_payload \<noteq> c_string payload
           then Inl (Fails ''unexpected trigger payload'')
      else Inr assoc)"

text \<open>What one \<open>sctp_sendv\<close> is given.\<close>

record sent_message =
  sm_payload :: string
  sm_sid :: u16
  sm_ppid :: u32
  sm_unordered :: bool
  sm_assoc_id :: u32

definition send_request :: "u32 \<Rightarrow> message_spec \<Rightarrow> sent_message" where
  "send_request assoc message = \<lparr>sm_payload = materialize_payload message, sm_sid = ms_stream message,
     sm_ppid = ms_ppid message, sm_unordered = ms_unordered message, sm_assoc_id = assoc\<rparr>"

text \<open>\<open>sends\<close> answers the calls of \<open>sctp_sendv\<close>: \<open>None\<close> for success, or the errno.\<close>

fun send_loop :: "(int \<Rightarrow> string) \<Rightarrow> u32 \<Rightarrow> message_spec list \<Rightarrow> int option list \<Rightarrow>
    worker_outcome \<times> sent_message list" where
  "send_loop strerror assoc [] sends = (Completes, [])"
| "send_loop strerror assoc (message # messages) [] = (Waiting, [])"
| "send_loop strerror assoc (message # messages) (Some e # sends) = (Fails (strerror e), [])"
| "send_loop strerror assoc (message # messages) (None # sends) =
     (case send_loop strerror assoc messages sends of
        (outcome, sent) \<Rightarrow> (outcome, send_request assoc message # sent))"

definition trigger_outcome :: "(int \<Rightarrow> string) \<Rightarrow> string \<Rightarrow> message_spec list \<Rightarrow> recv_result list \<Rightarrow>
    int option list \<Rightarrow> worker_outcome \<times> sent_message list" where
  "trigger_outcome strerror trigger_payload server_messages events sends =
     (case trigger_loop strerror trigger_payload events of
        Inl outcome \<Rightarrow> (outcome, [])
      | Inr assoc \<Rightarrow> send_loop strerror assoc server_messages sends)"

definition run_send_after_trigger_worker :: "(int \<Rightarrow> string) \<Rightarrow> string \<Rightarrow> string \<Rightarrow> message_spec list \<Rightarrow>
    recv_result list \<Rightarrow> int option list \<Rightarrow> machine \<Rightarrow> sent_message list \<times> machine" where
  "run_send_after_trigger_worker strerror fid trigger_payload server_messages events sends m =
     (case trigger_outcome strerror trigger_payload server_messages events sends of
        (outcome, sent) \<Rightarrow> (sent, settle fid outcome m))"

end
