(* ===== verification/Session_Api.thy ===== *)
theory Session_Api
  imports Json_Parse Workers
begin

text \<open>
  The requests on one session (\<open>main.cpp\<close>, lines 2598 to 2710 and 3745 to 3978): \<open>StartFeature\<close>,
  \<open>CompleteFeature\<close>, \<open>UnsupportedFeature\<close>, \<open>SessionJson\<close> and \<open>SummaryJson\<close>. A handler that
  dereferences what the source dereferences without a check returns an option: \<open>None\<close> is the
  null execution, the \<open>at\<close> that throws, or the read past the end of a vector. A worker thread
  that a handler starts is returned as a \<open>worker_task\<close>.
\<close>

section \<open>Starting a feature\<close>

datatype worker_task =
    ReceiveTask int "message_spec list" nat
  | PrReceiveTask int "message_spec list"
  | MultiTargetTask "int list" "message_spec list"
  | SendAfterTriggerTask int string "message_spec list"

definition FeatureJson :: "string \<Rightarrow> bool \<Rightarrow> machine \<Rightarrow> string option" where
  "FeatureJson fid include_contract m = map_option (\<lambda>ex. FeatureJsonLocked ex include_contract) (execution_at m fid)"

text \<open>
  The loop over the targets of a one-to-many feature (lines 3780 to 3792): on an error every
  descriptor opened before it is closed. \<open>oss i\<close> answers the calls of the \<open>i\<close>-th socket.
\<close>

fun open_targets :: "(nat \<Rightarrow> listen_os) \<Rightarrow> server_options \<Rightarrow> nat \<Rightarrow> nat \<Rightarrow> nat \<Rightarrow> int list \<Rightarrow> string list \<Rightarrow>
    machine \<Rightarrow> (string + (int list \<times> string list)) \<times> machine" where
  "open_targets oss options bind_count 0 i fds addrs m = (Inr (fds, addrs), m)"
| "open_targets oss options bind_count (Suc n) i fds addrs m =
     (case create_listening_socket (oss i) options bind_count m of
        (Inl error, m') \<Rightarrow> (Inl error, close_all fds m')
      | (Inr socket_info, m') \<Rightarrow>
          open_targets oss options bind_count n (Suc i) (fds @ [ls_fd socket_info])
            (addrs @ (case ls_advertise_addrs socket_info of [] \<Rightarrow> [] | a # _ \<Rightarrow> [a])) m')"

definition target_count :: "feature_definition \<Rightarrow> nat" where
  "target_count d = (case fd_one_to_many d of Some otm \<Rightarrow> om_expected_associations otm
     | None \<Rightarrow> length (fd_client_send_messages d))"

text \<open>
  The branches on the scenario kind (lines 3760 to 3835): the contract, the worker thread to
  run, and the machine with the feature activated; or the error and the machine as it was but
  for descriptors opened and closed again.
\<close>

definition begin_feature :: "string \<Rightarrow> int list option \<Rightarrow> string \<Rightarrow> machine \<Rightarrow> machine" where
  "begin_feature fid fds feature_id m =
     (let m1 = activate_execution fid m;
          m2 = (case fds of None \<Rightarrow> m1 | Some xs \<Rightarrow> set_active_fds fid xs m1)
      in set_active_feature feature_id m2)"

definition start_scenario :: "(nat \<Rightarrow> listen_os) \<Rightarrow> server_options \<Rightarrow> string \<Rightarrow> feature_definition \<Rightarrow> machine \<Rightarrow>
    (string + (string \<times> worker_task option)) \<times> machine" where
  "start_scenario oss options fid d m =
     (case fd_scenario_kind d of
        AgentOnly \<Rightarrow>
          (Inr (build_contract d [], None), begin_feature fid None (fd_id d) m)
      | ReceiveMessagesMultiTarget \<Rightarrow>
          (if target_count d = 0 then (Inl ''one-to-many feature is missing expected associations'', m)
           else case open_targets oss options (fd_bind_address_count d) (target_count d) 0 [] [] m of
             (Inl error, m') \<Rightarrow> (Inl error, m')
           | (Inr (fds, connect_addrs), m') \<Rightarrow>
               (Inr (build_contract d connect_addrs,
                     Some (MultiTargetTask fds (fd_client_send_messages d))),
                begin_feature fid (Some fds) (fd_id d) m'))
      | kind \<Rightarrow>
          (case create_listening_socket (oss 0) options (fd_bind_address_count d) m of
             (Inl error, m') \<Rightarrow> (Inl error, m')
           | (Inr socket_info, m') \<Rightarrow>
               (Inr (build_contract d (ls_advertise_addrs socket_info),
                     Some (if kind = ReceivePRMessages
                           then PrReceiveTask (ls_fd socket_info) (fd_client_send_messages d)
                           else if kind = ReceiveMessages
                           then ReceiveTask (ls_fd socket_info) (fd_client_send_messages d) (fd_expected_peer_addr_count d)
                           else SendAfterTriggerTask (ls_fd socket_info) (fd_trigger_payload d) (fd_server_send_messages d))),
                begin_feature fid (Some [ls_fd socket_info]) (fd_id d) m')))"

definition store_contract :: "string \<Rightarrow> string \<Rightarrow> machine \<Rightarrow> machine" where
  "store_contract fid contract m =
     (case execution_at m fid of None \<Rightarrow> m
      | Some ex \<Rightarrow> put_execution fid (ex\<lparr>fx_contract_json := contract\<rparr>) m)"

definition refresh_message :: "string \<Rightarrow> machine \<Rightarrow> machine" where
  "refresh_message fid m =
     (case execution_at m fid of None \<Rightarrow> m
      | Some ex \<Rightarrow>
          if fx_state ex = Active \<and> fx_message ex = ''scenario active'' \<and>
             fd_completion_mode (fx_definition ex) = AgentReported
          then put_execution fid (ex\<lparr>fx_message := ''waiting for client completion report''\<rparr>) m
          else m)"

definition conflict :: "string \<Rightarrow> http_response" where
  "conflict message = HttpResponse 409 (json_error message)"

definition bad_request :: "string \<Rightarrow> http_response" where
  "bad_request message = HttpResponse 400 (json_error message)"

text \<open>\<open>StartFeature\<close> after its first statement, \<open>maybe_timeout\<close>.\<close>

definition start_pending :: "(nat \<Rightarrow> listen_os) \<Rightarrow> server_options \<Rightarrow> string \<Rightarrow> machine \<Rightarrow>
    (http_response \<times> worker_task option \<times> machine) option" where
  "start_pending oss options fid m =
     (case execution_at m fid of None \<Rightarrow> None
      | Some ex \<Rightarrow>
          if active_feature m \<noteq> '''' then
            Some (conflict ''another feature is already active in this session'', None, m)
          else if fx_state ex \<noteq> Pending then
            Some (conflict ''feature has already been started in this session'', None, m)
          else (case start_scenario oss options fid (fx_definition ex) m of
              (Inl error, m') \<Rightarrow> Some (conflict error, None, m')
            | (Inr (contract, task), m') \<Rightarrow>
                let m'' = refresh_message fid (store_contract fid contract m')
                in map_option (\<lambda>body. (HttpResponse 200 body, task, m'')) (FeatureJson fid True m'')))"

definition StartFeature :: "(nat \<Rightarrow> listen_os) \<Rightarrow> server_options \<Rightarrow> string \<Rightarrow> machine \<Rightarrow>
    (http_response \<times> worker_task option \<times> machine) option" where
  "StartFeature oss options fid m = start_pending oss options fid (maybe_timeout fid m)"

section \<open>Completion reports\<close>

text \<open>The lambda \<open>get_string\<close>: a missing member, or one that is not a string, reads as empty.\<close>

definition get_string :: "(string \<times> json_value) list \<Rightarrow> string \<Rightarrow> string" where
  "get_string members key = (case map_of members key of Some (JsonString s) \<Rightarrow> s | _ \<Rightarrow> '''')"

fun string_elements :: "json_value list \<Rightarrow> string list option" where
  "string_elements [] = Some []"
| "string_elements (v # vs) =
     (case v of JsonString s \<Rightarrow> map_option (\<lambda>ss. s # ss) (string_elements vs) | _ \<Rightarrow> None)"

definition assoc_ids_of :: "(string \<times> json_value) list \<Rightarrow> string + string list" where
  "assoc_ids_of members =
     (case map_of members ''assoc_ids'' of
        None \<Rightarrow> Inr []
      | Some (JsonArray vs) \<Rightarrow>
          (case string_elements vs of None \<Rightarrow> Inl ''assoc_ids must contain only strings'' | Some ids \<Rightarrow> Inr ids)
      | Some _ \<Rightarrow> Inl ''assoc_ids must be a JSON array of strings'')"

text \<open>
  \<open>sorted[0]\<close> and \<open>sorted[1]\<close> of the sorted ids; \<open>None\<close> where the vector is shorter than that.
\<close>

definition ids_rejected :: "string list \<Rightarrow> bool option" where
  "ids_rejected assoc_ids =
     (case sort assoc_ids of
        a # b # _ \<Rightarrow> Some (a = '''' \<or> b = '''' \<or> a = ''0'' \<or> b = ''0'' \<or> a = b)
      | _ \<Rightarrow> None)"

text \<open>
  The block under the execution's mutex (lines 3921 to 3948): the response that rejects the
  report, or whether the feature is finished and the execution as the block leaves it.
\<close>

definition complete_locked :: "(string \<times> json_value) list \<Rightarrow> string list \<Rightarrow> feature_execution \<Rightarrow> time_point \<Rightarrow>
    (http_response + (bool \<times> feature_execution)) option" where
  "complete_locked members assoc_ids ex now =
     (let accept = (\<lambda>ex.
            let ex' = ex\<lparr>fx_agent_complete := True,
                        fx_evidence_kind := get_string members ''evidence_kind'',
                        fx_evidence_text := get_string members ''evidence_text'',
                        fx_report_text := get_string members ''report_text''\<rparr>
            in if fd_completion_mode (fx_definition ex) = AgentReported \<or> fx_network_complete ex
               then (True, ex'\<lparr>fx_state := Passed, fx_message := ''scenario completed successfully'',
                              fx_finished_at := now\<rparr>)
               else (False, ex'\<lparr>fx_message := ''waiting for server-side SCTP observation''\<rparr>))
      in if fx_state ex \<noteq> Active then Some (Inl (conflict ''feature is not active''))
         else if fd_completion_mode (fx_definition ex) = ServerObserved
         then Some (Inl (conflict ''feature does not accept client completion reports''))
         else (case fd_one_to_many (fx_definition ex) of
             None \<Rightarrow> Some (Inr (accept ex))
           | Some otm \<Rightarrow>
               if \<not> om_require_distinct_assoc_ids otm then Some (Inr (accept ex))
               else if length assoc_ids \<noteq> om_expected_associations otm
               then Some (Inl (bad_request ''assoc_ids must include exactly two distinct association ids''))
               else (case ids_rejected assoc_ids of
                   None \<Rightarrow> None
                 | Some True \<Rightarrow> Some (Inl (bad_request ''assoc_ids must include two distinct non-zero association ids''))
                 | Some False \<Rightarrow> Some (Inr (accept (ex\<lparr>fx_assoc_ids := assoc_ids\<rparr>))))))"

text \<open>\<open>CompleteFeature\<close> after its first statement, \<open>maybe_timeout\<close>.\<close>

definition complete_report :: "string \<Rightarrow> string \<Rightarrow> machine \<Rightarrow> (http_response \<times> machine) option" where
  "complete_report fid body m =
     (case parse_json_root_object body of
        Inl error \<Rightarrow> Some (bad_request error, m)
      | Inr members \<Rightarrow>
      (case assoc_ids_of members of
        Inl error \<Rightarrow> Some (bad_request error, m)
      | Inr assoc_ids \<Rightarrow>
      (case execution_at m fid of
        None \<Rightarrow> None
      | Some ex \<Rightarrow>
      (case complete_locked members assoc_ids ex (m_clock m (m_reads m)) of
        None \<Rightarrow> None
      | Some (Inl response) \<Rightarrow> Some (response, m)
      | Some (Inr (finished, ex')) \<Rightarrow>
          let m1 = (if finished then snd (Clock_now m) else m);
              m2 = put_execution fid ex' m1;
              m3 = (if finished
                    then let m = close_active_fds fid m2 in clear_active_feature (definition_id fid m) m
                    else m2)
          in map_option (\<lambda>body. (HttpResponse 200 body, m3)) (FeatureJson fid True m3)))))"

definition CompleteFeature :: "string \<Rightarrow> string \<Rightarrow> machine \<Rightarrow> (http_response \<times> machine) option" where
  "CompleteFeature fid body m = complete_report fid body (maybe_timeout fid m)"

section \<open>Declaring a feature unsupported\<close>

definition param :: "(string \<rightharpoonup> string) \<Rightarrow> string \<Rightarrow> string" where
  "param params key = (case params key of None \<Rightarrow> '''' | Some v \<Rightarrow> v)"

definition unsupported_locked :: "(string \<rightharpoonup> string) \<Rightarrow> feature_execution \<Rightarrow> time_point \<Rightarrow>
    http_response + feature_execution" where
  "unsupported_locked params ex now =
     (if fx_state ex = Passed then Inl (conflict ''feature already passed and cannot be marked unsupported'')
      else if fx_state ex \<noteq> Pending \<and> fx_state ex \<noteq> Active
      then Inl (conflict ''feature is already in a terminal state'')
      else Inr (ex\<lparr>fx_state := Unsupported, fx_message := param params ''reason'',
                 fx_evidence_kind := param params ''evidence_kind'',
                 fx_evidence_text := param params ''evidence_text'',
                 fx_finished_at := now\<rparr>))"

definition unsupported_report :: "string \<Rightarrow> string \<Rightarrow> machine \<Rightarrow> (http_response \<times> machine) option" where
  "unsupported_report fid body m =
     (case parse_simple_json_object body of
        Inl error \<Rightarrow> Some (bad_request error, m)
      | Inr params \<Rightarrow>
      (case execution_at m fid of
        None \<Rightarrow> None
      | Some ex \<Rightarrow>
      (case unsupported_locked params ex (m_clock m (m_reads m)) of
        Inl response \<Rightarrow> Some (response, m)
      | Inr ex' \<Rightarrow>
          let m1 = put_execution fid ex' (snd (Clock_now m));
              m2 = close_active_fds fid m1;
              m3 = clear_active_feature (definition_id fid m2) m2
          in map_option (\<lambda>body. (HttpResponse 200 body, m3)) (FeatureJson fid True m3))))"

definition UnsupportedFeature :: "string \<Rightarrow> string \<Rightarrow> machine \<Rightarrow> (http_response \<times> machine) option" where
  "UnsupportedFeature fid body m = unsupported_report fid body (maybe_timeout fid m)"

section \<open>Creating a session\<close>

text \<open>
  The loop of \<open>CreateSession\<close> over the catalogue (lines 2587 to 2590): \<open>emplace\<close> leaves a key
  that is already there.
\<close>

fun emplace_features :: "feature_definition list \<Rightarrow> (string \<rightharpoonup> feature_execution) \<Rightarrow> (string \<rightharpoonup> feature_execution)" where
  "emplace_features [] features = features"
| "emplace_features (feature # catalog) features =
     emplace_features catalog (case features (fd_id feature) of
        None \<Rightarrow> features(fd_id feature \<mapsto> FeatureExecution feature)
      | Some _ \<Rightarrow> features)"

definition new_session :: "feature_definition list \<Rightarrow> string \<Rightarrow> (string \<rightharpoonup> string) \<Rightarrow> time_point \<Rightarrow> session" where
  "new_session catalog random_id params now =
     \<lparr>ss_id = random_id, ss_agent_name = param params ''agent_name'',
      ss_environment_name = param params ''environment_name'', ss_created_at = now,
      ss_features = emplace_features catalog Map.empty, ss_active_feature_id = ''''\<rparr>"

section \<open>Session and summary documents\<close>

definition DashboardPath :: "string \<Rightarrow> string" where
  "DashboardPath session_id = ''/sessions/'' @ session_id @ ''/dashboard''"

definition SessionApiPath :: "string \<Rightarrow> string" where
  "SessionApiPath session_id = ''/v1/sessions/'' @ session_id"

definition SummaryPath :: "string \<Rightarrow> string" where
  "SummaryPath session_id = SessionApiPath session_id @ ''/summary''"

definition SummaryStreamPath :: "string \<Rightarrow> string" where
  "SummaryStreamPath session_id = SummaryPath session_id @ ''/stream''"

text \<open>The features in the order of the catalogue; \<open>None\<close> where \<open>features.at\<close> would throw.\<close>

fun catalog_executions :: "feature_definition list \<Rightarrow> machine \<Rightarrow> feature_execution list option" where
  "catalog_executions [] m = Some []"
| "catalog_executions (feature # features) m =
     (case execution_at m (fd_id feature) of None \<Rightarrow> None
      | Some ex \<Rightarrow> map_option (\<lambda>exs. ex # exs) (catalog_executions features m))"

definition SessionJson :: "feature_definition list \<Rightarrow> machine \<Rightarrow> string option" where
  "SessionJson catalog m =
     map_option (\<lambda>exs. ''{''
       @ ''\"session_id\":'' @ json_quote (ss_id (m_session m)) @ '',''
       @ ''\"agent_name\":'' @ json_quote (ss_agent_name (m_session m)) @ '',''
       @ ''\"environment_name\":'' @ json_quote (ss_environment_name (m_session m)) @ '',''
       @ ''\"created_at\":'' @ json_quote (iso_time (ss_created_at (m_session m))) @ '',''
       @ ''\"active_feature_id\":'' @ json_quote (ss_active_feature_id (m_session m)) @ '',''
       @ ''\"dashboard_path\":'' @ json_quote (DashboardPath (ss_id (m_session m))) @ '',''
       @ ''\"features\":['' @ join (map (\<lambda>ex. FeatureJsonLocked ex False) exs) '','' @ '']''
       @ ''}'') (catalog_executions catalog m)"

record counts =
  ct_passed :: nat
  ct_failed :: nat
  ct_unsupported :: nat
  ct_timed_out :: nat
  ct_pending :: nat
  ct_active :: nat

definition no_counts :: counts where
  "no_counts = \<lparr>ct_passed = 0, ct_failed = 0, ct_unsupported = 0, ct_timed_out = 0, ct_pending = 0, ct_active = 0\<rparr>"

fun count_state :: "feature_state \<Rightarrow> counts \<Rightarrow> counts" where
  "count_state Passed c = c\<lparr>ct_passed := Suc (ct_passed c)\<rparr>"
| "count_state Failed c = c\<lparr>ct_failed := Suc (ct_failed c)\<rparr>"
| "count_state Unsupported c = c\<lparr>ct_unsupported := Suc (ct_unsupported c)\<rparr>"
| "count_state TimedOut c = c\<lparr>ct_timed_out := Suc (ct_timed_out c)\<rparr>"
| "count_state Pending c = c\<lparr>ct_pending := Suc (ct_pending c)\<rparr>"
| "count_state Active c = c\<lparr>ct_active := Suc (ct_active c)\<rparr>"

text \<open>The loop of \<open>SummaryJson\<close>: each feature is first timed out if due, then counted and rendered.\<close>

fun summary_loop :: "feature_definition list \<Rightarrow> counts \<Rightarrow> string list \<Rightarrow> machine \<Rightarrow>
    (counts \<times> string list \<times> machine) option" where
  "summary_loop [] c features m = Some (c, features, m)"
| "summary_loop (feature # catalog) c features m =
     (case execution_at m (fd_id feature) of None \<Rightarrow> None
      | Some _ \<Rightarrow>
          let m' = maybe_timeout (fd_id feature) m
          in case execution_at m' (fd_id feature) of None \<Rightarrow> None
           | Some ex \<Rightarrow> summary_loop catalog (count_state (fx_state ex) c)
               (features @ [FeatureJsonLocked ex False]) m')"

definition summary_text :: "string \<Rightarrow> counts \<Rightarrow> string list \<Rightarrow> string" where
  "summary_text session_id c features = ''{''
     @ ''\"session_id\":'' @ json_quote session_id @ '',''
     @ ''\"passed\":'' @ dec_of_nat (ct_passed c) @ '',''
     @ ''\"failed\":'' @ dec_of_nat (ct_failed c) @ '',''
     @ ''\"unsupported\":'' @ dec_of_nat (ct_unsupported c) @ '',''
     @ ''\"timed_out\":'' @ dec_of_nat (ct_timed_out c) @ '',''
     @ ''\"pending\":'' @ dec_of_nat (ct_pending c) @ '',''
     @ ''\"active\":'' @ dec_of_nat (ct_active c) @ '',''
     @ ''\"pending_or_active\":'' @ dec_of_nat (ct_pending c + ct_active c) @ '',''
     @ ''\"complete\":'' @ (if ct_pending c = 0 \<and> ct_active c = 0 then ''true'' else ''false'') @ '',''
     @ ''\"features\":'' @ ''['' @ join features '','' @ '']''
     @ ''}''"

definition SummaryJson :: "feature_definition list \<Rightarrow> machine \<Rightarrow> (string \<times> machine) option" where
  "SummaryJson catalog m =
     map_option (\<lambda>(c, features, m'). (summary_text (ss_id (m_session m)) c features, m'))
       (summary_loop catalog no_counts [] m)"

end
