(* ===== verification/Session_Proofs.thy ===== *)
theory Session_Proofs
  imports Session_Api
begin

text \<open>
  Every request and every worker outcome keeps the session invariant. The operations on one
  feature are interpretations of the locale \<open>feature_operation\<close>; starting a feature, which is
  the only way to become active, is proved from its parts.
\<close>

section \<open>More operations that fulfil the contract\<close>

interpretation idle: feature_operation "\<lambda>m. m" fid for fid
  by unfold_locales (auto simp: execution_ok_def)

lemma settle_cases:
  "settle fid Waiting = (\<lambda>m. m)"
  "settle fid (Fails message) = mark_failed fid message"
  "settle fid Completes = mark_network_complete fid"
  by (simp_all add: settle_def fun_eq_iff)

interpretation settling: feature_operation "settle fid outcome" fid for fid outcome
proof (cases outcome)
  case Waiting
  then show "feature_operation (settle fid outcome) fid"
    using idle.feature_operation_axioms by (simp add: settle_cases)
next
  case (Fails message)
  then show "feature_operation (settle fid outcome) fid"
    using failing.feature_operation_axioms by (simp add: settle_cases)
next
  case Completes
  then show "feature_operation (settle fid outcome) fid"
    using completing.feature_operation_axioms by (simp add: settle_cases)
qed

interpretation contract_storing: feature_operation "store_contract fid contract" fid for fid contract
  by unfold_locales
    (auto simp: store_contract_def execution_ok_def owned_fds_def earned_iff state_order
      split: option.splits)

interpretation message_refreshing: feature_operation "refresh_message fid" fid for fid
  by unfold_locales
    (auto simp: refresh_message_def execution_ok_def owned_fds_def earned_iff state_order
      split: option.splits if_splits)

text \<open>The effect of a request on the machine, whatever its response.\<close>

definition complete_step :: "string \<Rightarrow> string \<Rightarrow> machine \<Rightarrow> machine" where
  "complete_step fid body m = (case complete_report fid body m of None \<Rightarrow> m | Some (r, m') \<Rightarrow> m')"

definition unsupported_step :: "string \<Rightarrow> string \<Rightarrow> machine \<Rightarrow> machine" where
  "unsupported_step fid body m = (case unsupported_report fid body m of None \<Rightarrow> m | Some (r, m') \<Rightarrow> m')"

lemma complete_locked_cases:
  assumes "complete_locked members ids ex now = Some (Inr (finished, ex'))"
  shows "fx_state ex = Active \<and> fx_definition ex' = fx_definition ex \<and>
    fd_completion_mode (fx_definition ex) \<noteq> ServerObserved \<and>
    fx_agent_complete ex' \<and> fx_network_complete ex' = fx_network_complete ex \<and>
    fx_active_fds ex' = fx_active_fds ex \<and>
    finished = (fd_completion_mode (fx_definition ex) = AgentReported \<or> fx_network_complete ex) \<and>
    fx_state ex' = (if finished then Passed else Active)"
  using assms
  by (auto simp: complete_locked_def Let_def split: if_splits option.splits bool.splits)

lemma unsupported_locked_cases:
  assumes "unsupported_locked params ex now = Inr ex'"
  shows "(fx_state ex = Pending \<or> fx_state ex = Active) \<and> fx_definition ex' = fx_definition ex \<and>
    fx_agent_complete ex' = fx_agent_complete ex \<and> fx_network_complete ex' = fx_network_complete ex \<and>
    fx_active_fds ex' = fx_active_fds ex \<and> fx_state ex' = Unsupported"
  using assms by (auto simp: unsupported_locked_def split: if_splits)

text \<open>
  A report either leaves the machine alone or writes the execution and, if that settled it,
  closes its descriptors and releases the session.
\<close>

definition write_settled :: "string \<Rightarrow> feature_execution \<Rightarrow> machine \<Rightarrow> machine" where
  "write_settled fid ex' m =
     (let m2 = close_active_fds fid (put_execution fid ex' (snd (Clock_now m)))
      in clear_active_feature (definition_id fid m2) m2)"

lemma complete_step_cases:
  "complete_step fid body m = m \<or>
   (\<exists>members ids ex finished ex'. execution_at m fid = Some ex \<and>
      complete_locked members ids ex (m_clock m (m_reads m)) = Some (Inr (finished, ex')) \<and>
      complete_step fid body m = (if finished then write_settled fid ex' m else put_execution fid ex' m))"
proof (cases "parse_json_root_object body")
  case (Inr members)
  show ?thesis
  proof (cases "assoc_ids_of members")
    case ids: (Inr ids)
    show ?thesis
    proof (cases "execution_at m fid")
      case (Some ex)
      show ?thesis
        using Inr ids Some
        by (cases "complete_locked members ids ex (m_clock m (m_reads m))")
          (auto simp: complete_step_def complete_report_def write_settled_def FeatureJson_def Let_def
            split: sum.split prod.split)
    qed (simp add: complete_step_def complete_report_def Inr ids)
  qed (simp add: complete_step_def complete_report_def Inr)
qed (simp add: complete_step_def complete_report_def)

lemma unsupported_step_cases:
  "unsupported_step fid body m = m \<or>
   (\<exists>params ex ex'. execution_at m fid = Some ex \<and>
      unsupported_locked params ex (m_clock m (m_reads m)) = Inr ex' \<and>
      unsupported_step fid body m = write_settled fid ex' m)"
proof (cases "parse_simple_json_object body")
  case (Inr params)
  show ?thesis
  proof (cases "execution_at m fid")
    case (Some ex)
    then show ?thesis
      using Inr
      by (cases "unsupported_locked params ex (m_clock m (m_reads m))")
        (auto simp: unsupported_step_def unsupported_report_def write_settled_def FeatureJson_def Let_def)
  qed (simp add: unsupported_step_def unsupported_report_def Inr)
qed (simp add: unsupported_step_def unsupported_report_def)

text \<open>Neither touches the contract a start has stored.\<close>

lemma locked_keeps_contract:
  "complete_locked members ids ex now = Some (Inr (finished, ex')) \<Longrightarrow> fx_contract_json ex' = fx_contract_json ex"
  "unsupported_locked params ex now = Inr ex' \<Longrightarrow> fx_contract_json ex' = fx_contract_json ex"
  by (auto simp: complete_locked_def unsupported_locked_def Let_def split: if_splits option.splits bool.splits)

lemma write_settled_reads:
  "execution_at (write_settled fid ex' m) g =
     (if g = fid then Some (ex'\<lparr>fx_active_fds := []\<rparr>) else execution_at m g)"
  "active_feature (write_settled fid ex' m) =
     (if active_feature m = fd_id (fx_definition ex') then '''' else active_feature m)"
  "m_closed (write_settled fid ex' m) = m_closed m @ owned_fds ex'"
  "m_opened (write_settled fid ex' m) = m_opened m"
  "session_id_of (write_settled fid ex' m) = session_id_of m"
  by (simp_all add: write_settled_def Clock_now_def definition_id_def)

text \<open>Two shapes of a write that satisfy the contract: settling, and staying in the same state.\<close>

definition settling_write :: "string \<Rightarrow> feature_execution \<Rightarrow> feature_execution \<Rightarrow> bool" where
  "settling_write fid ex ex' \<longleftrightarrow>
     fx_definition ex' = fx_definition ex \<and> fx_active_fds ex' = fx_active_fds ex \<and>
     terminal (fx_state ex') \<and> fx_state ex \<le> fx_state ex' \<and>
     (execution_ok fid ex \<longrightarrow> execution_ok fid (ex'\<lparr>fx_active_fds := []\<rparr>))"

definition staying_write :: "string \<Rightarrow> feature_execution \<Rightarrow> feature_execution \<Rightarrow> bool" where
  "staying_write fid ex ex' \<longleftrightarrow>
     fx_definition ex' = fx_definition ex \<and> fx_active_fds ex' = fx_active_fds ex \<and>
     fx_state ex' = fx_state ex \<and> (execution_ok fid ex \<longrightarrow> execution_ok fid ex')"

lemma operation_by_writes:
  assumes cases: "\<And>m. f m = m \<or>
    (\<exists>ex ex'. execution_at m fid = Some ex \<and>
       ((settling_write fid ex ex' \<and> f m = write_settled fid ex' m) \<or>
        (staying_write fid ex ex' \<and> f m = put_execution fid ex' m)))"
  shows "feature_operation f fid"
proof
  fix m ex ex2 g
  consider (same) "f m = m"
    | (settle) ex0 ex' where "execution_at m fid = Some ex0" "settling_write fid ex0 ex'" "f m = write_settled fid ex' m"
    | (stay) ex0 ex' where "execution_at m fid = Some ex0" "staying_write fid ex0 ex'" "f m = put_execution fid ex' m"
    using cases [of m] by blast
  note shape = this
  show "g \<noteq> fid \<Longrightarrow> execution_at (f m) g = execution_at m g"
    by (cases rule: shape) (simp_all add: write_settled_reads)
  show "execution_at m fid = None \<Longrightarrow> execution_at (f m) fid = None \<and> active_feature (f m) = active_feature m"
    by (cases rule: shape) simp_all
  show "execution_at m fid = None \<Longrightarrow> m_closed (f m) = m_closed m"
    by (cases rule: shape) simp_all
  show "m_opened (f m) = m_opened m"
    by (cases rule: shape) (simp_all add: write_settled_reads)
  assume ex: "execution_at m fid = Some ex"
  show "\<exists>ex'. execution_at (f m) fid = Some ex' \<and> fx_definition ex' = fx_definition ex \<and> fx_state ex \<le> fx_state ex'"
    using ex by (cases rule: shape) (auto simp: write_settled_reads settling_write_def staying_write_def)
  assume ex2: "execution_at (f m) fid = Some ex2"
  show "m_closed (f m) @ owned_fds ex2 = m_closed m @ owned_fds ex"
    using ex ex2
    by (cases rule: shape) (auto simp: write_settled_reads settling_write_def staying_write_def owned_fds_def)
  assume ok: "execution_ok fid ex"
  show "execution_ok fid ex2"
    using ex ex2 ok
    by (cases rule: shape) (auto simp: write_settled_reads settling_write_def staying_write_def)
  show "fx_state ex = Active \<and> active_feature (f m) = active_feature m" if "fx_state ex2 = Active"
    using ex ex2 that
    by (cases rule: shape) (auto simp: write_settled_reads settling_write_def staying_write_def)
  show "(fx_state ex \<noteq> Active \<and> active_feature (f m) = active_feature m) \<or>
      active_feature (f m) = (if active_feature m = fid then '''' else active_feature m)"
    if "fx_state ex2 \<noteq> Active"
    using ex ex2 that ok
    by (cases rule: shape)
      (auto simp: write_settled_reads settling_write_def staying_write_def execution_ok_def)
qed

interpretation reporting: feature_operation "complete_step fid body" fid for fid body
proof (rule operation_by_writes)
  fix m
  show "complete_step fid body m = m \<or>
    (\<exists>ex ex'. execution_at m fid = Some ex \<and>
       ((settling_write fid ex ex' \<and> complete_step fid body m = write_settled fid ex' m) \<or>
        (staying_write fid ex ex' \<and> complete_step fid body m = put_execution fid ex' m)))"
  proof (rule disjE [OF complete_step_cases [of fid body m]])
    assume "\<exists>members ids ex finished ex'. execution_at m fid = Some ex \<and>
      complete_locked members ids ex (m_clock m (m_reads m)) = Some (Inr (finished, ex')) \<and>
      complete_step fid body m = (if finished then write_settled fid ex' m else put_execution fid ex' m)"
    then obtain members ids ex finished ex' where ex: "execution_at m fid = Some ex"
      and locked: "complete_locked members ids ex (m_clock m (m_reads m)) = Some (Inr (finished, ex'))"
      and step: "complete_step fid body m = (if finished then write_settled fid ex' m else put_execution fid ex' m)"
      by blast
    note c = complete_locked_cases [OF locked]
    have "if finished then settling_write fid ex ex' else staying_write fid ex ex'"
      using c by (auto simp: settling_write_def staying_write_def execution_ok_def earned_iff state_order)
    with ex step show ?thesis by (auto split: if_splits)
  qed simp
qed

interpretation declining: feature_operation "unsupported_step fid body" fid for fid body
proof (rule operation_by_writes)
  fix m
  show "unsupported_step fid body m = m \<or>
    (\<exists>ex ex'. execution_at m fid = Some ex \<and>
       ((settling_write fid ex ex' \<and> unsupported_step fid body m = write_settled fid ex' m) \<or>
        (staying_write fid ex ex' \<and> unsupported_step fid body m = put_execution fid ex' m)))"
  proof (rule disjE [OF unsupported_step_cases [of fid body m]])
    assume "\<exists>params ex ex'. execution_at m fid = Some ex \<and>
      unsupported_locked params ex (m_clock m (m_reads m)) = Inr ex' \<and>
      unsupported_step fid body m = write_settled fid ex' m"
    then obtain params ex ex' where ex: "execution_at m fid = Some ex"
      and locked: "unsupported_locked params ex (m_clock m (m_reads m)) = Inr ex'"
      and step: "unsupported_step fid body m = write_settled fid ex' m"
      by blast
    have "settling_write fid ex ex'"
      using unsupported_locked_cases [OF locked]
      by (auto simp: settling_write_def execution_ok_def earned_iff state_order)
    with ex step show ?thesis by blast
  qed simp
qed

section \<open>Starting a feature\<close>

lemma begin_feature_reads:
  assumes "execution_at m fid = Some ex"
  shows "\<exists>ex'. execution_at (begin_feature fid fds feature_id m) fid = Some ex' \<and>
      fx_state ex' = Active \<and> fx_definition ex' = fx_definition ex \<and>
      fx_network_complete ex' = fx_network_complete ex \<and> fx_agent_complete ex' = fx_agent_complete ex \<and>
      fx_active_fds ex' = (case fds of None \<Rightarrow> fx_active_fds ex | Some xs \<Rightarrow> xs) \<and>
      fx_deadline_at ex' = fx_started_at ex' + fd_timeout_seconds (fx_definition ex) * 1000000"
    and "g \<noteq> fid \<Longrightarrow> execution_at (begin_feature fid fds feature_id m) g = execution_at m g"
    and "active_feature (begin_feature fid fds feature_id m) = feature_id"
    and "m_closed (begin_feature fid fds feature_id m) = m_closed m"
    and "m_opened (begin_feature fid fds feature_id m) = m_opened m"
  using assms
  by (auto simp: begin_feature_def activate_execution_def set_active_fds_def Clock_now_def Let_def
      split: option.split)

lemma open_targets_keeps:
  "open_targets oss options n k i fds addrs m = (r, m') \<Longrightarrow>
     (\<forall>g. execution_at m' g = execution_at m g) \<and> active_feature m' = active_feature m \<and> session_id_of m' = session_id_of m"
proof (induction oss options n k i fds addrs m arbitrary: r m' rule: open_targets.induct)
  case (2 oss options bind_count n i fds addrs m)
  obtain c m1 where c: "create_listening_socket (oss i) options bind_count m = (c, m1)" by fastforce
  note keep = create_keeps_executions [OF c] create_keeps_active [OF c] create_keeps_id [OF c]
  show ?case
  proof (cases c)
    case (Inl e)
    with 2(2) c keep show ?thesis by auto
  next
    case (Inr ls)
    with 2(2) c have "open_targets oss options bind_count n (Suc i) (fds @ [ls_fd ls])
      (addrs @ (case ls_advertise_addrs ls of [] \<Rightarrow> [] | a # _ \<Rightarrow> [a])) m1 = (r, m')" by simp
    from 2(1) [OF c [symmetric] Inr this] keep show ?thesis by simp
  qed
qed simp

text \<open>\<open>socket\<close> returns a nonnegative descriptor or an error.\<close>

definition valid_sockets :: "(nat \<Rightarrow> listen_os) \<Rightarrow> bool" where
  "valid_sockets oss \<longleftrightarrow> (\<forall>i fd. os_socket (oss i) = Inr fd \<longrightarrow> 0 \<le> fd)"

lemma open_targets_accounts:
  "open_targets oss options n k i fds addrs m = (r, m') \<Longrightarrow> valid_sockets oss \<Longrightarrow>
     leaves_open fds m0 m \<Longrightarrow> (\<forall>fd\<in>set fds. 0 \<le> fd) \<Longrightarrow>
     leaves_open (case r of Inl e \<Rightarrow> [] | Inr (fds', addrs') \<Rightarrow> fds') m0 m' \<and>
     (\<forall>e fds' addrs'. r = Inr (fds', addrs') \<longrightarrow> (\<forall>fd\<in>set fds'. 0 \<le> fd))"
proof (induction oss options n k i fds addrs m arbitrary: r m' rule: open_targets.induct)
  case (2 oss options bind_count n i fds addrs m)
  obtain c m1 where c: "create_listening_socket (oss i) options bind_count m = (c, m1)" by fastforce
  note opened = leaves_open_trans [OF 2(4) create_accounts_fd [OF c]]
  show ?case
  proof (cases c)
    case (Inl e)
    have "filter (\<lambda>fd. 0 \<le> fd) fds = fds" using 2(5) by (simp add: filter_id_conv)
    then have "leaves_open [] m0 (close_all fds m1)"
      using opened Inl by (simp add: leaves_open_def ac_simps)
    with 2(2) c Inl show ?thesis by auto
  next
    case (Inr ls)
    with 2(2) c have rec: "open_targets oss options bind_count n (Suc i) (fds @ [ls_fd ls])
      (addrs @ (case ls_advertise_addrs ls of [] \<Rightarrow> [] | a # _ \<Rightarrow> [a])) m1 = (r, m')" by simp
    have "os_socket (oss i) = Inr (ls_fd ls)" using create_addresses c Inr by blast
    with 2(3) have "0 \<le> ls_fd ls" by (simp add: valid_sockets_def)
    with 2(5) have "\<forall>fd\<in>set (fds @ [ls_fd ls]). 0 \<le> fd" by simp
    moreover have "leaves_open (fds @ [ls_fd ls]) m0 m1" using opened Inr by simp
    ultimately show ?thesis using 2(1) [OF c [symmetric] Inr rec 2(3)] by blast
  qed
qed simp

text \<open>What a scenario starts from: the machine after the sockets were opened, if any.\<close>

definition same_features :: "machine \<Rightarrow> machine \<Rightarrow> bool" where
  "same_features m m' \<longleftrightarrow> (\<forall>g. execution_at m' g = execution_at m g) \<and> active_feature m' = active_feature m \<and>
     session_id_of m' = session_id_of m"

definition handed :: "int list option \<Rightarrow> int list" where
  "handed fds = (case fds of None \<Rightarrow> [] | Some xs \<Rightarrow> xs)"

lemma handed_simps [simp]: "handed None = []" "handed (Some xs) = xs"
  by (simp_all add: handed_def)

text \<open>
  A scenario fails with the features untouched and every descriptor it opened closed again, or
  it begins the feature with exactly the descriptors that are left open.
\<close>

definition scenario_fails :: "machine \<Rightarrow> machine \<Rightarrow> bool" where
  "scenario_fails m m' \<longleftrightarrow> same_features m m' \<and> leaves_open [] m m'"

definition scenario_opens :: "int list option \<Rightarrow> machine \<Rightarrow> machine \<Rightarrow> bool" where
  "scenario_opens fds m m1 \<longleftrightarrow> same_features m m1 \<and> leaves_open (handed fds) m m1 \<and> (\<forall>fd\<in>set (handed fds). 0 \<le> fd)"

lemma leaves_open_refl [simp]: "leaves_open [] m m"
  by (simp add: leaves_open_def)

lemma same_features_refl [simp]: "same_features m m"
  by (simp add: same_features_def)

lemma open_targets_cases:
  assumes "open_targets oss options b n 0 [] [] m = (r, m')" and "valid_sockets oss"
  shows "(\<exists>e. r = Inl e \<and> scenario_fails m m') \<or> (\<exists>fds addrs. r = Inr (fds, addrs) \<and> scenario_opens (Some fds) m m')"
  using open_targets_accounts [OF assms, of m] open_targets_keeps [OF assms(1)]
  by (cases r) (auto simp: scenario_fails_def scenario_opens_def same_features_def)

lemma create_socket_cases:
  assumes "create_listening_socket (oss i) options b m = (r, m')" and "valid_sockets oss"
  shows "(\<exists>e. r = Inl e \<and> scenario_fails m m') \<or> (\<exists>ls. r = Inr ls \<and> scenario_opens (Some [ls_fd ls]) m m')"
  using assms create_accounts_fd [OF assms(1)] create_keeps_executions [OF assms(1)]
    create_keeps_active [OF assms(1)] create_keeps_id [OF assms(1)] create_addresses
  by (cases r) (fastforce simp: scenario_fails_def scenario_opens_def same_features_def valid_sockets_def)+

lemma start_scenario_cases:
  assumes start: "start_scenario oss options fid d m = (r, m')" and valid: "valid_sockets oss"
  shows "(\<exists>e. r = Inl e) \<and> scenario_fails m m'
    \<or> (\<exists>c t fds m1. r = Inr (c, t) \<and> m' = begin_feature fid fds (fd_id d) m1 \<and> scenario_opens fds m m1)"
proof -
  consider (agent) "fd_scenario_kind d = AgentOnly" | (multi) "fd_scenario_kind d = ReceiveMessagesMultiTarget"
    | (one) "fd_scenario_kind d \<noteq> AgentOnly" "fd_scenario_kind d \<noteq> ReceiveMessagesMultiTarget" by blast
  then show ?thesis
  proof cases
    case agent
    have "scenario_opens None m m" by (simp add: scenario_opens_def)
    with agent start show ?thesis by (auto simp: start_scenario_def)
  next
    case multi
    obtain o1 m1 where o1: "open_targets oss options (fd_bind_address_count d) (target_count d) 0 [] [] m = (o1, m1)"
      by fastforce
    have "scenario_fails m m" by (simp add: scenario_fails_def)
    with multi start o1 open_targets_cases [OF o1 valid] show ?thesis
      by (auto simp: start_scenario_def split: if_splits)
  next
    case one
    obtain c m1 where c: "create_listening_socket (oss 0) options (fd_bind_address_count d) m = (c, m1)"
      by fastforce
    from create_socket_cases [OF c valid] show ?thesis
    proof (elim disjE exE conjE)
      fix e assume "c = Inl e" "scenario_fails m m1"
      with one start c show ?thesis
        by (cases "fd_scenario_kind d") (auto simp: start_scenario_def)
    next
      fix ls assume ls: "c = Inr ls" "scenario_opens (Some [ls_fd ls]) m m1"
      have "(\<exists>co t. r = Inr (co, t)) \<and> m' = begin_feature fid (Some [ls_fd ls]) (fd_id d) m1"
        using one start c ls
        by (cases "fd_scenario_kind d") (auto simp: start_scenario_def)
      with ls show ?thesis by blast
    qed
  qed
qed

lemma begin_keeps_session:
  assumes ok: "session_ok m" and ex: "execution_at m fid = Some ex"
    and pending: "fx_state ex = Pending" and free: "active_feature m = ''''"
  shows "session_ok (begin_feature fid fds (fd_id (fx_definition ex)) m)" (is "session_ok ?m")
proof -
  have ex_ok: "execution_ok fid ex" by (rule session_okD(1) [OF ok ex])
  then have id: "fd_id (fx_definition ex) = fid" and ne: "fid \<noteq> ''''" by (simp_all add: execution_ok_def)
  note reads = begin_feature_reads [OF ex, where fds = fds and feature_id = "fd_id (fx_definition ex)"]
  obtain ex' where ex': "execution_at ?m fid = Some ex'" and a: "fx_state ex' = Active"
    and same: "fx_definition ex' = fx_definition ex" "fx_network_complete ex' = fx_network_complete ex"
      "fx_agent_complete ex' = fx_agent_complete ex"
    using reads(1) by blast
  have ok': "execution_ok fid ex'"
    using ex_ok pending a same by (auto simp: execution_ok_def earned_iff)
  have none: "fx_state e \<noteq> Active" if "execution_at m g = Some e" for g e
    using session_okD(1,2) [OF ok that] free by (auto simp: execution_ok_def)
  show ?thesis
  proof (rule session_okI)
    fix g e assume g: "execution_at ?m g = Some e"
    show "execution_ok g e"
      using g ex' ok' reads(2) [of g] session_okD(1) [OF ok, of g e] by (cases "g = fid") auto
    show "g = active_feature ?m" if "fx_state e = Active"
      using g that reads(2) [of g] none [of g e] reads(3) id by (cases "g = fid") auto
  next
    show "\<exists>e. execution_at ?m (active_feature ?m) = Some e \<and> fx_state e = Active"
      using ex' a reads(3) id by auto
  qed
qed

lemma same_features_ok: "same_features m m' \<Longrightarrow> session_ok m \<Longrightarrow> session_ok m'"
  by (simp add: same_features_def session_ok_def)

text \<open>The machine after \<open>start\<close>, whatever the response.\<close>

definition start_step :: "(nat \<Rightarrow> listen_os) \<Rightarrow> server_options \<Rightarrow> string \<Rightarrow> machine \<Rightarrow> machine" where
  "start_step oss options fid m = (case start_pending oss options fid m of None \<Rightarrow> m | Some (r, t, m') \<Rightarrow> m')"

text \<open>The two writes after a feature began: its contract, and its message where that is due.\<close>

lemma contract_written:
  assumes "execution_at m fid = Some ex"
  shows "\<exists>ex'. execution_at (refresh_message fid (store_contract fid c m)) fid = Some ex' \<and>
      fx_state ex' = fx_state ex \<and> fx_definition ex' = fx_definition ex \<and>
      fx_started_at ex' = fx_started_at ex \<and> fx_deadline_at ex' = fx_deadline_at ex \<and> fx_contract_json ex' = c"
    and "active_feature (refresh_message fid (store_contract fid c m)) = active_feature m"
  using assms by (simp_all add: refresh_message_def store_contract_def)

text \<open>
  The three ends of a start: rejected with the machine unchanged; a socket error with the
  features unchanged; or the feature active and the session taken.
\<close>

lemma start_pending_cases:
  assumes ex: "execution_at m fid = Some ex" and valid: "valid_sockets oss"
  shows "(active_feature m \<noteq> '''' \<or> fx_state ex \<noteq> Pending) \<and>
      (\<exists>r. start_pending oss options fid m = Some (r, None, m) \<and> rs_status r = 409)
    \<or> (active_feature m = '''' \<and> fx_state ex = Pending \<and>
       (\<exists>e. fst (start_scenario oss options fid (fx_definition ex) m) = Inl e) \<and>
       (\<exists>r m'. start_pending oss options fid m = Some (r, None, m') \<and> rs_status r = 409 \<and> scenario_fails m m'))
    \<or> (active_feature m = '''' \<and> fx_state ex = Pending \<and>
       (\<exists>r t c fds m1. start_pending oss options fid m = Some (r, t, refresh_message fid (store_contract fid c
            (begin_feature fid fds (fd_id (fx_definition ex)) m1))) \<and> rs_status r = 200 \<and> scenario_opens fds m m1))"
proof (cases "active_feature m \<noteq> '''' \<or> fx_state ex \<noteq> Pending")
  case True
  with ex show ?thesis by (auto simp: start_pending_def conflict_def HttpResponse_def)
next
  case False
  obtain r m' where s: "start_scenario oss options fid (fx_definition ex) m = (r, m')" by fastforce
  show ?thesis
  proof (cases r)
    case (Inl e)
    then have "scenario_fails m m'" using start_scenario_cases [OF s valid] by auto
    with False ex s Inl show ?thesis by (auto simp: start_pending_def conflict_def HttpResponse_def)
  next
    case (Inr ct)
    obtain c t where ct: "ct = (c, t)" by (cases ct)
    obtain fds m1 where m': "m' = begin_feature fid fds (fd_id (fx_definition ex)) m1" and same: "scenario_opens fds m m1"
      using start_scenario_cases [OF s valid] Inr by auto
    let ?m2 = "refresh_message fid (store_contract fid c m')"
    have "execution_at m1 fid = Some ex" using same ex by (simp add: scenario_opens_def same_features_def)
    then obtain ex1 where "execution_at m' fid = Some ex1" using begin_feature_reads(1) m' by blast
    then obtain ex2 where ex2: "execution_at ?m2 fid = Some ex2"
      using contract_storing.forward message_refreshing.forward by blast
    then have "start_pending oss options fid m = Some (HttpResponse 200 (FeatureJsonLocked ex2 True), t, ?m2)"
      using False ex s Inr ct by (simp add: start_pending_def FeatureJson_def Let_def)
    with False same m' show ?thesis by (auto simp: HttpResponse_def)
  qed
qed

lemma scenario_opens_keeps:
  assumes ok: "session_ok m" and fds: "fds_accounted m" and free: "active_feature m = ''''"
    and ex: "execution_at m fid = Some ex" and pending: "fx_state ex = Pending" and opens: "scenario_opens xs m m1"
  defines "m2 \<equiv> begin_feature fid xs (fd_id (fx_definition ex)) m1"
  shows "session_ok m2 \<and> fds_accounted m2"
proof
  have same: "same_features m m1" using opens by (simp add: scenario_opens_def)
  then have ok1: "session_ok m1" by (rule same_features_ok [OF _ ok])
  have ex1: "execution_at m1 fid = Some ex" "active_feature m1 = ''''"
    using same ex free by (simp_all add: same_features_def)
  show "session_ok m2" unfolding m2_def by (rule begin_keeps_session [OF ok1 ex1(1) pending ex1(2)])
  have id: "fd_id (fx_definition ex) = fid" and none: "fx_active_fds ex = []"
    using session_okD(1) [OF ok ex] pending by (simp_all add: execution_ok_def)
  note reads = begin_feature_reads [OF ex1(1), where fds = xs and feature_id = "fd_id (fx_definition ex)"]
  have "held_fds m2 = handed xs"
    using reads(1) reads(3) id none opens
    by (auto simp: m2_def held_fds_def owned_fds_def scenario_opens_def filter_id_conv split: option.splits)
  moreover have "held_fds m = []" using session_ok_unnamed [OF ok] free by (simp add: held_fds_def)
  ultimately show "fds_accounted m2"
    using fds opens reads(4,5) unfolding m2_def fds_accounted_def scenario_opens_def leaves_open_def
    by simp
qed

lemma scenario_fails_keeps:
  assumes "session_ok m" "fds_accounted m" "scenario_fails m m'"
  shows "session_ok m' \<and> fds_accounted m'"
proof
  have same: "same_features m m'" using assms(3) by (simp add: scenario_fails_def)
  then show "session_ok m'" by (rule same_features_ok [OF _ assms(1)])
  have "held_fds m' = held_fds m" using same by (simp add: same_features_def held_fds_def)
  then show "fds_accounted m'"
    using assms(2,3) unfolding fds_accounted_def scenario_fails_def leaves_open_def
    by simp
qed

lemma start_step_keeps:
  assumes ok: "session_ok m" and fds: "fds_accounted m" and valid: "valid_sockets oss"
  shows "session_ok (start_step oss options fid m) \<and> fds_accounted (start_step oss options fid m)"
proof (cases "execution_at m fid")
  case None
  with ok fds show ?thesis by (simp add: start_step_def start_pending_def)
next
  case (Some ex)
  consider (refused) r where "start_pending oss options fid m = Some (r, None, m)"
    | (failed) r m' where "start_pending oss options fid m = Some (r, None, m')" "scenario_fails m m'"
    | (begun) r t c xs m1 where "active_feature m = ''''" "fx_state ex = Pending" "scenario_opens xs m m1"
        "start_pending oss options fid m = Some (r, t, refresh_message fid (store_contract fid c
            (begin_feature fid xs (fd_id (fx_definition ex)) m1)))"
    using start_pending_cases [OF Some valid, of options] by blast
  then show ?thesis
  proof cases
    case refused
    with ok fds show ?thesis by (simp add: start_step_def)
  next
    case failed
    with scenario_fails_keeps [OF ok fds failed(2)] show ?thesis by (simp add: start_step_def)
  next
    case begun
    from scenario_opens_keeps [OF ok fds begun(1) Some begun(2,3)]
    show ?thesis
      by (auto simp: start_step_def begun(4)
          intro!: message_refreshing.keeps_session contract_storing.keeps_session
            message_refreshing.keeps_fds contract_storing.keeps_fds)
  qed
qed

section \<open>Operations that leave settled features alone\<close>

text \<open>
  A stronger contract, of everything but the two internal writes of a start: the record of a
  settled feature is final.
\<close>

locale final_operation = feature_operation +
  assumes frozen: "execution_at m fid = Some ex \<Longrightarrow> terminal (fx_state ex) \<Longrightarrow> execution_at (step m) fid = Some ex"
    and keeps_contract: "execution_at m fid = Some ex \<Longrightarrow> execution_at (step m) fid = Some ex' \<Longrightarrow>
      fx_contract_json ex' = fx_contract_json ex"
    and keeps_session_id: "session_id_of (step m) = session_id_of m"
    and settled_releases_nothing: "execution_at m fid = Some ex \<Longrightarrow> terminal (fx_state ex) \<Longrightarrow>
      active_feature (step m) = active_feature m"
    and pending_declined_only: "execution_at m fid = Some ex \<Longrightarrow> fx_state ex = Pending \<Longrightarrow>
      execution_at (step m) fid = Some ex' \<Longrightarrow> fx_state ex' = Pending \<or> fx_state ex' = Unsupported"
begin

lemma contract_kept:
  assumes "execution_at (step m) g = Some ex'"
  shows "\<exists>ex. execution_at m g = Some ex \<and> fx_contract_json ex' = fx_contract_json ex"
proof (cases "g = fid")
  case True
  then show ?thesis using assms keeps_contract unknown_feature [of m] by (cases "execution_at m fid") auto
qed (use assms other_executions in auto)

lemma settled_final:
  "execution_at m g = Some ex \<Longrightarrow> terminal (fx_state ex) \<Longrightarrow> execution_at (step m) g = Some ex"
  using frozen other_executions by (cases "g = fid") auto

end

interpretation final_timeout: final_operation "maybe_timeout fid" fid for fid
  by unfold_locales (auto simp: lifecycle_defs terminal_iff split: option.splits if_splits)

interpretation final_settling: final_operation "settle fid outcome" fid for fid outcome
  by unfold_locales
    (auto simp: settle_def lifecycle_defs terminal_iff Let_def split: worker_outcome.splits option.splits if_splits)

lemma complete_step_frozen:
  assumes "execution_at m fid = Some ex" "fx_state ex \<noteq> Active"
  shows "complete_step fid body m = m"
  using complete_step_cases [of fid body m] complete_locked_cases assms by fastforce

lemma unsupported_step_frozen:
  assumes "execution_at m fid = Some ex" "terminal (fx_state ex)"
  shows "unsupported_step fid body m = m"
  using unsupported_step_cases [of fid body m] unsupported_locked_cases assms
  by (fastforce simp: terminal_iff)

text \<open>What a report can write: the execution, with its contract kept, settled or not.\<close>

lemma report_writes:
  "complete_step fid body m = m \<or> (\<exists>ex ex'. execution_at m fid = Some ex \<and> fx_contract_json ex' = fx_contract_json ex \<and>
     complete_step fid body m \<in> {write_settled fid ex' m, put_execution fid ex' m})"
  "unsupported_step fid body m = m \<or> (\<exists>ex ex'. execution_at m fid = Some ex \<and> fx_contract_json ex' = fx_contract_json ex \<and>
     unsupported_step fid body m \<in> {write_settled fid ex' m, put_execution fid ex' m})"
  using complete_step_cases [of fid body m] unsupported_step_cases [of fid body m] locked_keeps_contract
  by (metis insertI1 insertI2)+

lemma writes_keep:
  assumes "f m = m \<or> (\<exists>ex ex'. execution_at m fid = Some ex \<and> fx_contract_json ex' = fx_contract_json ex \<and>
     f m \<in> {write_settled fid ex' m, put_execution fid ex' m})"
  shows "session_id_of (f m) = session_id_of m"
    and "execution_at m fid = Some ex \<Longrightarrow> execution_at (f m) fid = Some ex' \<Longrightarrow> fx_contract_json ex' = fx_contract_json ex"
proof -
  consider "f m = m"
    | e e' where "execution_at m fid = Some e" "fx_contract_json e' = fx_contract_json e" "f m = write_settled fid e' m"
    | e e' where "execution_at m fid = Some e" "fx_contract_json e' = fx_contract_json e" "f m = put_execution fid e' m"
    using assms by blast
  note cases = this
  show "session_id_of (f m) = session_id_of m"
    by (rule cases) (simp_all add: write_settled_reads)
  assume a: "execution_at m fid = Some ex" "execution_at (f m) fid = Some ex'"
  from cases show "fx_contract_json ex' = fx_contract_json ex"
  proof cases
    case 1
    then show ?thesis using a by simp
  next
    case 2
    then show ?thesis using a by (auto simp: write_settled_reads)
  next
    case 3
    then show ?thesis using a by auto
  qed
qed

lemmas report_keeps = writes_keep [OF report_writes(1)] writes_keep [OF report_writes(2)]

interpretation final_reporting: final_operation "complete_step fid body" fid for fid body
proof unfold_locales
  fix m ex ex'
  show "execution_at m fid = Some ex \<Longrightarrow> terminal (fx_state ex) \<Longrightarrow> execution_at (complete_step fid body m) fid = Some ex"
    by (simp add: complete_step_frozen terminal_iff)
  show "execution_at m fid = Some ex \<Longrightarrow> execution_at (complete_step fid body m) fid = Some ex' \<Longrightarrow>
      fx_contract_json ex' = fx_contract_json ex"
    by (rule report_keeps(2))
  show "session_id_of (complete_step fid body m) = session_id_of m" by (rule report_keeps(1))
  show "execution_at m fid = Some ex \<Longrightarrow> terminal (fx_state ex) \<Longrightarrow>
      active_feature (complete_step fid body m) = active_feature m"
    by (simp add: complete_step_frozen terminal_iff)
  show "execution_at m fid = Some ex \<Longrightarrow> fx_state ex = Pending \<Longrightarrow> execution_at (complete_step fid body m) fid = Some ex' \<Longrightarrow>
      fx_state ex' = Pending \<or> fx_state ex' = Unsupported"
    by (simp add: complete_step_frozen)
qed

interpretation final_declining: final_operation "unsupported_step fid body" fid for fid body
proof unfold_locales
  fix m ex ex'
  show "execution_at m fid = Some ex \<Longrightarrow> terminal (fx_state ex) \<Longrightarrow> execution_at (unsupported_step fid body m) fid = Some ex"
    by (simp add: unsupported_step_frozen)
  show "execution_at m fid = Some ex \<Longrightarrow> execution_at (unsupported_step fid body m) fid = Some ex' \<Longrightarrow>
      fx_contract_json ex' = fx_contract_json ex"
    by (rule report_keeps(4))
  show "session_id_of (unsupported_step fid body m) = session_id_of m" by (rule report_keeps(3))
  show "execution_at m fid = Some ex \<Longrightarrow> terminal (fx_state ex) \<Longrightarrow>
      active_feature (unsupported_step fid body m) = active_feature m"
    by (simp add: unsupported_step_frozen)
  show "execution_at m fid = Some ex \<Longrightarrow> fx_state ex = Pending \<Longrightarrow> execution_at (unsupported_step fid body m) fid = Some ex' \<Longrightarrow>
      fx_state ex' = Pending \<or> fx_state ex' = Unsupported"
    using unsupported_step_cases [of fid body m] by (auto simp: write_settled_reads dest!: unsupported_locked_cases)
qed

lemma start_step_final:
  assumes valid: "valid_sockets oss" and g: "execution_at m g = Some e" "fx_state e \<noteq> Pending"
  shows "execution_at (start_step oss options fid m) g = Some e"
proof (cases "execution_at m fid")
  case None
  with g show ?thesis by (simp add: start_step_def start_pending_def)
next
  case (Some ex)
  consider (refused) r where "start_pending oss options fid m = Some (r, None, m)"
    | (failed) r m' where "start_pending oss options fid m = Some (r, None, m')" "scenario_fails m m'"
    | (begun) r t c xs m1 where "fx_state ex = Pending" "scenario_opens xs m m1"
        "start_pending oss options fid m = Some (r, t, refresh_message fid (store_contract fid c
            (begin_feature fid xs (fd_id (fx_definition ex)) m1)))"
    using start_pending_cases [OF Some valid, of options] by blast
  then show ?thesis
  proof cases
    case begun
    have ex1: "execution_at m1 fid = Some ex" "execution_at m1 g = Some e"
      using begun(2) Some g by (simp_all add: scenario_opens_def same_features_def)
    have "g \<noteq> fid" using begun(1) Some g by auto
    then show ?thesis
      using ex1 begin_feature_reads(2) [OF ex1(1)]
      by (simp add: start_step_def begun(3) contract_storing.other_executions message_refreshing.other_executions)
  qed (use g in \<open>auto simp: start_step_def scenario_fails_def same_features_def\<close>)
qed

end
