(* ===== verification/Session_Run.thy ===== *)
theory Session_Run
  imports Session_Proofs
begin

text \<open>
  The runs of one session: a new session, and after it any sequence of requests and worker
  results, each run to its end before the next begins. The requests are the handlers of
  Session_Api, the worker results those of Workers. A handler that has no result (\<open>None\<close>, where
  the code would read through a null pointer) has no step.
\<close>

section \<open>Worker threads\<close>

text \<open>What the operating system answers a worker: results of receives and of sends.\<close>

record worker_input =
  wi_strerror :: "int \<Rightarrow> string"
  wi_peers :: "u32 \<Rightarrow> sock_addr list option"
  wi_events :: "recv_result list"
  wi_queues :: "recv_result list list"
  wi_sends :: "int option list"

text \<open>The thread bodies of the four \<open>std::thread\<close> lambdas of \<open>StartFeature\<close>.\<close>

fun run_task :: "string \<Rightarrow> worker_task \<Rightarrow> worker_input \<Rightarrow> machine \<Rightarrow> machine" where
  "run_task fid (ReceiveTask fd messages peer_count) input m =
     run_receive_worker (wi_strerror input) (wi_peers input) fid messages peer_count (wi_events input) m"
| "run_task fid (PrReceiveTask fd messages) input m =
     run_pr_receive_worker (wi_strerror input) fid messages (wi_events input) m"
| "run_task fid (MultiTargetTask fds messages) input m =
     run_receive_multi_target_worker (wi_strerror input) fid fds messages (wi_queues input) m"
| "run_task fid (SendAfterTriggerTask fd trigger messages) input m =
     snd (run_send_after_trigger_worker (wi_strerror input) fid trigger messages (wi_events input) (wi_sends input) m)"

lemma run_task_settles: "\<exists>outcome. run_task fid task input m = settle fid outcome m"
  by (cases task)
    (auto simp: run_receive_worker_def run_pr_receive_worker_def run_receive_multi_target_worker_def
      run_send_after_trigger_worker_def split: prod.split)

section \<open>Steps and runs\<close>

definition new_machine :: "feature_definition list \<Rightarrow> string \<Rightarrow> (string \<rightharpoonup> string) \<Rightarrow> (nat \<Rightarrow> time_point) \<Rightarrow> machine" where
  "new_machine catalog random_id params clock =
     \<lparr>m_session = new_session catalog random_id params (clock 0), m_opened = [], m_closed = [],
      m_clock = clock, m_reads = 1\<rparr>"

inductive session_step :: "server_options \<Rightarrow> feature_definition list \<Rightarrow> machine \<Rightarrow> machine \<Rightarrow> bool"
  for options catalog where
  start: "StartFeature oss options fid m = Some (r, t, m') \<Longrightarrow> valid_sockets oss \<Longrightarrow> session_step options catalog m m'"
| complete: "CompleteFeature fid body m = Some (r, m') \<Longrightarrow> session_step options catalog m m'"
| decline: "UnsupportedFeature fid body m = Some (r, m') \<Longrightarrow> session_step options catalog m m'"
| poll: "session_step options catalog m (maybe_timeout fid m)"
| summary: "SummaryJson catalog m = Some (text, m') \<Longrightarrow> session_step options catalog m m'"
| work: "session_step options catalog m (run_task fid task input m)"

inductive session_run :: "server_options \<Rightarrow> feature_definition list \<Rightarrow> machine \<Rightarrow> machine \<Rightarrow> bool"
  for options catalog where
  stop: "session_run options catalog m m"
| step: "session_run options catalog m m1 \<Longrightarrow> session_step options catalog m1 m2 \<Longrightarrow> session_run options catalog m m2"

definition session_reachable :: "server_options \<Rightarrow> feature_definition list \<Rightarrow> machine \<Rightarrow> bool" where
  "session_reachable options catalog m \<longleftrightarrow>
     (\<exists>random_id params clock. session_run options catalog (new_machine catalog random_id params clock) m)"

section \<open>The invariant at the start\<close>

text \<open>What the server's own catalogue satisfies: distinct, nonempty ids.\<close>

definition catalog_ids_ok :: "feature_definition list \<Rightarrow> bool" where
  "catalog_ids_ok catalog \<longleftrightarrow> distinct (map fd_id catalog) \<and> '''' \<notin> fd_id ` set catalog"

lemma emplace_features_at:
  "emplace_features catalog features fid =
     (case features fid of Some ex \<Rightarrow> Some ex
      | None \<Rightarrow> map_option FeatureExecution (List.find (\<lambda>f. fd_id f = fid) catalog))"
  by (induction catalog features rule: emplace_features.induct) (auto split: option.splits)

lemma new_machine_reads:
  "execution_at (new_machine catalog i params clock) fid =
     map_option FeatureExecution (List.find (\<lambda>f. fd_id f = fid) catalog)"
  "active_feature (new_machine catalog i params clock) = ''''"
  by (simp_all add: new_machine_def new_session_def execution_at_def active_feature_def emplace_features_at)

lemma new_execution_ok: "fd_id f \<noteq> '''' \<Longrightarrow> execution_ok (fd_id f) (FeatureExecution f)"
  by (simp add: execution_ok_def FeatureExecution_def)

lemma new_machine_ok:
  assumes "'''' \<notin> fd_id ` set catalog"
  shows "session_ok (new_machine catalog i params clock) \<and> fds_accounted (new_machine catalog i params clock)"
    (is "session_ok ?m \<and> _")
proof
  have none: "execution_at ?m fid = Some ex \<Longrightarrow> execution_ok fid ex \<and> fx_state ex = Pending" for fid ex
    using assms new_execution_ok
    by (auto simp: new_machine_reads find_Some_iff FeatureExecution_def) (metis image_eqI nth_mem)
  show "session_ok ?m"
    by (rule session_okI) (use none in \<open>auto simp: new_machine_reads(2)\<close>)
  have "held_fds ?m = []"
    using none [of "active_feature ?m"]
    by (auto simp: held_fds_def owned_fds_def execution_ok_def split: option.splits)
  then show "fds_accounted ?m" by (simp add: fds_accounted_def new_machine_def)
qed

section \<open>Every step keeps the invariant\<close>

definition session_inv :: "machine \<Rightarrow> bool" where
  "session_inv m \<longleftrightarrow> session_ok m \<and> fds_accounted m"

lemma operation_keeps_inv: "final_operation f fid \<Longrightarrow> session_inv m \<Longrightarrow> session_inv (f m)"
  by (simp add: session_inv_def feature_operation.keeps_session [OF final_operation.axioms(1)]
      feature_operation.keeps_fds [OF final_operation.axioms(1)])

lemmas timeout_keeps_inv = operation_keeps_inv [OF final_timeout.final_operation_axioms]

lemma StartFeature_step: "StartFeature oss options fid m = Some (r, t, m') \<Longrightarrow> m' = start_step oss options fid (maybe_timeout fid m)"
  by (simp add: StartFeature_def start_step_def)

lemma CompleteFeature_step: "CompleteFeature fid body m = Some (r, m') \<Longrightarrow> m' = complete_step fid body (maybe_timeout fid m)"
  by (simp add: CompleteFeature_def complete_step_def)

lemma UnsupportedFeature_step:
  "UnsupportedFeature fid body m = Some (r, m') \<Longrightarrow> m' = unsupported_step fid body (maybe_timeout fid m)"
  by (simp add: UnsupportedFeature_def unsupported_step_def)

text \<open>The summary is a chain of timeouts.\<close>

lemma summary_loop_timeouts:
  assumes "summary_loop catalog c features m = Some (c', features', m')"
    and "P m" and "\<And>fid m. P m \<Longrightarrow> P (maybe_timeout fid m)"
  shows "P m'"
  using assms(1,2)
proof (induction catalog c features m rule: summary_loop.induct)
  case (2 feature catalog c features m)
  from 2(2) obtain ex0 ex where ex: "execution_at m (fd_id feature) = Some ex0"
      "execution_at (maybe_timeout (fd_id feature) m) (fd_id feature) = Some ex"
    and rec: "summary_loop catalog (count_state (fx_state ex) c) (features @ [FeatureJsonLocked ex False])
        (maybe_timeout (fd_id feature) m) = Some (c', features', m')"
    by (auto simp: Let_def split: option.splits)
  from 2(1) [OF ex(1) refl ex(2) rec assms(3) [OF 2(3)]] show ?case .
qed simp

lemma SummaryJson_timeouts:
  assumes "SummaryJson catalog m = Some (text, m')" and "P m" and "\<And>fid m. P m \<Longrightarrow> P (maybe_timeout fid m)"
  shows "P m'"
  using assms(1) summary_loop_timeouts [of catalog no_counts "[]" m _ _ _ P] assms(2,3)
  by (auto simp: SummaryJson_def)

text \<open>A property of machines that every one-feature operation and every start keeps.\<close>

lemma session_step_keeps:
  assumes step: "session_step options catalog m m'" and p: "P m"
    and ops: "\<And>f fid m. final_operation f fid \<Longrightarrow> P m \<Longrightarrow> P (f m)"
    and starts: "\<And>oss fid m. valid_sockets oss \<Longrightarrow> P m \<Longrightarrow> P (start_step oss options fid m)"
  shows "P m'"
  using step
proof cases
  case (start oss fid r t)
  then show ?thesis
    using StartFeature_step starts ops [OF final_timeout.final_operation_axioms p] by blast
next
  case (complete fid body r)
  then show ?thesis
    using CompleteFeature_step ops [OF final_reporting.final_operation_axioms]
      ops [OF final_timeout.final_operation_axioms p] by blast
next
  case (decline fid body r)
  then show ?thesis
    using UnsupportedFeature_step ops [OF final_declining.final_operation_axioms]
      ops [OF final_timeout.final_operation_axioms p] by blast
next
  case (poll fid)
  then show ?thesis using ops [OF final_timeout.final_operation_axioms p] by simp
next
  case (summary body)
  then show ?thesis by (rule SummaryJson_timeouts) (use p ops final_timeout.final_operation_axioms in \<open>blast+\<close>)
next
  case (work fid task input)
  then show ?thesis
    using run_task_settles [of fid task input m] ops [OF final_settling.final_operation_axioms p] by auto
qed

lemma session_run_keeps:
  assumes "session_run options catalog m m'" and "P m"
    and "\<And>f fid m. final_operation f fid \<Longrightarrow> P m \<Longrightarrow> P (f m)"
    and "\<And>oss fid m. valid_sockets oss \<Longrightarrow> P m \<Longrightarrow> P (start_step oss options fid m)"
  shows "P m'"
  using assms(1,2) by induction (blast intro: session_step_keeps assms(3,4))+

lemma start_keeps_inv: "valid_sockets oss \<Longrightarrow> session_inv m \<Longrightarrow> session_inv (start_step oss options fid m)"
  using start_step_keeps by (simp add: session_inv_def)

lemma session_step_inv: "session_step options catalog m m' \<Longrightarrow> session_inv m \<Longrightarrow> session_inv m'"
  by (erule session_step_keeps) (auto intro: operation_keeps_inv start_keeps_inv)

lemma reachable_inv:
  assumes "session_reachable options catalog m" and "catalog_ids_ok catalog"
  shows "session_inv m"
proof -
  obtain i params clock where "session_run options catalog (new_machine catalog i params clock) m"
    using assms(1) by (auto simp: session_reachable_def)
  then show ?thesis
    by (rule session_run_keeps)
      (use new_machine_ok assms(2) operation_keeps_inv start_keeps_inv in \<open>auto simp: session_inv_def catalog_ids_ok_def\<close>)
qed

section \<open>No step moves a feature backwards\<close>

text \<open>
  From \<open>m\<close> to \<open>m'\<close> the session keeps its features and their definitions, and every feature's
  state stays or goes on in the lifecycle order.
\<close>

definition advances :: "machine \<Rightarrow> machine \<Rightarrow> bool" where
  "advances m m' \<longleftrightarrow> (\<forall>g. case execution_at m g of
      None \<Rightarrow> execution_at m' g = None
    | Some ex \<Rightarrow> (\<exists>ex'. execution_at m' g = Some ex' \<and> fx_definition ex' = fx_definition ex \<and>
        fx_state ex \<le> fx_state ex'))"

lemma advances_refl: "advances m m"
  by (simp add: advances_def split: option.split)

lemma advances_trans:
  assumes "advances m m1" "advances m1 m2"
  shows "advances m m2"
  unfolding advances_def
proof
  fix g
  show "case execution_at m g of None \<Rightarrow> execution_at m2 g = None
    | Some ex \<Rightarrow> (\<exists>ex'. execution_at m2 g = Some ex' \<and> fx_definition ex' = fx_definition ex \<and> fx_state ex \<le> fx_state ex')"
    using spec [OF assms(1) [unfolded advances_def], of g] spec [OF assms(2) [unfolded advances_def], of g]
    by (auto split: option.splits intro: order_trans)
qed

lemma operation_advances:
  assumes "feature_operation f fid"
  shows "advances m (f m)"
  unfolding advances_def
proof
  fix g
  show "case execution_at m g of None \<Rightarrow> execution_at (f m) g = None
    | Some ex \<Rightarrow> (\<exists>ex'. execution_at (f m) g = Some ex' \<and> fx_definition ex' = fx_definition ex \<and> fx_state ex \<le> fx_state ex')"
    using feature_operation.other_executions [OF assms, of g m] feature_operation.forward [OF assms, of m]
      feature_operation.unknown_feature [OF assms, of m]
    by (cases "g = fid") (auto split: option.split)
qed

lemma begin_advances:
  assumes "execution_at m fid = Some ex" "fx_state ex = Pending"
  shows "advances m (begin_feature fid fds i m)"
  unfolding advances_def
proof
  fix g
  show "case execution_at m g of None \<Rightarrow> execution_at (begin_feature fid fds i m) g = None
    | Some ex \<Rightarrow> (\<exists>ex'. execution_at (begin_feature fid fds i m) g = Some ex' \<and>
        fx_definition ex' = fx_definition ex \<and> fx_state ex \<le> fx_state ex')"
    using begin_feature_reads(1,2) [OF assms(1), where fds = fds and feature_id = i] assms
    by (cases "g = fid") (auto simp: state_order split: option.split)
qed

lemma same_features_advances: "same_features m m' \<Longrightarrow> advances m m'"
  by (simp add: same_features_def advances_def split: option.split)

lemma start_advances:
  assumes valid: "valid_sockets oss"
  shows "advances m (start_step oss options fid m)"
proof (cases "execution_at m fid")
  case None
  then show ?thesis by (simp add: start_step_def start_pending_def advances_refl)
next
  case (Some ex)
  consider (refused) r where "start_pending oss options fid m = Some (r, None, m)"
    | (failed) r m' where "start_pending oss options fid m = Some (r, None, m')" "scenario_fails m m'"
    | (begun) r t c xs m1 where "fx_state ex = Pending" "scenario_opens xs m m1"
        "start_pending oss options fid m = Some (r, t, refresh_message fid (store_contract fid c
            (begin_feature fid xs (fd_id (fx_definition ex)) m1)))"
    using start_pending_cases [OF Some valid, of options] by blast
  then show ?thesis
  proof cases
    case refused
    then show ?thesis by (simp add: start_step_def advances_refl)
  next
    case failed
    then show ?thesis by (simp add: start_step_def scenario_fails_def same_features_advances)
  next
    case begun
    have "execution_at m1 fid = Some ex" using begun(2) Some by (simp add: scenario_opens_def same_features_def)
    then have "advances m1 (begin_feature fid xs (fd_id (fx_definition ex)) m1)" by (rule begin_advances [OF _ begun(1)])
    moreover have "advances m m1" using begun(2) by (simp add: scenario_opens_def same_features_advances)
    ultimately show ?thesis
      unfolding start_step_def begun(3) option.case prod.case
      using operation_advances [OF contract_storing.feature_operation_axioms]
        operation_advances [OF message_refreshing.feature_operation_axioms]
      by (meson advances_trans)
  qed
qed

lemma session_step_advances: "session_step options catalog m m' \<Longrightarrow> advances m m'"
  by (erule session_step_keeps [where P = "advances m"])
    (blast intro: advances_refl advances_trans operation_advances final_operation.axioms(1) start_advances)+

lemma session_run_advances: "session_run options catalog m m' \<Longrightarrow> advances m m'"
  by (induction rule: session_run.induct) (blast intro: advances_refl advances_trans session_step_advances)+

section \<open>Settled results are final\<close>

definition settled_as :: "string \<Rightarrow> feature_execution \<Rightarrow> machine \<Rightarrow> bool" where
  "settled_as fid ex m \<longleftrightarrow> execution_at m fid = Some ex \<and> terminal (fx_state ex)"

lemma session_run_settled: "session_run options catalog m m' \<Longrightarrow> settled_as fid ex m \<Longrightarrow> settled_as fid ex m'"
  by (erule session_run_keeps)
    (auto simp: settled_as_def terminal_iff
      intro: final_operation.settled_final start_step_final)

section \<open>Known features\<close>

lemma start_responds:
  assumes "execution_at (maybe_timeout fid m) fid = Some ex" and "valid_sockets oss"
  shows "\<exists>r t. StartFeature oss options fid m = Some (r, t, start_step oss options fid (maybe_timeout fid m))"
  using start_pending_cases [OF assms, of options] by (auto simp: StartFeature_def start_step_def)

lemma session_run_one: "session_step options catalog m m' \<Longrightarrow> session_run options catalog m m'"
  using session_run.step [OF session_run.stop] .

lemma timeout_known: "execution_at m fid = Some ex \<Longrightarrow>
    \<exists>ex'. execution_at (maybe_timeout fid m) fid = Some ex' \<and> fx_definition ex' = fx_definition ex"
  using timing_out.forward by blast

text \<open>Every feature of the catalogue has an execution, and the execution is of that feature.\<close>

lemma find_by_id:
  assumes "distinct (map fd_id catalog)" and "f \<in> set catalog"
  shows "List.find (\<lambda>g. fd_id g = fd_id f) catalog = Some f"
  using assms by (induction catalog) (auto simp: image_iff)

lemma reachable_known:
  assumes "session_reachable options catalog m" and "catalog_ids_ok catalog" and "f \<in> set catalog"
  shows "\<exists>ex. execution_at m (fd_id f) = Some ex \<and> fx_definition ex = f"
proof -
  obtain i params clock where run: "session_run options catalog (new_machine catalog i params clock) m"
    using assms(1) by (auto simp: session_reachable_def)
  have "execution_at (new_machine catalog i params clock) (fd_id f) = Some (FeatureExecution f)"
    using assms(2,3) by (simp add: new_machine_reads catalog_ids_ok_def find_by_id)
  then show ?thesis
    using spec [OF session_run_advances [OF run, unfolded advances_def], of "fd_id f"]
    by (auto simp: FeatureExecution_def)
qed

lemma reachable_unknown:
  assumes "session_reachable options catalog m" and "execution_at m fid = Some ex"
  shows "\<exists>f\<in>set catalog. fd_id f = fid \<and> fx_definition ex = f"
proof -
  obtain i params clock where run: "session_run options catalog (new_machine catalog i params clock) m"
    using assms(1) by (auto simp: session_reachable_def)
  have "execution_at (new_machine catalog i params clock) fid \<noteq> None"
    using spec [OF session_run_advances [OF run, unfolded advances_def], of fid] assms(2)
    by (auto split: option.splits)
  then obtain f where f: "List.find (\<lambda>g. fd_id g = fid) catalog = Some f"
    and new: "execution_at (new_machine catalog i params clock) fid = Some (FeatureExecution f)"
    by (auto simp: new_machine_reads)
  have "f \<in> set catalog" "fd_id f = fid" using f by (auto simp: find_Some_iff)
  moreover have "fx_definition ex = f"
    using spec [OF session_run_advances [OF run, unfolded advances_def], of fid] assms(2) new
    by (simp add: FeatureExecution_def)
  ultimately show ?thesis by blast
qed

lemma session_run_trans:
  "session_run options catalog m1 m2 \<Longrightarrow> session_run options catalog m m1 \<Longrightarrow> session_run options catalog m m2"
  by (induction rule: session_run.induct) (auto intro: session_run.step)

lemma reachable_step:
  "session_reachable options catalog m \<Longrightarrow> session_run options catalog m m' \<Longrightarrow> session_reachable options catalog m'"
proof -
  assume "session_reachable options catalog m"
  then obtain i params clock where run: "session_run options catalog (new_machine catalog i params clock) m"
    by (auto simp: session_reachable_def)
  assume "session_run options catalog m m'"
  then have "session_run options catalog (new_machine catalog i params clock) m'"
    using run by induction (auto intro: session_run.step)
  then show "session_reachable options catalog m'" by (auto simp: session_reachable_def)
qed

end
