(* ===== verification/Json_Roundtrip.thy ===== *)
theory Json_Roundtrip
  imports Json_Parse Json_Render
begin

text \<open>
  What the server writes, the server reads back: the escaper of the renderers against the
  string reader, then a compact rendering of whole values built from \<open>json_quote\<close> and \<open>join\<close>
  as the renderers build theirs; and what \<open>append_utf8_codepoint\<close> writes, against the
  arithmetic of RFC 3629.
\<close>

section \<open>Escapes are read back\<close>

lemma less_32_cases:
  "(n::nat) < 32 \<Longrightarrow> n \<in> {0,1,2,3,4,5,6,7,8,9,10,11,12,13,14,15,16,17,18,19,20,21,22,23,24,25,26,27,28,29,30,31}"
  by simp arith

lemma hex_digit_value_digit_char: "d < 16 \<Longrightarrow> hex_digit_value (digit_char d) = Some (word_of_nat d)"
proof -
  assume "d < 16"
  then have "d \<in> {0,1,2,3,4,5,6,7,8,9,10,11,12,13,14,15}" by simp arith
  then show ?thesis by (auto simp: hex_digit_value_def digit_char_def less_eq_char_def)
qed

lemma json_hex_loop_control:
  assumes "n < 32"
  shows "json_hex_loop 4 0 (setw 4 (CHR ''0'') (hex_of_nat n) @ r) = Some (word_of_nat n, r)"
proof -
  have z: "hex_digit_value (CHR ''0'') = Some 0"
    using hex_digit_value_digit_char [of 0] by (simp add: digit_char_def)
  have d: "hex_digit_value (digit_char (n div 16)) = Some (word_of_nat (n div 16))"
    "hex_digit_value (digit_char (n mod 16)) = Some (word_of_nat (n mod 16))"
    using assms by (simp_all add: hex_digit_value_digit_char)
  have "push_bit 4 (word_of_nat (n div 16) :: u32) OR word_of_nat (n mod 16) = word_of_nat n"
    using less_32_cases [OF assms] by auto
  moreover have "json_hex_loop 4 0 s = json_hex_loop (Suc (Suc (Suc (Suc 0)))) 0 s" for s
    by (simp add: numeral_eq_Suc)
  ultimately show ?thesis
    using assms by (simp add: hex_of_nat_small z d)
qed

lemma append_utf8_ascii: "n < 0x80 \<Longrightarrow> append_utf8_codepoint (word_of_nat n) = Some [char_of n]"
proof -
  assume n: "n < 0x80"
  then have "unat (word_of_nat n :: u32) = n"
    by (simp add: unat_of_nat)
  moreover from this n have "(word_of_nat n :: u32) \<le> 0x7F"
    by (simp add: word_le_nat_alt)
  ultimately show ?thesis by (simp add: append_utf8_codepoint_def char_cast_def)
qed

lemma json_string_escape_escape_char:
  assumes "json_escape_char c = bslash # e"
  shows "json_string_escape (e @ r) = Inr ([c], r)"
proof (cases "byte_of c < 0x20 \<and> c \<noteq> newline \<and> c \<noteq> creturn \<and> c \<noteq> htab")
  case True
  then have c: "c \<noteq> bslash" "c \<noteq> dquote" by auto
  have e: "e = CHR ''u'' # setw 4 (CHR ''0'') (hex_of_nat (byte_of c))"
    using assms True c by (simp add: json_escape_char_def)
  have "length (setw 4 (CHR ''0'') (hex_of_nat (byte_of c)) @ r) \<ge> 4"
    using True by (simp add: hex_of_nat_small)
  with True show ?thesis
    by (simp add: e json_hex_loop_control append_utf8_ascii)
next
  case False
  with assms show ?thesis by (auto simp: json_escape_char_def split: if_splits)
qed

lemma json_string_loop_unit:
  "json_string_loop (json_escape_char c @ r) b = json_string_loop r (b @ [c])"
proof (cases "\<exists>e. json_escape_char c = bslash # e")
  case True
  then obtain e where e: "json_escape_char c = bslash # e" by blast
  then show ?thesis using json_string_escape_escape_char [OF e, of r] by simp
next
  case False
  then have "json_escape_char c = [c]" "c \<noteq> bslash" "c \<noteq> dquote"
    by (auto simp: json_escape_char_def split: if_splits)
  then show ?thesis by simp
qed

lemma json_string_loop_escape:
  "json_string_loop (json_escape s @ dquote # r) b = Inr (b @ s, r)"
  by (induction s arbitrary: b) (simp_all add: json_escape_def json_string_loop_unit)

lemma parse_json_quote [simp]:
  "parse_json_string_value (json_quote s @ r) = Inr (s, r)"
  by (simp add: json_quote_def json_string_loop_escape)

text \<open>The reader's own escape step is a decoder, so JSON escaping loses nothing.\<close>

fun json_unescape_one :: "string \<Rightarrow> (char \<times> string) option" where
  "json_unescape_one [] = None"
| "json_unescape_one (c # r) =
     (if c \<noteq> bslash then Some (c, r)
      else case json_string_escape r of Inl e \<Rightarrow> None
        | Inr (bytes, r') \<Rightarrow> (case bytes of [b] \<Rightarrow> Some (b, r') | _ \<Rightarrow> None))"

interpretation json: decodable_escape json_escape_char control_byte json_unescape_one
proof
  show "\<And>x r. json_unescape_one (json_escape_char x @ r) = Some (x, r)"
  proof -
    fix x r
    show "json_unescape_one (json_escape_char x @ r) = Some (x, r)"
    proof (cases "\<exists>e. json_escape_char x = bslash # e")
      case True
      then obtain e where e: "json_escape_char x = bslash # e" by blast
      then show ?thesis using json_string_escape_escape_char [OF e, of r] by simp
    next
      case False
      then have "json_escape_char x = [x]" "x \<noteq> bslash"
        by (auto simp: json_escape_char_def split: if_splits)
      then show ?thesis by simp
    qed
  qed
qed

section \<open>Whole values\<close>

text \<open>The compact rendering, in the manner of \<open>json_array_strings\<close> and \<open>json_error\<close>.\<close>

fun json_text :: "json_value \<Rightarrow> string" where
  "json_text (JsonString s) = json_quote s"
| "json_text (JsonArray vs) = ''['' @ join (map json_text vs) '','' @ '']''"
| "json_text (JsonObject ms) =
     ''{'' @ join (map (\<lambda>(k, v). json_quote k @ '':'' @ json_text v) ms) '','' @ ''}''"

text \<open>Keys are distinct at every level, as they are in a \<open>std::map\<close>.\<close>

fun distinct_keys :: "json_value \<Rightarrow> bool" where
  "distinct_keys (JsonString s) = True"
| "distinct_keys (JsonArray vs) = list_all distinct_keys vs"
| "distinct_keys (JsonObject ms) = (distinct (map fst ms) \<and> list_all (\<lambda>(k, v). distinct_keys v) ms)"

lemma skip_ws_nonspace: "\<not> isspace c \<Longrightarrow> skip_json_ws (c # r) = c # r"
  by (simp add: skip_json_ws_def)

lemma skip_ws_marks [simp]:
  "skip_json_ws (dquote # r) = dquote # r" "skip_json_ws (CHR ''{'' # r) = CHR ''{'' # r"
  "skip_json_ws (CHR ''['' # r) = CHR ''['' # r" "skip_json_ws (CHR '':'' # r) = CHR '':'' # r"
  "skip_json_ws (CHR '','' # r) = CHR '','' # r" "skip_json_ws (CHR ''}'' # r) = CHR ''}'' # r"
  "skip_json_ws (CHR '']'' # r) = CHR '']'' # r"
  by (simp_all add: skip_json_ws_def isspace_def)

lemma json_quote_Cons: "\<exists>t. json_quote s = dquote # t"
  by (simp add: json_quote_def)

lemma skip_ws_quote [simp]: "skip_json_ws (json_quote s @ r) = json_quote s @ r"
  by (simp add: json_quote_def)

lemma json_text_head: "\<exists>c t. json_text v = c # t \<and> c \<noteq> CHR ''}'' \<and> c \<noteq> CHR '']'' \<and> \<not> isspace c"
  by (cases v) (auto simp: json_quote_def isspace_def)

lemma alist_update_new: "k \<notin> set (map fst ms) \<Longrightarrow> AList.update k v ms = ms @ [(k, v)]"
  by (induction ms) auto

lemma join_Cons: "vs \<noteq> [] \<Longrightarrow> join (v # vs) d = v @ d @ join vs d"
  by (cases vs) auto

lemma json_array_loop_text:
  assumes "vs \<noteq> []" and "\<And>v r. v \<in> set vs \<Longrightarrow> parse_json_value (json_text v @ r) = Inr (v, r)"
  shows "json_array_loop (join (map json_text vs) '','' @ '']'' @ r) acc = Inr (JsonArray (acc @ vs), r)"
  using assms
proof (induction vs arbitrary: acc)
  case (Cons v vs)
  have ne: "json_text v \<noteq> []" using json_text_head [of v] by auto
  have v: "parse_json_value (json_text v @ t) = Inr (v, t)" for t using Cons.prems(2) by simp
  show ?case
  proof (cases "vs = []")
    case True
    then show ?thesis using ne v by (subst json_array_loop.simps) simp
  next
    case False
    then have "json_array_loop (join (map json_text vs) '','' @ '']'' @ r) (acc @ [v])
        = Inr (JsonArray ((acc @ [v]) @ vs), r)"
      using Cons by simp
    then show ?thesis using ne v False by (subst json_array_loop.simps) (simp add: join_Cons)
  qed
qed simp

lemma json_object_loop_text:
  assumes "ms \<noteq> []" and "distinct (map fst (acc @ ms))"
    and "\<And>k v r. (k, v) \<in> set ms \<Longrightarrow> parse_json_value (json_text v @ r) = Inr (v, r)"
  shows "json_object_loop (join (map (\<lambda>(k, v). json_quote k @ '':'' @ json_text v) ms) '','' @ ''}'' @ r) acc
    = Inr (JsonObject (acc @ ms), r)"
  using assms
proof (induction ms arbitrary: acc)
  case (Cons m ms)
  obtain k v where m: "m = (k, v)" by (cases m)
  have v: "parse_json_value (json_text v @ t) = Inr (v, t)" for t
    using Cons.prems(3) [of k v t] m by simp
  have new: "AList.update k v acc = acc @ [(k, v)]"
    using Cons.prems(2) m by (intro alist_update_new) auto
  have ne: "json_quote k @ t \<noteq> []" for t by (simp add: json_quote_def)
  show ?case
  proof (cases "ms = []")
    case True
    then show ?thesis using ne v new m by (subst json_object_loop.simps) simp
  next
    case False
    then have "json_object_loop (join (map (\<lambda>(k, v). json_quote k @ '':'' @ json_text v) ms) '','' @ ''}'' @ r) (acc @ [(k, v)])
        = Inr (JsonObject ((acc @ [(k, v)]) @ ms), r)"
    proof (rule Cons.IH)
      show "distinct (map fst ((acc @ [(k, v)]) @ ms))" using Cons.prems(2) m by auto
      show "parse_json_value (json_text v' @ r') = Inr (v', r')" if "(k', v') \<in> set ms" for k' v' r'
        using Cons.prems(3) [of k' v' r'] that by simp
    qed
    then show ?thesis using ne v new m False
      by (subst json_object_loop.simps) (simp add: join_Cons)
  qed
qed simp

lemma skip_ws_join_head:
  assumes "xs \<noteq> []" and "\<And>x. x \<in> set xs \<Longrightarrow> \<exists>c t. x = c # t \<and> c \<noteq> CHR ''}'' \<and> c \<noteq> CHR '']'' \<and> \<not> isspace c"
  shows "\<exists>c t. join xs d @ r = c # t \<and> skip_json_ws (c # t) = c # t \<and> c \<noteq> CHR ''}'' \<and> c \<noteq> CHR '']''"
proof -
  obtain x ys where xs: "xs = x # ys" using assms(1) by (cases xs) auto
  then obtain c t where x: "x = c # t" "c \<noteq> CHR ''}''" "c \<noteq> CHR '']''" "\<not> isspace c"
    using assms(2) [of x] by auto
  then have "\<exists>t'. join xs d @ r = c # t'" unfolding xs by (cases ys) auto
  with x show ?thesis by (auto simp: skip_ws_nonspace)
qed

lemma parse_json_text: "distinct_keys v \<Longrightarrow> parse_json_value (json_text v @ r) = Inr (v, r)"
proof (induction v arbitrary: r rule: json_text.induct)
  case (1 s)
  obtain t where "json_quote s = dquote # t" using json_quote_Cons by blast
  then show ?case using parse_json_quote [of s r]
    by (subst parse_json_value.simps) (simp del: parse_json_quote)
next
  case (2 vs)
  have vs: "parse_json_value (json_text v @ r) = Inr (v, r)" if "v \<in> set vs" for v r
    using 2 that by (simp add: list_all_iff)
  show ?case
  proof (cases "vs = []")
    case True
    then show ?thesis
      by (simp add: parse_json_value.simps [of "CHR ''['' # _"] parse_json_array_value.simps)
  next
    case False
    obtain c t where ct: "join (map json_text vs) '','' @ '']'' @ r = c # t"
      "skip_json_ws (c # t) = c # t" "c \<noteq> CHR '']''"
      using skip_ws_join_head [of "map json_text vs" "'',''" "'']'' @ r"] False json_text_head by fastforce
    have "json_array_loop (c # t) [] = Inr (JsonArray vs, r)"
      using json_array_loop_text [OF False vs, of r "[]"] ct(1) by simp
    with ct show ?thesis
      by (simp add: parse_json_value.simps [of "CHR ''['' # _"] parse_json_array_value.simps)
  qed
next
  case (3 ms)
  have vs: "parse_json_value (json_text v @ r) = Inr (v, r)" if "(k, v) \<in> set ms" for k v r
    using 3 that by (fastforce simp: list_all_iff)
  let ?mem = "\<lambda>(k, v). json_quote k @ '':'' @ json_text v"
  show ?case
  proof (cases "ms = []")
    case True
    then show ?thesis
      by (simp add: parse_json_value.simps [of "CHR ''{'' # _"] parse_json_object_value.simps)
  next
    case False
    have heads: "\<exists>c t. x = c # t \<and> c \<noteq> CHR ''}'' \<and> c \<noteq> CHR '']'' \<and> \<not> isspace c"
      if "x \<in> set (map ?mem ms)" for x
      using that by (auto simp: json_quote_def isspace_def)
    obtain c t where ct: "join (map ?mem ms) '','' @ ''}'' @ r = c # t"
      "skip_json_ws (c # t) = c # t" "c \<noteq> CHR ''}''"
      using skip_ws_join_head [OF _ heads, where d = "'',''" and r = "''}'' @ r"] False by blast
    have "json_object_loop (c # t) [] = Inr (JsonObject ms, r)"
      using json_object_loop_text [OF False _ vs, of "[]" _ r] ct(1) 3(2) by simp
    with ct show ?thesis
      by (simp add: parse_json_value.simps [of "CHR ''{'' # _"] parse_json_object_value.simps)
  qed
qed

lemma parse_root_text:
  assumes "distinct_keys (JsonObject ms)"
  shows "parse_json_root_object (json_text (JsonObject ms)) = Inr ms"
proof -
  have "json_text (JsonObject ms) = CHR ''{'' # join (map (\<lambda>(k, v). json_quote k @ '':'' @ json_text v) ms) '','' @ ''}''"
    by simp
  then obtain t where t: "json_text (JsonObject ms) = CHR ''{'' # t" by blast
  have "parse_json_value (CHR ''{'' # t) = Inr (JsonObject ms, [])"
    using parse_json_text [OF assms, of "[]"] t by simp
  then have "parse_json_object_value (CHR ''{'' # t) = Inr (JsonObject ms, [])"
    by (simp add: parse_json_value.simps [of "CHR ''{'' # _"])
  then show ?thesis by (simp add: parse_json_root_object_def t skip_json_ws_def del: json_text.simps)
qed

end
