(* ===== verification/Session_Examples.thy ===== *)
theory Session_Examples
  imports Session_Run Json_Roundtrip
begin

text \<open>
  A small session on which the theorems about runs are instantiated: two features, an operating
  system whose calls succeed, and a clock that advances by one second per reading.
\<close>

definition sample_agent :: feature_definition where
  "sample_agent = default_feature\<lparr>fd_id := ''sample-agent'', fd_completion_mode := AgentReported\<rparr>"

definition sample_hybrid :: feature_definition where
  "sample_hybrid = default_feature\<lparr>fd_id := ''sample-hybrid'', fd_completion_mode := Hybrid,
     fd_scenario_kind := ReceiveMessages\<rparr>"

definition sample_catalog :: "feature_definition list" where
  "sample_catalog = [sample_agent, sample_hybrid]"

definition sample_os :: listen_os where
  "sample_os = \<lparr>os_strerror = (\<lambda>e. ''error''), os_socket = Inr 7, os_set_initmsg = None, os_set_events = None,
     os_set_recvrcvinfo = None, os_set_rcvtimeo = None, os_inet_pton = (\<lambda>a. True), os_bind = None,
     os_getsockname_first = Inr 40000, os_bindx = None, os_listen = None, os_getsockname = Inr 40000\<rparr>"

definition sample_clock :: "nat \<Rightarrow> time_point" where
  "sample_clock n = 1000000 * int (Suc n)"

definition sample_new :: machine where
  "sample_new = new_machine sample_catalog ''session'' Map.empty sample_clock"

definition sample_started :: machine where
  "sample_started = start_step (\<lambda>i. sample_os) default_options ''sample-hybrid'' (maybe_timeout ''sample-hybrid'' sample_new)"

definition sample_observed :: machine where
  "sample_observed = mark_network_complete ''sample-hybrid'' sample_started"

definition sample_passed :: machine where
  "sample_passed = complete_step ''sample-hybrid'' ''{}'' (maybe_timeout ''sample-hybrid'' sample_observed)"

lemmas sample_defs = sample_agent_def sample_hybrid_def sample_catalog_def sample_os_def sample_clock_def

lemma sample_ids_ok: "catalog_ids_ok sample_catalog"
  by (simp add: catalog_ids_ok_def sample_defs)

lemma sample_valid: "valid_sockets (\<lambda>i. sample_os)"
  by (simp add: valid_sockets_def sample_os_def)

lemma sample_new_at:
  "execution_at sample_new ''sample-agent'' = Some (FeatureExecution sample_agent)"
  "execution_at sample_new ''sample-hybrid'' = Some (FeatureExecution sample_hybrid)"
  "active_feature sample_new = ''''" "m_opened sample_new = []" "m_closed sample_new = []" "m_reads sample_new = 1"
  by (simp_all add: sample_new_def new_machine_reads sample_defs default_feature_def)
    (simp_all add: new_machine_def)

lemma sample_polled: "maybe_timeout ''sample-hybrid'' sample_new = sample_new"
  by (simp add: maybe_timeout_def maybe_timeout_locked_def sample_new_at FeatureExecution_def)

lemma sample_create:
  "\<exists>ls. create_listening_socket sample_os default_options 1 m = (Inr ls, open_fd 7 m) \<and> ls_fd ls = 7"
  by (simp add: create_listening_socket_def default_options_def sample_os_def configure_socket_def
      apply_server_initmsg_def apply_server_subscriptions_def set_socket_timeout_def Let_def)

lemma sample_started_eq:
  "\<exists>c. sample_started = refresh_message ''sample-hybrid'' (store_contract ''sample-hybrid'' c
     (begin_feature ''sample-hybrid'' (Some [7]) ''sample-hybrid'' (open_fd 7 sample_new)))"
proof -
  obtain ls where ls: "create_listening_socket sample_os default_options 1 sample_new = (Inr ls, open_fd 7 sample_new)"
    "ls_fd ls = 7" using sample_create by blast
  have d: "fd_id sample_hybrid = ''sample-hybrid''" "fd_scenario_kind sample_hybrid = ReceiveMessages"
    "fd_bind_address_count sample_hybrid = 1"
    by (simp_all add: sample_hybrid_def default_feature_def)
  obtain co t where s: "start_scenario (\<lambda>i. sample_os) default_options ''sample-hybrid'' sample_hybrid sample_new =
      (Inr (co, t), begin_feature ''sample-hybrid'' (Some [7]) ''sample-hybrid'' (open_fd 7 sample_new))"
    using ls d by (simp add: start_scenario_def)
  show ?thesis
    unfolding sample_started_def sample_polled start_step_def
    using s by (auto simp: start_pending_def sample_new_at FeatureExecution_def FeatureJson_def Let_def
        begin_feature_def activate_execution_def set_active_fds_def Clock_now_def store_contract_def refresh_message_def
        split: option.splits)
qed

lemma sample_started_at:
  "\<exists>ex. execution_at sample_started ''sample-hybrid'' = Some ex \<and> fx_state ex = Active \<and>
     fx_definition ex = sample_hybrid \<and> fx_active_fds ex = [7] \<and> fx_deadline_at ex = 22000000 \<and>
     \<not> fx_network_complete ex \<and> \<not> fx_agent_complete ex"
  "execution_at sample_started ''sample-agent'' = Some (FeatureExecution sample_agent)"
  "active_feature sample_started = ''sample-hybrid''"
  "m_opened sample_started = [7]" "m_closed sample_started = []" "m_reads sample_started = 2"
  "m_clock sample_started = sample_clock"
proof -
  obtain c where c: "sample_started = refresh_message ''sample-hybrid'' (store_contract ''sample-hybrid'' c
     (begin_feature ''sample-hybrid'' (Some [7]) ''sample-hybrid'' (open_fd 7 sample_new)))"
    using sample_started_eq by blast
  let ?m = "open_fd 7 sample_new"
  have reads: "m_reads ?m = 1" "m_clock ?m = sample_clock" "m_opened ?m = [7]" "m_closed ?m = []"
    by (simp_all add: open_fd_def sample_new_at) (simp add: sample_new_def new_machine_def)
  have mode: "fd_completion_mode sample_hybrid = Hybrid" "fd_timeout_seconds sample_hybrid = 20"
    by (simp_all add: sample_hybrid_def default_feature_def)
  have start: "sample_clock (Suc 0) = 2000000" by (simp add: sample_clock_def)
  note logs = put_execution_def set_active_feature_def
  note eval = begin_feature_def activate_execution_def set_active_fds_def Clock_now_def store_contract_def
    refresh_message_def sample_new_at Let_def reads mode start
  show "\<exists>ex. execution_at sample_started ''sample-hybrid'' = Some ex \<and> fx_state ex = Active \<and>
     fx_definition ex = sample_hybrid \<and> fx_active_fds ex = [7] \<and> fx_deadline_at ex = 22000000 \<and>
     \<not> fx_network_complete ex \<and> \<not> fx_agent_complete ex"
    "execution_at sample_started ''sample-agent'' = Some (FeatureExecution sample_agent)"
    "active_feature sample_started = ''sample-hybrid''"
    unfolding c by (simp_all add: eval) (simp_all add: FeatureExecution_def mode)
  show "m_opened sample_started = [7]" "m_closed sample_started = []" "m_reads sample_started = 2"
    "m_clock sample_started = sample_clock"
    unfolding c by (simp_all add: eval) (simp_all add: logs reads)
qed

text \<open>The sample machines are reachable.\<close>

lemma sample_run_started: "session_run default_options sample_catalog sample_new sample_started"
proof -
  have "execution_at (maybe_timeout ''sample-hybrid'' sample_new) ''sample-hybrid'' = Some (FeatureExecution sample_hybrid)"
    by (simp add: sample_polled sample_new_at)
  from start_responds [OF this sample_valid] show ?thesis
    unfolding sample_started_def by (blast intro: session_run_one session_step.start sample_valid)
qed

lemma sample_reachable_new: "session_reachable default_options sample_catalog sample_new"
  unfolding session_reachable_def sample_new_def by (blast intro: session_run.stop)

lemma sample_reachable_started: "session_reachable default_options sample_catalog sample_started"
  by (rule reachable_step [OF sample_reachable_new sample_run_started])

lemma sample_run_observed: "session_run default_options sample_catalog sample_started sample_observed"
proof -
  have "session_step default_options sample_catalog sample_started
      (run_task ''sample-hybrid'' (ReceiveTask 7 [] 0) \<lparr>wi_strerror = (\<lambda>e. ''''), wi_peers = (\<lambda>a. None),
         wi_events = [], wi_queues = [], wi_sends = []\<rparr> sample_started)"
    by (rule session_step.work)
  then show ?thesis
    by (intro session_run_one) (simp add: run_receive_worker_def settle_def sample_observed_def)
qed

lemma sample_reachable_observed: "session_reachable default_options sample_catalog sample_observed"
  by (rule reachable_step [OF sample_reachable_started sample_run_observed])

lemma sample_observed_at:
  "\<exists>ex. execution_at sample_observed ''sample-hybrid'' = Some ex \<and> fx_state ex = Active \<and>
     fx_definition ex = sample_hybrid \<and> fx_active_fds ex = [] \<and> fx_deadline_at ex = 22000000 \<and>
     fx_network_complete ex \<and> \<not> fx_agent_complete ex"
  "m_closed sample_observed = [7]" "m_reads sample_observed = 2" "m_clock sample_observed = sample_clock"
proof -
  obtain ex where ex: "execution_at sample_started ''sample-hybrid'' = Some ex" "fx_state ex = Active"
     "fx_definition ex = sample_hybrid" "fx_active_fds ex = [7]" "fx_deadline_at ex = 22000000"
     "\<not> fx_network_complete ex" "\<not> fx_agent_complete ex"
    using sample_started_at(1) by blast
  have mode: "fd_completion_mode sample_hybrid = Hybrid" by (simp add: sample_hybrid_def)
  have eq: "sample_observed = close_active_fds ''sample-hybrid'' (put_execution ''sample-hybrid''
      (ex\<lparr>fx_network_complete := True,
          fx_message := ''server observed SCTP behavior; waiting for client completion report''\<rparr>) sample_started)"
    by (simp add: sample_observed_def mark_network_complete_def mark_network_complete_locked_def ex mode Let_def)
  show "\<exists>ex. execution_at sample_observed ''sample-hybrid'' = Some ex \<and> fx_state ex = Active \<and>
     fx_definition ex = sample_hybrid \<and> fx_active_fds ex = [] \<and> fx_deadline_at ex = 22000000 \<and>
     fx_network_complete ex \<and> \<not> fx_agent_complete ex"
    "m_closed sample_observed = [7]"
    unfolding eq by (simp_all add: ex owned_fds_def sample_started_at)
  show "m_reads sample_observed = 2" "m_clock sample_observed = sample_clock"
    unfolding eq close_active_fds_def take_active_fds_def
    by (simp_all add: ex close_fd_def) (simp_all add: put_execution_def sample_started_at)
qed

lemma sample_parse_empty: "parse_json_root_object ''{}'' = Inr []"
  by (simp add: json_parse_simps parse_json_root_object_def skip_json_ws_def isspace_def)

lemma sample_passed_at:
  "\<exists>ex. execution_at sample_passed ''sample-hybrid'' = Some ex \<and> fx_state ex = Passed \<and> fx_definition ex = sample_hybrid"
  "session_run default_options sample_catalog sample_observed sample_passed"
proof -
  obtain ex where ex: "execution_at sample_observed ''sample-hybrid'' = Some ex" "fx_state ex = Active"
     "fx_definition ex = sample_hybrid" "fx_active_fds ex = []" "fx_deadline_at ex = 22000000"
     "fx_network_complete ex" "\<not> fx_agent_complete ex"
    using sample_observed_at(1) by blast
  note parse = sample_parse_empty
  have polled: "maybe_timeout ''sample-hybrid'' sample_observed = sample_observed\<lparr>m_reads := 3\<rparr>"
    by (simp add: maybe_timeout_def maybe_timeout_locked_def ex Clock_now_def sample_observed_at sample_clock_def)
  have otm: "fd_one_to_many sample_hybrid = None" "fd_completion_mode sample_hybrid = Hybrid"
    by (simp_all add: sample_hybrid_def default_feature_def)
  have body: "\<exists>r m'. complete_report ''sample-hybrid'' ''{}'' (sample_observed\<lparr>m_reads := 3\<rparr>) = Some (r, m') \<and>
      (\<exists>ex. execution_at m' ''sample-hybrid'' = Some ex \<and> fx_state ex = Passed \<and> fx_definition ex = sample_hybrid)"
    by (simp add: complete_report_def parse assoc_ids_of_def ex complete_locked_def otm Let_def FeatureJson_def Clock_now_def)
  then show "\<exists>ex. execution_at sample_passed ''sample-hybrid'' = Some ex \<and> fx_state ex = Passed \<and> fx_definition ex = sample_hybrid"
    by (auto simp: sample_passed_def polled complete_step_def)
  from body obtain r where "CompleteFeature ''sample-hybrid'' ''{}'' sample_observed = Some (r, sample_passed)"
    by (auto simp: CompleteFeature_def sample_passed_def polled complete_step_def)
  then show "session_run default_options sample_catalog sample_observed sample_passed"
    by (intro session_run_one session_step.complete)
qed

lemma sample_reachable_passed: "session_reachable default_options sample_catalog sample_passed"
  by (rule reachable_step [OF sample_reachable_observed sample_passed_at(2)])

end
