(* ===== verification/Session_Theorems.thy ===== *)
theory Session_Theorems
  imports Session_Examples
begin

text \<open>
  What holds of a session over all its runs, and what each request does to it: the properties
  of the lifecycle, with the concrete runs that instantiate them.
\<close>

section \<open>Over all runs\<close>

text \<open>
  C16. In every reachable state of a session at most one feature is active: a feature is active
  exactly when \<open>active_feature_id\<close> names it, and a nonempty \<open>active_feature_id\<close> names an active
  feature.
\<close>

theorem reachable_one_active:
  assumes "session_reachable options catalog m" and "catalog_ids_ok catalog"
  shows "(\<forall>f ex. execution_at m f = Some ex \<longrightarrow> (fx_state ex = Active \<longleftrightarrow> active_feature m = f)) \<and>
    (active_feature m \<noteq> '''' \<longrightarrow> (\<exists>ex. execution_at m (active_feature m) = Some ex \<and> fx_state ex = Active))"
proof -
  have ok: "session_ok m" using reachable_inv [OF assms] by (simp add: session_inv_def)
  have "fx_state ex = Active \<longleftrightarrow> active_feature m = f" if ex: "execution_at m f = Some ex" for f ex
  proof
    show "fx_state ex = Active \<Longrightarrow> active_feature m = f" by (rule session_okD(2) [OF ok ex])
    show "active_feature m = f \<Longrightarrow> fx_state ex = Active"
      using session_okD(3) [OF ok] session_ok_unnamed [OF ok] ex by force
  qed
  then show ?thesis using session_okD(3) [OF ok] by blast
qed

theorem reachable_one_active_witness:
  "(\<exists>ex. execution_at sample_started ''sample-hybrid'' = Some ex \<and> fx_state ex = Active) \<and>
   active_feature sample_started = ''sample-hybrid''"
  using reachable_one_active [OF sample_reachable_started sample_ids_ok] sample_started_at(1) by blast

text \<open>
  C17. No feature counts as passed that did not earn it: in every reachable state a passed feature
  was observed by the server, unless it is completed by the agent's report alone, and was
  reported by the agent, unless the server's observation alone completes it.
\<close>

theorem reachable_passed_earned:
  assumes "session_reachable options catalog m" and "catalog_ids_ok catalog"
    and "execution_at m fid = Some ex" and "fx_state ex = Passed"
  shows "(fd_completion_mode (fx_definition ex) \<noteq> AgentReported \<longrightarrow> fx_network_complete ex) \<and>
    (fd_completion_mode (fx_definition ex) \<noteq> ServerObserved \<longrightarrow> fx_agent_complete ex)"
  using session_okD(1) [OF _ assms(3)] reachable_inv [OF assms(1,2)] assms(4)
  by (simp add: session_inv_def execution_ok_def earned_iff)

theorem reachable_passed_earned_witness:
  "\<exists>ex. execution_at sample_passed ''sample-hybrid'' = Some ex \<and> fx_state ex = Passed \<and>
     fx_network_complete ex \<and> fx_agent_complete ex"
proof -
  obtain ex where ex: "execution_at sample_passed ''sample-hybrid'' = Some ex" "fx_state ex = Passed"
    "fx_definition ex = sample_hybrid" using sample_passed_at(1) by blast
  from reachable_passed_earned [OF sample_reachable_passed sample_ids_ok ex(1,2)] ex
  show ?thesis by (auto simp: sample_hybrid_def)
qed

text \<open>
  C18. Descriptors are neither leaked nor closed twice: in every reachable state each descriptor
  that \<open>socket\<close> ever returned has been closed exactly once, or is held by the active feature; so
  when no feature is active, all are closed.
\<close>

theorem reachable_fds_accounted:
  assumes "session_reachable options catalog m" and "catalog_ids_ok catalog"
  shows "mset (m_opened m) = mset (m_closed m) + mset (held_fds m) \<and>
    (active_feature m = '''' \<longrightarrow> mset (m_opened m) = mset (m_closed m))"
  using reachable_inv [OF assms] session_ok_unnamed [of m]
  by (auto simp: session_inv_def fds_accounted_def held_fds_def)

theorem reachable_fds_accounted_witness:
  "mset (m_opened sample_started) = {#7#} \<and> mset (m_closed sample_started) = {#} \<and>
   mset (held_fds sample_started) = {#7#}"
  using reachable_fds_accounted [OF sample_reachable_started sample_ids_ok] sample_started_at(4,5) by simp

text \<open>
  C19. Along every run a feature's state only goes forward (pending, active, settled), and the
  record of a settled feature, its evidence and time stamps included, never changes again.
\<close>

theorem run_forward_and_final:
  assumes "session_run options catalog m m'" and "execution_at m fid = Some ex"
  shows "\<exists>ex'. execution_at m' fid = Some ex' \<and> fx_definition ex' = fx_definition ex \<and>
    fx_state ex \<le> fx_state ex' \<and> (terminal (fx_state ex) \<longrightarrow> ex' = ex)"
proof -
  obtain ex' where ex': "execution_at m' fid = Some ex'" "fx_definition ex' = fx_definition ex" "fx_state ex \<le> fx_state ex'"
    using spec [OF session_run_advances [OF assms(1), unfolded advances_def], of fid] assms(2) by auto
  have "ex' = ex" if "terminal (fx_state ex)"
    using session_run_settled [OF assms(1), of fid ex] that assms(2) ex'(1) by (simp add: settled_as_def)
  with ex' show ?thesis by blast
qed

theorem run_forward_and_final_witness:
  "\<exists>ex. execution_at sample_observed ''sample-hybrid'' = Some ex \<and> Active \<le> fx_state ex"
proof -
  obtain ex where ex: "execution_at sample_started ''sample-hybrid'' = Some ex" "fx_state ex = Active"
    using sample_started_at(1) by blast
  from run_forward_and_final [OF sample_run_observed ex(1)] ex(2) show ?thesis by auto
qed

section \<open>Requests\<close>

text \<open>
  C20. The outcomes of \<open>start\<close>. Either the answer is 200: the session was free, the feature was
  pending and is now the active one, with the deadline its timeout sets, and no other feature
  changed. Or it is 409, no worker starts, no feature and no \<open>active_feature_id\<close> changed (so
  the feature can be started again), and every descriptor opened on the way was closed.
\<close>

theorem start_outcomes:
  assumes "execution_at (maybe_timeout fid m) fid = Some ex" and "valid_sockets oss"
  shows "\<exists>r t m'. StartFeature oss options fid m = Some (r, t, m') \<and>
    ((rs_status r = 200 \<and> active_feature (maybe_timeout fid m) = '''' \<and> fx_state ex = Pending \<and>
      active_feature m' = fd_id (fx_definition ex) \<and>
      (\<exists>ex'. execution_at m' fid = Some ex' \<and> fx_state ex' = Active \<and> fx_definition ex' = fx_definition ex \<and>
         fx_deadline_at ex' = fx_started_at ex' + fd_timeout_seconds (fx_definition ex) * 1000000) \<and>
      (\<forall>g. g \<noteq> fid \<longrightarrow> execution_at m' g = execution_at (maybe_timeout fid m) g)) \<or>
     (rs_status r = 409 \<and> t = None \<and> (active_feature (maybe_timeout fid m) \<noteq> '''' \<or> fx_state ex \<noteq> Pending \<or>
        (\<exists>e. fst (start_scenario oss options fid (fx_definition ex) (maybe_timeout fid m)) = Inl e)) \<and>
      active_feature m' = active_feature (maybe_timeout fid m) \<and>
      (\<forall>g. execution_at m' g = execution_at (maybe_timeout fid m) g) \<and>
      leaves_open [] (maybe_timeout fid m) m'))"
proof -
  let ?m = "maybe_timeout fid m"
  consider (refused) r where "start_pending oss options fid ?m = Some (r, None, ?m)" "rs_status r = 409"
      "active_feature ?m \<noteq> '''' \<or> fx_state ex \<noteq> Pending"
    | (failed) r m' e where "start_pending oss options fid ?m = Some (r, None, m')" "rs_status r = 409"
      "scenario_fails ?m m'" "fst (start_scenario oss options fid (fx_definition ex) ?m) = Inl e"
    | (begun) r t c xs m1 where "active_feature ?m = ''''" "fx_state ex = Pending" "scenario_opens xs ?m m1"
        "rs_status r = 200" "start_pending oss options fid ?m = Some (r, t, refresh_message fid (store_contract fid c
            (begin_feature fid xs (fd_id (fx_definition ex)) m1)))"
    using start_pending_cases [OF assms, of options] by blast
  then show ?thesis
  proof cases
    case refused
    then show ?thesis by (auto simp: StartFeature_def)
  next
    case failed
    then show ?thesis by (simp add: StartFeature_def scenario_fails_def same_features_def)
  next
    case begun
    have same: "\<And>g. execution_at m1 g = execution_at ?m g" using begun(3) by (simp add: scenario_opens_def same_features_def)
    then have ex1: "execution_at m1 fid = Some ex" using assms(1) by simp
    note reads = begin_feature_reads [OF ex1, where fds = xs and feature_id = "fd_id (fx_definition ex)"]
    obtain ex2 where ex2: "execution_at (begin_feature fid xs (fd_id (fx_definition ex)) m1) fid = Some ex2"
        "fx_state ex2 = Active" "fx_definition ex2 = fx_definition ex"
        "fx_deadline_at ex2 = fx_started_at ex2 + fd_timeout_seconds (fx_definition ex) * 1000000"
      using reads(1) by blast
    from contract_written(1) [OF ex2(1), of c] ex2
    have "\<exists>ex'. execution_at (refresh_message fid (store_contract fid c
            (begin_feature fid xs (fd_id (fx_definition ex)) m1))) fid = Some ex' \<and>
         fx_state ex' = Active \<and> fx_definition ex' = fx_definition ex \<and>
         fx_deadline_at ex' = fx_started_at ex' + fd_timeout_seconds (fx_definition ex) * 1000000" by auto
    moreover have "\<forall>g. g \<noteq> fid \<longrightarrow> execution_at (refresh_message fid (store_contract fid c
            (begin_feature fid xs (fd_id (fx_definition ex)) m1))) g = execution_at ?m g"
      by (simp add: message_refreshing.other_executions contract_storing.other_executions reads(2) same)
    ultimately show ?thesis
      using begun contract_written(2) [OF ex2(1), of c] reads(3) by (simp add: StartFeature_def)
  qed
qed

theorem start_outcomes_witness:
  "\<exists>r t m'. StartFeature (\<lambda>i. sample_os) default_options ''sample-agent'' sample_started = Some (r, t, m') \<and>
     rs_status r = 409"
proof -
  have other: "maybe_timeout ''sample-agent'' sample_started = sample_started"
    using sample_started_at(2) by (simp add: maybe_timeout_def maybe_timeout_locked_def FeatureExecution_def)
  have "execution_at (maybe_timeout ''sample-agent'' sample_started) ''sample-agent'' = Some (FeatureExecution sample_agent)"
    using sample_started_at(2) other by simp
  from start_outcomes [OF this sample_valid, of default_options] show ?thesis
    unfolding other using sample_started_at(3) by auto
qed

text \<open>
  While a feature is active, no other feature can be started, however long ago the active
  one's deadline passed: \<open>start\<close> times out only the feature it is asked for. Polling the overdue
  feature settles it as timed out, closes its descriptors in order and frees the session.
\<close>

theorem overdue_feature_blocks_until_polled:
  assumes "session_ok m" and "active_feature m = g" and "execution_at m g = Some eg" and "fx_state eg = Active"
    and "fx_deadline_at eg \<le> m_clock m (m_reads m)"
    and "execution_at m fid = Some ex" and "fid \<noteq> g"
  shows "(\<exists>r. StartFeature oss options fid m = Some (r, None, m) \<and> rs_status r = 409) \<and>
    active_feature (maybe_timeout g m) = '''' \<and> m_closed (maybe_timeout g m) = m_closed m @ owned_fds eg \<and>
    (\<exists>eg'. execution_at (maybe_timeout g m) g = Some eg' \<and> fx_state eg' = TimedOut \<and> fx_active_fds eg' = [])"
proof -
  have "g \<noteq> ''''" and id: "fd_id (fx_definition eg) = g"
    using session_okD(1) [OF assms(1,3)] by (simp_all add: execution_ok_def)
  moreover have "fx_state ex \<noteq> Active" using session_okD(2) [OF assms(1,6)] assms(2,7) by auto
  then have "maybe_timeout fid m = m"
    by (simp add: maybe_timeout_def maybe_timeout_locked_def assms(6))
  ultimately have "\<exists>r. StartFeature oss options fid m = Some (r, None, m) \<and> rs_status r = 409"
    by (simp add: StartFeature_def start_pending_def assms conflict_def HttpResponse_def)
  then show ?thesis
    using assms id by (simp add: maybe_timeout_def maybe_timeout_locked_def Clock_now_def definition_id_def owned_fds_def)
qed

theorem overdue_feature_blocks_until_polled_witness:
  "\<exists>m. active_feature m = ''sample-hybrid'' \<and> active_feature (maybe_timeout ''sample-hybrid'' m) = '''' \<and>
     (\<exists>r. StartFeature (\<lambda>i. sample_os) default_options ''sample-agent'' m = Some (r, None, m) \<and> rs_status r = 409)"
proof -
  let ?m = "sample_started\<lparr>m_reads := 100\<rparr>"
  obtain ex where ex: "execution_at ?m ''sample-hybrid'' = Some ex" "fx_state ex = Active" "fx_deadline_at ex = 22000000"
    using sample_started_at(1) by auto
  have ok: "session_ok ?m"
    using reachable_inv [OF sample_reachable_started sample_ids_ok] by (simp add: session_inv_def session_ok_def)
  have "fx_deadline_at ex \<le> m_clock ?m (m_reads ?m)" using ex(3) sample_started_at(7) by (simp add: sample_clock_def)
  moreover have "active_feature ?m = ''sample-hybrid''" "execution_at ?m ''sample-agent'' = Some (FeatureExecution sample_agent)"
    using sample_started_at(2,3) by simp_all
  ultimately show ?thesis
    using overdue_feature_blocks_until_polled [OF ok _ ex(1,2), of "''sample-agent''" _ "\<lambda>i. sample_os" default_options]
    by (intro exI [of _ ?m]) simp
qed

lemma complete_locked_observed:
  assumes "complete_locked members ids ex now = Some (Inr (finished, ex'))"
    and "fd_completion_mode (fx_definition ex) = Hybrid" and "\<not> fx_network_complete ex"
  shows "\<not> finished \<and> fx_message ex' = ''waiting for server-side SCTP observation'' \<and>
    complete_locked members ids (ex\<lparr>fx_network_complete := True, fx_message := msg, fx_active_fds := []\<rparr>) now' =
    Some (Inr (True, ex'\<lparr>fx_network_complete := True, fx_active_fds := [], fx_state := Passed,
      fx_message := ''scenario completed successfully'', fx_finished_at := now'\<rparr>))"
  using assms by (auto simp: complete_locked_def Let_def split: if_splits option.splits bool.splits)

lemma complete_report_accepted:
  assumes "complete_report fid body m = Some (r, m1)" and "rs_status r = 200" and "execution_at m fid = Some ex"
  shows "\<exists>members ids finished ex'. parse_json_root_object body = Inr members \<and> assoc_ids_of members = Inr ids \<and>
    complete_locked members ids ex (m_clock m (m_reads m)) = Some (Inr (finished, ex')) \<and>
    m1 = (if finished then write_settled fid ex' m else put_execution fid ex' m)"
proof -
  note status = bad_request_def conflict_def HttpResponse_def
  obtain members where p: "parse_json_root_object body = Inr members"
    using assms by (cases "parse_json_root_object body") (auto simp: complete_report_def status)
  obtain ids where i: "assoc_ids_of members = Inr ids"
    using assms p by (cases "assoc_ids_of members") (auto simp: complete_report_def status)
  obtain v where l: "complete_locked members ids ex (m_clock m (m_reads m)) = Some v"
    using assms p i by (cases "complete_locked members ids ex (m_clock m (m_reads m))") (auto simp: complete_report_def)
  have "rs_status e \<noteq> 200" if "v = Inl e" for e
    using l that by (auto simp: complete_locked_def status Let_def split: if_splits option.splits bool.splits)
  then obtain finished ex' where v: "v = Inr (finished, ex')"
    using assms p i l by (cases v) (auto simp: complete_report_def)
  have "m1 = (if finished then write_settled fid ex' m else put_execution fid ex' m)"
    using assms p i l v by (auto simp: complete_report_def write_settled_def FeatureJson_def Let_def)
  with p i l v show ?thesis by blast
qed

text \<open>
  C21. A hybrid feature needs two things, the server's observation and the agent's report, in
  either order: from an active feature that has neither, observation and then an accepted report,
  or the report and then the observation, end in the same record but for the time of the end:
  passed, with the same descriptors closed and the session released.
\<close>

theorem hybrid_order_irrelevant:
  assumes "session_ok m" and "execution_at m fid = Some ex" and "fx_state ex = Active"
    and "fd_completion_mode (fx_definition ex) = Hybrid" and "\<not> fx_network_complete ex" and "\<not> fx_agent_complete ex"
    and "complete_report fid body m = Some (r, m1)" and "rs_status r = 200"
  defines "reported_first \<equiv> mark_network_complete fid m1"
    and "observed_first \<equiv> complete_step fid body (mark_network_complete fid m)"
  shows "\<exists>x y. execution_at reported_first fid = Some x \<and> execution_at observed_first fid = Some y \<and>
    fx_state x = Passed \<and> x = y\<lparr>fx_finished_at := fx_finished_at x\<rparr> \<and>
    m_closed reported_first = m_closed m @ owned_fds ex \<and> m_closed observed_first = m_closed m @ owned_fds ex \<and>
    active_feature reported_first = '''' \<and> active_feature observed_first = ''''"
proof -
  obtain members ids finished ex' where parse: "parse_json_root_object body = Inr members" "assoc_ids_of members = Inr ids"
    and l: "complete_locked members ids ex (m_clock m (m_reads m)) = Some (Inr (finished, ex'))"
    and m1: "m1 = (if finished then write_settled fid ex' m else put_execution fid ex' m)"
    using complete_report_accepted [OF assms(7,8,2)] by blast
  note second = complete_locked_observed [OF l assms(4,5)]
  note c = complete_locked_cases [OF l]
  have id: "fd_id (fx_definition ex) = fid" using session_okD(1) [OF assms(1,2)] by (simp add: execution_ok_def)
  have af: "active_feature m = fid" by (rule session_okD(2) [OF assms(1,2,3)])
  have m1': "m1 = put_execution fid ex' m" using m1 second by simp
  define n where "n = mark_network_complete fid m"
  let ?msg = "''server observed SCTP behavior; waiting for client completion report''"
  have n: "n = close_active_fds fid (put_execution fid (ex\<lparr>fx_network_complete := True, fx_message := ?msg\<rparr>) m)"
    using assms(2-6) by (simp add: n_def mark_network_complete_def mark_network_complete_locked_def Let_def)
  have nat: "execution_at n fid = Some (ex\<lparr>fx_network_complete := True, fx_message := ?msg, fx_active_fds := []\<rparr>)"
    by (simp add: n)
  obtain y where y: "complete_locked members ids (ex\<lparr>fx_network_complete := True, fx_message := ?msg, fx_active_fds := []\<rparr>)
      (m_clock n (m_reads n)) = Some (Inr (True, y))"
    and y_eq: "y = ex'\<lparr>fx_network_complete := True, fx_active_fds := [], fx_state := Passed,
      fx_message := ''scenario completed successfully'', fx_finished_at := m_clock n (m_reads n)\<rparr>"
    using second by blast
  have "observed_first = write_settled fid y n"
    using parse nat y by (simp add: observed_first_def n_def [symmetric] complete_step_def complete_report_def
        write_settled_def FeatureJson_def Let_def)
  then have obs: "execution_at observed_first fid = Some (y\<lparr>fx_active_fds := []\<rparr>)" "active_feature observed_first = ''''"
      "m_closed observed_first = m_closed m @ owned_fds ex"
    using id af c by (simp_all add: write_settled_reads y_eq n owned_fds_def)
  obtain x where "execution_at reported_first fid = Some x" "active_feature reported_first = ''''"
      "m_closed reported_first = m_closed m @ owned_fds ex" "fx_state x = Passed"
      "x = (y\<lparr>fx_active_fds := []\<rparr>)\<lparr>fx_finished_at := fx_finished_at x\<rparr>"
    using c second id af assms(4)
    by (simp add: reported_first_def m1' mark_network_complete_def mark_network_complete_locked_def Let_def
        Clock_now_def definition_id_def y_eq owned_fds_def)
  with obs show ?thesis by blast
qed

theorem hybrid_order_irrelevant_witness:
  "\<exists>m1 x. execution_at (mark_network_complete ''sample-hybrid'' m1) ''sample-hybrid'' = Some x \<and> fx_state x = Passed \<and>
     (\<exists>r. complete_report ''sample-hybrid'' ''{}'' sample_started = Some (r, m1) \<and> rs_status r = 200)"
proof -
  obtain ex where ex: "execution_at sample_started ''sample-hybrid'' = Some ex" "fx_state ex = Active"
     "fx_definition ex = sample_hybrid" "\<not> fx_network_complete ex" "\<not> fx_agent_complete ex"
    using sample_started_at(1) by blast
  have mode: "fd_completion_mode (fx_definition ex) = Hybrid" by (simp add: ex(3) sample_hybrid_def)
  have otm: "fd_one_to_many sample_hybrid = None" "fd_completion_mode sample_hybrid = Hybrid"
    by (simp_all add: sample_hybrid_def default_feature_def)
  have ok: "session_ok sample_started"
    using reachable_inv [OF sample_reachable_started sample_ids_ok] by (simp add: session_inv_def)
  obtain r m1 where r: "complete_report ''sample-hybrid'' ''{}'' sample_started = Some (r, m1)" "rs_status r = 200"
    by (simp add: complete_report_def sample_parse_empty assoc_ids_of_def ex complete_locked_def otm Let_def
        FeatureJson_def HttpResponse_def)
  from hybrid_order_irrelevant [OF ok ex(1,2) mode ex(4,5) r] r show ?thesis by blast
qed

text \<open>
  C22. A report on a one-to-many feature that asks for two distinct associations is accepted
  exactly when it names two ids, different, nonempty and not \<open>0\<close>; otherwise the answer is 400 and
  nothing changes.
\<close>

theorem report_needs_two_distinct_ids:
  assumes "execution_at m fid = Some ex" and "fx_state ex = Active"
    and "fd_completion_mode (fx_definition ex) \<noteq> ServerObserved"
    and "fd_one_to_many (fx_definition ex) = Some otm" and "om_require_distinct_assoc_ids otm"
    and "om_expected_associations otm = 2"
    and "parse_json_root_object body = Inr members" and "assoc_ids_of members = Inr ids"
  shows "\<exists>r m'. complete_report fid body m = Some (r, m') \<and>
    (if \<exists>a b. ids = [a, b] \<and> a \<noteq> b \<and> a \<notin> {'''', ''0''} \<and> b \<notin> {'''', ''0''}
     then rs_status r = 200 \<and> (\<exists>ex'. execution_at m' fid = Some ex' \<and> fx_agent_complete ex' \<and> fx_assoc_ids ex' = ids)
     else rs_status r = 400 \<and> m' = m)"
proof (cases "length ids = 2")
  case False
  then have "complete_locked members ids ex (m_clock m (m_reads m)) =
      Some (Inl (bad_request ''assoc_ids must include exactly two distinct association ids''))"
    using assms by (simp add: complete_locked_def Let_def)
  moreover have "\<not> (\<exists>a b. ids = [a, b])" using False by auto
  ultimately show ?thesis using assms(1,7,8) by (simp add: complete_report_def bad_request_def HttpResponse_def)
next
  case True
  then obtain a b where ids: "ids = [a, b]" by (auto simp: length_Suc_conv numeral_2_eq_2)
  have rejected: "ids_rejected ids = Some (a = '''' \<or> b = '''' \<or> a = ''0'' \<or> b = ''0'' \<or> a = b)"
    by (auto simp: ids_rejected_def ids)
  show ?thesis
  proof (cases "a = '''' \<or> b = '''' \<or> a = ''0'' \<or> b = ''0'' \<or> a = b")
    case True
    with rejected assms ids have "complete_locked members ids ex (m_clock m (m_reads m)) =
        Some (Inl (bad_request ''assoc_ids must include two distinct non-zero association ids''))"
      by (simp add: complete_locked_def Let_def)
    then show ?thesis using assms(1,7,8) ids True by (auto simp: complete_report_def bad_request_def HttpResponse_def)
  next
    case False
    with rejected assms ids obtain finished ex' where
      l: "complete_locked members ids ex (m_clock m (m_reads m)) = Some (Inr (finished, ex'))"
      and ex': "fx_agent_complete ex'" "fx_assoc_ids ex' = ids"
      by (cases "fd_completion_mode (fx_definition ex) = AgentReported \<or> fx_network_complete ex")
        (simp_all add: complete_locked_def Let_def)
    let ?m' = "if finished then write_settled fid ex' m else put_execution fid ex' m"
    obtain r where "complete_report fid body m = Some (r, ?m')" "rs_status r = 200"
      using l assms(1,7,8)
      by (cases finished) (auto simp: complete_report_def write_settled_def FeatureJson_def HttpResponse_def Let_def)
    moreover have "\<exists>e. execution_at ?m' fid = Some e \<and> fx_agent_complete e \<and> fx_assoc_ids e = ids"
      using ex' by (simp add: write_settled_reads)
    ultimately show ?thesis using False ids by auto
  qed
qed

definition sample_pair :: feature_execution where
  "sample_pair = (FeatureExecution (default_feature\<lparr>fd_id := ''pair'', fd_completion_mode := Hybrid,
     fd_one_to_many := Some \<lparr>om_expected_associations = 2, om_same_socket_required = True,
       om_require_distinct_assoc_ids = True\<rparr>\<rparr>))\<lparr>fx_state := Active\<rparr>"

definition sample_pair_members :: "(string \<times> json_value) list" where
  "sample_pair_members = [(''assoc_ids'', JsonArray [JsonString ''7'', JsonString ''0''])]"

theorem report_needs_two_distinct_ids_witness:
  "\<exists>r. complete_report ''pair'' (json_text (JsonObject sample_pair_members)) (put_execution ''pair'' sample_pair sample_new) =
      Some (r, put_execution ''pair'' sample_pair sample_new) \<and> rs_status r = 400"
proof -
  let ?m = "put_execution ''pair'' sample_pair sample_new"
  have parse: "parse_json_root_object (json_text (JsonObject sample_pair_members)) = Inr sample_pair_members"
    by (rule parse_root_text) (simp add: sample_pair_members_def)
  have ids: "assoc_ids_of sample_pair_members = Inr [''7'', ''0'']"
    by (simp add: assoc_ids_of_def sample_pair_members_def)
  have at: "execution_at ?m ''pair'' = Some sample_pair" by simp
  have otm: "fd_one_to_many (fx_definition sample_pair) = Some \<lparr>om_expected_associations = 2,
      om_same_socket_required = True, om_require_distinct_assoc_ids = True\<rparr>"
    by (simp add: sample_pair_def FeatureExecution_def)
  from report_needs_two_distinct_ids [OF at _ _ otm _ _ parse ids] show ?thesis
    by (simp add: sample_pair_def FeatureExecution_def)
qed

lemma complete_report_refused:
  assumes "complete_report fid body m = Some (r, m')" and "rs_status r \<noteq> 200"
  shows "m' = m"
proof (cases "parse_json_root_object body")
  case (Inr members)
  show ?thesis
  proof (cases "assoc_ids_of members")
    case ids: (Inr ids)
    show ?thesis
    proof (cases "execution_at m fid")
      case (Some ex)
      with Inr ids assms show ?thesis
        by (cases "complete_locked members ids ex (m_clock m (m_reads m))")
          (auto simp: complete_report_def HttpResponse_def Let_def split: sum.splits)
    qed (use Inr ids assms in \<open>simp add: complete_report_def\<close>)
  qed (use Inr assms in \<open>simp add: complete_report_def\<close>)
qed (use assms in \<open>simp add: complete_report_def\<close>)

lemma unsupported_report_refused:
  assumes "unsupported_report fid body m = Some (r, m')" and "rs_status r \<noteq> 200"
  shows "m' = m"
  using assms by (auto simp: unsupported_report_def HttpResponse_def Let_def split: sum.splits option.splits)

text \<open>
  A report that is not answered with 200 changes nothing but what its timeout check did:
  malformed JSON, wrong types, a feature that is not active, a mode that takes no report, wrong
  association ids; and for \<open>unsupported\<close>, malformed JSON and settled features.
\<close>

theorem refused_reports_change_nothing:
  assumes "CompleteFeature fid body m = Some (r, m') \<or> UnsupportedFeature fid body m = Some (r, m')"
    and "rs_status r \<noteq> 200"
  shows "m' = maybe_timeout fid m"
  using assms complete_report_refused unsupported_report_refused
  by (auto simp: CompleteFeature_def UnsupportedFeature_def)

theorem refused_reports_change_nothing_witness:
  "\<exists>r m'. CompleteFeature ''sample-hybrid'' '''' sample_new = Some (r, m') \<and> rs_status r = 400 \<and> m' = sample_new"
proof -
  have "parse_json_root_object '''' = Inl ''expected JSON object''"
    by (simp add: parse_json_root_object_def json_parse_simps skip_json_ws_def)
  then obtain r where r: "CompleteFeature ''sample-hybrid'' '''' sample_new = Some (r, sample_new)" "rs_status r = 400"
    by (simp add: CompleteFeature_def complete_report_def sample_polled bad_request_def HttpResponse_def)
  from refused_reports_change_nothing [OF disjI1 [OF r(1)]] r sample_polled show ?thesis by simp
qed

text \<open>
  C23. A feature can be declared unsupported while it is pending or active, and only then: its
  record takes the reason, its descriptors are closed, and the session is released if the feature
  was the active one. A settled feature answers 409 and stays as it is.
\<close>

theorem unsupported_outcomes:
  assumes "session_ok m" and "execution_at m fid = Some ex" and "parse_simple_json_object body = Inr params"
  shows "\<exists>r m'. unsupported_report fid body m = Some (r, m') \<and>
    (if fx_state ex = Pending \<or> fx_state ex = Active
     then rs_status r = 200 \<and> m_closed m' = m_closed m @ owned_fds ex \<and>
       active_feature m' = (if fx_state ex = Active then '''' else active_feature m) \<and>
       (\<exists>ex'. execution_at m' fid = Some ex' \<and> fx_state ex' = Unsupported \<and>
          fx_message ex' = param params ''reason'' \<and> fx_active_fds ex' = [])
     else rs_status r = 409 \<and> m' = m)"
proof (cases "fx_state ex = Pending \<or> fx_state ex = Active")
  case False
  then show ?thesis
    using assms by (auto simp: unsupported_report_def unsupported_locked_def conflict_def HttpResponse_def)
next
  case True
  have id: "fd_id (fx_definition ex) = fid" and ne: "fid \<noteq> ''''"
    using session_okD(1) [OF assms(1,2)] by (simp_all add: execution_ok_def)
  have active: "fx_state ex = Active \<longleftrightarrow> active_feature m = fid"
  proof
    show "fx_state ex = Active \<Longrightarrow> active_feature m = fid" by (rule session_okD(2) [OF assms(1,2)])
    show "active_feature m = fid \<Longrightarrow> fx_state ex = Active" using session_okD(3) [OF assms(1)] assms(2) ne by auto
  qed
  obtain ex' where l: "unsupported_locked params ex (m_clock m (m_reads m)) = Inr ex'"
    and ex': "fx_state ex' = Unsupported" "fx_message ex' = param params ''reason''"
      "fx_definition ex' = fx_definition ex" "fx_active_fds ex' = fx_active_fds ex"
    using True by (auto simp: unsupported_locked_def)
  have "\<exists>r. unsupported_report fid body m = Some (r, write_settled fid ex' m) \<and> rs_status r = 200"
    using assms l by (simp add: unsupported_report_def write_settled_def FeatureJson_def HttpResponse_def Let_def)
  then show ?thesis using True ex' active id by (auto simp: write_settled_reads owned_fds_def)
qed

theorem unsupported_outcomes_witness:
  "\<exists>r m'. unsupported_report ''sample-hybrid'' ''{}'' sample_started = Some (r, m') \<and> rs_status r = 200 \<and>
     active_feature m' = '''' \<and> m_closed m' = [7]"
proof -
  obtain ex where ex: "execution_at sample_started ''sample-hybrid'' = Some ex" "fx_state ex = Active" "fx_active_fds ex = [7]"
    using sample_started_at(1) by blast
  have ok: "session_ok sample_started"
    using reachable_inv [OF sample_reachable_started sample_ids_ok] by (simp add: session_inv_def)
  have "parse_simple_json_object ''{}'' = Inr Map.empty"
    by (simp add: parse_simple_json_object_def sample_parse_empty)
  from unsupported_outcomes [OF ok ex(1) this] ex sample_started_at(5) show ?thesis
    by (auto simp: owned_fds_def)
qed

section \<open>The summary\<close>

definition state_in :: "machine \<Rightarrow> feature_definition \<Rightarrow> feature_state" where
  "state_in m f = (case execution_at m (fd_id f) of None \<Rightarrow> Pending | Some ex \<Rightarrow> fx_state ex)"

fun count_of :: "feature_state \<Rightarrow> counts \<Rightarrow> nat" where
  "count_of Passed c = ct_passed c"
| "count_of Failed c = ct_failed c"
| "count_of Unsupported c = ct_unsupported c"
| "count_of TimedOut c = ct_timed_out c"
| "count_of Pending c = ct_pending c"
| "count_of Active c = ct_active c"

lemma count_of_state: "count_of s (count_state t c) = count_of s c + (if s = t then 1 else 0)"
  by (cases s; cases t) simp_all

lemma summary_loop_others:
  "summary_loop catalog c features m = Some (c', features', m') \<Longrightarrow> g \<notin> fd_id ` set catalog \<Longrightarrow>
     execution_at m' g = execution_at m g"
proof (induction catalog c features m rule: summary_loop.induct)
  case (2 feature catalog c features m)
  from 2(2) obtain ex0 ex where ex: "execution_at m (fd_id feature) = Some ex0"
      "execution_at (maybe_timeout (fd_id feature) m) (fd_id feature) = Some ex"
    and rec: "summary_loop catalog (count_state (fx_state ex) c) (features @ [FeatureJsonLocked ex False])
        (maybe_timeout (fd_id feature) m) = Some (c', features', m')"
    by (auto simp: Let_def split: option.splits)
  from 2(1) [OF ex(1) refl ex(2) rec] 2(3) show ?case by (simp add: timing_out.other_executions)
qed simp

lemma summary_loop_counts:
  "distinct (map fd_id catalog) \<Longrightarrow> (\<And>f. f \<in> set catalog \<Longrightarrow> execution_at m (fd_id f) \<noteq> None) \<Longrightarrow>
     \<exists>c' m'. summary_loop catalog c features m = Some (c', features @
         map (\<lambda>f. FeatureJsonLocked (the (execution_at m' (fd_id f))) False) catalog, m') \<and>
       (\<forall>s. count_of s c' = count_of s c + length (filter (\<lambda>f. state_in m' f = s) catalog))"
proof (induction catalog arbitrary: c features m)
  case (Cons f catalog)
  obtain ex0 where ex0: "execution_at m (fd_id f) = Some ex0" using Cons.prems(2) by fastforce
  let ?m1 = "maybe_timeout (fd_id f) m"
  obtain ex where ex: "execution_at ?m1 (fd_id f) = Some ex" using timeout_known [OF ex0] by blast
  have "execution_at ?m1 (fd_id g) \<noteq> None" if "g \<in> set catalog" for g
  proof -
    have "fd_id g \<noteq> fd_id f" using Cons.prems(1) that by (auto simp: image_iff)
    moreover have "execution_at m (fd_id g) \<noteq> None" using Cons.prems(2) [of g] that by simp
    ultimately show ?thesis by (simp add: timing_out.other_executions)
  qed
  with Cons.IH [of ?m1 "count_state (fx_state ex) c" "features @ [FeatureJsonLocked ex False]"] Cons.prems(1)
  obtain c' m' where rec: "summary_loop catalog (count_state (fx_state ex) c) (features @ [FeatureJsonLocked ex False]) ?m1 =
      Some (c', (features @ [FeatureJsonLocked ex False]) @
        map (\<lambda>f. FeatureJsonLocked (the (execution_at m' (fd_id f))) False) catalog, m')"
    and counts: "\<forall>s. count_of s c' = count_of s (count_state (fx_state ex) c) + length (filter (\<lambda>f. state_in m' f = s) catalog)"
    by auto
  have "execution_at m' (fd_id f) = Some ex"
    using summary_loop_others [OF rec, of "fd_id f"] Cons.prems(1) ex by simp
  with rec counts ex0 ex show ?case by (simp add: count_of_state state_in_def Let_def)
qed simp



section \<open>No handler reads through a null pointer\<close>

text \<open>What the two reads \<open>sorted[0]\<close> and \<open>sorted[1]\<close> need of a one-to-many contract.\<close>

definition two_ids_expected :: "feature_definition \<Rightarrow> bool" where
  "two_ids_expected f \<longleftrightarrow> (case fd_one_to_many f of None \<Rightarrow> True
     | Some otm \<Rightarrow> om_require_distinct_assoc_ids otm \<longrightarrow> 2 \<le> om_expected_associations otm)"

lemma ids_rejected_total: "2 \<le> length ids \<Longrightarrow> ids_rejected ids \<noteq> None"
proof -
  assume "2 \<le> length ids"
  then have "2 \<le> length (sort ids)" by simp
  then obtain a b rest where "sort ids = a # b # rest"
    by (metis Suc_le_length_iff numeral_2_eq_2)
  then show ?thesis by (simp add: ids_rejected_def)
qed

lemma complete_locked_total:
  assumes "two_ids_expected (fx_definition ex)"
  shows "complete_locked members ids ex now \<noteq> None"
  using assms ids_rejected_total [of ids]
  by (auto simp: complete_locked_def two_ids_expected_def Let_def split: option.splits bool.splits if_splits)

lemma complete_report_total:
  assumes "execution_at m fid = Some ex" and "two_ids_expected (fx_definition ex)"
  shows "complete_report fid body m \<noteq> None"
proof (cases "parse_json_root_object body")
  case (Inr members)
  show ?thesis
  proof (cases "assoc_ids_of members")
    case ids: (Inr ids)
    obtain v where "complete_locked members ids ex (m_clock m (m_reads m)) = Some v"
      using complete_locked_total [OF assms(2)] by blast
    with Inr ids assms(1) show ?thesis
      by (cases v) (auto simp: complete_report_def FeatureJson_def Let_def split: prod.splits)
  qed (simp add: complete_report_def Inr)
qed (simp add: complete_report_def)

lemma unsupported_report_total:
  "execution_at m fid = Some ex \<Longrightarrow> unsupported_report fid body m \<noteq> None"
  by (auto simp: unsupported_report_def FeatureJson_def Let_def split: sum.splits)

lemma catalog_executions_total:
  "(\<And>f. f \<in> set catalog \<Longrightarrow> execution_at m (fd_id f) \<noteq> None) \<Longrightarrow> catalog_executions catalog m \<noteq> None"
  by (induction catalog) (auto split: option.splits)

lemma requests_answered:
  assumes "session_reachable options catalog m" and "catalog_ids_ok catalog" and "f \<in> set catalog"
    and "list_all two_ids_expected catalog" and "valid_sockets oss"
  shows "StartFeature oss options (fd_id f) m \<noteq> None \<and> CompleteFeature (fd_id f) body m \<noteq> None \<and>
    UnsupportedFeature (fd_id f) body m \<noteq> None \<and> FeatureJson (fd_id f) True m \<noteq> None \<and>
    SessionJson catalog m \<noteq> None \<and> SummaryJson catalog m \<noteq> None"
proof -
  obtain ex where ex: "execution_at m (fd_id f) = Some ex" "fx_definition ex = f"
    using reachable_known [OF assms(1-3)] by blast
  obtain ex' where ex': "execution_at (maybe_timeout (fd_id f) m) (fd_id f) = Some ex'" "fx_definition ex' = f"
    using timeout_known [OF ex(1)] ex(2) by blast
  have two: "two_ids_expected (fx_definition ex')" using assms(3,4) ex'(2) by (simp add: list_all_iff)
  have known: "\<And>g. g \<in> set catalog \<Longrightarrow> execution_at m (fd_id g) \<noteq> None"
    using reachable_known [OF assms(1,2)] by blast
  have "StartFeature oss options (fd_id f) m \<noteq> None" using start_responds [OF ex'(1) assms(5), of options] by auto
  moreover have "CompleteFeature (fd_id f) body m \<noteq> None"
    using complete_report_total [OF ex'(1) two] by (simp add: CompleteFeature_def)
  moreover have "UnsupportedFeature (fd_id f) body m \<noteq> None"
    using unsupported_report_total [OF ex'(1)] by (simp add: UnsupportedFeature_def)
  moreover have "SessionJson catalog m \<noteq> None"
    using catalog_executions_total [OF known] by (simp add: SessionJson_def)
  moreover have "distinct (map fd_id catalog)" using assms(2) by (simp add: catalog_ids_ok_def)
  then have "SummaryJson catalog m \<noteq> None"
    using summary_loop_counts [OF _ known, of catalog no_counts "[]"] by (auto simp: SummaryJson_def)
  ultimately show ?thesis using ex(1) by (simp add: FeatureJson_def)
qed

end
