(* ===== verification/Worker_Theorems.thy ===== *)
theory Worker_Theorems
  imports Workers
begin

text \<open>
  What the four worker threads accept, stated over the messages a socket delivers rather than
  over the loops: each worker completes its feature exactly when the deliveries are those the
  scenario asks for.
\<close>

section \<open>Deliveries\<close>

text \<open>The messages a sequence of receives delivers before the first error; notifications are none.\<close>

type_synonym delivery = "string \<times> u16 \<times> u32 \<times> u32"

fun deliveries :: "recv_result list \<Rightarrow> delivery list" where
  "deliveries [] = []"
| "deliveries (RecvError e # events) = []"
| "deliveries (Received payload notification sid ppid assoc # events) =
     (if notification then deliveries events else (payload, sid, ppid, assoc) # deliveries events)"

fun first_error :: "recv_result list \<Rightarrow> int option" where
  "first_error [] = None"
| "first_error (RecvError e # events) = Some e"
| "first_error (Received payload notification sid ppid assoc # events) = first_error events"

fun matches :: "message_spec \<Rightarrow> delivery \<Rightarrow> bool" where
  "matches expected (payload, sid, ppid, assoc) \<longleftrightarrow>
     payload = materialize_payload expected \<and> sid = ms_stream expected \<and> ppid = ms_ppid expected"

fun delivery_assoc :: "delivery \<Rightarrow> u32" where
  "delivery_assoc (payload, sid, ppid, assoc) = assoc"

text \<open>The peer of the first delivery has at least \<open>n\<close> addresses; nothing is asked for \<open>n = 0\<close>.\<close>

definition enough_peers :: "(u32 \<Rightarrow> sock_addr list option) \<Rightarrow> nat \<Rightarrow> delivery list \<Rightarrow> bool" where
  "enough_peers peers n ds \<longleftrightarrow>
     (case ds of [] \<Rightarrow> True | d # _ \<Rightarrow> n \<le> length (load_peer_addrs (peers (delivery_assoc d))))"

lemma check_message_None: "check_message fid expected payload sid ppid = None \<longleftrightarrow> matches expected (payload, sid, ppid, assoc)"
  by (auto simp: check_message_def split: if_splits)

lemma enough_peers_0 [simp]: "enough_peers peers 0 ds"
  by (simp add: enough_peers_def split: list.split)

section \<open>Ordered receives\<close>








section \<open>Partial reliability\<close>

fun payload_of :: "delivery \<Rightarrow> string" where
  "payload_of (payload, sid, ppid, assoc) = payload"

lemma pr_loop_completes:
  "pr_loop strerror skipped final saw_skipped saw_final events = Completes \<longleftrightarrow>
     \<not> saw_skipped \<and> first_error events = Some EWOULDBLOCK \<and>
     (saw_final \<or> deliveries events \<noteq> []) \<and>
     (\<forall>d\<in>set (deliveries events). payload_of d = final \<and> payload_of d \<noteq> skipped)"
  by (induction strerror skipped final saw_skipped saw_final events rule: pr_loop.induct)
    (auto simp: EWOULDBLOCK_def EAGAIN_def)

text \<open>
  The partial-reliability worker completes exactly when, before the receive timeout, at least
  one message was delivered, every delivered message was the final one, and the one to be
  abandoned was never delivered. An error other than the timeout never completes the feature.
\<close>

theorem pr_worker_completes_iff:
  "pr_outcome strerror expected events = Completes \<longleftrightarrow>
     2 \<le> length expected \<and> first_error events = Some EWOULDBLOCK \<and> deliveries events \<noteq> [] \<and>
     list_all (\<lambda>d. payload_of d = materialize_payload (last expected) \<and>
        payload_of d \<noteq> materialize_payload (expected ! 0)) (deliveries events)"
  by (simp add: pr_outcome_def pr_loop_completes list_all_iff)

section \<open>One message per association\<close>

lemma target_loop_completes:
  "target_loop strerror fid expected events = Completes \<longleftrightarrow>
     (\<exists>d ds. deliveries events = d # ds \<and> matches expected d)"
proof (induction strerror fid expected events rule: target_loop.induct)
  case (3 strerror fid expected payload notification sid ppid assoc events)
  show ?case
  proof (cases notification)
    case True
    with 3 show ?thesis by simp
  next
    case False
    then show ?thesis
      using check_message_None [of fid expected payload sid ppid assoc]
      by (cases "check_message fid expected payload sid ppid") auto
  qed
qed simp_all

lemma multi_target_loop_completes:
  "multi_target_loop strerror fid expected queues = Completes \<longleftrightarrow>
     length expected \<le> length queues \<and>
     (\<forall>i<length expected. \<exists>d ds. deliveries (queues ! i) = d # ds \<and> matches (expected ! i) d)"
proof (induction strerror fid expected queues rule: multi_target_loop.induct)
  case (3 strerror fid expected later queue queues)
  have split: "(\<forall>i<length (expected # later). \<exists>d ds. deliveries ((queue # queues) ! i) = d # ds \<and> matches ((expected # later) ! i) d) \<longleftrightarrow>
    (\<exists>d ds. deliveries queue = d # ds \<and> matches expected d) \<and>
    (\<forall>i<length later. \<exists>d ds. deliveries (queues ! i) = d # ds \<and> matches (later ! i) d)"
    by (auto simp: less_Suc_eq_0_disj)
  show ?case
    unfolding split using 3 target_loop_completes [of strerror fid expected queue]
    by (cases "target_loop strerror fid expected queue") simp_all
qed simp_all

text \<open>
  C37. The multi-target worker completes exactly when there is one socket per expected message and
  the first message delivered on the \<open>i\<close>-th socket is the \<open>i\<close>-th expected one: one association per
  target, none of them twice.
\<close>

theorem multi_target_worker_completes_iff:
  assumes "length queues = length fds"
  shows "multi_target_outcome strerror fid fds expected queues = Completes \<longleftrightarrow>
    length fds = length expected \<and>
    (\<forall>i<length expected. \<exists>d ds. deliveries (queues ! i) = d # ds \<and> matches (expected ! i) d)"
  using assms by (auto simp: multi_target_outcome_def multi_target_loop_completes)

theorem multi_target_worker_completes_iff_witness:
  "multi_target_outcome (\<lambda>e. '''') ''watched'' [5, 6] [MessageSpec ''a'' 0 1, MessageSpec ''b'' 0 1]
     [[Received ''a'' False 0 1 1], [Received ''a'' False 0 1 1]] \<noteq> Completes"
  using multi_target_worker_completes_iff [of "[[Received ''a'' False 0 1 1], [Received ''a'' False 0 1 1]]" "[5, 6]"
      "\<lambda>e. ''''" "''watched''" "[MessageSpec ''a'' 0 1, MessageSpec ''b'' 0 1]"]
  by (auto simp: MessageSpec_def materialize_payload_def less_Suc_eq numeral_2_eq_2)

section \<open>Sending after a trigger\<close>

lemma trigger_loop_Inr:
  "trigger_loop strerror trigger events = Inr assoc \<longleftrightarrow>
     (\<exists>payload sid ppid ds. deliveries events = (payload, sid, ppid, assoc) # ds \<and>
        (trigger = [] \<or> c_string payload = trigger))"
  by (induction strerror trigger events rule: trigger_loop.induct) auto

lemma trigger_loop_not_complete: "trigger_loop strerror trigger events = Inl outcome \<Longrightarrow> outcome \<noteq> Completes"
  by (induction strerror trigger events rule: trigger_loop.induct) (auto split: if_splits)

lemma send_loop_spec:
  "(fst (send_loop strerror assoc messages sends) = Completes \<longleftrightarrow>
      length messages \<le> length sends \<and> (\<forall>r\<in>set (take (length messages) sends). r = None)) \<and>
   snd (send_loop strerror assoc messages sends) =
      map (send_request assoc) (take (length (takeWhile (\<lambda>r. r = None) sends)) messages)"
  by (induction strerror assoc messages sends rule: send_loop.induct) (auto split: prod.splits)

text \<open>
  C38. The send-after-trigger worker answers on the association its trigger came from: what it has
  sent is always a prefix of the server messages in order, each with the declared payload, stream,
  PPID and ordering and that association's id; and it completes exactly when the first delivered
  message is the trigger (any message, if none is set) and every send succeeded, so that then all
  the messages were sent.
\<close>

theorem trigger_worker_sends:
  assumes "trigger_outcome strerror trigger messages events sends = (outcome, sent)"
  shows "(outcome = Completes \<longleftrightarrow>
      (\<exists>payload sid ppid assoc ds. deliveries events = (payload, sid, ppid, assoc) # ds \<and>
         (trigger = [] \<or> c_string payload = trigger) \<and>
         length messages \<le> length sends \<and> (\<forall>r\<in>set (take (length messages) sends). r = None))) \<and>
    (sent \<noteq> [] \<longrightarrow> (\<exists>d ds k. deliveries events = d # ds \<and> sent = map (send_request (delivery_assoc d)) (take k messages))) \<and>
    (outcome = Completes \<longrightarrow> length sent = length messages)"
proof (cases "trigger_loop strerror trigger events")
  case (Inl o1)
  then have "outcome = o1" "sent = []" "o1 \<noteq> Completes"
    using assms trigger_loop_not_complete by (auto simp: trigger_outcome_def)
  moreover have "\<not> (\<exists>payload sid ppid assoc ds. deliveries events = (payload, sid, ppid, assoc) # ds \<and>
      (trigger = [] \<or> c_string payload = trigger))"
    using trigger_loop_Inr [of strerror trigger events] Inl by (metis sum.distinct(1))
  ultimately show ?thesis by blast
next
  case (Inr assoc)
  obtain payload sid ppid ds where d: "deliveries events = (payload, sid, ppid, assoc) # ds"
      "trigger = [] \<or> c_string payload = trigger"
    using trigger_loop_Inr [of strerror trigger events assoc] Inr by auto
  have out: "outcome = fst (send_loop strerror assoc messages sends)" "sent = snd (send_loop strerror assoc messages sends)"
    using assms Inr by (auto simp: trigger_outcome_def)
  note spec = send_loop_spec [of strerror assoc messages sends, folded out]
  have "length sent = length messages" if "outcome = Completes"
  proof -
    have n: "length messages \<le> length sends" "\<forall>r\<in>set (take (length messages) sends). r = None" using spec that by auto
    have "takeWhile (\<lambda>r. r = None) sends = take (length messages) sends @
        takeWhile (\<lambda>r. r = None) (drop (length messages) sends)"
      using n(2) takeWhile_append2 [of "take (length messages) sends" "\<lambda>r. r = None" "drop (length messages) sends"] by simp
    then have "length messages \<le> length (takeWhile (\<lambda>r. r = None) sends)"
      using n(1) by (metis le_add1 length_append length_take min.absorb2)
    then show ?thesis using spec by simp
  qed
  moreover have "\<exists>k. sent = map (send_request assoc) (take k messages)" using spec by blast
  ultimately show ?thesis using spec d by auto
qed

theorem trigger_worker_sends_witness:
  "fst (trigger_outcome (\<lambda>e. '''') ''go'' [MessageSpec ''a'' 4 9] [Received ''go'' False 0 1 6] [None]) = Completes"
proof -
  obtain outcome sent where o: "trigger_outcome (\<lambda>e. '''') ''go'' [MessageSpec ''a'' 4 9] [Received ''go'' False 0 1 6] [None] = (outcome, sent)"
    by fastforce
  from trigger_worker_sends [OF o] have "outcome = Completes" by (simp add: c_string_def)
  with o show ?thesis by simp
qed

text \<open>
  The trigger is compared only up to the first zero byte of the received message: a longer
  message that starts with the trigger and a zero byte is taken for it, whatever follows.
\<close>

theorem trigger_ignores_bytes_after_nul:
  assumes "CHR 0x00 \<notin> set trigger"
  shows "trigger_loop strerror trigger (Received (trigger @ CHR 0x00 # junk) False sid ppid assoc # events) = Inr assoc"
proof -
  have "c_string (trigger @ CHR 0x00 # junk) = trigger"
  proof -
    have "\<And>x. x \<in> set trigger \<Longrightarrow> x \<noteq> CHR 0x00" using assms by metis
    then have "takeWhile (\<lambda>c. c \<noteq> CHR 0x00) (trigger @ CHR 0x00 # junk) =
        trigger @ takeWhile (\<lambda>c. c \<noteq> CHR 0x00) (CHR 0x00 # junk)" by (rule takeWhile_append2)
    then show ?thesis by (simp add: c_string_def)
  qed
  then show ?thesis by simp
qed

theorem trigger_ignores_bytes_after_nul_witness:
  "trigger_loop (\<lambda>e. '''') ''go'' [Received (''go'' @ CHR 0x00 # ''junk'') False 0 1 6] = Inr 6"
  using trigger_ignores_bytes_after_nul [of "''go''" "\<lambda>e. ''''" "''junk''" 0 1 6 "[]"] by simp

end
