(* ===== verification/Catalog.thy ===== *)
theory Catalog
  imports Json_Render
begin

text \<open>
  The feature catalogue (\<open>main.cpp\<close>, lines 1485 to 2275): the three constructors of feature
  definitions, the RFC references of each feature, and \<open>build_feature_catalog\<close> with one
  definition per feature, in the order of the source. A later assignment to a member of a
  feature (\<open>delayed_sack.socket_tuning = ...\<close>) is an update of its record.
\<close>

section \<open>Three shapes of feature\<close>

text \<open>The default arguments of the source are written out at each call.\<close>

definition make_agent_feature :: "string \<Rightarrow> string \<Rightarrow> string \<Rightarrow> string \<Rightarrow> int \<Rightarrow> string \<Rightarrow> string \<Rightarrow>
    string list \<Rightarrow> string \<Rightarrow> feature_definition" where
  "make_agent_feature i title category summary timeout_seconds instructions_text report_prompt socket_options negative_target =
     default_feature\<lparr>fd_id := i, fd_title := title, fd_category := category, fd_summary := summary,
       fd_instructions_text := instructions_text, fd_completion_mode := AgentReported,
       fd_scenario_kind := AgentOnly, fd_timeout_seconds := timeout_seconds,
       fd_client_socket_options := socket_options, fd_report_prompt := report_prompt,
       fd_negative_connect_target := negative_target\<rparr>"

definition make_receive_feature :: "string \<Rightarrow> string \<Rightarrow> string \<Rightarrow> string \<Rightarrow> completion_mode \<Rightarrow> int \<Rightarrow> string \<Rightarrow>
    message_spec list \<Rightarrow> string list \<Rightarrow> string list \<Rightarrow> string \<Rightarrow> nat \<Rightarrow> nat \<Rightarrow> feature_definition" where
  "make_receive_feature i title category summary mode timeout_seconds instructions_text messages socket_options
     subscriptions report_prompt bind_address_count expected_peer_addr_count =
     default_feature\<lparr>fd_id := i, fd_title := title, fd_category := category, fd_summary := summary,
       fd_instructions_text := instructions_text, fd_completion_mode := mode,
       fd_scenario_kind := ReceiveMessages, fd_timeout_seconds := timeout_seconds,
       fd_bind_address_count := bind_address_count, fd_client_socket_options := socket_options,
       fd_client_subscriptions := subscriptions, fd_client_send_messages := messages,
       fd_report_prompt := report_prompt, fd_expected_peer_addr_count := expected_peer_addr_count\<rparr>"

definition make_send_feature :: "string \<Rightarrow> string \<Rightarrow> string \<Rightarrow> string \<Rightarrow> completion_mode \<Rightarrow> int \<Rightarrow> string \<Rightarrow>
    string \<Rightarrow> message_spec list \<Rightarrow> string list \<Rightarrow> string \<Rightarrow> feature_definition" where
  "make_send_feature i title category summary mode timeout_seconds instructions_text trigger_payload server_messages
     subscriptions report_prompt =
     default_feature\<lparr>fd_id := i, fd_title := title, fd_category := category, fd_summary := summary,
       fd_instructions_text := instructions_text, fd_completion_mode := mode,
       fd_scenario_kind := SendAfterTrigger, fd_timeout_seconds := timeout_seconds,
       fd_client_subscriptions := subscriptions, fd_trigger_payload := trigger_payload,
       fd_server_send_messages := server_messages, fd_report_prompt := report_prompt\<rparr>"

section \<open>RFC references\<close>

definition rfc_references_for_feature :: "string \<Rightarrow> rfc_reference list" where
  "rfc_references_for_feature feature_id =
     (if feature_id = ''socket_create''
      then [make_rfc_reference ''6458'' ''4.1.1'' ''socket()'']
      else if feature_id = ''bind_listen_connect''
      then [make_rfc_reference ''6458'' ''4.1.2'' ''bind()'', make_rfc_reference ''6458'' ''4.1.5'' ''connect()'']
      else if feature_id = ''single_message_boundary'' \<or> feature_id = ''multi_message_boundary'' \<or> feature_id = ''stream_id'' \<or> feature_id = ''ppid'' \<or> feature_id = ''unordered_delivery''
      then [make_rfc_reference ''9260'' ''3.3.1'' ''Payload Data (DATA) Chunk'']
      else if feature_id = ''nodelay''
      then [make_rfc_reference ''6458'' ''8.1.5'' ''SCTP_NODELAY'']
      else if feature_id = ''initmsg''
      then [make_rfc_reference ''6458'' ''8.1.3'' ''Initialization Parameters (SCTP_INITMSG)'']
      else if feature_id = ''rto_assoc_parameters''
      then [make_rfc_reference ''6458'' ''8.1.1'' ''Retransmission Timeout Parameters (SCTP_RTOINFO)'']
      else if feature_id = ''delayed_sack_tuning''
      then [make_rfc_reference ''6458'' ''8.1.19'' ''Get or Set Delayed SACK Timer (SCTP_DELAYED_SACK)'']
      else if feature_id = ''max_burst_tuning''
      then [make_rfc_reference ''6458'' ''8.1.24'' ''Set or Get the Maximum Burst (SCTP_MAX_BURST)'']
      else if feature_id = ''notifications'' \<or> feature_id = ''event_subscription_matrix''
      then [make_rfc_reference ''6458'' ''6.2.2'' ''SCTP_EVENT Option'', make_rfc_reference ''6458'' ''6.1.1'' ''SCTP_ASSOC_CHANGE'']
      else if feature_id = ''peer_addr_change_notifications''
      then [make_rfc_reference ''6458'' ''6.1.2'' ''SCTP_PEER_ADDR_CHANGE'', make_rfc_reference ''6458'' ''6.2.2'' ''SCTP_EVENT Option'']
      else if feature_id = ''association_shutdown_notifications''
      then [make_rfc_reference ''6458'' ''6.1.1'' ''SCTP_ASSOC_CHANGE'', make_rfc_reference ''6458'' ''6.1.5'' ''SCTP_SHUTDOWN_EVENT'']
      else if feature_id = ''partial_delivery_event''
      then [make_rfc_reference ''6458'' ''6.1.7'' ''SCTP_PARTIAL_DELIVERY_EVENT'', make_rfc_reference ''6458'' ''6.2.2'' ''SCTP_EVENT Option'']
      else if feature_id = ''multi_bind''
      then [make_rfc_reference ''9260'' ''3.3.2.1'' ''Optional or Variable-Length Parameters in INIT Chunks'', make_rfc_reference ''9260'' ''3.3.3.1'' ''Optional or Variable-Length Parameters in INIT ACK Chunks'']
      else if feature_id = ''local_addr_enum''
      then [make_rfc_reference ''6458'' ''9.5'' ''sctp_getladdrs()'']
      else if feature_id = ''peer_addr_enum''
      then [make_rfc_reference ''6458'' ''9.3'' ''sctp_getpaddrs()'']
      else if feature_id = ''negative_connect_error''
      then [make_rfc_reference ''6458'' ''4.1.5'' ''connect()'']
      else if feature_id = ''default_sndinfo_recvrcvinfo''
      then [make_rfc_reference ''6458'' ''8.1.29'' ''SCTP_RECVRCVINFO'', make_rfc_reference ''6458'' ''8.1.31'' ''SCTP_DEFAULT_SNDINFO'']
      else if feature_id = ''large_message_reassembly''
      then [make_rfc_reference ''9260'' ''6.9'' ''Fragmentation and Reassembly'']
      else if feature_id = ''maxseg_fragmentation''
      then [make_rfc_reference ''6458'' ''8.1.16'' ''Get or Set the Maximum Fragmentation Size (SCTP_MAXSEG)'']
      else if feature_id = ''recvnxtinfo''
      then [make_rfc_reference ''6458'' ''8.1.30'' ''SCTP_RECVNXTINFO'']
      else if feature_id = ''autoclose''
      then [make_rfc_reference ''6458'' ''8.1.8'' ''SCTP_AUTOCLOSE'']
      else if feature_id = ''bindx_add_remove''
      then [make_rfc_reference ''6458'' ''9.1'' ''sctp_bindx()'']
      else if feature_id = ''primary_addr_management''
      then [make_rfc_reference ''6458'' ''8.1.9'' ''SCTP_PRIMARY_ADDR'']
      else if feature_id = ''peer_primary_addr_request''
      then [make_rfc_reference ''6458'' ''8.3.1'' ''SCTP_SET_PEER_PRIMARY_ADDR'']
      else if feature_id = ''peeloff_assoc''
      then [make_rfc_reference ''6458'' ''9.2'' ''sctp_peeloff()'']
      else if feature_id = ''assoc_id_listing''
      then [make_rfc_reference ''6458'' ''8.2.6'' ''SCTP_GET_ASSOC_ID_LIST'']
      else if feature_id = ''assoc_status_opt_info''
      then [make_rfc_reference ''6458'' ''8.2.1'' ''SCTP_STATUS'']
      else if feature_id = ''one_to_many_multi_assoc''
      then [make_rfc_reference ''6458'' ''3.1.1'' ''socket()'', make_rfc_reference ''6458'' ''3.1.6'' ''connect()'']
      else if feature_id = ''stream_reconfig_reset''
      then [make_rfc_reference ''6525'' ''4.1'' ''Outgoing SSN Reset Request Parameter'', make_rfc_reference ''6525'' ''4.2'' ''Incoming SSN Reset Request Parameter'']
      else if feature_id = ''stream_reconfig_add_streams''
      then [make_rfc_reference ''6525'' ''4.5'' ''Add Outgoing Streams Request Parameter'', make_rfc_reference ''6525'' ''4.6'' ''Add Incoming Streams Request Parameter'']
      else if feature_id = ''pr_sctp_ttl''
      then [make_rfc_reference ''3758'' ''3.5'' ''Sender Side Implementation of PR-SCTP'', make_rfc_reference ''3758'' ''4.1'' ''PR-SCTP Service Definition for Timed Reliability'']
      else if feature_id = ''pr_sctp_rtx''
      then [make_rfc_reference ''3758'' ''3.5'' ''Sender Side Implementation of PR-SCTP'', make_rfc_reference ''3758'' ''4.3'' ''Guidelines for Defining Other PR-SCTP Services'']
      else if feature_id = ''auth_required_chunks''
      then [make_rfc_reference ''4895'' ''3.2'' ''Chunk List Parameter (CHUNKS)'', make_rfc_reference ''4895'' ''6.2'' ''Sending Authenticated Chunks'']
      else if feature_id = ''auth_key_rotation''
      then [make_rfc_reference ''4895'' ''6.1'' ''Establishment of an Association Shared Key'', make_rfc_reference ''4895'' ''6.2'' ''Sending Authenticated Chunks'']
      else if feature_id = ''asconf_add_remove''
      then [make_rfc_reference ''5061'' ''4.2.1'' ''Add IP Address'', make_rfc_reference ''5061'' ''4.2.2'' ''Delete IP Address'']
      else if feature_id = ''idata_interleaving''
      then [make_rfc_reference ''8260'' ''2.1'' ''The I-DATA Chunk Supporting User Message Interleaving'', make_rfc_reference ''8260'' ''2.2.1'' ''Negotiation'']
      else if feature_id = ''stream_scheduler_policy''
      then [make_rfc_reference ''8260'' ''3.4'' ''Priority-Based Scheduler (SCTP_SS_PRIO)'', make_rfc_reference ''8260'' ''4.3.2'' ''SCTP_STREAM_SCHEDULER'']
      else if feature_id = ''stream_scheduler_value''
      then [make_rfc_reference ''8260'' ''3.4'' ''Priority-Based Scheduler (SCTP_SS_PRIO)'', make_rfc_reference ''8260'' ''4.3.3'' ''SCTP_STREAM_SCHEDULER_VALUE'']
      else [])"

section \<open>The features\<close>

definition socket_create_feature :: feature_definition where
  "socket_create_feature =
     make_agent_feature
     ''socket_create''
     ''Create SCTP socket''
     ''endpoint''
     ''Verify the client environment can create an SCTP socket.''
     20
     ''Create an SCTP socket in the client environment and report whether it succeeds.''
     ''Report whether socket(AF_INET, SOCK_SEQPACKET, IPPROTO_SCTP) or the environment equivalent succeeded.''
     []
     ''''"

definition bind_listen_connect_feature :: feature_definition where
  "bind_listen_connect_feature =
     make_receive_feature
     ''bind_listen_connect''
     ''Bind, listen, and connect''
     ''association''
     ''Establish a basic SCTP association against the reference server.''
     ServerObserved
     20
     ''Connect to the server and send the exact probe payload once the association is up.''
     [MessageSpec ''bind-listen-connect'' 0 1]
     []
     []
     ''''
     1
     0"

definition single_message_boundary_feature :: feature_definition where
  "single_message_boundary_feature =
     make_receive_feature
     ''single_message_boundary''
     ''Single message boundary''
     ''messaging''
     ''Send one SCTP message and preserve its boundary.''
     ServerObserved
     20
     ''Connect to the server and send exactly one SCTP message with the specified payload.''
     [MessageSpec ''single-boundary'' 1 11]
     []
     []
     ''''
     1
     0"

definition multi_message_boundary_feature :: feature_definition where
  "multi_message_boundary_feature =
     make_receive_feature
     ''multi_message_boundary''
     ''Multiple message boundaries''
     ''messaging''
     ''Send two SCTP messages and preserve ordering and boundaries.''
     ServerObserved
     20
     ''Connect to the server and send the two messages in order as distinct SCTP messages.''
     [MessageSpec ''alpha'' 1 100, MessageSpec ''beta'' 1 101]
     []
     []
     ''''
     1
     0"

definition stream_id_feature :: feature_definition where
  "stream_id_feature =
     make_receive_feature
     ''stream_id''
     ''Stream identifier metadata''
     ''metadata''
     ''Deliver a message with a specific SCTP stream id.''
     ServerObserved
     20
     ''Connect to the server and send the message on the requested SCTP stream.''
     [MessageSpec ''stream-check'' 7 21]
     []
     []
     ''''
     1
     0"

definition ppid_feature :: feature_definition where
  "ppid_feature =
     make_receive_feature
     ''ppid''
     ''PPID metadata''
     ''metadata''
     ''Deliver a message with a specific SCTP PPID.''
     ServerObserved
     20
     ''Connect to the server and send the message with the requested SCTP PPID.''
     [MessageSpec ''ppid-check'' 2 424242]
     []
     []
     ''''
     1
     0"

definition nodelay_feature :: feature_definition where
  "nodelay_feature =
     make_receive_feature
     ''nodelay''
     ''SCTP_NODELAY''
     ''socket_option''
     ''Set SCTP_NODELAY before sending data.''
     Hybrid
     20
     ''Set SCTP_NODELAY on the client socket, connect to the server, send the probe payload, then report the local API result.''
     [MessageSpec ''nodelay-check'' 3 31]
     [''SCTP_NODELAY'']
     []
     ''Report whether setting SCTP_NODELAY succeeded in the client environment.''
     1
     0"

definition initmsg_feature :: feature_definition where
  "initmsg_feature =
     make_receive_feature
     ''initmsg''
     ''SCTP_INITMSG''
     ''socket_option''
     ''Configure SCTP_INITMSG before association setup.''
     Hybrid
     20
     ''Configure SCTP_INITMSG or the environment equivalent before connecting, send the probe payload, then report the local API result.''
     [MessageSpec ''initmsg-check'' 4 41]
     [''SCTP_INITMSG'']
     []
     ''Report the INITMSG values you attempted and whether the call succeeded.''
     1
     0"

definition rto_assoc_parameters_feature :: feature_definition where
  "rto_assoc_parameters_feature =
     make_receive_feature
     ''rto_assoc_parameters''
     ''SCTP_RTOINFO''
     ''socket_option''
     ''Configure association RTO parameters before or after association setup, depending on the client API surface.''
     Hybrid
     20
     ''Configure SCTP_RTOINFO or the environment equivalent, connect to the server, send the probe payload, then report the RTO values you applied.''
     [MessageSpec ''rtoinfo-check'' 4 42]
     [''SCTP_RTOINFO'']
     []
     ''Report the RTO parameter values attempted and whether the API accepted them.''
     1
     0"

definition delayed_sack_tuning_feature :: feature_definition where
  "delayed_sack_tuning_feature =
     (make_receive_feature
     ''delayed_sack_tuning''
     ''SCTP_DELAYED_SACK''
     ''socket_option''
     ''Configure delayed SACK behavior on the active association before sending the probe payload.''
     Hybrid
     20
     ''Apply SCTP_DELAYED_SACK or the environment equivalent, connect to the server, send the probe payload, then report the delayed-SACK values attempted.''
     [MessageSpec ''delayed-sack-check'' 4 43]
     [''SCTP_DELAYED_SACK'']
     []
     ''Report the delayed-SACK timer and frequency attempted and whether the API accepted them.''
     1
     0)
     \<lparr>fd_socket_tuning := Some \<lparr>st_delayed_sack_delay_ms = 200, st_delayed_sack_freq = 2, st_max_burst = 0, st_maxseg = 0\<rparr>\<rparr>"

definition max_burst_tuning_feature :: feature_definition where
  "max_burst_tuning_feature =
     (make_receive_feature
     ''max_burst_tuning''
     ''SCTP_MAX_BURST''
     ''socket_option''
     ''Configure maximum burst on the active association before sending the probe payload.''
     Hybrid
     20
     ''Apply SCTP_MAX_BURST or the environment equivalent, connect to the server, send the probe payload, then report the value attempted.''
     [MessageSpec ''max-burst-check'' 4 44]
     [''SCTP_MAX_BURST'']
     []
     ''Report the maximum-burst value attempted and whether the API accepted it.''
     1
     0)
     \<lparr>fd_socket_tuning := Some \<lparr>st_delayed_sack_delay_ms = 0, st_delayed_sack_freq = 0, st_max_burst = 2, st_maxseg = 0\<rparr>\<rparr>"

definition notifications_feature :: feature_definition where
  "notifications_feature =
     make_send_feature
     ''notifications''
     ''Association and shutdown notifications''
     ''events''
     ''Subscribe to SCTP notifications and report what the client observed.''
     Hybrid
     20
     ''Subscribe to association, shutdown, and data I/O notifications. Connect to the server, send the trigger payload, read the server message, close gracefully, then report the notifications you observed.''
     ''notifications-ready''
     [MessageSpec ''server-notify'' 5 51]
     [''association'', ''shutdown'', ''dataio'']
     ''Report the notification types observed by the client, including association and shutdown events.''"

definition event_subscription_matrix_feature :: feature_definition where
  "event_subscription_matrix_feature =
     make_send_feature
     ''event_subscription_matrix''
     ''Event subscription matrix''
     ''events''
     ''Subscribe to the SCTP event set exposed by the client environment and report which notifications are surfaced.''
     Hybrid
     20
     ''Subscribe to the available SCTP events, connect to the server, send the trigger payload, receive the server message, and report the exact notifications observed.''
     ''event-matrix-ready''
     [MessageSpec ''server-event-matrix'' 5 52]
     [''association'', ''shutdown'', ''dataio'']
     ''Report which SCTP notifications were available and which were delivered during the scenario.''"

definition association_shutdown_notifications_feature :: feature_definition where
  "association_shutdown_notifications_feature =
     make_send_feature
     ''association_shutdown_notifications''
     ''Association shutdown notifications''
     ''events''
     ''Observe graceful association teardown notifications.''
     Hybrid
     20
     ''Subscribe to association and shutdown events, connect to the server, send the trigger payload, receive the server message, close the association cleanly, and report the shutdown-related notifications observed.''
     ''shutdown-notify-ready''
     [MessageSpec ''server-shutdown-notify'' 5 53]
     [''association'', ''shutdown'']
     ''Report the association-change and shutdown notifications observed by the client.''"

definition peer_addr_change_notifications_feature :: feature_definition where
  "peer_addr_change_notifications_feature =
     (make_send_feature
     ''peer_addr_change_notifications''
     ''Peer address change notifications''
     ''path-management''
     ''Observe peer-address-change notifications while establishing and using a multihomed association.''
     Hybrid
     25
     ''Subscribe to address and association notifications, connect to the multihomed reference server, send the trigger payload, receive the server message, and report the peer-address notifications observed.''
     ''peer-addr-change-ready''
     [MessageSpec ''server-peer-addr-change'' 14 1401]
     [''association'', ''address'', ''dataio'']
     ''Report the SCTP_PEER_ADDR_CHANGE notifications observed by the client during association setup or early traffic.'')
     \<lparr>fd_bind_address_count := 2,
       fd_manual_setup_required := True,
       fd_manual_setup_instructions := [''After the association is established, induce a real path-state transition on one advertised server address before rerunning this feature.'', ''Example: temporarily block SCTP traffic to one server address or withdraw one advertised path so the client can observe SCTP_PEER_ADDR_CHANGE.'']\<rparr>"

definition partial_delivery_event_feature :: feature_definition where
  "partial_delivery_event_feature =
     (make_send_feature
     ''partial_delivery_event''
     ''Partial delivery event''
     ''notifications''
     ''Receive a very large SCTP user message and observe partial-delivery notifications while it is surfaced to the application.''
     Hybrid
     25
     ''Subscribe to partial-delivery notifications, connect to the server, send the trigger payload, receive the large server message, and report whether SCTP_PARTIAL_DELIVERY_EVENT was observed.''
     ''partial-delivery-ready''
     [(MessageSpec ''partial-delivery'' 25 2501)\<lparr>ms_size_bytes := 1048576\<rparr>]
     [''partial_delivery'', ''dataio'']
     ''Report whether SCTP_PARTIAL_DELIVERY_EVENT was observed while the large message was delivered.'')
     \<lparr>fd_manual_setup_required := True,
       fd_manual_setup_instructions := [''Tune the client host so very large inbound SCTP messages trigger partial delivery before rerunning this feature.'', ''Example: reduce the effective SCTP receive buffer / partial-delivery threshold on the client host, then rerun with --include-manual-setup.'']\<rparr>"

definition multi_bind_feature :: feature_definition where
  "multi_bind_feature =
     make_receive_feature
     ''multi_bind''
     ''Multihome reference server''
     ''multihoming''
     ''Connect to a multihomed SCTP server contract if the environment supports multiple peer addresses.''
     Hybrid
     25
     ''If the client environment supports multihome connect, use all advertised addresses. Otherwise declare the feature unsupported with evidence.''
     [MessageSpec ''multi-bind-check'' 6 61]
     []
     []
     ''Report whether the client used all advertised server addresses when creating the association.''
     2
     0"

definition local_addr_enum_feature :: feature_definition where
  "local_addr_enum_feature =
     make_receive_feature
     ''local_addr_enum''
     ''Local address enumeration''
     ''multihoming''
     ''Enumerate client local addresses after association setup.''
     Hybrid
     20
     ''Connect to the server, send the trigger payload, enumerate the local SCTP addresses in the client environment, then report them.''
     [MessageSpec ''local-addr-enum'' 0 71]
     []
     []
     ''Report the local addresses returned by the client environment.''
     1
     0"

definition peer_addr_enum_feature :: feature_definition where
  "peer_addr_enum_feature =
     make_receive_feature
     ''peer_addr_enum''
     ''Peer address enumeration''
     ''multihoming''
     ''Enumerate peer SCTP addresses after association setup.''
     Hybrid
     20
     ''Connect to the server, send the trigger payload, enumerate the peer SCTP addresses in the client environment, then report them.''
     [MessageSpec ''peer-addr-enum'' 0 72]
     []
     []
     ''Report the peer addresses returned by the client environment.''
     1
     0"

definition negative_connect_error_feature :: feature_definition where
  "negative_connect_error_feature =
     make_agent_feature
     ''negative_connect_error''
     ''Negative connect path''
     ''error_path''
     ''Attempt an invalid SCTP connection and report the failure.''
     20
     ''Attempt to connect to the provided invalid target and report the connect or first-send failure.''
     ''Report the error surfaced by the client environment for the invalid SCTP target.''
     []
     ''0.0.0.0:1''"

definition default_sndinfo_recvrcvinfo_feature :: feature_definition where
  "default_sndinfo_recvrcvinfo_feature =
     make_receive_feature
     ''default_sndinfo_recvrcvinfo''
     ''SCTP_DEFAULT_SNDINFO / RECVRCVINFO''
     ''metadata''
     ''Set default sndinfo and confirm the server receives the expected metadata.''
     Hybrid
     20
     ''Set SCTP_DEFAULT_SNDINFO or the environment equivalent, then send the probe payload without overriding stream or PPID per message.''
     [MessageSpec ''default-sndinfo'' 9 901]
     [''SCTP_DEFAULT_SNDINFO'']
     []
     ''Report whether setting the default send info succeeded.''
     1
     0"

definition large_message_reassembly_feature :: feature_definition where
  "large_message_reassembly_feature =
     make_receive_feature
     ''large_message_reassembly''
     ''Large message reassembly''
     ''fragmentation''
     ''Send one large SCTP user message and verify the server receives a reassembled message with the original boundary preserved.''
     ServerObserved
     25
     ''Connect to the server and send one large SCTP message with the specified payload and metadata.''
     [(MessageSpec ''large-reassembly'' 24 2401)\<lparr>ms_size_bytes := 131072\<rparr>]
     []
     []
     ''''
     1
     0"

definition maxseg_fragmentation_feature :: feature_definition where
  "maxseg_fragmentation_feature =
     (make_receive_feature
     ''maxseg_fragmentation''
     ''SCTP_MAXSEG fragmentation''
     ''fragmentation''
     ''Limit the outbound SCTP fragment size and verify the server still receives one intact reassembled user message.''
     Hybrid
     25
     ''Apply SCTP_MAXSEG or the environment equivalent, connect to the server, send the large probe payload, then report the fragmentation limit attempted.''
     [(MessageSpec ''maxseg-fragmentation'' 24 2402)\<lparr>ms_size_bytes := 65536\<rparr>]
     [''SCTP_MAXSEG'']
     []
     ''Report the SCTP_MAXSEG value attempted and whether the API accepted it.''
     1
     0)
     \<lparr>fd_socket_tuning := Some \<lparr>st_delayed_sack_delay_ms = 0, st_delayed_sack_freq = 0, st_max_burst = 0, st_maxseg = 1200\<rparr>\<rparr>"

definition unordered_delivery_feature :: feature_definition where
  "unordered_delivery_feature =
     make_receive_feature
     ''unordered_delivery''
     ''Unordered delivery''
     ''messaging''
     ''Send an unordered SCTP message if the client environment exposes the necessary flag or sndinfo field.''
     Hybrid
     20
     ''Send the probe payload as an unordered SCTP message if supported, then report whether the environment exposed and accepted unordered delivery controls.''
     [MessageSpec ''unordered-check'' 12 1201]
     []
     []
     ''Report whether unordered delivery controls were available and whether the send path accepted them.''
     1
     0"

definition recvnxtinfo_feature :: feature_definition where
  "recvnxtinfo_feature =
     make_send_feature
     ''recvnxtinfo''
     ''SCTP_RECVNXTINFO''
     ''metadata''
     ''Receive two server messages and report next-message metadata from the client side.''
     Hybrid
     20
     ''Enable SCTP_RECVNXTINFO or the environment equivalent. Connect to the server, send the trigger payload, receive the two server messages, and report the next-message metadata you observed.''
     ''recvnxtinfo-ready''
     [MessageSpec ''nxt-first'' 10 1001, MessageSpec ''nxt-second'' 11 1002]
     []
     ''Report the next-message metadata observed by the client while receiving the first message.''"

definition autoclose_feature :: feature_definition where
  "autoclose_feature =
     make_agent_feature
     ''autoclose''
     ''SCTP_AUTOCLOSE''
     ''socket_option''
     ''Attempt to configure SCTP_AUTOCLOSE on the client socket.''
     20
     ''Call SCTP_AUTOCLOSE or the environment equivalent and report whether the option is available and accepted.''
     ''Report the AUTOCLOSE value attempted and the outcome.''
     [''SCTP_AUTOCLOSE'']
     ''''"

definition bindx_add_remove_feature :: feature_definition where
  "bindx_add_remove_feature =
     make_receive_feature
     ''bindx_add_remove''
     ''SCTP_BINDX add/remove''
     ''multihoming''
     ''Add and remove local SCTP bind addresses on the client before connecting.''
     Hybrid
     25
     ''If the environment exposes SCTP_BINDX or equivalent multihome bind controls, add and remove local addresses as needed, connect to the server, send the probe payload, then report the bindx operations attempted.''
     [MessageSpec ''bindx-check'' 13 1301]
     []
     []
     ''Report the local addresses added or removed and whether the API accepted the operations.''
     1
     0"

definition primary_addr_management_feature :: feature_definition where
  "primary_addr_management_feature =
     make_receive_feature
     ''primary_addr_management''
     ''Primary address management''
     ''multihoming''
     ''Attempt to set a local primary address for the association.''
     Hybrid
     25
     ''Connect to the server, attempt to set the local primary address if the API supports it, send the probe payload, and report the result.''
     [MessageSpec ''primary-addr-check'' 14 1401]
     []
     []
     ''Report whether the client environment exposed local primary-address management and the result of the call.''
     1
     0"

definition peer_primary_addr_request_feature :: feature_definition where
  "peer_primary_addr_request_feature =
     make_receive_feature
     ''peer_primary_addr_request''
     ''Peer primary address request''
     ''multihoming''
     ''Attempt to request a peer primary address change for the association.''
     Hybrid
     25
     ''Connect to the server, attempt to request a peer primary address change if the API supports it, send the probe payload, and report the result.''
     [MessageSpec ''peer-primary-check'' 14 1402]
     []
     []
     ''Report whether the client environment exposed peer primary-address requests and the result of the call.''
     1
     0"

definition peeloff_assoc_feature :: feature_definition where
  "peeloff_assoc_feature =
     make_receive_feature
     ''peeloff_assoc''
     ''Association peeloff''
     ''association''
     ''Peel the association onto a dedicated socket if the client environment supports peeloff.''
     Hybrid
     20
     ''Connect to the server, peel off the association to a dedicated socket if supported, send the probe payload on the peeled-off path, and report the result.''
     [MessageSpec ''peeloff-check'' 15 1501]
     []
     []
     ''Report whether the association peeloff API was available and whether it succeeded.''
     1
     0"

definition assoc_id_listing_feature :: feature_definition where
  "assoc_id_listing_feature =
     make_receive_feature
     ''assoc_id_listing''
     ''Association identifier listing''
     ''association''
     ''Enumerate association identifiers after connecting.''
     Hybrid
     20
     ''Connect to the server, send the probe payload, enumerate association identifiers if the API supports it, and report the results.''
     [MessageSpec ''assoc-id-list'' 15 1502]
     []
     []
     ''Report the association identifiers returned by the client environment, or explain why enumeration is unavailable.''
     1
     0"

definition assoc_status_opt_info_feature :: feature_definition where
  "assoc_status_opt_info_feature =
     make_receive_feature
     ''assoc_status_opt_info''
     ''SCTP_STATUS / opt_info''
     ''introspection''
     ''Query association status from the client after connecting.''
     Hybrid
     20
     ''Connect to the server, send the probe payload, query association status through sctp_opt_info or an equivalent API, then report the result.''
     [MessageSpec ''assoc-status'' 0 81]
     []
     []
     ''Report whether association status information was available and summarize the returned state.''
     1
     0"

definition one_to_many_multi_assoc_feature :: feature_definition where
  "one_to_many_multi_assoc_feature =
     (make_receive_feature
     ''one_to_many_multi_assoc''
     ''One-to-many multi-association socket''
     ''one-to-many''
     ''Use one SCTP socket to create two associations to two reference-server ports and prove they remain distinct.''
     Hybrid
     25
     ''Open one unconnected one-to-many SCTP socket, send each message to the matching connect address, then report the distinct association ids observed on that one socket.''
     [MessageSpec ''otm-one'' 1 101, MessageSpec ''otm-two'' 2 102]
     []
     []
     ''Report the two distinct association ids observed on the single one-to-many client socket.''
     1
     0)
     \<lparr>fd_scenario_kind := ReceiveMessagesMultiTarget,
       fd_one_to_many := Some \<lparr>om_expected_associations = 2, om_same_socket_required = True, om_require_distinct_assoc_ids = True\<rparr>\<rparr>"

definition stream_reconfig_reset_feature :: feature_definition where
  "stream_reconfig_reset_feature =
     make_send_feature
     ''stream_reconfig_reset''
     ''Stream reconfiguration reset''
     ''reconfiguration''
     ''Attempt an SCTP stream reset against the active association.''
     Hybrid
     25
     ''Connect to the server, send the trigger payload, attempt stream reset or the environment equivalent, and report the outcome.''
     ''stream-reset-ready''
     [MessageSpec ''stream-reset-ack'' 16 1601]
     []
     ''Report which stream reset operation was attempted and whether the client environment accepted it.''"

definition stream_reconfig_add_streams_feature :: feature_definition where
  "stream_reconfig_add_streams_feature =
     make_send_feature
     ''stream_reconfig_add_streams''
     ''Stream reconfiguration add streams''
     ''reconfiguration''
     ''Attempt to add outbound or inbound streams on the active association.''
     Hybrid
     25
     (''Connect to the server, send the trigger payload, attempt to add streams through the environment'' @ [CHR 0x27] @ ''s SCTP reconfiguration API, and report the outcome.'')
     ''stream-add-ready''
     [MessageSpec ''stream-add-ack'' 16 1602]
     []
     ''Report the requested stream changes and whether the client environment accepted them.''"

definition pr_sctp_ttl_feature :: feature_definition where
  "pr_sctp_ttl_feature =
     (make_receive_feature
     ''pr_sctp_ttl''
     ''PR-SCTP TTL policy''
     ''reliability''
     ''Apply time-based partial reliability and verify forward progress under operator-provided impairment.''
     Hybrid
     30
     ''Apply the documented traffic impairment on the Linux client host, configure a TTL-based partially reliable send, then send the reliable follow-up message.''
     [(MessageSpec ''pr-ttl-drop'' 17 1701)\<lparr>ms_size_bytes := 32768, ms_pr_policy := ''ttl'', ms_pr_value := 250\<rparr>, MessageSpec ''pr-ttl-delivered'' 17 1702]
     [''SCTP_DEFAULT_PRINFO'']
     []
     ''Report the TTL policy applied and confirm the manual impairment was active.''
     1
     0)
     \<lparr>fd_scenario_kind := ReceivePRMessages,
       fd_manual_setup_required := True,
       fd_manual_setup_instructions := [''On the Linux client host, apply temporary impairment before running this feature, for example:'', ''sudo tc qdisc replace dev <iface> root netem loss 30% delay 200ms 40ms'', ''After the test run, remove it with: sudo tc qdisc del dev <iface> root'']\<rparr>"

definition pr_sctp_rtx_feature :: feature_definition where
  "pr_sctp_rtx_feature =
     (make_receive_feature
     ''pr_sctp_rtx''
     ''PR-SCTP retransmission policy''
     ''reliability''
     ''Apply retransmission-limited partial reliability and verify forward progress under operator-provided impairment.''
     Hybrid
     30
     ''Apply the documented traffic impairment on the Linux client host, configure a retransmission-limited partially reliable send, then send the reliable follow-up message.''
     [(MessageSpec ''pr-rtx-drop'' 17 1703)\<lparr>ms_size_bytes := 32768, ms_pr_policy := ''rtx'', ms_pr_value := 1\<rparr>, MessageSpec ''pr-rtx-delivered'' 17 1704]
     [''SCTP_DEFAULT_PRINFO'']
     []
     ''Report the retransmission policy applied and confirm the manual impairment was active.''
     1
     0)
     \<lparr>fd_scenario_kind := ReceivePRMessages,
       fd_manual_setup_required := True,
       fd_manual_setup_instructions := fd_manual_setup_instructions pr_sctp_ttl_feature\<rparr>"

definition auth_required_chunks_feature :: feature_definition where
  "auth_required_chunks_feature =
     (make_receive_feature
     ''auth_required_chunks''
     ''SCTP AUTH required chunks''
     ''authentication''
     ''Configure authenticated chunk coverage before sending the probe payload.''
     Hybrid
     25
     ''Configure SCTP AUTH chunk coverage and shared keys, connect to the server, send the probe payload, then report the AUTH setup attempted.''
     [MessageSpec ''auth-required-check'' 22 2201]
     [''SCTP_AUTH_CHUNK'', ''SCTP_AUTH_KEY'']
     []
     ''Report the AUTH chunk types and key ids configured on the client.''
     1
     0)
     \<lparr>fd_auth := Some \<lparr>ac_chunk_types = [kSctpChunkAsconf, kSctpChunkAsconfAck], ac_primary_key_id = 7, ac_primary_secret = ''auth-required-primary'', ac_secondary_key_id = 8, ac_secondary_secret = ''auth-required-secondary''\<rparr>,
       fd_manual_setup_required := True,
       fd_manual_setup_instructions := [''On the Linux client host, enable SCTP AUTH before running this feature:'', ''sudo sysctl -w net.sctp.auth_enable=1'']\<rparr>"

definition auth_key_rotation_feature :: feature_definition where
  "auth_key_rotation_feature =
     (make_receive_feature
     ''auth_key_rotation''
     ''SCTP AUTH key rotation''
     ''authentication''
     ''Rotate SCTP AUTH keys before sending the probe payload.''
     Hybrid
     25
     ''Install two SCTP AUTH keys, activate the secondary key, connect to the server, send the probe payload, then report the key-rotation sequence attempted.''
     [(MessageSpec ''auth-key-rotation'' 22 2202)\<lparr>ms_auth_key_id := 8\<rparr>]
     [''SCTP_AUTH_KEY'', ''SCTP_AUTH_ACTIVE_KEY'']
     []
     ''Report the SCTP AUTH key ids installed and which key was activated for the send path.''
     1
     0)
     \<lparr>fd_auth := Some \<lparr>ac_chunk_types = [kSctpChunkAsconf, kSctpChunkAsconfAck], ac_primary_key_id = 7, ac_primary_secret = ''auth-rotation-primary'', ac_secondary_key_id = 8, ac_secondary_secret = ''auth-rotation-secondary''\<rparr>,
       fd_manual_setup_required := True,
       fd_manual_setup_instructions := fd_manual_setup_instructions auth_required_chunks_feature\<rparr>"

definition asconf_add_remove_feature :: feature_definition where
  "asconf_add_remove_feature =
     (make_receive_feature
     ''asconf_add_remove''
     ''ASCONF address add/remove''
     ''multihoming''
     ''Attempt dynamic address reconfiguration on the client association.''
     Hybrid
     30
     ''If the client environment exposes dynamic address reconfiguration, add and remove the provided local SCTP addresses, send the probe payload, then report the operations attempted.''
     [MessageSpec ''asconf-check'' 23 2301]
     [''SCTP_BINDX'', ''SCTP_SET_PEER_PRIMARY_ADDR'']
     []
     (''Report which addresses were added and removed through the client'' @ [CHR 0x27] @ ''s address-reconfiguration API.'')
     2
     0)
     \<lparr>fd_address_reconfig := Some \<lparr>ar_add_addresses = [''127.0.0.2:0''], ar_remove_addresses = [''127.0.0.2:0'']\<rparr>,
       fd_manual_setup_required := True,
       fd_manual_setup_instructions := [''On the Linux client host, enable SCTP dynamic address reconfiguration before running this feature:'', ''sudo sysctl -w net.sctp.addip_enable=1'', ''Ensure the add/remove addresses exist locally, or adjust the contract to use host-local addresses.'']\<rparr>"

definition idata_interleaving_feature :: feature_definition where
  "idata_interleaving_feature =
     (make_send_feature
     ''idata_interleaving''
     ''I-DATA / fragment interleaving''
     ''messaging''
     ''Enable fragment interleaving and observe server traffic that mixes one large message with smaller messages.''
     Hybrid
     30
     ''Enable fragment interleaving, connect to the server, send the trigger payload, receive the server messages, and report whether smaller messages made progress while the large message was in flight.''
     ''idata-interleave-ready''
     [(MessageSpec ''idata-large'' 18 1801)\<lparr>ms_size_bytes := 65536\<rparr>, MessageSpec ''idata-small-a'' 19 1802, MessageSpec ''idata-small-b'' 19 1803]
     []
     ''Report the fragment-interleave level applied and the receive ordering observed for the server messages.'')
     \<lparr>fd_interleaving := Some \<lparr>ic_fragment_interleave_level = 2, ic_large_message_size = 65536, ic_large_stream = 18, ic_large_ppid = 1801, ic_small_stream = 19, ic_small_ppid = 1802, ic_small_message_count = 2\<rparr>\<rparr>"

definition stream_scheduler_policy_feature :: feature_definition where
  "stream_scheduler_policy_feature =
     (make_send_feature
     ''stream_scheduler_policy''
     ''Stream scheduler policy''
     ''scheduler''
     ''Select a non-default SCTP stream scheduler policy on the active association.''
     Hybrid
     25
     ''Connect to the server, send the trigger payload, apply the requested stream scheduler policy, receive the acknowledgement, and report the scheduler configuration attempted.''
     ''scheduler-policy-ready''
     [MessageSpec ''scheduler-policy-ack'' 20 2001]
     []
     ''Report the SCTP stream scheduler policy applied and whether the call succeeded.'')
     \<lparr>fd_scheduler := Some \<lparr>sc_policy = ''priority'', sc_primary_stream = 20, sc_secondary_stream = 21, sc_primary_value = 32, sc_secondary_value = 8, sc_message_count = 12\<rparr>\<rparr>"

definition stream_scheduler_value_feature :: feature_definition where
  "stream_scheduler_value_feature =
     (make_send_feature
     ''stream_scheduler_value''
     ''Stream scheduler value''
     ''scheduler''
     ''Apply per-stream scheduler values on the active association.''
     Hybrid
     25
     ''Connect to the server, send the trigger payload, apply the requested per-stream scheduler values, receive the acknowledgement, and report the values attempted.''
     ''scheduler-value-ready''
     [MessageSpec ''scheduler-value-ack'' 21 2101]
     []
     ''Report the per-stream scheduler values attempted and whether the calls succeeded.'')
     \<lparr>fd_scheduler := Some \<lparr>sc_policy = ''priority'', sc_primary_stream = 20, sc_secondary_stream = 21, sc_primary_value = 64, sc_secondary_value = 4, sc_message_count = 12\<rparr>\<rparr>"

section \<open>The catalogue\<close>

definition catalog_features :: "feature_definition list" where
  "catalog_features =
     [socket_create_feature,
      bind_listen_connect_feature,
      single_message_boundary_feature,
      multi_message_boundary_feature,
      stream_id_feature,
      ppid_feature,
      nodelay_feature,
      initmsg_feature,
      rto_assoc_parameters_feature,
      delayed_sack_tuning_feature,
      max_burst_tuning_feature,
      notifications_feature,
      event_subscription_matrix_feature,
      association_shutdown_notifications_feature,
      peer_addr_change_notifications_feature,
      partial_delivery_event_feature,
      multi_bind_feature,
      local_addr_enum_feature,
      peer_addr_enum_feature,
      negative_connect_error_feature,
      default_sndinfo_recvrcvinfo_feature,
      large_message_reassembly_feature,
      maxseg_fragmentation_feature,
      unordered_delivery_feature,
      recvnxtinfo_feature,
      autoclose_feature,
      bindx_add_remove_feature,
      primary_addr_management_feature,
      peer_primary_addr_request_feature,
      peeloff_assoc_feature,
      assoc_id_listing_feature,
      assoc_status_opt_info_feature,
      one_to_many_multi_assoc_feature,
      stream_reconfig_reset_feature,
      stream_reconfig_add_streams_feature,
      pr_sctp_ttl_feature,
      pr_sctp_rtx_feature,
      auth_required_chunks_feature,
      auth_key_rotation_feature,
      asconf_add_remove_feature,
      idata_interleaving_feature,
      stream_scheduler_policy_feature,
      stream_scheduler_value_feature]"

text \<open>The last loop of the function sets the references of every feature from its id.\<close>

definition build_feature_catalog :: "feature_definition list" where
  "build_feature_catalog =
     map (\<lambda>feature. feature\<lparr>fd_rfc_references := rfc_references_for_feature (fd_id feature)\<rparr>) catalog_features"

lemmas feature_defs = socket_create_feature_def
  bind_listen_connect_feature_def
  single_message_boundary_feature_def
  multi_message_boundary_feature_def
  stream_id_feature_def
  ppid_feature_def
  nodelay_feature_def
  initmsg_feature_def
  rto_assoc_parameters_feature_def
  delayed_sack_tuning_feature_def
  max_burst_tuning_feature_def
  notifications_feature_def
  event_subscription_matrix_feature_def
  association_shutdown_notifications_feature_def
  peer_addr_change_notifications_feature_def
  partial_delivery_event_feature_def
  multi_bind_feature_def
  local_addr_enum_feature_def
  peer_addr_enum_feature_def
  negative_connect_error_feature_def
  default_sndinfo_recvrcvinfo_feature_def
  large_message_reassembly_feature_def
  maxseg_fragmentation_feature_def
  unordered_delivery_feature_def
  recvnxtinfo_feature_def
  autoclose_feature_def
  bindx_add_remove_feature_def
  primary_addr_management_feature_def
  peer_primary_addr_request_feature_def
  peeloff_assoc_feature_def
  assoc_id_listing_feature_def
  assoc_status_opt_info_feature_def
  one_to_many_multi_assoc_feature_def
  stream_reconfig_reset_feature_def
  stream_reconfig_add_streams_feature_def
  pr_sctp_ttl_feature_def
  pr_sctp_rtx_feature_def
  auth_required_chunks_feature_def
  auth_key_rotation_feature_def
  asconf_add_remove_feature_def
  idata_interleaving_feature_def
  stream_scheduler_policy_feature_def
  stream_scheduler_value_feature_def

end
