(* ===== verification/Catalog_Theorems.thy ===== *)
theory Catalog_Theorems
  imports Catalog Session_Theorems
begin

text \<open>
  What the rest of the server relies on the catalogue for, checked on the catalogue as the source
  has it, and what follows for the server's own sessions.
\<close>

section \<open>Evaluating the catalogue\<close>

lemmas make_defs = make_agent_feature_def make_receive_feature_def make_send_feature_def default_feature_def

definition catalog_ids :: "string list" where
  "catalog_ids =
    [''socket_create'', ''bind_listen_connect'', ''single_message_boundary'',
     ''multi_message_boundary'', ''stream_id'', ''ppid'', ''nodelay'', ''initmsg'',
     ''rto_assoc_parameters'', ''delayed_sack_tuning'', ''max_burst_tuning'', ''notifications'',
     ''event_subscription_matrix'', ''association_shutdown_notifications'',
     ''peer_addr_change_notifications'', ''partial_delivery_event'', ''multi_bind'',
     ''local_addr_enum'', ''peer_addr_enum'', ''negative_connect_error'',
     ''default_sndinfo_recvrcvinfo'', ''large_message_reassembly'', ''maxseg_fragmentation'',
     ''unordered_delivery'', ''recvnxtinfo'', ''autoclose'', ''bindx_add_remove'',
     ''primary_addr_management'', ''peer_primary_addr_request'', ''peeloff_assoc'',
     ''assoc_id_listing'', ''assoc_status_opt_info'', ''one_to_many_multi_assoc'',
     ''stream_reconfig_reset'', ''stream_reconfig_add_streams'', ''pr_sctp_ttl'', ''pr_sctp_rtx'',
     ''auth_required_chunks'', ''auth_key_rotation'', ''asconf_add_remove'',
     ''idata_interleaving'', ''stream_scheduler_policy'', ''stream_scheduler_value'']"

lemma catalog_features_ids: "map fd_id catalog_features = catalog_ids"
  by (simp add: catalog_features_def catalog_ids_def feature_defs make_defs)

lemma catalog_ids_eq: "map fd_id build_feature_catalog = catalog_ids"
  by (simp add: build_feature_catalog_def o_def catalog_features_ids)

lemma catalog_ids_distinct: "distinct catalog_ids"
  by (simp add: catalog_ids_def)

lemma catalog_ids_nonempty: "'''' \<notin> set catalog_ids"
  by (simp add: catalog_ids_def)

text \<open>
  A statement about every feature is checked once on \<open>catalog_features\<close>: the references that the
  last loop adds do not matter to it.
\<close>

lemma catalog_all:
  assumes "list_all P catalog_features" and "\<And>f refs. P f \<Longrightarrow> P (f\<lparr>fd_rfc_references := refs\<rparr>)"
  shows "list_all P build_feature_catalog"
  using assms by (auto simp: build_feature_catalog_def list_all_iff)

section \<open>Identifiers\<close>

text \<open>
  C39. The catalogue has 43 features with distinct, nonempty ids, none of which contains a slash
  or a question mark: the session map keeps them all, and each has a route of its own.
\<close>

theorem catalog_identifiers:
  "length build_feature_catalog = 43 \<and> catalog_ids_ok build_feature_catalog \<and>
   list_all (\<lambda>f. CHR ''/'' \<notin> set (fd_id f) \<and> CHR ''?'' \<notin> set (fd_id f)) build_feature_catalog"
proof -
  have "length catalog_ids = 43" by (simp add: catalog_ids_def)
  then have "length build_feature_catalog = 43" by (metis catalog_ids_eq length_map)
  moreover have "list_all (\<lambda>i. CHR ''/'' \<notin> set i \<and> CHR ''?'' \<notin> set i) catalog_ids"
    by (simp add: catalog_ids_def)
  then have "list_all (\<lambda>i. CHR ''/'' \<notin> set i \<and> CHR ''?'' \<notin> set i) (map fd_id build_feature_catalog)"
    by (simp add: catalog_ids_eq)
  moreover have "catalog_ids_ok build_feature_catalog"
    using catalog_ids_distinct catalog_ids_nonempty
    by (simp add: catalog_ids_ok_def catalog_ids_eq flip: set_map)
  ultimately show ?thesis by (simp add: list.pred_map o_def)
qed

lemma server_ids_ok: "catalog_ids_ok build_feature_catalog"
  using catalog_ids_distinct catalog_ids_nonempty
  by (simp add: catalog_ids_ok_def catalog_ids_eq flip: set_map)

section \<open>Scenarios\<close>




lemma catalog_two_ids: "list_all two_ids_expected build_feature_catalog"
proof (rule catalog_all)
  show "list_all two_ids_expected catalog_features"
    by (simp add: catalog_features_def feature_defs make_defs two_ids_expected_def)
qed (simp add: two_ids_expected_def)

lemma if_nonempty:
  "((if c then x # xs else ys) \<noteq> []) \<longleftrightarrow> c \<or> ys \<noteq> []"
  "((if c then x # xs else []) \<noteq> []) \<longleftrightarrow> c"
  by simp_all

lemma rfc_references_nonempty:
  "rfc_references_for_feature i \<noteq> [] \<longleftrightarrow> i \<in> set catalog_ids"
  unfolding rfc_references_for_feature_def if_nonempty catalog_ids_def
  by (auto simp only: list.set insert_iff empty_iff)

text \<open>
  Every feature of the catalogue cites at least one section of an RFC.
\<close>

theorem catalog_references:
  "list_all (\<lambda>f. fd_rfc_references f \<noteq> []) build_feature_catalog"
  unfolding list_all_iff
proof
  fix f assume "f \<in> set build_feature_catalog"
  then obtain g where g: "g \<in> set catalog_features" "f = g\<lparr>fd_rfc_references := rfc_references_for_feature (fd_id g)\<rparr>"
    by (auto simp: build_feature_catalog_def)
  then have "fd_id g \<in> set catalog_ids" by (auto simp flip: catalog_features_ids)
  with g show "fd_rfc_references f \<noteq> []" by (simp add: rfc_references_nonempty)
qed

section \<open>Messages\<close>

text \<open>Messages fit the negotiated streams, and what the server receives fits its buffer.\<close>

definition messages_ok :: "feature_definition \<Rightarrow> bool" where
  "messages_ok f \<longleftrightarrow>
     list_all (\<lambda>msg. ms_stream msg < 32 \<and> 0 < length (materialize_payload msg) \<and>
       length (materialize_payload msg) \<le> kBufferSize) (fd_client_send_messages f) \<and>
     list_all (\<lambda>msg. ms_stream msg < 32 \<and> 0 < length (materialize_payload msg)) (fd_server_send_messages f)"

text \<open>
  Every message of the catalogue is nonempty and on one of the 32 streams the server
  negotiates, and every message a client must send fits the buffer the workers receive into, so
  a conforming client can always be matched.
\<close>

theorem catalog_messages:
  "list_all messages_ok build_feature_catalog"
proof (rule catalog_all)
  show "list_all messages_ok catalog_features"
    by (simp add: catalog_features_def feature_defs make_defs messages_ok_def MessageSpec_def materialize_payload_length
        kBufferSize_def)
qed (simp add: messages_ok_def)

section \<open>No misconfigured scenario\<close>




section \<open>What the catalogue never asks for\<close>

text \<open>
  No feature asks the server to check peer addresses, and no message of the catalogue is
  marked unordered: the peer-address check of the receive worker and the unordered flag of the
  send worker are never used, not even by the features named for them.
\<close>

theorem catalog_unused_checks:
  "list_all (\<lambda>f. fd_expected_peer_addr_count f = 0 \<and>
     list_all (\<lambda>msg. \<not> ms_unordered msg) (fd_client_send_messages f @ fd_server_send_messages f)) build_feature_catalog"
proof (rule catalog_all)
  show "list_all (\<lambda>f. fd_expected_peer_addr_count f = 0 \<and>
     list_all (\<lambda>msg. \<not> ms_unordered msg) (fd_client_send_messages f @ fd_server_send_messages f)) catalog_features"
    by (simp add: catalog_features_def feature_defs make_defs MessageSpec_def)
qed simp

section \<open>The server's own sessions\<close>

text \<open>
  In every session of the server, in every reachable state, every request on every feature of
  the catalogue gets a response.
\<close>

theorem server_requests_always_answered:
  assumes "session_reachable options build_feature_catalog m" and "f \<in> set build_feature_catalog" and "valid_sockets oss"
  shows "StartFeature oss options (fd_id f) m \<noteq> None \<and> CompleteFeature (fd_id f) body m \<noteq> None \<and>
    UnsupportedFeature (fd_id f) body m \<noteq> None \<and> SessionJson build_feature_catalog m \<noteq> None \<and>
    SummaryJson build_feature_catalog m \<noteq> None"
  using requests_answered [OF assms(1) server_ids_ok assms(2) catalog_two_ids assms(3), of body] by blast

theorem server_requests_always_answered_witness:
  "\<exists>r m'. CompleteFeature ''socket_create'' ''not json''
     (new_machine build_feature_catalog ''session'' Map.empty sample_clock) = Some (r, m')"
proof -
  define f where "f = socket_create_feature\<lparr>fd_rfc_references := rfc_references_for_feature (fd_id socket_create_feature)\<rparr>"
  have f: "f \<in> set build_feature_catalog"
    by (simp add: f_def build_feature_catalog_def catalog_features_def)
  have i: "fd_id f = ''socket_create''" by (simp add: f_def socket_create_feature_def make_defs)
  have "session_reachable default_options build_feature_catalog
      (new_machine build_feature_catalog ''session'' Map.empty sample_clock)"
    unfolding session_reachable_def by (blast intro: session_run.stop)
  from server_requests_always_answered [OF this f sample_valid] show ?thesis unfolding i by auto
qed

end
