(* ===== verification/Http.thy ===== *)
theory Http
  imports Workers
begin

text \<open>
  The HTTP wire format (\<open>main.cpp\<close>, lines 602 to 618 and 2386 to 2533): reading a request from
  a connection, splitting its path, writing a response. What \<open>read\<close> and \<open>write\<close> return is the
  input, a list of results in the order of the calls; \<open>None\<close> is the state of a thread that is
  still in the call after the last one.
\<close>

section \<open>Writing\<close>

text \<open>\<open>Wrote n\<close>: \<open>write\<close> returned \<open>n\<close> and took the next \<open>n\<close> bytes; or it failed with an errno.\<close>

datatype write_result = Wrote nat | WriteError int

definition EINTR :: int where "EINTR = 4"

text \<open>\<open>write_all\<close>: its return value, and the bytes the peer was sent.\<close>

fun write_all :: "string \<Rightarrow> write_result list \<Rightarrow> bool option \<times> string" where
  "write_all data results =
     (if data = [] then (Some True, [])
      else case results of
        [] \<Rightarrow> (None, [])
      | WriteError e # rest \<Rightarrow> if e = EINTR then write_all data rest else (Some False, [])
      | Wrote n # rest \<Rightarrow>
          if n = 0 then (Some False, [])
          else case write_all (drop n data) rest of (r, sent) \<Rightarrow> (r, take n data @ sent))"

declare write_all.simps [simp del]

section \<open>Paths\<close>

fun split_path_loop :: "string \<Rightarrow> string \<Rightarrow> string list \<Rightarrow> string list" where
  "split_path_loop [] current parts = (if current \<noteq> [] then parts @ [current] else parts)"
| "split_path_loop (ch # path) current parts =
     (if ch = CHR ''?'' then (if current \<noteq> [] then parts @ [current] else parts)
      else if ch = CHR ''/'' then
        (if current \<noteq> [] then split_path_loop path [] (parts @ [current])
         else split_path_loop path current parts)
      else split_path_loop path (current @ [ch]) parts)"

definition split_path :: "string \<Rightarrow> string list" where
  "split_path path = split_path_loop path [] []"

section \<open>Reading a request\<close>

text \<open>\<open>ReadData bytes\<close>: \<open>read\<close> returned \<open>length bytes\<close>, 0 at the end of the stream.\<close>

datatype read_result = ReadData string | ReadError int

definition crlf2 :: string where "crlf2 = [creturn, newline, creturn, newline]"
definition lf2 :: string where "lf2 = [newline, newline]"

text \<open>The condition of the first loop: where the header block ends, if it does.\<close>

definition header_end :: "string \<Rightarrow> nat option" where
  "header_end raw = (case find_sub raw crlf2 of Some e \<Rightarrow> Some e | None \<Rightarrow> find_sub raw lf2)"

definition read_error :: "string \<Rightarrow> read_result \<Rightarrow> string" where
  "read_error what r =
     (case r of ReadError e \<Rightarrow>
        if e = EWOULDBLOCK \<or> e = EAGAIN then ''timed out reading HTTP '' @ what else ''failed to read HTTP '' @ what
      | ReadData bytes \<Rightarrow> ''failed to read HTTP '' @ what)"

definition kMaxHeader :: nat where "kMaxHeader = push_bit 20 1"

fun read_headers :: "string \<Rightarrow> read_result list \<Rightarrow> (string + (string \<times> nat \<times> read_result list)) option" where
  "read_headers raw reads =
     (case header_end raw of
        Some e \<Rightarrow> Some (Inr (raw, e, reads))
      | None \<Rightarrow> (case reads of
          [] \<Rightarrow> None
        | r # rest \<Rightarrow> (case r of
            ReadData (b # bytes) \<Rightarrow>
              if kMaxHeader < length (raw @ b # bytes) then Some (Inl ''request too large'')
              else read_headers (raw @ b # bytes) rest
          | _ \<Rightarrow> Some (Inl (read_error ''request'' r)))))"

declare read_headers.simps [simp del]

text \<open>\<open>operator>>\<close> into a string: skip white space, take the next word; \<open>None\<close> at the end.\<close>

definition next_word :: "string \<Rightarrow> (string \<times> string) option" where
  "next_word s =
     (let t = dropWhile isspace s
      in if t = [] then None else Some (takeWhile (\<lambda>c. \<not> isspace c) t, dropWhile (\<lambda>c. \<not> isspace c) t))"

definition drop_cr :: "string \<Rightarrow> string" where
  "drop_cr line = (if line \<noteq> [] \<and> last line = creturn then butlast line else line)"

definition request_words :: "string \<Rightarrow> (string \<times> string) option" where
  "request_words line =
     (case next_word line of None \<Rightarrow> None
      | Some (method, r1) \<Rightarrow> (case next_word r1 of None \<Rightarrow> None
      | Some (path, r2) \<Rightarrow> (case next_word r2 of None \<Rightarrow> None
      | Some (http_version, r3) \<Rightarrow> Some (method, path))))"

text \<open>\<open>std::tolower\<close> in the C locale.\<close>

definition to_lower :: "char \<Rightarrow> char" where
  "to_lower c = (if CHR ''A'' \<le> c \<and> c \<le> CHR ''Z'' then char_of (byte_of c + 32) else c)"

definition add_header :: "string \<Rightarrow> (string \<rightharpoonup> string) \<Rightarrow> (string \<rightharpoonup> string)" where
  "add_header header_line headers =
     (case find_sub (drop_cr header_line) '':'' of
        None \<Rightarrow> headers
      | Some colon \<Rightarrow>
          headers(map to_lower (trim (take colon (drop_cr header_line))) \<mapsto> trim (drop (Suc colon) (drop_cr header_line))))"

text \<open>The request line and the headers of the header block; the body is still to be read.\<close>

definition parse_head :: "string \<Rightarrow> string + http_request" where
  "parse_head header_block =
     (case getlines newline header_block of
        [] \<Rightarrow> Inl ''missing request line''
      | request_line # header_lines \<Rightarrow>
          (case request_words (drop_cr request_line) of
             None \<Rightarrow> Inl ''invalid request line''
           | Some (method, path) \<Rightarrow>
               Inr \<lparr>rq_method = method, rq_path = path, rq_body = [],
                    rq_headers = fold add_header header_lines Map.empty\<rparr>))"

text \<open>
  \<open>strtoul (value.c_str (), nullptr, 10)\<close> with a 64-bit \<open>unsigned long\<close>: white space, a sign, the
  digits; the largest value on overflow, and a negated value wraps around.
\<close>

definition strtoul :: "string \<Rightarrow> nat" where
  "strtoul value =
     (let s = dropWhile isspace (c_string value);
          negative = (s \<noteq> [] \<and> hd s = CHR ''-'');
          digits = takeWhile is_digit (if s \<noteq> [] \<and> (hd s = CHR ''-'' \<or> hd s = CHR ''+'') then tl s else s);
          n = digits_value digits
      in if 2 ^ 64 \<le> n then 2 ^ 64 - 1
         else if negative then (2 ^ 64 - n) mod 2 ^ 64 else n)"

definition content_length :: "http_request \<Rightarrow> nat" where
  "content_length request =
     (case rq_headers request ''content-length'' of None \<Rightarrow> 0 | Some v \<Rightarrow> strtoul v)"

fun read_body :: "nat \<Rightarrow> string \<Rightarrow> read_result list \<Rightarrow> (string + string) option" where
  "read_body n body reads =
     (if n \<le> length body then Some (Inr (take n body))
      else case reads of
        [] \<Rightarrow> None
      | r # rest \<Rightarrow> (case r of
          ReadData (b # bytes) \<Rightarrow> read_body n (body @ b # bytes) rest
        | _ \<Rightarrow> Some (Inl (read_error ''body'' r))))"

declare read_body.simps [simp del]

definition ReadHttpRequest :: "read_result list \<Rightarrow> (string + http_request) option" where
  "ReadHttpRequest reads =
     (case read_headers [] reads of
        None \<Rightarrow> None
      | Some (Inl error) \<Rightarrow> Some (Inl error)
      | Some (Inr (raw, e, rest)) \<Rightarrow>
          (case parse_head (take e raw) of
             Inl error \<Rightarrow> Some (Inl error)
           | Inr request \<Rightarrow>
               let body_offset = (if take 4 (drop e raw) = crlf2 then e + 4 else e + 2)
               in map_option (\<lambda>r. case r of Inl error \<Rightarrow> Inl error | Inr body \<Rightarrow> Inr (request\<lparr>rq_body := body\<rparr>))
                    (read_body (content_length request) (drop body_offset raw) rest)))"

section \<open>Responses\<close>

definition crlf :: string where "crlf = [creturn, newline]"

definition response_text :: "http_response \<Rightarrow> string" where
  "response_text response =
     ''HTTP/1.1 '' @ dec_of_int (rs_status response) @ '' '' @ http_status_text (rs_status response) @ crlf @
     ''Content-Type: '' @ rs_content_type response @ crlf @
     concat (map (\<lambda>(name, value). name @ '': '' @ value @ crlf) (rs_headers response)) @
     ''Content-Length: '' @ dec_of_nat (length (rs_body response)) @ crlf @
     ''Connection: close'' @ crlf2 @
     rs_body response"

definition WriteHttpResponse :: "http_response \<Rightarrow> write_result list \<Rightarrow> string" where
  "WriteHttpResponse response results = snd (write_all (response_text response) results)"

end
