(* ===== verification/Http_Theorems.thy ===== *)
theory Http_Theorems
  imports Http
begin

text \<open>
  What the wire functions promise: \<open>write_all\<close> sends a prefix of its data, all of it on success;
  \<open>split_path\<close> takes apart what the path builders put together; and a request is read back from
  whatever chunks the network delivers it in.
\<close>

section \<open>Searching\<close>

lemma starts_with_nth:
  "starts_with s p \<longleftrightarrow> length p \<le> length s \<and> (\<forall>j<length p. s ! j = p ! j)"
proof
  assume "starts_with s p"
  then have t: "take (length p) s = p" by (simp add: starts_with_def)
  then have "length p \<le> length s" by (metis length_take min.absorb_iff2 min.commute)
  moreover have "s ! j = p ! j" if "j < length p" for j
    using t that by (metis nth_take)
  ultimately show "length p \<le> length s \<and> (\<forall>j<length p. s ! j = p ! j)" by blast
next
  assume "length p \<le> length s \<and> (\<forall>j<length p. s ! j = p ! j)"
  then show "starts_with s p" by (auto simp: starts_with_def intro: nth_equalityI)
qed

text \<open>\<open>p\<close> occurs in \<open>s\<close> at \<open>i\<close>.\<close>

definition occurs_at :: "string \<Rightarrow> string \<Rightarrow> nat \<Rightarrow> bool" where
  "occurs_at s p i \<longleftrightarrow> i + length p \<le> length s \<and> (\<forall>j<length p. s ! (i + j) = p ! j)"

lemma occurs_at_Cons: "occurs_at (c # s) p (Suc i) \<longleftrightarrow> occurs_at s p i"
  by (simp add: occurs_at_def)

lemma occurs_at_0: "occurs_at s p 0 \<longleftrightarrow> starts_with s p"
  by (simp add: occurs_at_def starts_with_nth)

lemma find_sub_None:
  "p \<noteq> [] \<Longrightarrow> find_sub s p = None \<longleftrightarrow> (\<forall>i. \<not> occurs_at s p i)"
proof (induction s)
  case Nil
  then show ?case by (subst find_sub.simps) (auto simp: starts_with_def occurs_at_def)
next
  case (Cons c s)
  have "(\<forall>i. \<not> occurs_at (c # s) p i) \<longleftrightarrow> \<not> occurs_at (c # s) p 0 \<and> (\<forall>i. \<not> occurs_at s p i)"
    by (metis occurs_at_Cons not0_implies_Suc)
  with Cons show ?case by (subst find_sub.simps) (auto simp: occurs_at_0)
qed

lemma find_sub_first:
  "p \<noteq> [] \<Longrightarrow> occurs_at s p i \<Longrightarrow> \<forall>k<i. \<not> occurs_at s p k \<Longrightarrow> find_sub s p = Some i"
proof (induction s arbitrary: i)
  case Nil
  then show ?case by (simp add: occurs_at_def)
next
  case (Cons c s)
  show ?case
  proof (cases i)
    case 0
    with Cons.prems show ?thesis by (subst find_sub.simps) (simp add: occurs_at_0)
  next
    case (Suc k)
    have "find_sub s p = Some k"
    proof (rule Cons.IH)
      show "occurs_at s p k" using Cons.prems(2) Suc by (simp add: occurs_at_Cons)
      show "\<forall>l<k. \<not> occurs_at s p l" using Cons.prems(3) Suc occurs_at_Cons by (metis Suc_mono)
    qed (rule Cons.prems)
    moreover have "\<not> starts_with (c # s) p" using Cons.prems(3) Suc occurs_at_0 by blast
    ultimately show ?thesis using Suc by (subst find_sub.simps) simp
  qed
qed

lemma occurs_at_prefix: "occurs_at raw p i \<Longrightarrow> occurs_at (raw @ rest) p i"
  by (auto simp: occurs_at_def nth_append)

lemma occurs_at_append: "occurs_at (xs @ p @ ys) p (length xs)"
  by (simp add: occurs_at_def nth_append)

lemma occurs_at_prefix_iff: "i + length p \<le> length raw \<Longrightarrow> occurs_at (raw @ rest) p i \<longleftrightarrow> occurs_at raw p i"
  by (auto simp: occurs_at_def nth_append)

lemma find_sub_char: "c \<notin> set xs \<Longrightarrow> find_sub (xs @ c # r) [c] = Some (length xs)"
proof (rule find_sub_first)
  show "occurs_at (xs @ c # r) [c] (length xs)" using occurs_at_append [of xs "[c]" r] by simp
  assume "c \<notin> set xs"
  then show "\<forall>k<length xs. \<not> occurs_at (xs @ c # r) [c] k"
    by (auto simp: occurs_at_def nth_append)
qed simp

section \<open>Writing everything\<close>

lemma write_all_prefix:
  "\<exists>rest. data = snd (write_all data results) @ rest \<and>
     (fst (write_all data results) = Some True \<longleftrightarrow> rest = [])"
proof (induction data results rule: write_all.induct)
  case (1 data results)
  show ?case
  proof (cases "data = []")
    case True
    then show ?thesis by (simp add: write_all.simps)
  next
    case False
    show ?thesis
    proof (cases results)
      case Nil
      with False show ?thesis by (simp add: write_all.simps)
    next
      case (Cons r rest)
      show ?thesis
      proof (cases r)
        case (WriteError e)
        with False Cons 1(2) show ?thesis by (auto simp: write_all.simps [of data])
      next
        case (Wrote n)
        obtain b sent where w: "write_all (drop n data) rest = (b, sent)" by fastforce
        show ?thesis
        proof (cases "n = 0")
          case True
          with False Cons Wrote show ?thesis by (simp add: write_all.simps [of data])
        next
          case pos: False
          from 1(1) [OF False Cons Wrote pos] w
          obtain more where "drop n data = sent @ more" "b = Some True \<longleftrightarrow> more = []" by auto
          moreover from this have "data = take n data @ sent @ more" by (metis append_take_drop_id)
          ultimately show ?thesis
            using False Cons Wrote pos w by (intro exI [of _ more]) (simp add: write_all.simps [of data])
        qed
      qed
    qed
  qed
qed

text \<open>
  \<open>write_all\<close> sends a prefix of its data whatever partial counts and interruptions \<open>write\<close>
  returns, in order and without repetition; it reports success exactly when that is all of the
  data, and stops early only on a real error or a zero count.
\<close>

theorem write_all_sends_prefix:
  "\<exists>rest. data = snd (write_all data results) @ rest \<and>
     (fst (write_all data results) = Some True \<longleftrightarrow> rest = [])"
  by (rule write_all_prefix)

section \<open>Paths\<close>

definition segment :: "string \<Rightarrow> bool" where
  "segment x \<longleftrightarrow> x \<noteq> [] \<and> CHR ''/'' \<notin> set x \<and> CHR ''?'' \<notin> set x"

lemma split_path_segment:
  "CHR ''/'' \<notin> set x \<Longrightarrow> CHR ''?'' \<notin> set x \<Longrightarrow>
     split_path_loop (x @ path) current parts = split_path_loop path (current @ x) parts"
  by (induction x arbitrary: current) auto

lemma split_path_segments:
  "\<forall>x\<in>set xs. segment x \<Longrightarrow>
     split_path_loop (concat (map (\<lambda>x. CHR ''/'' # x) xs) @ q) [] parts =
     (case xs of [] \<Rightarrow> split_path_loop q [] parts
      | _ \<Rightarrow> split_path_loop q (last xs) (parts @ butlast xs))"
proof (induction xs arbitrary: parts)
  case (Cons x xs)
  then have x: "segment x" by simp
  show ?case
  proof (cases xs)
    case Nil
    with x show ?thesis by (simp add: segment_def split_path_segment)
  next
    case (Cons y ys)
    have "split_path_loop (concat (map (\<lambda>x. CHR ''/'' # x) (x # xs)) @ q) [] parts =
        split_path_loop (concat (map (\<lambda>x. CHR ''/'' # x) xs) @ q) x parts"
      using x by (simp add: segment_def split_path_segment)
    also have "\<dots> = split_path_loop (concat (map (\<lambda>x. CHR ''/'' # x) xs) @ q) [] (parts @ [x])"
      using x Cons by (simp add: segment_def)
    finally show ?thesis using Cons Cons.IH [of "parts @ [x]"] Cons.prems by simp
  qed
qed simp

text \<open>
  \<open>split_path\<close> takes apart what the server's path builders put together: a path of nonempty
  segments without slash or question mark splits into exactly those segments, whatever query
  string follows.
\<close>

lemma split_path_segments_back:
  assumes "list_all segment xs" and "q = [] \<or> hd q = CHR ''?''"
  shows "split_path (concat (map (\<lambda>x. CHR ''/'' # x) xs) @ q) = xs"
proof -
  have q: "split_path_loop q current parts = (if current \<noteq> [] then parts @ [current] else parts)" for current parts
    using assms(2) by (cases q) auto
  have "\<forall>x\<in>set xs. segment x" using assms(1) by (simp add: list_all_iff)
  then show ?thesis
    using split_path_segments [of xs q "[]"]
    by (cases xs) (auto simp: split_path_def q segment_def append_butlast_last_id)
qed

section \<open>Reading\<close>

lemma find_sub_not_yet:
  assumes p: "p \<noteq> []" and f: "\<forall>k<i. \<not> occurs_at (raw @ rest) p k" and short: "length raw < i + length p"
  shows "find_sub raw p = None"
  unfolding find_sub_None [OF p]
proof (intro allI notI)
  fix k assume k: "occurs_at raw p k"
  then have "k + length p \<le> length raw" by (simp add: occurs_at_def)
  with short have "k < i" by simp
  with f occurs_at_prefix [OF k] show False by blast
qed

text \<open>The byte stream of a request: where its header block ends.\<close>

definition header_ends_at :: "string \<Rightarrow> nat \<Rightarrow> bool" where
  "header_ends_at text i \<longleftrightarrow> occurs_at text crlf2 i \<and> (\<forall>k<i. \<not> occurs_at text crlf2 k) \<and>
     (\<forall>k<i + 3. \<not> occurs_at text lf2 k)"

lemma header_end_found:
  assumes "header_ends_at (raw @ rest) i" and "i + 4 \<le> length raw"
  shows "header_end raw = Some i"
proof -
  have "find_sub raw crlf2 = Some i"
  proof (rule find_sub_first)
    show "crlf2 \<noteq> []" by (simp add: crlf2_def)
    show "occurs_at raw crlf2 i"
      using assms occurs_at_prefix_iff [of i crlf2 raw rest] by (simp add: header_ends_at_def crlf2_def)
    show "\<forall>k<i. \<not> occurs_at raw crlf2 k"
      using assms(1) occurs_at_prefix [of raw crlf2 _ rest] by (auto simp: header_ends_at_def)
  qed
  then show ?thesis by (simp add: header_end_def)
qed

lemma header_end_not_yet:
  assumes "header_ends_at (raw @ rest) i" and "length raw < i + 4"
  shows "header_end raw = None"
  using find_sub_not_yet [of crlf2 i raw rest] find_sub_not_yet [of lf2 "i + 3" raw rest] assms
  by (simp add: header_end_def header_ends_at_def crlf2_def lf2_def)

lemma read_headers_chunks:
  "\<forall>c\<in>set chunks. c \<noteq> [] \<and> length c \<le> 4096 \<Longrightarrow> header_ends_at (raw @ concat chunks) i \<Longrightarrow>
     i + 4 + 4096 \<le> kMaxHeader \<Longrightarrow>
     \<exists>got later. read_headers raw (map ReadData chunks @ tail) = Some (Inr (raw @ concat got, i, map ReadData later @ tail)) \<and>
       chunks = got @ later \<and> i + 4 \<le> length (raw @ concat got)"
proof (induction chunks arbitrary: raw)
  case Nil
  then have "i + 4 \<le> length raw" by (simp add: header_ends_at_def occurs_at_def crlf2_def)
  with Nil header_end_found [of raw "[]" i] show ?case by (simp add: read_headers.simps)
next
  case (Cons c chunks)
  show ?case
  proof (cases "i + 4 \<le> length raw")
    case True
    have "header_end raw = Some i" by (rule header_end_found [OF Cons.prems(2) True])
    with True show ?thesis by (intro exI [of _ "[]"] exI [of _ "c # chunks"]) (simp add: read_headers.simps)
  next
    case False
    then have none: "header_end raw = None" using header_end_not_yet [OF Cons.prems(2)] by simp
    obtain b bs where c: "c = b # bs" using Cons.prems(1) by (cases c) auto
    have "length (raw @ c) \<le> kMaxHeader" using False Cons.prems(1,3) by simp
    then have step: "read_headers raw (map ReadData (c # chunks) @ tail) = read_headers (raw @ c) (map ReadData chunks @ tail)"
      using none c by (simp add: read_headers.simps [of raw])
    have "header_ends_at ((raw @ c) @ concat chunks) i" using Cons.prems(2) by simp
    with Cons.IH [of "raw @ c"] Cons.prems obtain got later where
      "read_headers (raw @ c) (map ReadData chunks @ tail) = Some (Inr ((raw @ c) @ concat got, i, map ReadData later @ tail))"
      "chunks = got @ later" "i + 4 \<le> length ((raw @ c) @ concat got)" by auto
    with step show ?thesis by (intro exI [of _ "c # got"] exI [of _ later]) simp
  qed
qed

lemma read_body_chunks:
  "\<forall>c\<in>set chunks. c \<noteq> [] \<Longrightarrow> n \<le> length (body @ concat chunks) \<Longrightarrow>
     read_body n body (map ReadData chunks) = Some (Inr (take n (body @ concat chunks)))"
proof (induction chunks arbitrary: body)
  case Nil
  then show ?case by (simp add: read_body.simps)
next
  case (Cons c chunks)
  obtain b bs where "c = b # bs" using Cons.prems(1) by (cases c) auto
  with Cons Cons.IH [of "body @ c"] show ?case by (simp add: read_body.simps [of n body])
qed

text \<open>
  The request read does not depend on how the network cut it into chunks: for any chunks of
  one to 4096 bytes, the header block is the text up to the first empty line, the body is the
  \<open>Content-Length\<close> bytes after it, and bytes beyond those are ignored; provided the empty line
  comes early enough for the one-megabyte limit and the body is all there.
\<close>

lemma request_from_chunks:
  assumes "list_all (\<lambda>c. c \<noteq> [] \<and> length c \<le> 4096) chunks" and "header_ends_at (concat chunks) i"
    and "i + 4 + 4096 \<le> kMaxHeader" and "parse_head (take i (concat chunks)) = Inr request"
    and "i + 4 + content_length request \<le> length (concat chunks)"
  shows "ReadHttpRequest (map ReadData chunks) =
    Some (Inr (request\<lparr>rq_body := take (content_length request) (drop (i + 4) (concat chunks))\<rparr>))"
proof -
  have chunks: "\<forall>c\<in>set chunks. c \<noteq> [] \<and> length c \<le> 4096" using assms(1) by (simp add: list_all_iff)
  from read_headers_chunks [OF this _ assms(3), of "[]" "[]"] assms(2) obtain got later where
    h: "read_headers [] (map ReadData chunks) = Some (Inr (concat got, i, map ReadData later))"
    and split: "chunks = got @ later" and long: "i + 4 \<le> length (concat got)" by auto
  have occ: "occurs_at (concat chunks) crlf2 i" using assms(2) by (simp add: header_ends_at_def)
  then have "occurs_at (concat got) crlf2 i"
    using occurs_at_prefix_iff [of i crlf2 "concat got" "concat later"] long by (simp add: split crlf2_def)
  then have offset: "take 4 (drop i (concat got)) = crlf2"
    by (intro nth_equalityI) (auto simp: occurs_at_def crlf2_def)
  have head: "take i (concat got) = take i (concat chunks)" using long by (simp add: split)
  have rest: "drop (i + 4) (concat got) @ concat later = drop (i + 4) (concat chunks)" using long by (simp add: split)
  have "read_body (content_length request) (drop (i + 4) (concat got)) (map ReadData later) =
      Some (Inr (take (content_length request) (drop (i + 4) (concat chunks))))"
    using read_body_chunks [of later "content_length request" "drop (i + 4) (concat got)"] chunks assms(5)
    unfolding rest by (auto simp: split)
  then show ?thesis
    using h assms(4) head offset by (simp add: ReadHttpRequest_def Let_def)
qed

section \<open>A whole request\<close>

text \<open>The header block of two lines and the empty line after it, found by its line feeds.\<close>

lemma two_line_feeds:
  assumes "newline \<notin> set a" "newline \<notin> set b" and "j < length a + length b + 6"
  shows "(a @ crlf @ b @ crlf2) ! j = newline \<longleftrightarrow>
    j = length a + 1 \<or> j = length a + length b + 3 \<or> j = length a + length b + 5"
proof -
  consider "j < length a" | "j = length a" | "j = length a + 1"
    | "length a + 2 \<le> j" "j < length a + 2 + length b"
    | "j = length a + length b + 2" | "j = length a + length b + 3"
    | "j = length a + length b + 4" | "j = length a + length b + 5"
    using assms(3) by linarith
  then show ?thesis
  proof cases
    case 1
    then have "a ! j \<noteq> newline" using assms(1) nth_mem by metis
    with 1 show ?thesis by (simp add: nth_append)
  next
    case 4
    then have "b ! (j - length a - 2) \<noteq> newline"
      using assms(2) nth_mem [of "j - length a - 2" b] by fastforce
    moreover have "j - length a - 2 < length b" using 4 by linarith
    ultimately show ?thesis using 4 by (simp add: nth_append crlf_def)
  qed (simp_all add: nth_append crlf_def crlf2_def)
qed

lemma two_lines_header_end:
  assumes nl: "newline \<notin> set a" "newline \<notin> set b" and b: "b \<noteq> []"
  shows "header_ends_at (a @ crlf @ b @ crlf2 @ body) (length a + 2 + length b)" (is "header_ends_at ?t ?i")
proof -
  let ?h = "a @ crlf @ b @ crlf2"
  have t: "?t = ?h @ body" by simp
  have len: "length ?h = ?i + 4" by (simp add: crlf_def crlf2_def)
  have lb: "0 < length b" using b by simp
  have at: "?t ! j = newline \<longleftrightarrow> j = length a + 1 \<or> j = length a + length b + 3 \<or> j = length a + length b + 5"
    if "j < ?i + 4" for j
  proof -
    have "?t ! j = ?h ! j" using that len unfolding t by (simp only: nth_append) simp
    with two_line_feeds [OF nl, of j] that show ?thesis by simp
  qed
  have "\<not> occurs_at ?t crlf2 k" if "k < ?i" for k
  proof
    assume "occurs_at ?t crlf2 k"
    then have f: "\<And>j. j < length crlf2 \<Longrightarrow> ?t ! (k + j) = crlf2 ! j" unfolding occurs_at_def by blast
    have "?t ! (k + 1) = newline" using f [of 1] by (simp add: crlf2_def)
    moreover have "?t ! (k + 3) = newline" using f [of 3] by (simp add: crlf2_def)
    ultimately show False using at [of "k + 1"] at [of "k + 3"] that lb by auto
  qed
  moreover have "\<not> occurs_at ?t lf2 k" if "k < ?i + 3" for k
  proof
    assume "occurs_at ?t lf2 k"
    then have f: "\<And>j. j < length lf2 \<Longrightarrow> ?t ! (k + j) = lf2 ! j" unfolding occurs_at_def by blast
    have "?t ! k = newline" using f [of 0] by (simp add: lf2_def)
    moreover have "?t ! (k + 1) = newline" using f [of 1] by (simp add: lf2_def)
    ultimately show False using at [of k] at [of "k + 1"] that by auto
  qed
  moreover have "occurs_at ?t crlf2 ?i"
    using occurs_at_append [of "a @ crlf @ b" crlf2 body] by (simp add: crlf_def)
  ultimately show ?thesis by (simp add: header_ends_at_def)
qed

text \<open>A decimal number is read back, below \<open>2 ^ 64\<close>.\<close>

lemma digit_not_special: "is_digit c \<Longrightarrow> \<not> isspace c \<and> c \<noteq> CHR 0x00 \<and> c \<noteq> CHR ''-'' \<and> c \<noteq> CHR ''+'' \<and> c \<noteq> newline"
  by (auto simp: is_digit_def isspace_def less_eq_char_def)

lemma strtoul_dec: "n < 2 ^ 64 \<Longrightarrow> strtoul (dec_of_nat n) = n"
proof -
  assume n: "n < 2 ^ 64"
  obtain c t where ct: "dec_of_nat n = c # t" "is_digit c" using dec_of_nat_first by blast
  note c = digit_not_special [OF ct(2)]
  have all: "\<And>x. x \<in> set (dec_of_nat n) \<Longrightarrow> is_digit x" using dec_of_nat_digits by blast
  have "c_string (dec_of_nat n) = dec_of_nat n"
    unfolding c_string_def using all digit_not_special by simp
  moreover have "dropWhile isspace (dec_of_nat n) = dec_of_nat n" using ct c by simp
  moreover have digits: "takeWhile is_digit (dec_of_nat n) = dec_of_nat n" using all by simp
  moreover have "hd (dec_of_nat n) = c" using ct by simp
  ultimately show ?thesis
    using n c digits_value_dec [of n] by (simp add: strtoul_def Let_def digits)
qed

lemma dec_of_nat_length: "n < 10 ^ k \<Longrightarrow> 0 < k \<Longrightarrow> length (dec_of_nat n) \<le> k"
proof (induction k arbitrary: n)
  case (Suc k)
  show ?case
  proof (cases "n < 10")
    case True
    then show ?thesis by (subst dec_of_nat.simps) simp
  next
    case False
    then have "0 < k" using Suc.prems by (cases k) auto
    moreover have "n div 10 < 10 ^ k" using Suc.prems by (simp add: less_mult_imp_div_less mult.commute)
    ultimately show ?thesis using Suc.IH [of "n div 10"] False by (subst dec_of_nat.simps) simp
  qed
qed simp

text \<open>A request as a client writes it: the request line, the length of the body, and the body.\<close>

definition request_text :: "string \<Rightarrow> string \<Rightarrow> string \<Rightarrow> string" where
  "request_text method path body =
     (method @ '' '' @ path @ '' HTTP/1.1'') @ crlf @
     (''Content-Length: '' @ dec_of_nat (length body)) @ crlf2 @ body"

definition word_text :: "string \<Rightarrow> bool" where
  "word_text w \<longleftrightarrow> w \<noteq> [] \<and> list_all (\<lambda>c. \<not> isspace c) w"

lemma next_word_text:
  assumes "word_text w" and "r = [] \<or> isspace (hd r)"
  shows "next_word (w @ r) = Some (w, r)" and "next_word (CHR '' '' # w @ r) = Some (w, r)"
proof -
  have w: "\<And>c. c \<in> set w \<Longrightarrow> \<not> isspace c" "w \<noteq> []" using assms(1) by (auto simp: word_text_def list_all_iff)
  have "dropWhile isspace (w @ r) = w @ r" using w by (cases w) auto
  moreover have "takeWhile (\<lambda>c. \<not> isspace c) (w @ r) = w"
    using w assms(2) by (cases r) (auto simp: takeWhile_append)
  moreover have "dropWhile (\<lambda>c. \<not> isspace c) (w @ r) = r"
    using w assms(2) by (cases r) (auto simp: dropWhile_append)
  moreover have "isspace (CHR '' '')" by (simp add: isspace_def)
  ultimately show "next_word (w @ r) = Some (w, r)" "next_word (CHR '' '' # w @ r) = Some (w, r)"
    using w by (simp_all add: next_word_def)
qed

lemma request_line_words:
  assumes "word_text method" and "word_text path"
  shows "request_words (method @ '' '' @ path @ '' HTTP/1.1'') = Some (method, path)"
proof -
  have sp: "isspace (CHR '' '')" by (simp add: isspace_def)
  have "word_text ''HTTP/1.1''" by (simp add: word_text_def isspace_def)
  from next_word_text(2) [OF this, of "[]"] have "next_word '' HTTP/1.1'' = Some (''HTTP/1.1'', [])" by simp
  moreover have "next_word (method @ '' '' @ path @ '' HTTP/1.1'') = Some (method, '' '' @ path @ '' HTTP/1.1'')"
    by (rule next_word_text(1) [OF assms(1)]) (simp add: sp)
  moreover have "next_word ('' '' @ path @ '' HTTP/1.1'') = Some (path, '' HTTP/1.1'')"
    using next_word_text(2) [OF assms(2), of "'' HTTP/1.1''"] by (simp add: sp)
  ultimately show ?thesis by (simp add: request_words_def)
qed

lemma word_text_no_newline: "word_text w \<Longrightarrow> newline \<notin> set w"
  by (auto simp: word_text_def list_all_iff isspace_def)

lemma length_header:
  "add_header (''Content-Length: '' @ dec_of_nat n) Map.empty = [''content-length'' \<mapsto> dec_of_nat n]"
proof -
  let ?l = "''Content-Length: '' @ dec_of_nat n"
  have cr: "creturn \<notin> set (dec_of_nat n)"
  proof
    assume "creturn \<in> set (dec_of_nat n)"
    then have "\<not> isspace creturn" using dec_of_nat_digits [of n] digit_not_special by blast
    then show False by (simp add: isspace_def)
  qed
  have "last ?l \<in> set (dec_of_nat n)" by simp
  with cr have "last ?l \<noteq> creturn" by metis
  then have drop: "drop_cr ?l = ?l" by (simp only: drop_cr_def if_False simp_thms)
  have "find_sub (''Content-Length'' @ CHR '':'' # '' '' @ dec_of_nat n) '':'' = Some (length ''Content-Length'')"
    by (rule find_sub_char) simp
  then have colon: "find_sub ?l '':'' = Some 14" by simp
  have "trim (CHR '' '' # dec_of_nat n) = dec_of_nat n"
  proof -
    obtain c t where ct: "dec_of_nat n = c # t" "is_digit c" using dec_of_nat_first by blast
    have "is_digit (last (dec_of_nat n))" using dec_of_nat_digits [of n] by simp
    then have "\<not> isspace c" "\<not> isspace (last (dec_of_nat n))" using ct(2) digit_not_special by blast+
    moreover have "isspace (CHR '' '')" by (simp add: isspace_def)
    moreover have "trim (dec_of_nat n) = dec_of_nat n" by (rule trim_id) (use calculation ct in simp_all)
    ultimately show ?thesis by (simp add: trim_eq)
  qed
  moreover have "trim ''Content-Length'' = ''Content-Length''"
    by (rule trim_id) (simp_all add: isspace_def)
  moreover have "map to_lower ''Content-Length'' = ''content-length''" by code_simp
  ultimately show ?thesis unfolding add_header_def drop colon by simp
qed

text \<open>The facts about a text that starts with the header block of \<open>request_text\<close>.\<close>

definition request_line :: "string \<Rightarrow> string \<Rightarrow> string" where
  "request_line method path = method @ '' '' @ path @ '' HTTP/1.1''"

definition length_line :: "nat \<Rightarrow> string" where
  "length_line n = ''Content-Length: '' @ dec_of_nat n"

definition plain_request :: "string \<Rightarrow> string \<Rightarrow> string \<Rightarrow> http_request" where
  "plain_request method path body = \<lparr>rq_method = method, rq_path = path, rq_body = body,
     rq_headers = [''content-length'' \<mapsto> dec_of_nat (length body)]\<rparr>"

definition head_size :: "string \<Rightarrow> string \<Rightarrow> nat \<Rightarrow> nat" where
  "head_size method path n = length (request_line method path) + 2 + length (length_line n)"

lemma request_text_lines:
  "request_text method path body = request_line method path @ crlf @ length_line (length body) @ crlf2 @ body"
  by (simp add: request_text_def request_line_def length_line_def)

lemma request_text_length: "length (request_text method path body) = head_size method path (length body) + 4 + length body"
  by (simp add: request_text_lines head_size_def crlf_def crlf2_def)

lemma request_text_drop: "drop (head_size method path (length body) + 4) (request_text method path body @ beyond) = body @ beyond"
proof -
  have "head_size method path (length body) + 4 =
      length (request_line method path @ crlf @ length_line (length body) @ crlf2)"
    by (simp add: head_size_def crlf_def crlf2_def)
  then show ?thesis unfolding request_text_lines by simp
qed

lemma request_no_newline:
  assumes "word_text method" and "word_text path"
  shows "newline \<notin> set (request_line method path)" "newline \<notin> set (length_line n)"
  using assms word_text_no_newline dec_of_nat_digits [of n] digit_not_special
  by (auto simp: request_line_def length_line_def)

lemma request_text_header:
  assumes "word_text method" and "word_text path"
  shows "header_ends_at (request_text method path body @ beyond) (head_size method path (length body))"
proof -
  have "length_line (length body) \<noteq> []" by (simp add: length_line_def)
  from two_lines_header_end [OF request_no_newline(1) [OF assms] request_no_newline(2) [OF assms, of "length body"] this,
      of "body @ beyond"]
  show ?thesis by (simp add: request_text_lines head_size_def)
qed

lemma request_text_head:
  assumes "word_text method" and "word_text path"
  shows "parse_head (take (head_size method path (length body)) (request_text method path body @ beyond)) =
    Inr (plain_request method path body\<lparr>rq_body := []\<rparr>)"
proof -
  let ?l = "request_line method path" and ?h = "length_line (length body)"
  have take: "take (head_size method path (length body)) (request_text method path body @ beyond) = (?l @ [creturn]) @ newline # ?h"
    by (simp add: request_text_lines head_size_def crlf_def)
  note nl = request_no_newline(1) [OF assms] request_no_newline(2) [OF assms, of "length body"]
  have "newline \<notin> set (?l @ [creturn])" using nl by simp
  moreover have "?h \<noteq> []" by (simp add: length_line_def)
  ultimately have "getlines newline ((?l @ [creturn]) @ newline # ?h) = [?l @ [creturn], ?h]"
    using nl getlines_cons [of newline "?l @ [creturn]" ?h] getlines_no_delim [of newline ?h] by simp
  moreover have "request_words ?l = Some (method, path)"
    unfolding request_line_def by (rule request_line_words [OF assms])
  moreover have "add_header ?h Map.empty = [''content-length'' \<mapsto> dec_of_nat (length body)]"
    unfolding length_line_def by (rule length_header)
  ultimately show ?thesis
    unfolding take by (simp add: parse_head_def drop_cr_def plain_request_def)
qed

lemma plain_request_length:
  "length body < 2 ^ 64 \<Longrightarrow> content_length (plain_request method path body\<lparr>rq_body := []\<rparr>) = length body"
  using strtoul_dec by (simp add: content_length_def plain_request_def)

lemma head_size_small:
  assumes "length method + length path < 900000" and "n < 2 ^ 64"
  shows "head_size method path n + 4 + 4096 \<le> kMaxHeader"
proof -
  have "length (dec_of_nat n) \<le> 20" using dec_of_nat_length [of n 20] assms(2) by simp
  then show ?thesis using assms(1) by (simp add: head_size_def request_line_def length_line_def kMaxHeader_def)
qed

text \<open>
  C29. A request a client writes - a method and a path without white space, a \<open>Content-Length\<close>
  header and any body, however binary - is read back as it was written, in whatever chunks of one
  to 4096 bytes the network delivers it, as long as the header block stays below the one-megabyte
  limit and whatever bytes follow it.
\<close>

theorem request_roundtrip:
  assumes "word_text method" and "word_text path"
    and "list_all (\<lambda>c. c \<noteq> [] \<and> length c \<le> 4096) chunks"
    and "concat chunks = request_text method path body @ beyond"
    and "length method + length path < 900000" and "length body < 2 ^ 64"
  shows "ReadHttpRequest (map ReadData chunks) =
    Some (Inr \<lparr>rq_method = method, rq_path = path, rq_body = body,
               rq_headers = [''content-length'' \<mapsto> dec_of_nat (length body)]\<rparr>)"
proof -
  note whole = assms(4)
  have "head_size method path (length body) + 4 + length body \<le> length (concat chunks)"
    unfolding whole by (simp add: request_text_length)
  moreover have "take (length body) (drop (head_size method path (length body) + 4) (concat chunks)) = body"
    unfolding whole request_text_drop by simp
  ultimately show ?thesis
    using request_from_chunks [OF assms(3) request_text_header [OF assms(1,2), of body beyond, folded whole]
        head_size_small [OF assms(5,6)] request_text_head [OF assms(1,2), of body beyond, folded whole]]
    by (simp add: plain_request_length [OF assms(6)]) (simp add: plain_request_def)
qed

theorem request_roundtrip_witness:
  "ReadHttpRequest [ReadData ''POST /v1/sess'', ReadData (''ions HTTP/1.1'' @ [creturn]), ReadData (newline # ''Content-Length: 2'' @ [creturn, newline, creturn]),
       ReadData (newline # ''{''), ReadData ''}x''] =
     Some (Inr \<lparr>rq_method = ''POST'', rq_path = ''/v1/sessions'', rq_body = ''{}'',
                rq_headers = [''content-length'' \<mapsto> ''2'']\<rparr>)"
proof -
  let ?chunks = "[''POST /v1/sess'', ''ions HTTP/1.1'' @ [creturn], newline # ''Content-Length: 2'' @ [creturn, newline, creturn],
    newline # ''{'', ''}x'']"
  have two: "dec_of_nat (length ''{}'') = ''2''" by (subst dec_of_nat.simps) (simp add: digit_char_def)
  have "ReadHttpRequest (map ReadData ?chunks) =
    Some (Inr \<lparr>rq_method = ''POST'', rq_path = ''/v1/sessions'', rq_body = ''{}'',
               rq_headers = [''content-length'' \<mapsto> dec_of_nat (length ''{}'')]\<rparr>)"
  proof (rule request_roundtrip)
    show "concat ?chunks = request_text ''POST'' ''/v1/sessions'' ''{}'' @ ''x''"
      unfolding request_text_def two by (simp add: crlf_def crlf2_def)
  qed (simp_all add: word_text_def isspace_def)
  then show ?thesis unfolding two by simp
qed

section \<open>A client that stalls\<close>

lemma header_end_prefix: "header_end (raw @ rest) = None \<Longrightarrow> header_end raw = None"
proof -
  assume "header_end (raw @ rest) = None"
  then have "find_sub (raw @ rest) crlf2 = None" "find_sub (raw @ rest) lf2 = None"
    by (auto simp: header_end_def split: option.splits)
  moreover have ne: "crlf2 \<noteq> []" "lf2 \<noteq> []" by (simp_all add: crlf2_def lf2_def)
  ultimately have "find_sub raw crlf2 = None" "find_sub raw lf2 = None"
    unfolding find_sub_None [OF ne(1)] find_sub_None [OF ne(2)] using occurs_at_prefix by blast+
  then show "header_end raw = None" by (simp add: header_end_def)
qed

lemma read_headers_stalled:
  "\<forall>c\<in>set chunks. c \<noteq> [] \<Longrightarrow> header_end (raw @ concat chunks) = None \<Longrightarrow> length (raw @ concat chunks) \<le> kMaxHeader \<Longrightarrow>
     read_headers raw (map ReadData chunks @ [ReadError e]) = Some (Inl (read_error ''request'' (ReadError e)))"
proof (induction chunks arbitrary: raw)
  case Nil
  then show ?case by (simp add: read_headers.simps)
next
  case (Cons c chunks)
  obtain b bs where c: "c = b # bs" using Cons.prems(1) by (cases c) auto
  have "header_end raw = None" by (rule header_end_prefix [OF Cons.prems(2)])
  then show ?case
    using Cons.IH [of "raw @ c"] Cons.prems c by (simp add: read_headers.simps [of raw])
qed

lemma read_body_stalled:
  "\<forall>c\<in>set chunks. c \<noteq> [] \<Longrightarrow> length (body @ concat chunks) < n \<Longrightarrow>
     read_body n body (map ReadData chunks @ [ReadError e]) = Some (Inl (read_error ''body'' (ReadError e)))"
proof (induction chunks arbitrary: body)
  case Nil
  then show ?case by (simp add: read_body.simps)
next
  case (Cons c chunks)
  obtain b bs where "c = b # bs" using Cons.prems(1) by (cases c) auto
  with Cons.IH [of "body @ c"] Cons.prems show ?case by (simp add: read_body.simps [of n body])
qed

lemma stalled_request:
  assumes "word_text method" and "word_text path"
    and chunks: "list_all (\<lambda>c. c \<noteq> [] \<and> length c \<le> 4096) chunks"
    and k: "concat chunks = take k (request_text method path body)" "k < length (request_text method path body)"
    and "length method + length path < 900000" and "length body < 2 ^ 64"
  shows "ReadHttpRequest (map ReadData chunks @ [ReadError e]) =
    Some (Inl (read_error (if k < head_size method path (length body) + 4 then ''request'' else ''body'') (ReadError e)))"
proof -
  let ?i = "head_size method path (length body)" and ?t = "request_text method path body"
  have nonempty: "\<forall>c\<in>set chunks. c \<noteq> [] \<and> length c \<le> 4096" using chunks by (simp add: list_all_iff)
  have ends: "header_ends_at (concat chunks @ drop k ?t) ?i"
    using request_text_header [OF assms(1,2), of body "[]"] k(1) by simp
  have len: "length (concat chunks) = k" using k by simp
  have small: "?i + 4 + 4096 \<le> kMaxHeader" by (rule head_size_small [OF assms(6,7)])
  show ?thesis
  proof (cases "k < ?i + 4")
    case True
    then have "header_end ([] @ concat chunks) = None" using header_end_not_yet [OF ends] len by simp
    with read_headers_stalled [of chunks "[]" e] nonempty True small len
    show ?thesis by (simp add: ReadHttpRequest_def)
  next
    case False
    then have occ: "header_ends_at ([] @ concat chunks) ?i"
      using ends len occurs_at_prefix_iff [of ?i crlf2 "concat chunks" "drop k ?t"] occurs_at_prefix
      by (auto simp: header_ends_at_def crlf2_def)
    obtain got later where
      h: "read_headers [] (map ReadData chunks @ [ReadError e]) =
            Some (Inr (concat got, ?i, map ReadData later @ [ReadError e]))"
      and split: "chunks = got @ later" and long: "?i + 4 \<le> length (concat got)"
      using read_headers_chunks [OF nonempty occ small, of "[ReadError e]"] by auto
    have "occurs_at (concat got) crlf2 ?i"
      using occ occurs_at_prefix_iff [of ?i crlf2 "concat got" "concat later"] long
      by (simp add: split header_ends_at_def crlf2_def)
    then have offset: "take 4 (drop ?i (concat got)) = crlf2"
      by (intro nth_equalityI) (auto simp: occurs_at_def crlf2_def)
    have "take ?i (concat got) = take ?i (concat chunks)" using long by (simp add: split)
    also have "\<dots> = take ?i ?t" using k(1) False by (simp add: min_def)
    finally have head: "parse_head (take ?i (concat got)) = Inr (plain_request method path body\<lparr>rq_body := []\<rparr>)"
      using request_text_head [OF assms(1,2), of body "[]"] by simp
    have "length (concat got) + length (concat later) = k" using len by (simp add: split)
    then have "length (drop (?i + 4) (concat got) @ concat later) < length body"
      using k(2) long by (simp add: request_text_length)
    moreover have "\<forall>c\<in>set later. c \<noteq> []" using nonempty by (simp add: split)
    ultimately have "read_body (length body) (drop (?i + 4) (concat got)) (map ReadData later @ [ReadError e]) =
        Some (Inl (read_error ''body'' (ReadError e)))"
      by (intro read_body_stalled)
    with h head offset False show ?thesis
      by (simp add: ReadHttpRequest_def Let_def plain_request_length [OF assms(7)])
  qed
qed

section \<open>Reading ends\<close>

lemma find_sub_steps:
  "find_sub [] (c # p) = None"
  "find_sub (c # s) p = (if starts_with (c # s) p then Some 0 else map_option Suc (find_sub s p))"
  by (subst find_sub.simps; simp add: starts_with_def)+

lemmas header_end_eval = header_end_def find_sub_steps crlf2_def lf2_def starts_with_def

lemma read_headers_waits: "read_headers raw reads = None \<Longrightarrow> length raw \<le> kMaxHeader \<Longrightarrow> length raw + length reads \<le> kMaxHeader"
proof (induction raw reads rule: read_headers.induct)
  case (1 raw reads)
  from 1(2) have none: "header_end raw = None" by (subst (asm) read_headers.simps) (simp split: option.splits prod.splits)
  show ?case
  proof (cases reads)
    case (Cons r rest)
    from 1(2) none Cons obtain b bytes where r: "r = ReadData (b # bytes)" "length (raw @ b # bytes) \<le> kMaxHeader"
        "read_headers (raw @ b # bytes) rest = None"
      by (subst (asm) read_headers.simps) (auto split: read_result.splits list.splits if_splits)
    from 1(1) [OF none Cons r(1)] r Cons show ?thesis by simp
  qed (use 1 in simp)
qed

lemma read_body_waits: "read_body n body reads = None \<Longrightarrow> length body + length reads < n"
proof (induction n body reads rule: read_body.induct)
  case (1 n body reads)
  from 1(2) have short: "\<not> n \<le> length body" by (subst (asm) read_body.simps) (simp split: if_splits)
  show ?case
  proof (cases reads)
    case (Cons r rest)
    from 1(2) short Cons obtain b bytes where r: "r = ReadData (b # bytes)" "read_body n (body @ b # bytes) rest = None"
      by (subst (asm) read_body.simps) (auto split: read_result.splits list.splits)
    from 1(1) [OF short Cons r(1)] r Cons show ?thesis by simp
  qed (use short in simp)
qed

text \<open>
  C32. Reading a request ends: while the header block is incomplete at most \<open>2 ^ 20\<close> reads can have
  returned data, and in the body fewer than \<open>Content-Length\<close>; in every other case the function has
  returned a request or an error.
\<close>

theorem request_read_ends:
  assumes "ReadHttpRequest reads = None"
  shows "length reads \<le> kMaxHeader \<or>
    (\<exists>raw e rest request. read_headers [] reads = Some (Inr (raw, e, rest)) \<and>
       parse_head (take e raw) = Inr request \<and> length rest < content_length request)"
proof (cases "read_headers [] reads")
  case None
  then show ?thesis using read_headers_waits [of "[]" reads] by (simp add: kMaxHeader_def)
next
  case (Some r)
  with assms obtain raw e rest where r: "r = Inr (raw, e, rest)"
    by (cases r) (auto simp: ReadHttpRequest_def)
  with assms Some obtain request body where head: "parse_head (take e raw) = Inr request"
      and waits: "read_body (content_length request) body rest = None"
    by (auto simp: ReadHttpRequest_def Let_def split: sum.splits)
  from read_body_waits [OF waits] have "length rest < content_length request" by simp
  with Some r head show ?thesis by blast
qed

theorem request_read_ends_witness:
  "ReadHttpRequest [ReadData ''GET / HTTP/1.1''] = None \<and> 1 \<le> kMaxHeader"
proof -
  have "header_end [] = None" "header_end ''GET / HTTP/1.1'' = None" by (simp_all add: header_end_eval)
  moreover from this have "read_headers ''GET / HTTP/1.1'' [] = None" by (subst read_headers.simps) simp
  ultimately have "ReadHttpRequest [ReadData ''GET / HTTP/1.1''] = None"
    by (simp add: ReadHttpRequest_def read_headers.simps [of "[]"] kMaxHeader_def)
  with request_read_ends [OF this] show ?thesis by (simp add: kMaxHeader_def)
qed

lemma read_headers_bounds:
  "read_headers raw reads = Some (Inr (raw', e, rest)) \<Longrightarrow> length raw \<le> kMaxHeader \<Longrightarrow>
     length raw' \<le> kMaxHeader \<and> header_end raw' = Some e"
proof (induction raw reads rule: read_headers.induct)
  case (1 raw reads)
  show ?case
  proof (cases "header_end raw")
    case (Some i)
    with 1(2,3) show ?thesis by (subst (asm) read_headers.simps) simp
  next
    case None
    with 1(2) obtain r later where reads: "reads = r # later"
      by (cases reads) (auto simp: read_headers.simps [of raw])
    with None 1(2) obtain b bytes where r: "r = ReadData (b # bytes)" "length (raw @ b # bytes) \<le> kMaxHeader"
        "read_headers (raw @ b # bytes) later = Some (Inr (raw', e, rest))"
      by (subst (asm) read_headers.simps) (auto split: read_result.splits list.splits if_splits)
    from 1(1) [OF None reads r(1)] r show ?thesis by simp
  qed
qed

lemma find_sub_occurs: "p \<noteq> [] \<Longrightarrow> find_sub s p = Some i \<Longrightarrow> occurs_at s p i"
proof (induction s arbitrary: i)
  case Nil
  then show ?case by (subst (asm) find_sub.simps) (auto simp: starts_with_def split: if_splits)
next
  case (Cons c s)
  then show ?case
    by (subst (asm) find_sub.simps) (auto simp: occurs_at_0 occurs_at_Cons split: if_splits)
qed

lemma header_end_inside:
  assumes "header_end raw = Some e"
  shows "(if take 4 (drop e raw) = crlf2 then e + 4 else e + 2) \<le> length raw"
proof -
  have "e + 2 \<le> length raw"
    using assms find_sub_occurs [of crlf2 raw e] find_sub_occurs [of lf2 raw e]
    by (auto simp: header_end_def occurs_at_def crlf2_def lf2_def split: option.splits)
  moreover have "e + 4 \<le> length raw" if "take 4 (drop e raw) = crlf2"
    using arg_cong [OF that, of length] by (simp add: crlf2_def)
  ultimately show ?thesis by simp
qed

lemma read_body_length: "read_body n body reads = Some (Inr b) \<Longrightarrow> length b = n"
proof (induction n body reads rule: read_body.induct)
  case (1 n body reads)
  show ?case
  proof (cases "n \<le> length body")
    case True
    with 1(2) show ?thesis by (subst (asm) read_body.simps) auto
  next
    case False
    with 1(2) obtain r rest where reads: "reads = r # rest"
      by (cases reads) (auto simp: read_body.simps [of n body])
    with False 1(2) obtain c bytes where r: "r = ReadData (c # bytes)" "read_body n (body @ c # bytes) rest = Some (Inr b)"
      by (subst (asm) read_body.simps) (auto split: read_result.splits list.splits)
    from 1(1) [OF False reads r(1)] r show ?thesis by simp
  qed
qed

text \<open>
  C33. The bounds of a request that was read: at most one megabyte was taken in before its headers
  were complete, the offset of the body lies inside what was read, so \<open>substr\<close> does not throw,
  and the body has exactly the announced length - for which there is no other bound.
\<close>

theorem request_bounds:
  assumes "ReadHttpRequest reads = Some (Inr request)"
  shows "length (rq_body request) = content_length request \<and>
    (\<exists>raw e rest. read_headers [] reads = Some (Inr (raw, e, rest)) \<and> length raw \<le> kMaxHeader \<and>
       (if take 4 (drop e raw) = crlf2 then e + 4 else e + 2) \<le> length raw)"
proof -
  obtain raw e rest where h: "read_headers [] reads = Some (Inr (raw, e, rest))"
    using assms by (auto simp: ReadHttpRequest_def split: option.splits sum.splits)
  with assms obtain head where head: "parse_head (take e raw) = Inr head"
    by (auto simp: ReadHttpRequest_def split: sum.splits)
  let ?read = "read_body (content_length head) (drop (if take 4 (drop e raw) = crlf2 then e + 4 else e + 2) raw) rest"
  have "map_option (case_sum Inl (\<lambda>body. Inr (head\<lparr>rq_body := body\<rparr>))) ?read = Some (Inr request)"
    using assms h head by (simp add: ReadHttpRequest_def Let_def)
  then obtain body where body: "?read = Some (Inr body)" and r: "request = head\<lparr>rq_body := body\<rparr>"
    by (auto split: sum.splits) (metis old.sum.exhaust)
  have "content_length request = content_length head" using r by (simp add: content_length_def)
  with read_body_length [OF body] r h read_headers_bounds [OF h] header_end_inside show ?thesis by (simp add: kMaxHeader_def)
qed

theorem request_bounds_witness:
  "\<exists>request. ReadHttpRequest [ReadData (''GET / HTTP/1.1'' @ crlf2)] = Some (Inr request) \<and> rq_body request = ''''"
proof -
  have "header_end [] = None" "header_end (''GET / HTTP/1.1'' @ crlf2) = Some 14" by (simp_all add: header_end_eval)
  then have "\<exists>request. ReadHttpRequest [ReadData (''GET / HTTP/1.1'' @ crlf2)] = Some (Inr request) \<and> content_length request = 0"
    by (simp add: ReadHttpRequest_def read_headers.simps crlf2_def
        kMaxHeader_def parse_head_def getlines_def drop_cr_def request_words_def next_word_def isspace_def
        content_length_def read_body.simps)
  then obtain request where r: "ReadHttpRequest [ReadData (''GET / HTTP/1.1'' @ crlf2)] = Some (Inr request)" "content_length request = 0"
    by blast
  with request_bounds [OF r(1)] show ?thesis by simp
qed

section \<open>Line feeds only\<close>

text \<open>
  The reader takes the first \<open>CR LF CR LF\<close> for the end of the headers even when an earlier
  empty line of plain line feeds ended them: a request with line feeds whose body contains that
  sequence is cut inside the body, and the server waits for bytes that never come.
\<close>

theorem line_feed_request_misread:
  "ReadHttpRequest [ReadData (''POST /v1/sessions HTTP/1.1'' @ [newline] @ ''Content-Length: 6'' @ lf2 @ ''a'' @ crlf2 @ ''b'')] = None"
proof -
  let ?raw = "''POST /v1/sessions HTTP/1.1'' @ [newline] @ ''Content-Length: 6'' @ lf2 @ ''a'' @ crlf2 @ ''b''"
  have e: "header_end [] = None" "header_end ?raw = Some 47" by (simp_all add: header_end_eval)
  have take: "take 47 ?raw = request_line ''POST'' ''/v1/sessions'' @ newline # length_line 6 @ newline # newline # ''a''"
    by (simp add: request_line_def length_line_def lf2_def dec_of_nat.simps digit_char_def)
  have "getlines newline (take 47 ?raw) = [request_line ''POST'' ''/v1/sessions'', length_line 6, [], ''a'']"
  proof -
    have w: "word_text ''POST''" "word_text ''/v1/sessions''" by (simp_all add: word_text_def isspace_def)
    note nl = request_no_newline(1) [OF w] request_no_newline(2) [OF w, of 6]
    show ?thesis
      unfolding take
      using nl getlines_cons [of newline "[]" "''a''"] getlines_no_delim [of newline "''a''"] by (simp add: getlines_cons)
  qed
  moreover have "request_words (drop_cr (request_line ''POST'' ''/v1/sessions'')) = Some (''POST'', ''/v1/sessions'')"
    by (simp add: request_line_def drop_cr_def request_words_def next_word_def isspace_def)
  moreover have "add_header [] h = h" "add_header ''a'' h = h" for h
    by (simp_all add: add_header_def drop_cr_def find_sub_steps starts_with_def)
  ultimately have "\<exists>request. parse_head (take 47 ?raw) = Inr request \<and> rq_headers request = [''content-length'' \<mapsto> dec_of_nat 6]"
    using length_header [of 6] by (simp add: parse_head_def length_line_def)
  then obtain request where head: "parse_head (take 47 ?raw) = Inr request" "content_length request = 6"
    using strtoul_dec [of 6] by (auto simp: content_length_def)
  have "read_headers [] [ReadData ?raw] = Some (Inr (?raw, 47, []))"
    using e by (simp add: read_headers.simps kMaxHeader_def crlf2_def lf2_def)
  moreover have "drop (if take 4 (drop 47 ?raw) = crlf2 then 47 + 4 else 47 + 2) ?raw = ''b''"
    by (simp add: crlf2_def lf2_def)
  ultimately show ?thesis
    unfolding ReadHttpRequest_def by (simp only: option.case sum.case prod.case head Let_def) (simp add: read_body.simps)
qed

end
