(* ===== verification/Pages.thy ===== *)
theory Pages
  imports Session_Api
begin

text \<open>
  The two HTML pages (\<open>main.cpp\<close>, lines 2797 to 3743): \<open>SessionIndexHtml\<close>, which lists the
  sessions as cards, and \<open>DashboardHtml\<close>, whose script fetches the documents of one session. The
  static markup is kept line by line; what the code writes between its parts is where text that
  comes from a client can appear.
\<close>

section \<open>The cards of the index page\<close>

record session_card =
  sc_id :: string
  sc_agent_name :: string
  sc_environment_name :: string
  sc_created_at :: string
  sc_active_feature_id :: string
  sc_dashboard_path :: string
  sc_created_at_point :: time_point

definition card_of :: "machine \<Rightarrow> session_card" where
  "card_of m = \<lparr>sc_id = ss_id (m_session m), sc_agent_name = ss_agent_name (m_session m),
     sc_environment_name = ss_environment_name (m_session m), sc_created_at = iso_time (ss_created_at (m_session m)),
     sc_active_feature_id = ss_active_feature_id (m_session m), sc_dashboard_path = DashboardPath (ss_id (m_session m)),
     sc_created_at_point = ss_created_at (m_session m)\<rparr>"

text \<open>The loop over \<open>sessions_\<close> in the order of its iteration: the active sessions and the others.\<close>

fun collect_cards :: "machine list \<Rightarrow> session_card list \<Rightarrow> session_card list \<Rightarrow> session_card list \<times> session_card list" where
  "collect_cards [] active_sessions other_sessions = (active_sessions, other_sessions)"
| "collect_cards (m # sessions) active_sessions other_sessions =
     (if sc_active_feature_id (card_of m) \<noteq> [] then collect_cards sessions (active_sessions @ [card_of m]) other_sessions
      else collect_cards sessions active_sessions (other_sessions @ [card_of m]))"

text \<open>
  \<open>std::sort\<close> with \<open>newest_first\<close>. Sessions with the same time stamp may come in any order; here
  they keep the order of the iteration, which is unspecified too.
\<close>

definition newest_first :: "session_card list \<Rightarrow> session_card list" where
  "newest_first cards = sort_key (\<lambda>c. - sc_created_at_point c) cards"

definition or_else :: "string \<Rightarrow> string \<Rightarrow> string" where
  "or_else value fallback = (if value = [] then fallback else value)"

definition render_card :: "session_card \<Rightarrow> string" where
  "render_card c =
     (let active = (sc_active_feature_id c \<noteq> []);
          state = (if active then ''active'' else ''idle'')
      in ''<article class=\"session-card\" data-state=\"'' @ state @ ''\">''
       @ ''<div class=\"session-card-top\">''
       @ ''<div>''
       @ ''<h2 class=\"session-title\">'' @ html_escape (sc_id c) @ ''</h2>''
       @ ''<div class=\"session-meta\">''
       @ ''<span>'' @ html_escape (or_else (sc_agent_name c) ''unknown-agent'') @ ''</span>''
       @ ''<span>'' @ html_escape (or_else (sc_environment_name c) ''unknown-environment'') @ ''</span>''
       @ ''</div>''
       @ ''</div>''
       @ ''<div class=\"session-pill\" data-state=\"'' @ state @ ''\">''
       @ state
       @ ''</div>''
       @ ''</div>''
       @ ''<div class=\"session-body\">''
       @ ''<div class=\"row\"><span class=\"label\">Created</span><span class=\"value\">''
       @ html_escape (or_else (sc_created_at c) ''unknown'')
       @ ''</span></div>''
       @ ''<div class=\"row\"><span class=\"label\">Feature</span><span class=\"value\">''
       @ html_escape (if active then sc_active_feature_id c else ''none'')
       @ ''</span></div>''
       @ ''</div>''
       @ ''<a class=\"session-link\" href=\"'' @ html_escape (sc_dashboard_path c) @ ''\">Open dashboard</a>''
       @ ''</article>'')"

definition render_cards :: "session_card list \<Rightarrow> string \<Rightarrow> string" where
  "render_cards cards empty_text =
     (if cards = [] then ''<div class=\"empty-state\">'' @ html_escape empty_text @ ''</div>''
      else ''<div class=\"session-grid\">'' @ concat (map render_card cards) @ ''</div>'')"

section \<open>The index page\<close>

definition text_lines :: "string list \<Rightarrow> string" where
  "text_lines ls = concat (map (\<lambda>l. l @ [newline]) ls)"

definition index_text_1a :: string where
  "index_text_1a = text_lines [
    ''<!doctype html>'',
    ''<html lang=\"en\">'',
    ''<head>'',
    ''  <meta charset=\"utf-8\">'',
    ''  <meta name=\"viewport\" content=\"width=device-width, initial-scale=1\">'',
    ''  <meta http-equiv=\"refresh\" content=\"3\">'',
    ''  <title>SCTP Session Index</title>'',
    ''  <style>'',
    ''    :root {'',
    ''      --bg: #f4efe6;'',
    ''      --panel: rgba(255, 252, 247, 0.92);'',
    ''      --panel-strong: #fffaf2;'',
    ''      --ink: #182126;'',
    ''      --muted: #59636c;'',
    ''      --border: rgba(24, 33, 38, 0.12);'',
    ''      --shadow: 0 28px 70px rgba(40, 31, 12, 0.12);'',
    ''      --green: #2b7a4b;'',
    ''      --amber: #b87912;'',
    ''      --gray: #74818a;'',
    ''    }'',
    '''',
    ''    * { box-sizing: border-box; }'',
    '''',
    ''    body {'',
    ''      margin: 0;'',
    ''      min-height: 100vh;'',
    ''      font-family: \"Iowan Old Style\", \"Palatino Linotype\", \"Book Antiqua\", Palatino, Georgia, serif;'',
    ''      color: var(--ink);'',
    ''      background:'',
    ''        radial-gradient(circle at top left, rgba(184, 121, 18, 0.16), transparent 32%),'',
    ''        radial-gradient(circle at top right, rgba(43, 122, 75, 0.12), transparent 28%),'',
    ''        linear-gradient(180deg, #fcf7ef 0%, var(--bg) 55%, #ebe4d8 100%);'',
    ''    }'',
    '''',
    ''    .shell {'',
    ''      width: min(1180px, calc(100vw - 32px));'',
    ''      margin: 24px auto 40px;'',
    ''    }'',
    '''',
    ''    .hero,'',
    ''    .section,'',
    ''    .session-card {'',
    ''      background: var(--panel);'',
    ''      border: 1px solid var(--border);'',
    ''      box-shadow: var(--shadow);'',
    ''      backdrop-filter: blur(10px);'',
    ''    }'',
    '''',
    ''    .hero,'',
    ''    .section {'',
    ''      padding: 24px;'',
    ''      border-radius: 24px;'',
    ''    }'',
    '''',
    ''    .section {'',
    ''      margin-top: 18px;'',
    ''    }'',
    '''',
    ''    h1,'',
    ''    h2,'',
    ''    .subtitle,'',
    ''    .session-meta,'',
    ''    .session-body,'',
    ''    .refresh-note,'',
    ''    .empty-state {'',
    ''      margin: 0;'',
    ''    }'',
    '''',
    ''    h1 {'',
    ''      font-size: clamp(2rem, 4.8vw, 3.2rem);'',
    ''      line-height: 0.96;'',
    ''      letter-spacing: -0.04em;'',
    ''    }'',
    '''',
    ''    .subtitle,'',
    ''    .refresh-note,'',
    ''    .session-meta,'',
    ''    .session-body,'',
    ''    .empty-state {'',
    ''      font-family: \"SFMono-Regular\", Menlo, Consolas, \"Liberation Mono\", monospace;'',
    ''    }'',
    '''',
    ''    .subtitle,'',
    ''    .refresh-note {'',
    ''      color: var(--muted);'',
    ''      font-size: 0.92rem;'',
    ''    }'',
    '''',
    ''    .subtitle {'',
    ''      margin-top: 10px;'',
    ''    }'',
    '''']"

definition index_text_1b :: string where
  "index_text_1b = text_lines [
    ''    .refresh-note {'',
    ''      margin-top: 16px;'',
    ''    }'',
    '''',
    ''    .hero-stats {'',
    ''      display: grid;'',
    ''      gap: 16px;'',
    ''      grid-template-columns: repeat(auto-fit, minmax(160px, 1fr));'',
    ''      margin-top: 20px;'',
    ''    }'',
    '''',
    ''    .stat {'',
    ''      padding: 16px 18px;'',
    ''      border-radius: 18px;'',
    ''      background: var(--panel-strong);'',
    ''      border: 1px solid var(--border);'',
    ''    }'',
    '''',
    ''    .stat .label {'',
    ''      color: var(--muted);'',
    ''      font-size: 0.8rem;'',
    ''      text-transform: uppercase;'',
    ''      letter-spacing: 0.12em;'',
    ''    }'',
    '''',
    ''    .stat .value {'',
    ''      margin-top: 8px;'',
    ''      font-size: 2rem;'',
    ''      line-height: 1;'',
    ''    }'',
    '''',
    ''    .section-title {'',
    ''      font-size: 1.3rem;'',
    ''      line-height: 1.1;'',
    ''    }'',
    '''',
    ''    .section-copy {'',
    ''      margin-top: 8px;'',
    ''      color: var(--muted);'',
    ''      font-size: 0.92rem;'',
    ''    }'',
    '''',
    ''    .session-grid {'',
    ''      margin-top: 18px;'',
    ''      display: grid;'',
    ''      gap: 16px;'',
    ''      grid-template-columns: repeat(auto-fit, minmax(280px, 1fr));'',
    ''    }'',
    '''',
    ''    .session-card {'',
    ''      border-radius: 20px;'',
    ''      padding: 18px;'',
    ''      position: relative;'',
    ''      overflow: hidden;'',
    ''    }'',
    '''',
    ''    .session-card::before {'',
    ''      content: \"\";'',
    ''      position: absolute;'',
    ''      inset: 0 auto 0 0;'',
    ''      width: 8px;'',
    ''      background: var(--gray);'',
    ''    }'',
    '''',
    ''    .session-card[data-state=\"active\"]::before {'',
    ''      background: var(--amber);'',
    ''    }'',
    '''',
    ''    .session-card-top {'',
    ''      display: flex;'',
    ''      gap: 12px;'',
    ''      align-items: flex-start;'',
    ''      justify-content: space-between;'',
    ''    }'',
    '''',
    ''    .session-title {'',
    ''      font-size: 1.12rem;'',
    ''      line-height: 1.18;'',
    ''      overflow-wrap: anywhere;'',
    ''    }'',
    '''',
    ''    .session-meta {'',
    ''      margin-top: 10px;'',
    ''      color: var(--muted);'',
    ''      font-size: 0.76rem;'',
    ''      text-transform: uppercase;'',
    ''      letter-spacing: 0.08em;'',
    ''      display: flex;'',
    ''      gap: 10px;'',
    ''      flex-wrap: wrap;'',
    ''    }'',
    '''']"

definition index_text_1c :: string where
  "index_text_1c = text_lines [
    ''    .session-pill {'',
    ''      flex: 0 0 auto;'',
    ''      padding: 7px 11px;'',
    ''      border-radius: 999px;'',
    ''      border: 1px solid currentColor;'',
    ''      font-size: 0.72rem;'',
    ''      text-transform: uppercase;'',
    ''      letter-spacing: 0.12em;'',
    ''      background: rgba(255, 255, 255, 0.8);'',
    ''      color: var(--gray);'',
    ''    }'',
    '''',
    ''    .session-pill[data-state=\"active\"] {'',
    ''      color: var(--amber);'',
    ''    }'',
    '''',
    ''    .session-body {'',
    ''      margin-top: 16px;'',
    ''      color: var(--muted);'',
    ''      font-size: 0.82rem;'',
    ''      line-height: 1.55;'',
    ''    }'',
    '''',
    ''    .row {'',
    ''      display: flex;'',
    ''      gap: 12px;'',
    ''      justify-content: space-between;'',
    ''      align-items: baseline;'',
    ''    }'',
    '''',
    ''    .row + .row {'',
    ''      margin-top: 8px;'',
    ''    }'',
    '''',
    ''    .row .label {'',
    ''      text-transform: uppercase;'',
    ''      letter-spacing: 0.08em;'',
    ''    }'',
    '''',
    ''    .row .value {'',
    ''      color: var(--ink);'',
    ''      text-align: right;'',
    ''      overflow-wrap: anywhere;'',
    ''    }'',
    '''',
    ''    .session-link {'',
    ''      display: inline-block;'',
    ''      margin-top: 18px;'',
    ''      color: var(--ink);'',
    ''      text-decoration: none;'',
    ''      border-bottom: 1px solid rgba(24, 33, 38, 0.24);'',
    ''      padding-bottom: 2px;'',
    ''    }'',
    '''',
    ''    .empty-state {'',
    ''      margin-top: 18px;'',
    ''      padding: 20px;'',
    ''      border-radius: 18px;'',
    ''      border: 1px dashed var(--border);'',
    ''      color: var(--muted);'',
    ''      text-align: center;'',
    ''    }'',
    '''',
    ''    @media (max-width: 720px) {'',
    ''      .shell { width: min(100vw - 20px, 1180px); margin-top: 10px; }'',
    ''      .hero, .section { padding: 18px; border-radius: 20px; }'',
    ''    }'',
    ''  </style>'',
    ''</head>'',
    ''<body>'',
    ''  <main class=\"shell\">'',
    ''    <section class=\"hero\">'',
    ''      <h1>SCTP session index</h1>'',
    ''      <p class=\"subtitle\">Live dashboard links for the FreeBSD reference server. This page refreshes every 3 seconds.</p>'',
    ''      <div class=\"hero-stats\">'',
    ''        <section class=\"stat\">'',
    ''          <div class=\"label\">Active Sessions</div>''] @ ''          <div class=\"value\">''"

definition index_text_2 :: string where
  "index_text_2 = text_lines [
    ''</div>'',
    ''        </section>'',
    ''        <section class=\"stat\">'',
    ''          <div class=\"label\">Known Sessions</div>''] @ ''          <div class=\"value\">''"

definition index_text_3 :: string where
  "index_text_3 = text_lines [
    ''</div>'',
    ''        </section>'',
    ''      </div>'',
    ''      <p class=\"refresh-note\">Open a dashboard link to watch a single session update in realtime.</p>'',
    ''    </section>'',
    '''',
    ''    <section class=\"section\">'',
    ''      <h2 class=\"section-title\">Active Sessions</h2>'',
    ''      <p class=\"section-copy\">Sessions with an in-flight feature are listed here first.</p>''] @ ''      ''"

definition index_text_4 :: string where
  "index_text_4 = text_lines [
    '''',
    ''    </section>'',
    '''',
    ''    <section class=\"section\">'',
    ''      <h2 class=\"section-title\">Other Sessions</h2>'',
    ''      <p class=\"section-copy\">Idle or completed sessions stay available until the server restarts.</p>''] @ ''      ''"

definition index_text_5 :: string where
  "index_text_5 = text_lines [
    '''',
    ''    </section>'',
    ''  </main>'',
    ''</body>''] @ ''</html>''"

definition index_page :: "session_card list \<Rightarrow> session_card list \<Rightarrow> string" where
  "index_page active_sessions other_sessions =
     index_text_1a @ index_text_1b @ index_text_1c @ dec_of_nat (length active_sessions) @
     index_text_2 @ dec_of_nat (length active_sessions + length other_sessions) @
     index_text_3 @ render_cards active_sessions ''No sessions are active right now.'' @
     index_text_4 @ render_cards other_sessions ''No additional sessions are currently stored in memory.'' @
     index_text_5"

definition SessionIndexHtml :: "machine list \<Rightarrow> string" where
  "SessionIndexHtml sessions =
     (case collect_cards sessions [] [] of (active_sessions, other_sessions) \<Rightarrow>
        index_page (newest_first active_sessions) (newest_first other_sessions))"

section \<open>The dashboard page\<close>

definition dashboard_text_1a :: string where
  "dashboard_text_1a = text_lines [
    ''<!doctype html>'',
    ''<html lang=\"en\">'',
    ''<head>'',
    ''  <meta charset=\"utf-8\">'',
    ''  <meta name=\"viewport\" content=\"width=device-width, initial-scale=1\">'',
    ''  <title>SCTP Traffic Light Dashboard</title>'',
    ''  <style>'',
    ''    :root {'',
    ''      --bg: #f4efe6;'',
    ''      --panel: rgba(255, 252, 247, 0.92);'',
    ''      --panel-strong: #fffaf2;'',
    ''      --ink: #182126;'',
    ''      --muted: #59636c;'',
    ''      --border: rgba(24, 33, 38, 0.12);'',
    ''      --shadow: 0 28px 70px rgba(40, 31, 12, 0.12);'',
    ''      --green: #2b7a4b;'',
    ''      --amber: #b87912;'',
    ''      --red: #b03a2e;'',
    ''      --gray: #74818a;'',
    ''      --live: #14532d;'',
    ''      --reconnecting: #8a5a11;'',
    ''      --error: #8b1e16;'',
    ''    }'',
    '''',
    ''    * { box-sizing: border-box; }'',
    '''',
    ''    body {'',
    ''      margin: 0;'',
    ''      min-height: 100vh;'',
    ''      font-family: \"Iowan Old Style\", \"Palatino Linotype\", \"Book Antiqua\", Palatino, Georgia, serif;'',
    ''      color: var(--ink);'',
    ''      background:'',
    ''        radial-gradient(circle at top left, rgba(184, 121, 18, 0.16), transparent 32%),'',
    ''        radial-gradient(circle at top right, rgba(43, 122, 75, 0.12), transparent 28%),'',
    ''        linear-gradient(180deg, #fcf7ef 0%, var(--bg) 55%, #ebe4d8 100%);'',
    ''    }'',
    '''',
    ''    .shell {'',
    ''      width: min(1180px, calc(100vw - 32px));'',
    ''      margin: 24px auto 40px;'',
    ''    }'',
    '''',
    ''    .hero,'',
    ''    .panel,'',
    ''    .feature-card {'',
    ''      background: var(--panel);'',
    ''      border: 1px solid var(--border);'',
    ''      box-shadow: var(--shadow);'',
    ''      backdrop-filter: blur(10px);'',
    ''    }'',
    '''',
    ''    .hero {'',
    ''      padding: 24px;'',
    ''      border-radius: 24px;'',
    ''    }'',
    '''',
    ''    .hero-top {'',
    ''      display: flex;'',
    ''      gap: 16px;'',
    ''      align-items: flex-start;'',
    ''      justify-content: space-between;'',
    ''      flex-wrap: wrap;'',
    ''    }'',
    '''',
    ''    h1 {'',
    ''      margin: 0;'',
    ''      font-size: clamp(2rem, 5vw, 3.4rem);'',
    ''      line-height: 0.94;'',
    ''      letter-spacing: -0.04em;'',
    ''    }'',
    '''',
    ''    .subtitle,'',
    ''    .note,'',
    ''    .feature-meta,'',
    ''    .feature-time,'',
    ''    .empty-state,'',
    ''    .error {'',
    ''      font-family: \"SFMono-Regular\", Menlo, Consolas, \"Liberation Mono\", monospace;'',
    ''    }'',
    '''',
    ''    .subtitle {'',
    ''      margin-top: 10px;'',
    ''      color: var(--muted);'',
    ''      font-size: 0.94rem;'',
    ''    }'',
    '''']"

definition dashboard_text_1b :: string where
  "dashboard_text_1b = text_lines [
    ''    .connection {'',
    ''      padding: 10px 14px;'',
    ''      border-radius: 999px;'',
    ''      border: 1px solid currentColor;'',
    ''      font-size: 0.8rem;'',
    ''      text-transform: uppercase;'',
    ''      letter-spacing: 0.12em;'',
    ''      background: rgba(255, 255, 255, 0.75);'',
    ''    }'',
    '''',
    ''    .connection[data-state=\"live\"] { color: var(--live); }'',
    ''    .connection[data-state=\"reconnecting\"] { color: var(--reconnecting); }'',
    ''    .connection[data-state=\"error\"] { color: var(--error); }'',
    '''',
    ''    .meta-grid,'',
    ''    .count-grid,'',
    ''    .feature-grid {'',
    ''      display: grid;'',
    ''      gap: 16px;'',
    ''    }'',
    '''',
    ''    .meta-grid,'',
    ''    .count-grid {'',
    ''      margin-top: 18px;'',
    ''      grid-template-columns: repeat(auto-fit, minmax(160px, 1fr));'',
    ''    }'',
    '''',
    ''    .panel {'',
    ''      padding: 16px 18px;'',
    ''      border-radius: 18px;'',
    ''    }'',
    '''',
    ''    .label {'',
    ''      color: var(--muted);'',
    ''      font-size: 0.82rem;'',
    ''      text-transform: uppercase;'',
    ''      letter-spacing: 0.12em;'',
    ''    }'',
    '''',
    ''    .value {'',
    ''      margin-top: 8px;'',
    ''      font-size: 1.16rem;'',
    ''      line-height: 1.3;'',
    ''      overflow-wrap: anywhere;'',
    ''    }'',
    '''',
    ''    .count-grid {'',
    ''      grid-template-columns: repeat(auto-fit, minmax(120px, 1fr));'',
    ''    }'',
    '''',
    ''    .count {'',
    ''      position: relative;'',
    ''      overflow: hidden;'',
    ''      background: var(--panel-strong);'',
    ''    }'',
    '''',
    ''    .count::before {'',
    ''      content: \"\";'',
    ''      position: absolute;'',
    ''      inset: 0 auto 0 0;'',
    ''      width: 6px;'',
    ''      background: var(--gray);'',
    ''    }'',
    '''',
    ''    .count[data-tone=\"green\"]::before { background: var(--green); }'',
    ''    .count[data-tone=\"amber\"]::before { background: var(--amber); }'',
    ''    .count[data-tone=\"red\"]::before { background: var(--red); }'',
    ''    .count[data-tone=\"gray\"]::before { background: var(--gray); }'',
    '''',
    ''    .count-number {'',
    ''      margin-top: 6px;'',
    ''      font-size: 2rem;'',
    ''      font-weight: 700;'',
    ''    }'',
    '''',
    ''    .feature-grid {'',
    ''      margin-top: 22px;'',
    ''      grid-template-columns: repeat(auto-fit, minmax(360px, 1fr));'',
    ''    }'',
    '''',
    ''    .feature-card {'',
    ''      position: relative;'',
    ''      display: flex;'',
    ''      flex-direction: column;'',
    ''      border-radius: 20px;'',
    ''      padding: 18px 18px 16px;'',
    ''      overflow: hidden;'',
    ''      min-height: 0;'',
    ''    }'',
    '''']"

definition dashboard_text_1c :: string where
  "dashboard_text_1c = text_lines [
    ''    .feature-card::before {'',
    ''      content: \"\";'',
    ''      position: absolute;'',
    ''      inset: 0 auto 0 0;'',
    ''      width: 8px;'',
    ''      background: var(--gray);'',
    ''    }'',
    '''',
    ''    .feature-card[data-tone=\"green\"]::before { background: var(--green); }'',
    ''    .feature-card[data-tone=\"amber\"]::before { background: var(--amber); }'',
    ''    .feature-card[data-tone=\"red\"]::before { background: var(--red); }'',
    ''    .feature-card[data-tone=\"gray\"]::before { background: var(--gray); }'',
    '''',
    ''    .feature-head {'',
    ''      display: flex;'',
    ''      gap: 12px;'',
    ''      align-items: flex-start;'',
    ''      justify-content: space-between;'',
    ''    }'',
    '''',
    ''    .feature-title {'',
    ''      margin: 0;'',
    ''      font-size: 1.1rem;'',
    ''      line-height: 1.2;'',
    ''    }'',
    '''',
    ''    .state-pill {'',
    ''      flex: 0 0 auto;'',
    ''      padding: 7px 11px;'',
    ''      border-radius: 999px;'',
    ''      font-size: 0.72rem;'',
    ''      text-transform: uppercase;'',
    ''      letter-spacing: 0.12em;'',
    ''      border: 1px solid currentColor;'',
    ''      background: rgba(255, 255, 255, 0.8);'',
    ''    }'',
    '''',
    ''    .state-pill[data-tone=\"green\"] { color: var(--green); }'',
    ''    .state-pill[data-tone=\"amber\"] { color: var(--amber); }'',
    ''    .state-pill[data-tone=\"red\"] { color: var(--red); }'',
    ''    .state-pill[data-tone=\"gray\"] { color: var(--gray); }'',
    '''',
    ''    .feature-meta {'',
    ''      margin-top: 10px;'',
    ''      color: var(--muted);'',
    ''      font-size: 0.78rem;'',
    ''      text-transform: uppercase;'',
    ''      letter-spacing: 0.08em;'',
    ''      line-height: 1.5;'',
    ''    }'',
    '''',
    ''    .feature-message {'',
    ''      margin-top: 14px;'',
    ''      font-size: 0.98rem;'',
    ''      line-height: 1.45;'',
    ''      max-width: 60ch;'',
    ''    }'',
    '''',
    ''    .rfc-row {'',
    ''      margin-top: 14px;'',
    ''      display: flex;'',
    ''      gap: 8px;'',
    ''      flex-wrap: wrap;'',
    ''      align-items: baseline;'',
    ''      color: var(--muted);'',
    ''      font-size: 0.82rem;'',
    ''      font-family: \"SFMono-Regular\", Menlo, Consolas, \"Liberation Mono\", monospace;'',
    ''    }'',
    '''',
    ''    .rfc-links {'',
    ''      display: inline-flex;'',
    ''      gap: 8px;'',
    ''      flex-wrap: wrap;'',
    ''    }'',
    '''',
    ''    .rfc-link {'',
    ''      color: var(--ink);'',
    ''      text-decoration: none;'',
    ''      border-bottom: 1px solid rgba(24, 33, 38, 0.24);'',
    ''      padding-bottom: 1px;'',
    ''    }'',
    '''',
    ''    .rfc-link:hover {'',
    ''      border-bottom-color: currentColor;'',
    ''    }'',
    '''']"

definition dashboard_text_1d :: string where
  "dashboard_text_1d = text_lines [
    ''    .feature-time {'',
    ''      margin-top: auto;'',
    ''      padding-top: 16px;'',
    ''      border-top: 1px solid rgba(24, 33, 38, 0.08);'',
    ''      color: var(--muted);'',
    ''      font-size: 0.78rem;'',
    ''      line-height: 1.5;'',
    ''      display: grid;'',
    ''      gap: 4px;'',
    ''    }'',
    '''',
    ''    .note {'',
    ''      margin-top: 14px;'',
    ''      color: var(--muted);'',
    ''      font-size: 0.82rem;'',
    ''    }'',
    '''',
    ''    .error {'',
    ''      margin-top: 18px;'',
    ''      padding: 14px 16px;'',
    ''      border-radius: 16px;'',
    ''      border: 1px solid rgba(176, 58, 46, 0.24);'',
    ''      background: rgba(176, 58, 46, 0.08);'',
    ''      color: var(--error);'',
    ''      display: none;'',
    ''    }'',
    '''',
    ''    .empty-state {'',
    ''      margin-top: 20px;'',
    ''      padding: 20px;'',
    ''      border-radius: 18px;'',
    ''      border: 1px dashed var(--border);'',
    ''      color: var(--muted);'',
    ''      text-align: center;'',
    ''    }'',
    '''',
    ''    @media (max-width: 900px) {'',
    ''      .feature-grid { grid-template-columns: 1fr; }'',
    ''    }'',
    '''',
    ''    @media (max-width: 720px) {'',
    ''      .shell { width: min(100vw - 20px, 1180px); margin-top: 10px; }'',
    ''      .hero { padding: 18px; border-radius: 20px; }'',
    ''      .feature-card { padding: 16px 16px 14px; }'',
    ''    }'',
    ''  </style>'',
    ''</head>'',
    ''<body>'',
    ''  <main class=\"shell\">'',
    ''    <section class=\"hero\">'',
    ''      <div class=\"hero-top\">'',
    ''        <div>'',
    ''          <h1 id=\"title\">SCTP session</h1>'',
    ''          <div class=\"subtitle\" id=\"subtitle\">Loading session metadata...</div>'',
    ''          <div class=\"note\">Features marked as requiring manual host setup are opt-in. The Go client skips them by default unless you pass <code>--include-manual-setup</code> or explicitly select them with <code>--features</code>.</div>'',
    ''        </div>'',
    ''        <div class=\"connection\" id=\"connection\" data-state=\"reconnecting\">loading</div>'',
    ''      </div>'',
    '''',
    ''      <div class=\"meta-grid\">'',
    ''        <section class=\"panel\">'',
    ''          <div class=\"label\">Session</div>'',
    ''          <div class=\"value\" id=\"session-id\">loading</div>'',
    ''        </section>'',
    ''        <section class=\"panel\">'',
    ''          <div class=\"label\">Agent</div>'',
    ''          <div class=\"value\" id=\"agent-name\">loading</div>'',
    ''        </section>'',
    ''        <section class=\"panel\">'',
    ''          <div class=\"label\">Environment</div>'',
    ''          <div class=\"value\" id=\"environment-name\">loading</div>'',
    ''        </section>'',
    ''        <section class=\"panel\">'',
    ''          <div class=\"label\">Active Feature</div>'',
    ''          <div class=\"value\" id=\"active-feature\">none</div>'',
    ''        </section>'',
    ''      </div>'',
    '''',
    ''      <div class=\"count-grid\" id=\"counts\"></div>'',
    ''      <div class=\"note\">Green means passed, amber means active, red means failed or timed out, and gray means pending or unsupported.</div>'',
    ''      <div class=\"error\" id=\"error-banner\"></div>'',
    ''    </section>'',
    '''',
    ''    <section class=\"feature-grid\" id=\"feature-grid\"></section>'',
    ''    <div class=\"empty-state\" id=\"empty-state\" hidden>No features are available for this session.</div>'',
    ''  </main>'',
    '''',
    ''  <script>''] @ ''    const sessionId = ''"

definition dashboard_text_2 :: string where
  "dashboard_text_2 = text_lines [
    '';''] @ ''    const sessionPath = ''"

definition dashboard_text_3 :: string where
  "dashboard_text_3 = text_lines [
    '';''] @ ''    const summaryPath = ''"

definition dashboard_text_4 :: string where
  "dashboard_text_4 = text_lines [
    '';''] @ ''    const streamPath = ''"

definition dashboard_text_5a :: string where
  "dashboard_text_5a = text_lines [
    '';'',
    '''',
    ''    const connectionEl = document.getElementById(\"connection\");'',
    ''    const sessionIdEl = document.getElementById(\"session-id\");'',
    ''    const subtitleEl = document.getElementById(\"subtitle\");'',
    ''    const agentEl = document.getElementById(\"agent-name\");'',
    ''    const environmentEl = document.getElementById(\"environment-name\");'',
    ''    const activeFeatureEl = document.getElementById(\"active-feature\");'',
    ''    const countsEl = document.getElementById(\"counts\");'',
    ''    const featureGridEl = document.getElementById(\"feature-grid\");'',
    ''    const emptyStateEl = document.getElementById(\"empty-state\");'',
    ''    const errorBannerEl = document.getElementById(\"error-banner\");'',
    '''',
    ''    let stream = null;'',
    ''    let refreshPromise = null;'',
    '''',
    ''    function escapeHtml(value) {'',
    (''      return String(value ?? \"\").replace(/[&<>\"]/g, (ch) => ({ \"&\": \"&amp;\", \"<\": \"&lt;\", \">\": \"&gt;\", \"'' @ [CHR 0x5C] @ ''\"\": \"&quot;\" }[ch]));''),
    ''    }'',
    '''',
    ''    function formatTimestamp(value) {'',
    ''      if (!value) return \"n/a\";'',
    ''      const parsed = new Date(value);'',
    ''      return Number.isNaN(parsed.getTime()) ? value : parsed.toLocaleString();'',
    ''    }'',
    '''',
    ''    function toneForState(state) {'',
    ''      if (state === \"passed\") return \"green\";'',
    ''      if (state === \"active\") return \"amber\";'',
    ''      if (state === \"failed\" || state === \"timed_out\") return \"red\";'',
    ''      return \"gray\";'',
    ''    }'',
    '''',
    ''    function renderRFCReferences(feature) {'',
    ''      const refs = Array.isArray(feature.rfc_references) ? feature.rfc_references : [];'',
    ''      if (refs.length === 0) return \"\";'',
    ''      const links = refs.map((ref) => {'',
    ''        const rfcText = String(ref.rfc || \"\").trim();'',
    (''        const compactRfc = rfcText.replace(/^RFC'' @ [CHR 0x5C] @ ''s+/i, \"\").trim();''),
    (''        const label = `${compactRfc} '' @ [CHR 0xC2] @ [CHR 0xA7] @ ''${String(ref.section || \"\").trim()}`.trim();''),
    (''        const titleLabel = `${rfcText} '' @ [CHR 0xC2] @ [CHR 0xA7] @ ''${String(ref.section || \"\").trim()}`.trim();''),
    ''        const title = ref.title ? `${titleLabel}: ${String(ref.title)}` : titleLabel;'',
    ''        return `<a class=\"rfc-link\" href=\"${escapeHtml(ref.url || \"\")}\" target=\"_blank\" rel=\"noopener noreferrer\" title=\"${escapeHtml(title)}\">${escapeHtml(label)}</a>`;'',
    ''      }).join(\"\");'',
    ''      return `'',
    ''        <div class=\"rfc-row\">'',
    ''          <span>RFC</span>'',
    ''          <span class=\"rfc-links\">${links}</span>'',
    ''        </div>'',
    ''      `;'',
    ''    }'',
    '''',
    ''    function setConnection(state, label) {'',
    ''      connectionEl.dataset.state = state;'',
    ''      connectionEl.textContent = label;'',
    ''    }'',
    '''',
    ''    function showError(message) {'',
    ''      errorBannerEl.textContent = message;'',
    ''      errorBannerEl.style.display = \"block\";'',
    ''    }'',
    '''',
    ''    function clearError() {'',
    ''      errorBannerEl.textContent = \"\";'',
    ''      errorBannerEl.style.display = \"none\";'',
    ''    }'',
    '''',
    ''    async function fetchJson(path) {'',
    ''      const response = await fetch(path, { cache: \"no-store\" });'',
    ''      if (!response.ok) {'',
    ''        const text = await response.text();'',
    ''        throw new Error(text || `${response.status} ${response.statusText}`);'',
    ''      }'',
    ''      return response.json();'',
    ''    }'',
    '''',
    ''    function renderCounts(summary) {'',
    ''      const items = ['',
    ''        [\"Passed\", summary.passed, \"green\"],'',
    ''        [\"Active\", summary.active, \"amber\"],'',
    ''        [\"Failed\", summary.failed + summary.timed_out, \"red\"],'',
    ''        [\"Pending\", summary.pending, \"gray\"],'',
    ''        [\"Unsupported\", summary.unsupported, \"gray\"],'',
    ''      ];'',
    ''      countsEl.innerHTML = items.map(([label, value, tone]) => `'',
    ''        <section class=\"panel count\" data-tone=\"${tone}\">'',
    ''          <div class=\"label\">${escapeHtml(label)}</div>'',
    ''          <div class=\"count-number\">${escapeHtml(value)}</div>'',
    ''        </section>'',
    ''      `).join(\"\");'',
    ''    }'',
    '''']"

definition dashboard_text_5b :: string where
  "dashboard_text_5b = text_lines [
    ''    function renderFeatures(summary) {'',
    ''      const features = Array.isArray(summary.features) ? summary.features : [];'',
    ''      emptyStateEl.hidden = features.length !== 0;'',
    ''      featureGridEl.innerHTML = features.map((feature) => {'',
    ''        const tone = toneForState(feature.state);'',
    ''        const manualSetup = feature.manual_setup_required === true;'',
    ''        const manualNote = manualSetup'',
    ''          ? `'',
    ''            <div class=\"note\">'',
    ''              Manual host setup required. This feature is skipped by default by the Go client.'',
    ''              ${(Array.isArray(feature.manual_setup_instructions) && feature.manual_setup_instructions.length > 0)'',
    ''                ? `<br>${feature.manual_setup_instructions.map((line) => escapeHtml(line)).join(\"<br>\")}`'',
    ''                : \"\"}'',
    ''            </div>'',
    ''          `'',
    ''          : \"\";'',
    ''        const rfcReferences = renderRFCReferences(feature);'',
    ''        return `'',
    ''          <article class=\"feature-card\" data-tone=\"${tone}\">'',
    ''            <div class=\"feature-head\">'',
    ''              <div>'',
    ''                <h2 class=\"feature-title\">${escapeHtml(feature.title)}</h2>'',
    ''                <div class=\"feature-meta\">${escapeHtml(feature.category)} / ${escapeHtml(feature.id)}</div>'',
    ''              </div>'',
    ''              <div class=\"state-pill\" data-tone=\"${tone}\">${escapeHtml(feature.state)}</div>'',
    ''            </div>'',
    ''            <div class=\"feature-message\">${escapeHtml(feature.message || \"no status message\")}</div>'',
    ''            ${manualNote}'',
    ''            ${rfcReferences}'',
    ''            <div class=\"feature-time\">'',
    ''              <div>Started: ${escapeHtml(formatTimestamp(feature.started_at))}</div>'',
    ''              <div>Finished: ${escapeHtml(formatTimestamp(feature.finished_at))}</div>'',
    ''            </div>'',
    ''          </article>'',
    ''        `;'',
    ''      }).join(\"\");'',
    ''    }'',
    '''',
    ''    function renderSession(session) {'',
    ''      document.getElementById(\"title\").textContent = `SCTP session ${session.session_id}`;'',
    ''      document.title = `SCTP session ${session.session_id}`;'',
    ''      subtitleEl.textContent = `Realtime execution status for a single in-memory SCTP feature session.`;'',
    ''      sessionIdEl.textContent = session.session_id || sessionId;'',
    ''      agentEl.textContent = session.agent_name || \"unlabeled\";'',
    ''      environmentEl.textContent = session.environment_name || \"unlabeled\";'',
    ''      activeFeatureEl.textContent = session.active_feature_id || \"none\";'',
    ''    }'',
    '''',
    ''    function renderSummary(summary) {'',
    ''      const features = Array.isArray(summary.features) ? summary.features : [];'',
    ''      const activeFeature = features.find((feature) => feature.state === \"active\");'',
    ''      renderCounts(summary);'',
    ''      renderFeatures(summary);'',
    ''      activeFeatureEl.textContent = activeFeature ? activeFeature.id : \"none\";'',
    ''    }'',
    '''',
    ''    async function refreshSnapshot() {'',
    ''      const [session, summary] = await Promise.all([fetchJson(sessionPath), fetchJson(summaryPath)]);'',
    ''      renderSession(session);'',
    ''      renderSummary(summary);'',
    ''      clearError();'',
    ''    }'',
    '''',
    ''    function scheduleRefresh() {'',
    ''      if (refreshPromise) return;'',
    ''      refreshPromise = refreshSnapshot()'',
    ''        .catch((error) => {'',
    ''          showError(`Live refresh is waiting for the server: ${error.message}`);'',
    ''        })'',
    ''        .finally(() => {'',
    ''          refreshPromise = null;'',
    ''        });'',
    ''    }'',
    '''',
    ''    function connectStream() {'',
    ''      if (stream) stream.close();'',
    ''      stream = new EventSource(streamPath);'',
    ''      stream.onopen = () => setConnection(\"live\", \"live\");'',
    ''      stream.addEventListener(\"summary\", (event) => {'',
    ''        try {'',
    ''          renderSummary(JSON.parse(event.data));'',
    ''          clearError();'',
    ''          setConnection(\"live\", \"live\");'',
    ''        } catch (error) {'',
    ''          showError(`Received an invalid live update: ${error.message}`);'',
    ''        }'',
    ''      });'',
    ''      stream.onerror = () => {'',
    ''        setConnection(\"reconnecting\", \"reconnecting\");'',
    ''        scheduleRefresh();'',
    ''      };'',
    ''    }'',
    '''']"

definition dashboard_text_5c :: string where
  "dashboard_text_5c = text_lines [
    ''    window.addEventListener(\"beforeunload\", () => {'',
    ''      if (stream) stream.close();'',
    ''    });'',
    '''',
    ''    (async () => {'',
    ''      setConnection(\"reconnecting\", \"loading\");'',
    ''      try {'',
    ''        await refreshSnapshot();'',
    ''        setConnection(\"live\", \"live\");'',
    ''      } catch (error) {'',
    ''        showError(`Failed to load session state: ${error.message}`);'',
    ''      }'',
    ''      connectStream();'',
    ''    })();'',
    ''  </script>'',
    ''</body>'',
    ''</html>'']"

definition DashboardHtml :: "machine \<Rightarrow> string" where
  "DashboardHtml m =
     (let session_id = ss_id (m_session m) in
      dashboard_text_1a @ dashboard_text_1b @ dashboard_text_1c @ dashboard_text_1d @ json_quote session_id @
      dashboard_text_2 @ json_quote (SessionApiPath session_id) @
      dashboard_text_3 @ json_quote (SummaryPath session_id) @
      dashboard_text_4 @ json_quote (SummaryStreamPath session_id) @
      dashboard_text_5a @ dashboard_text_5b @ dashboard_text_5c)"

end
