(* ===== verification/Server.thy ===== *)
theory Server
  imports Catalog Http Pages Session_Run "HOL-Library.AList"
begin

text \<open>
  The server behind its connections (\<open>main.cpp\<close>, lines 2276 to 2323, 2469 to 2596 and 3980 to
  4027): its options, its sessions and the routing of requests; reading them and the process
  around are in the theory Connection. The session table is an association list in the order in
  which \<open>sessions_\<close> iterates; each session is the machine of the theory Lifecycle, with the
  readings of the clock that its own operations make.
\<close>

section \<open>Command line\<close>

text \<open>\<open>HelpExit\<close>: the usage was printed and the process left with status 0.\<close>

datatype options_result = Options server_options | OptionsError string | HelpExit

definition takes_value :: "string \<Rightarrow> bool" where
  "takes_value arg \<longleftrightarrow> arg = ''--http-host'' \<or> arg = ''--http-port'' \<or> arg = ''--sctp-addrs'' \<or> arg = ''--advertise-addrs''"

definition option_port :: "string \<Rightarrow> u16" where
  "option_port value = of_nat (strtoul value)"

definition set_option :: "string \<Rightarrow> string \<Rightarrow> server_options \<Rightarrow> server_options" where
  "set_option arg value options =
     (if arg = ''--http-host'' then options\<lparr>so_http_host := value\<rparr>
      else if arg = ''--http-port'' then options\<lparr>so_http_port := option_port value\<rparr>
      else if arg = ''--sctp-addrs'' then options\<lparr>so_sctp_bind_addrs := split value (CHR '','')\<rparr>
      else options\<lparr>so_sctp_advertise_addrs := split value (CHR '','')\<rparr>)"

fun option_loop :: "string list \<Rightarrow> server_options \<Rightarrow> options_result" where
  "option_loop [] options = Options options"
| "option_loop (arg # args) options =
     (if takes_value arg then
        (case args of
           [] \<Rightarrow> OptionsError (''missing value for '' @ arg)
         | value # rest \<Rightarrow> option_loop rest (set_option arg value options))
      else if arg = ''--help'' \<or> arg = ''-h'' then HelpExit
      else OptionsError (''unknown option '' @ arg))"

definition advertise_default :: "server_options \<Rightarrow> server_options" where
  "advertise_default options =
     (if so_sctp_advertise_addrs options = [] then options\<lparr>so_sctp_advertise_addrs := so_sctp_bind_addrs options\<rparr>
      else options)"

text \<open>\<open>args\<close> is \<open>argv\<close> after the program's name.\<close>

definition parse_options :: "string list \<Rightarrow> server_options \<Rightarrow> options_result" where
  "parse_options args options =
     (case option_loop args options of
        Options parsed \<Rightarrow>
          if so_sctp_bind_addrs parsed = [] then OptionsError ''--sctp-addrs must contain at least one IPv4 address''
          else Options (advertise_default parsed)
      | r \<Rightarrow> r)"

section \<open>The server's state\<close>

record server =
  sv_options :: server_options
  sv_catalog :: "feature_definition list"
  sv_sessions :: "(string \<times> machine) list"

definition FeatureServer :: "server_options \<Rightarrow> server" where
  "FeatureServer options = \<lparr>sv_options = advertise_default options, sv_catalog = build_feature_catalog, sv_sessions = []\<rparr>"

definition FindSession :: "server \<Rightarrow> string \<Rightarrow> machine option" where
  "FindSession sv session_id = map_of (sv_sessions sv) session_id"

definition put_session :: "string \<Rightarrow> machine \<Rightarrow> server \<Rightarrow> server" where
  "put_session session_id m sv = sv\<lparr>sv_sessions := AList.update session_id m (sv_sessions sv)\<rparr>"

text \<open>\<open>feature_index_\<close>: filled in the order of the catalogue, so a later entry wins.\<close>

definition FindFeature :: "server \<Rightarrow> string \<Rightarrow> feature_definition option" where
  "FindFeature sv feature_id = map_of (rev (map (\<lambda>feature. (fd_id feature, feature)) (sv_catalog sv))) feature_id"

section \<open>Creating sessions\<close>

definition kAlphabet :: string where "kAlphabet = ''0123456789abcdef''"

text \<open>The 16 draws of \<open>uniform_int_distribution (0, 15)\<close> are an input.\<close>

definition RandomId :: "nat list \<Rightarrow> string" where
  "RandomId draws = map (\<lambda>draw. kAlphabet ! draw) draws"

definition random_draws :: "nat list \<Rightarrow> bool" where
  "random_draws draws \<longleftrightarrow> length draws = 16 \<and> list_all (\<lambda>draw. draw < 16) draws"

text \<open>
  What a request gets from outside: the draws, the clock of the session it may create, and the
  answers to the socket calls of a start.
\<close>

record request_env =
  re_draws :: "nat list"
  re_clock :: "nat \<Rightarrow> time_point"
  re_sockets :: "nat \<Rightarrow> listen_os"

definition CreateSession :: "request_env \<Rightarrow> string \<Rightarrow> server \<Rightarrow> (http_response \<times> server) option" where
  "CreateSession env body sv =
     (case parse_simple_json_object body of
        Inl error \<Rightarrow> Some (HttpResponse 400 (json_error error), sv)
      | Inr params \<Rightarrow>
          let m = new_machine (sv_catalog sv) (RandomId (re_draws env)) params (re_clock env);
              sv' = put_session (ss_id (m_session m)) m sv
          in map_option (\<lambda>document. (HttpResponse 201 document, sv')) (SessionJson (sv_catalog sv) m))"

section \<open>The catalogue document\<close>

definition feature_entry :: "feature_definition \<Rightarrow> string" where
  "feature_entry feature = ''{''
     @ ''\"id\":'' @ json_quote (fd_id feature) @ '',''
     @ ''\"title\":'' @ json_quote (fd_title feature) @ '',''
     @ ''\"category\":'' @ json_quote (fd_category feature) @ '',''
     @ ''\"summary\":'' @ json_quote (fd_summary feature) @ '',''
     @ ''\"completion_mode\":'' @ json_quote (mode_to_string (fd_completion_mode feature)) @ '',''
     @ ''\"manual_setup_required\":'' @ json_bool (fd_manual_setup_required feature) @ '',''
     @ ''\"rfc_references\":'' @ json_rfc_references (fd_rfc_references feature) @ '',''
     @ ''\"timeout_seconds\":'' @ dec_of_int (fd_timeout_seconds feature)
     @ ''}''"

definition FeaturesJson :: "server \<Rightarrow> string" where
  "FeaturesJson sv = ''{''
     @ ''\"server\":\"sctp-feature-server\",''
     @ ''\"features\":['' @ join (map feature_entry (sv_catalog sv)) '','' @ '']''
     @ ''}''"

section \<open>Routing\<close>

definition not_found :: "string \<Rightarrow> http_response" where
  "not_found message = HttpResponse 404 (json_error message)"

text \<open>
  What a request leaves: the response, the worker thread it started (with the session and the
  feature it works on), and the server. \<open>None\<close>: the code dereferences a null execution.
\<close>

type_synonym request_result = "(http_response \<times> (string \<times> string \<times> worker_task) option \<times> server) option"

definition reply :: "server \<Rightarrow> http_response \<Rightarrow> request_result" where
  "reply sv response = Some (response, None, sv)"

text \<open>
  The routes below a feature: the execution is looked up and timed out if it is due, whatever the
  rest of the path and the method are.
\<close>

definition handle_feature :: "request_env \<Rightarrow> string \<Rightarrow> string list \<Rightarrow> http_request \<Rightarrow> server \<Rightarrow> machine \<Rightarrow> request_result" where
  "handle_feature env session_id parts request sv m =
     (case FindFeature sv (parts ! 4) of
        None \<Rightarrow> reply sv (not_found ''unknown feature'')
      | Some feature \<Rightarrow>
          (case execution_at m (fd_id feature) of
             None \<Rightarrow> None
           | Some _ \<Rightarrow>
               let fid = fd_id feature; m1 = maybe_timeout fid m; sv1 = put_session session_id m1 sv
               in if length parts = 5 \<and> rq_method request = ''GET'' then
                    (case FeatureJson fid True m1 of None \<Rightarrow> None | Some document \<Rightarrow> reply sv1 (HttpResponse 200 document))
                  else if length parts = 6 \<and> parts ! 5 = ''start'' \<and> rq_method request = ''POST'' then
                    (case StartFeature (re_sockets env) (sv_options sv) fid m1 of None \<Rightarrow> None
                     | Some (response, task, m2) \<Rightarrow>
                         Some (response, map_option (\<lambda>t. (session_id, fid, t)) task, put_session session_id m2 sv1))
                  else if length parts = 6 \<and> parts ! 5 = ''complete'' \<and> rq_method request = ''POST'' then
                    (case CompleteFeature fid (rq_body request) m1 of None \<Rightarrow> None
                     | Some (response, m2) \<Rightarrow> Some (response, None, put_session session_id m2 sv1))
                  else if length parts = 6 \<and> parts ! 5 = ''unsupported'' \<and> rq_method request = ''POST'' then
                    (case UnsupportedFeature fid (rq_body request) m1 of None \<Rightarrow> None
                     | Some (response, m2) \<Rightarrow> Some (response, None, put_session session_id m2 sv1))
                  else reply sv1 (not_found ''unknown route'')))"

definition handle_session :: "request_env \<Rightarrow> string list \<Rightarrow> http_request \<Rightarrow> server \<Rightarrow> request_result" where
  "handle_session env parts request sv =
     (case FindSession sv (parts ! 2) of
        None \<Rightarrow> reply sv (not_found ''unknown session'')
      | Some m \<Rightarrow>
          if length parts = 3 \<and> rq_method request = ''GET'' then
            (case SessionJson (sv_catalog sv) m of None \<Rightarrow> None | Some document \<Rightarrow> reply sv (HttpResponse 200 document))
          else if length parts = 4 \<and> parts ! 3 = ''summary'' \<and> rq_method request = ''GET'' then
            (case SummaryJson (sv_catalog sv) m of None \<Rightarrow> None
             | Some (document, m') \<Rightarrow> reply (put_session (parts ! 2) m' sv) (HttpResponse 200 document))
          else if 5 \<le> length parts \<and> parts ! 3 = ''features'' then handle_feature env (parts ! 2) parts request sv m
          else reply sv (not_found ''unknown route''))"

definition HandleRequest :: "request_env \<Rightarrow> http_request \<Rightarrow> server \<Rightarrow> request_result" where
  "HandleRequest env request sv =
     (let parts = split_path (rq_path request); get = (rq_method request = ''GET'')
      in if get \<and> rq_path request = ''/'' then
           reply sv (HttpResponseTyped 200 (SessionIndexHtml (map snd (sv_sessions sv))) ''text/html; charset=utf-8'')
         else if length parts = 3 \<and> parts ! 0 = ''sessions'' \<and> parts ! 2 = ''dashboard'' \<and> get then
           (case FindSession sv (parts ! 1) of
              None \<Rightarrow> reply sv (not_found ''unknown session'')
            | Some m \<Rightarrow> reply sv (HttpResponseTyped 200 (DashboardHtml m) ''text/html; charset=utf-8''))
         else if get \<and> rq_path request = ''/healthz'' then reply sv (HttpResponse 200 ''{\"ok\":true}'')
         else if get \<and> rq_path request = ''/v1/features'' then reply sv (HttpResponse 200 (FeaturesJson sv))
         else if rq_method request = ''POST'' \<and> rq_path request = ''/v1/sessions'' then
           map_option (\<lambda>(response, sv'). (response, None, sv')) (CreateSession env (rq_body request) sv)
         else if 3 \<le> length parts \<and> parts ! 0 = ''v1'' \<and> parts ! 1 = ''sessions'' then
           handle_session env parts request sv
         else reply sv (not_found ''unknown route''))"

end
