(* ===== verification/Connection.thy ===== *)
theory Connection
  imports Server
begin

text \<open>
  One client connection (\<open>main.cpp\<close>, lines 946 to 961, 2367 to 2384 and 2732 to 2795) and the
  process around it (lines 2289 to 2365 and 4031 to 4042). The loops of the event stream and of
  \<open>Run\<close> have no end of their own: they run over a list of what the next turns meet.
\<close>

section \<open>Server-sent events\<close>

definition sse_lines :: "string list \<Rightarrow> string" where
  "sse_lines ls = concat (map (\<lambda>line. ''data: '' @ line @ [newline]) ls)"

definition sse_event :: "string \<Rightarrow> string \<Rightarrow> string" where
  "sse_event event_name data =
     (if event_name = [] then '''' else ''event: '' @ event_name @ [newline]) @
     (if data = [] then ''data:'' @ [newline, newline]
      else sse_lines (getlines newline data) @ [newline])"

definition WriteSseEvent :: "string \<Rightarrow> string \<Rightarrow> write_result list \<Rightarrow> bool option \<times> string" where
  "WriteSseEvent event_name data results = write_all (sse_event event_name data) results"

definition stream_headers :: string where
  "stream_headers =
     ''HTTP/1.1 200 '' @ http_status_text 200 @ crlf @
     ''Content-Type: text/event-stream; charset=utf-8'' @ crlf @
     ''Cache-Control: no-cache'' @ crlf @
     ''Connection: keep-alive'' @ crlf @
     ''X-Accel-Buffering: no'' @ crlf2"

definition retry_line :: string where "retry_line = ''retry: 1000'' @ [newline, newline]"

definition keep_alive :: string where "keep_alive = '': keep-alive'' @ [newline, newline]"

text \<open>
  One turn of the loop: what the other threads do to the session before it (during the sleep of
  250 milliseconds), the reading of the steady clock in milliseconds, and the results of its writes.
\<close>

record stream_tick =
  st_meanwhile :: "machine \<Rightarrow> machine"
  st_now :: int
  st_writes :: "write_result list"

text \<open>
  The turns until a write fails or the list ends: the bytes sent and the session. \<open>None\<close> is the
  throwing \<open>at\<close> of \<open>SummaryJson\<close>.
\<close>

fun stream_loop :: "feature_definition list \<Rightarrow> string \<Rightarrow> int \<Rightarrow> stream_tick list \<Rightarrow> machine \<Rightarrow> (string \<times> machine) option" where
  "stream_loop catalog last_summary last_heartbeat [] m = Some ([], m)"
| "stream_loop catalog last_summary last_heartbeat (tick # ticks) m =
     (case SummaryJson catalog (st_meanwhile tick m) of
        None \<Rightarrow> None
      | Some (summary, m1) \<Rightarrow>
          if summary \<noteq> last_summary then
            (case WriteSseEvent ''summary'' summary (st_writes tick) of (written, sent) \<Rightarrow>
               if written = Some True
               then map_option (\<lambda>(later, m2). (sent @ later, m2)) (stream_loop catalog summary (st_now tick) ticks m1)
               else Some (sent, m1))
          else if 2000 \<le> st_now tick - last_heartbeat then
            (case write_all keep_alive (st_writes tick) of (written, sent) \<Rightarrow>
               if written = Some True
               then map_option (\<lambda>(later, m2). (sent @ later, m2)) (stream_loop catalog last_summary (st_now tick) ticks m1)
               else Some (sent, m1))
          else stream_loop catalog last_summary last_heartbeat ticks m1)"

record stream_input =
  si_header_writes :: "write_result list"
  si_retry_writes :: "write_result list"
  si_started :: int
  si_ticks :: "stream_tick list"

definition summary_stream :: "feature_definition list \<Rightarrow> stream_input \<Rightarrow> machine \<Rightarrow> (string \<times> machine) option" where
  "summary_stream catalog input m =
     (case write_all stream_headers (si_header_writes input) of (written, sent) \<Rightarrow>
        if written \<noteq> Some True then Some (sent, m)
        else (case write_all retry_line (si_retry_writes input) of (written', sent') \<Rightarrow>
          if written' \<noteq> Some True then Some (sent @ sent', m)
          else map_option (\<lambda>(later, m'). (sent @ sent' @ later, m'))
            (stream_loop catalog [] (si_started input) (si_ticks input) m)))"

text \<open>\<open>HandleSummaryStream\<close>: \<open>None\<close> when the request is not for a stream (the function returns false).\<close>

definition stream_request :: "http_request \<Rightarrow> string option" where
  "stream_request request =
     (let parts = split_path (rq_path request)
      in if rq_method request \<noteq> ''GET'' then None
         else if length parts \<noteq> 5 \<or> parts ! 0 \<noteq> ''v1'' \<or> parts ! 1 \<noteq> ''sessions'' \<or> parts ! 3 \<noteq> ''summary'' \<or> parts ! 4 \<noteq> ''stream''
         then None
         else Some (parts ! 2))"

definition HandleSummaryStream :: "stream_input \<Rightarrow> write_result list \<Rightarrow> http_request \<Rightarrow> server \<Rightarrow>
    (string \<times> server) option option" where
  "HandleSummaryStream input writes request sv =
     (case stream_request request of
        None \<Rightarrow> None
      | Some session_id \<Rightarrow>
          (case FindSession sv session_id of
             None \<Rightarrow> Some (Some (WriteHttpResponse (not_found ''unknown session'') writes, sv))
           | Some m \<Rightarrow> Some (map_option (\<lambda>(sent, m'). (sent, put_session session_id m' sv))
               (summary_stream (sv_catalog sv) input m))))"

section \<open>One connection\<close>

text \<open>The two \<open>setsockopt\<close> calls: \<open>Some\<close> is the errno of a failure.\<close>

definition set_http_timeout :: "(int \<Rightarrow> string) \<Rightarrow> int option \<Rightarrow> int option \<Rightarrow> string option" where
  "set_http_timeout strerror rcvtimeo sndtimeo =
     (case rcvtimeo of Some e \<Rightarrow> Some (strerror e)
      | None \<Rightarrow> (case sndtimeo of Some e \<Rightarrow> Some (strerror e) | None \<Rightarrow> None))"

record client_io =
  ci_strerror :: "int \<Rightarrow> string"
  ci_rcvtimeo :: "int option"
  ci_sndtimeo :: "int option"
  ci_reads :: "read_result list"
  ci_writes :: "write_result list"
  ci_stream :: stream_input

definition error_status :: "string \<Rightarrow> int" where
  "error_status error = (if error = ''timed out reading HTTP request'' then 408 else 400)"

text \<open>
  \<open>HandleClient\<close>: the bytes the client is sent, the worker thread started, and the server. A
  request that never arrives whole leaves the thread in \<open>read\<close>: nothing sent, nothing changed.
\<close>

definition HandleClient :: "client_io \<Rightarrow> request_env \<Rightarrow> server \<Rightarrow>
    (string \<times> (string \<times> string \<times> worker_task) option \<times> server) option" where
  "HandleClient io env sv =
     (case set_http_timeout (ci_strerror io) (ci_rcvtimeo io) (ci_sndtimeo io) of
        Some timeout_error \<Rightarrow> Some (WriteHttpResponse (HttpResponse 500 (json_error timeout_error)) (ci_writes io), None, sv)
      | None \<Rightarrow>
      (case ReadHttpRequest (ci_reads io) of
        None \<Rightarrow> Some ([], None, sv)
      | Some (Inl error) \<Rightarrow>
          Some (WriteHttpResponse (HttpResponse (error_status error) (json_error error)) (ci_writes io), None, sv)
      | Some (Inr request) \<Rightarrow>
      (case HandleSummaryStream (ci_stream io) (ci_writes io) request sv of
        Some streamed \<Rightarrow> map_option (\<lambda>(sent, sv'). (sent, None, sv')) streamed
      | None \<Rightarrow> map_option (\<lambda>(response, task, sv'). (WriteHttpResponse response (ci_writes io), task, sv'))
          (HandleRequest env request sv))))"

section \<open>The process\<close>

definition CheckSctpAvailable :: "int \<Rightarrow> string option" where
  "CheckSctpAvailable fd =
     (if fd < 0
      then Some ''SCTP is unavailable on this FreeBSD host. Run `kldload /boot/kernel/sctp.ko` as root and restart the server.''
      else None)"

text \<open>What the calls on one entry of the address list return: \<open>socket\<close>, \<open>bind\<close>, \<open>listen\<close>.\<close>

record http_candidate =
  hc_socket :: int
  hc_bind :: int
  hc_listen :: int

text \<open>The loop over the list of \<open>getaddrinfo\<close>: the listening descriptor or -1, and the descriptors closed.\<close>

fun http_socket_loop :: "http_candidate list \<Rightarrow> int \<times> int list" where
  "http_socket_loop [] = (-1, [])"
| "http_socket_loop (it # rest) =
     (if hc_socket it < 0 then http_socket_loop rest
      else if hc_bind it = 0 \<and> hc_listen it = 0 then (hc_socket it, [])
      else (case http_socket_loop rest of (fd, closed) \<Rightarrow> (fd, hc_socket it # closed)))"

text \<open>\<open>rc\<close> is the result of \<open>getaddrinfo\<close>. After the loop the source looks at the last descriptor it has.\<close>

definition CreateHttpSocket :: "int \<Rightarrow> http_candidate list \<Rightarrow> int \<times> int list" where
  "CreateHttpSocket rc candidates = (if rc \<noteq> 0 then (-1, []) else http_socket_loop candidates)"

datatype accept_result = Accepted int | AcceptError int

text \<open>The loop of \<open>Run\<close>: the clients handed to threads, and its return value once it ends.\<close>

fun accept_loop :: "accept_result list \<Rightarrow> int list \<times> int option" where
  "accept_loop [] = ([], None)"
| "accept_loop (Accepted client_fd # results) = (case accept_loop results of (clients, r) \<Rightarrow> (client_fd # clients, r))"
| "accept_loop (AcceptError e # results) = (if e = EINTR then accept_loop results else ([], Some 1))"

record process_os =
  po_sctp_socket :: int
  po_getaddrinfo :: int
  po_candidates :: "http_candidate list"
  po_accepts :: "accept_result list"

definition Run :: "process_os \<Rightarrow> int list \<times> int option" where
  "Run os =
     (case CheckSctpAvailable (po_sctp_socket os) of
        Some preflight_error \<Rightarrow> ([], Some 1)
      | None \<Rightarrow>
          if fst (CreateHttpSocket (po_getaddrinfo os) (po_candidates os)) < 0 then ([], Some 1)
          else accept_loop (po_accepts os))"

text \<open>\<open>main\<close>: the clients served and the exit status, \<open>None\<close> while it runs.\<close>

definition main :: "string list \<Rightarrow> process_os \<Rightarrow> int list \<times> int option" where
  "main args os =
     (case parse_options args default_options of
        OptionsError error \<Rightarrow> ([], Some 1)
      | HelpExit \<Rightarrow> ([], Some 0)
      | Options options \<Rightarrow> Run os)"

end
