(* ===== verification/Server_Run.thy ===== *)
theory Server_Run
  imports Connection Catalog_Theorems
begin

text \<open>
  The runs of the server: from a new server, any sequence of requests, event streams and worker
  results. The lemma \<open>request_cases\<close> says once what a request can do to the session table; the
  properties of the theory Server_Theorems rest on it.
\<close>

section \<open>The session table\<close>

lemma update_twice: "AList.update k v (AList.update k w al) = AList.update k v al"
  by (induction al) auto

lemma put_session_twice [table_simps]: "put_session i m (put_session i m' sv) = put_session i m sv"
  by (simp add: put_session_def update_twice)

lemma FindSession_put [table_simps]: "FindSession (put_session i m sv) j = (if j = i then Some m else FindSession sv j)"
  by (simp add: FindSession_def put_session_def update_conv')

lemma put_session_same: "FindSession sv i = Some m \<Longrightarrow> put_session i m sv = sv"
proof -
  have "map_of al i = Some m \<Longrightarrow> AList.update i m al = al" for al by (induction al) (auto split: if_splits)
  then show "FindSession sv i = Some m \<Longrightarrow> put_session i m sv = sv"
    by (simp add: put_session_def FindSession_def)
qed

lemma put_session_fields [simp]:
  "sv_options (put_session i m sv) = sv_options sv" "sv_catalog (put_session i m sv) = sv_catalog sv"
  by (simp_all add: put_session_def)

lemma FindFeature_Some: "FindFeature sv i = Some f \<Longrightarrow> f \<in> set (sv_catalog sv) \<and> fd_id f = i"
  by (auto simp: FindFeature_def dest: map_of_SomeD)

lemma FindFeature_known:
  assumes "distinct (map fd_id (sv_catalog sv))" and "f \<in> set (sv_catalog sv)"
  shows "FindFeature sv (fd_id f) = Some f"
proof -
  have "distinct (map fst (rev (map (\<lambda>f. (fd_id f, f)) (sv_catalog sv))))"
    using assms(1) by (simp add: o_def flip: rev_map)
  then show ?thesis using assms(2) by (auto simp: FindFeature_def intro: map_of_is_SomeI)
qed

section \<open>Polls\<close>

text \<open>What a request that only reads can do to a session: time out features, one after the other.\<close>

inductive polled :: "machine \<Rightarrow> machine \<Rightarrow> bool" where
  refl: "polled m m"
| poll: "polled m m1 \<Longrightarrow> polled m (maybe_timeout fid m1)"

lemma polled_one: "polled m (maybe_timeout fid m)"
  by (rule polled.poll [OF polled.refl])

lemma polled_summary: "SummaryJson catalog m = Some (document, m') \<Longrightarrow> polled m m'"
  by (erule SummaryJson_timeouts) (auto intro: polled.intros)

lemma polled_run: "polled m m' \<Longrightarrow> session_run options catalog m m'"
  by (induction rule: polled.induct) (auto intro: session_run.intros session_step.poll)

lemma timeout_execution:
  assumes "execution_at m g = Some ex"
  shows "\<exists>ex'. execution_at (maybe_timeout fid m) g = Some ex' \<and>
    (ex' = ex \<or> fx_state ex = Active \<and> fx_state ex' = TimedOut)"
proof (cases "g = fid")
  case False
  then show ?thesis using assms timing_out.other_executions [of g fid m] by simp
next
  case True
  with assms show ?thesis by (auto simp: lifecycle_defs split: if_splits)
qed

lemma polled_execution:
  assumes "polled m m'" and "execution_at m g = Some ex"
  shows "\<exists>ex'. execution_at m' g = Some ex' \<and> (ex' = ex \<or> fx_state ex = Active \<and> fx_state ex' = TimedOut)"
  using assms
proof induction
  case (poll m m1 fid)
  then obtain ex1 where "execution_at m1 g = Some ex1" "ex1 = ex \<or> fx_state ex = Active \<and> fx_state ex1 = TimedOut" by blast
  with timeout_execution [of m1 g ex1 fid] show ?case by auto
qed simp

section \<open>What a request can do\<close>

definition server_ok :: "server \<Rightarrow> bool" where
  "server_ok sv \<longleftrightarrow> sv_catalog sv = build_feature_catalog \<and>
     (\<forall>i m. FindSession sv i = Some m \<longrightarrow> session_reachable (sv_options sv) build_feature_catalog m)"

lemma server_okD:
  assumes "server_ok sv"
  shows "sv_catalog sv = build_feature_catalog"
    and "FindSession sv i = Some m \<Longrightarrow> session_reachable (sv_options sv) build_feature_catalog m"
  using assms by (auto simp: server_ok_def)

lemma server_answers:
  assumes "session_reachable options build_feature_catalog m" and "f \<in> set build_feature_catalog" and "valid_sockets oss"
  shows "StartFeature oss options (fd_id f) m \<noteq> None" "CompleteFeature (fd_id f) body m \<noteq> None"
    "UnsupportedFeature (fd_id f) body m \<noteq> None" "FeatureJson (fd_id f) True m \<noteq> None"
    "SessionJson build_feature_catalog m \<noteq> None" "SummaryJson build_feature_catalog m \<noteq> None"
  using requests_answered [OF assms(1) server_ids_ok assms(2) catalog_two_ids assms(3), of body] by blast+

text \<open>
  How a request changes the session \<open>i\<close>: not at all; by polls, or with \<open>POST\<close> by any run; or it
  is the session a \<open>POST /v1/sessions\<close> creates.
\<close>

definition moves :: "http_request \<Rightarrow> server \<Rightarrow> string \<Rightarrow> server \<Rightarrow> bool" where
  "moves request sv i sv' \<longleftrightarrow> (\<exists>m m'. FindSession sv i = Some m \<and> sv' = put_session i m' sv \<and>
     session_run (sv_options sv) (sv_catalog sv) m m' \<and> (rq_method request \<noteq> ''POST'' \<longrightarrow> polled m m'))"

lemma moves_poll: "FindSession sv i = Some m \<Longrightarrow> polled m m' \<Longrightarrow> moves request sv i (put_session i m' sv)"
  by (auto simp: moves_def intro: polled_run)

lemma moves_same: "FindSession sv i = Some m \<Longrightarrow> moves request sv i sv"
  using moves_poll [OF _ polled.refl] put_session_same by metis

lemma moves_step:
  assumes "FindSession sv i = Some m" and "polled m m1" and "session_step (sv_options sv) (sv_catalog sv) m1 m2"
    and "rq_method request = ''POST''"
  shows "moves request sv i (put_session i m2 (put_session i m1 sv))"
  using assms session_run.step [OF polled_run [OF assms(2)] assms(3)]
  by (auto simp: moves_def table_simps)

lemma feature_request:
  assumes ok: "server_ok sv" and m: "FindSession sv i = Some m" and oss: "valid_sockets (re_sockets env)"
  shows "\<exists>r t sv'. handle_feature env i parts request sv m = Some (r, t, sv') \<and> moves request sv i sv'"
proof (cases "FindFeature sv (parts ! 4)")
  case None
  then show ?thesis using moves_same [OF m] by (auto simp: handle_feature_def reply_def)
next
  case (Some f)
  note cat = server_okD(1) [OF ok]
  have f: "f \<in> set build_feature_catalog" using FindFeature_Some [OF Some] cat by simp
  let ?fid = "fd_id f" and ?m1 = "maybe_timeout (fd_id f) m"
  have reach: "session_reachable (sv_options sv) build_feature_catalog m" by (rule server_okD(2) [OF ok m])
  obtain ex where ex: "execution_at m ?fid = Some ex" using reachable_known [OF reach server_ids_ok f] by blast
  have poll: "polled m ?m1" by (rule polled_one)
  have reach1: "session_reachable (sv_options sv) build_feature_catalog ?m1"
    by (rule reachable_step [OF reach polled_run [OF poll]])
  note answers = server_answers [OF reach1 f oss]
  obtain r t m2 where start: "StartFeature (re_sockets env) (sv_options sv) ?fid ?m1 = Some (r, t, m2)"
    using answers(1) by auto
  obtain r' m3 where complete: "CompleteFeature ?fid (rq_body request) ?m1 = Some (r', m3)"
    using answers(2) by fastforce
  obtain r'' m4 where decline: "UnsupportedFeature ?fid (rq_body request) ?m1 = Some (r'', m4)"
    using answers(3) by fastforce
  obtain document where json: "FeatureJson ?fid True ?m1 = Some document" using answers(4) by auto
  note step = moves_step [OF m poll]
  show ?thesis
    using ex Some start complete decline json moves_poll [OF m poll]
      step [OF session_step.start [OF start oss]] step [OF session_step.complete [OF complete]]
      step [OF session_step.decline [OF decline]]
    by (auto simp: handle_feature_def reply_def Let_def)
qed

lemma session_request:
  assumes ok: "server_ok sv" and oss: "valid_sockets (re_sockets env)"
  shows "\<exists>r t sv'. handle_session env parts request sv = Some (r, t, sv') \<and> (sv' = sv \<or> moves request sv (parts ! 2) sv')"
proof (cases "FindSession sv (parts ! 2)")
  case None
  then show ?thesis by (simp add: handle_session_def reply_def)
next
  case (Some m)
  note cat = server_okD(1) [OF ok]
  have reach: "session_reachable (sv_options sv) build_feature_catalog m" by (rule server_okD(2) [OF ok Some])
  have "catalog_ids \<noteq> []" by (simp add: catalog_ids_def)
  then obtain f where f: "f \<in> set build_feature_catalog" using catalog_ids_eq by (metis ex_in_conv list.map_disc_iff set_empty)
  note answers = server_answers [OF reach f oss]
  obtain document where session: "SessionJson (sv_catalog sv) m = Some document" using answers(5) cat by auto
  obtain document' m' where summary: "SummaryJson (sv_catalog sv) m = Some (document', m')" using answers(6) cat by auto
  show ?thesis
    using Some session summary moves_poll [OF Some polled_summary [OF summary]]
      feature_request [OF ok Some oss, of parts request]
    by (auto simp: handle_session_def reply_def)
qed

definition creates :: "request_env \<Rightarrow> http_request \<Rightarrow> server \<Rightarrow> server \<Rightarrow> bool" where
  "creates env request sv sv' \<longleftrightarrow> rq_method request = ''POST'' \<and> rq_path request = ''/v1/sessions'' \<and>
     (\<exists>params. sv' = put_session (RandomId (re_draws env))
        (new_machine (sv_catalog sv) (RandomId (re_draws env)) params (re_clock env)) sv)"

lemma new_machine_reachable: "session_reachable options catalog (new_machine catalog i params clock)"
  unfolding session_reachable_def by (blast intro: session_run.stop)

lemma ss_id_new [simp]: "ss_id (m_session (new_machine catalog i params clock)) = i"
  by (simp add: new_machine_def new_session_def)

lemma create_request:
  assumes ok: "server_ok sv"
  shows "\<exists>r sv'. CreateSession env body sv = Some (r, sv') \<and>
    (sv' = sv \<or> (\<exists>params. sv' = put_session (RandomId (re_draws env))
        (new_machine (sv_catalog sv) (RandomId (re_draws env)) params (re_clock env)) sv))"
proof -
  have "SessionJson (sv_catalog sv) (new_machine (sv_catalog sv) i params clock) \<noteq> None" for i params clock
    using new_machine_reachable [of "sv_options sv" build_feature_catalog i params clock]
      catalog_executions_total reachable_known [OF _ server_ids_ok] server_okD(1) [OF ok]
    by (fastforce simp: SessionJson_def)
  note json = this
  show ?thesis
  proof (cases "parse_simple_json_object body")
    case (Inl error)
    then show ?thesis by (simp add: CreateSession_def)
  next
    case (Inr params)
    obtain document where "SessionJson (sv_catalog sv)
        (new_machine (sv_catalog sv) (RandomId (re_draws env)) params (re_clock env)) = Some document"
      using json by blast
    with Inr show ?thesis by (auto simp: CreateSession_def Let_def)
  qed
qed

lemma request_cases:
  assumes ok: "server_ok sv" and oss: "valid_sockets (re_sockets env)"
  obtains (same) r t where "HandleRequest env request sv = Some (r, t, sv)"
  | (moved) r t sv' where "HandleRequest env request sv = Some (r, t, sv')"
      "moves request sv (split_path (rq_path request) ! 2) sv'" "3 \<le> length (split_path (rq_path request))"
  | (created) r t sv' where "HandleRequest env request sv = Some (r, t, sv')" "creates env request sv sv'"
proof -
  let ?parts = "split_path (rq_path request)"
  obtain r t sv' where session: "handle_session env ?parts request sv = Some (r, t, sv')"
      "sv' = sv \<or> moves request sv (?parts ! 2) sv'"
    using session_request [OF ok oss, of ?parts request] by blast
  obtain r'' sv'' where create: "CreateSession env (rq_body request) sv = Some (r'', sv'')"
    "sv'' = sv \<or> (\<exists>params. sv'' = put_session (RandomId (re_draws env))
        (new_machine (sv_catalog sv) (RandomId (re_draws env)) params (re_clock env)) sv)"
    using create_request [OF ok] by blast
  have "rq_method request = ''POST'' \<and> rq_path request = ''/v1/sessions'' \<or>
    HandleRequest env request sv = handle_session env ?parts request sv \<and> 3 \<le> length ?parts \<or>
    (\<exists>r t. HandleRequest env request sv = Some (r, t, sv))"
    unfolding HandleRequest_def reply_def Let_def by (simp split: option.split)
  then consider (post) "rq_method request = ''POST''" "rq_path request = ''/v1/sessions''"
    | (session) "HandleRequest env request sv = handle_session env ?parts request sv" "3 \<le> length ?parts"
    | (other) r t where "HandleRequest env request sv = Some (r, t, sv)"
    by blast
  then show ?thesis
  proof cases
    case post
    then have "split_path (rq_path request) = [''v1'', ''sessions'']" by (simp add: split_path_def)
    with post create have "HandleRequest env request sv = Some (r'', None, sv'')"
      by (simp add: HandleRequest_def Let_def)
    with create(2) post show ?thesis using same created by (auto simp: creates_def)
  next
    case session
    with \<open>handle_session env ?parts request sv = Some (r, t, sv')\<close> \<open>sv' = sv \<or> moves request sv (?parts ! 2) sv'\<close>
    show ?thesis using same moved by auto
  qed (rule same)
qed

end
