(* ===== verification/Responses.thy ===== *)
theory Responses
  imports Server_Run
begin

text \<open>
  What holds of every response. A response is an error, a page, or one of the documents; a
  property of responses is the locale \<open>response_property\<close>, whose assumptions are about these
  parts, and the lemma \<open>every_response\<close> in it carries the property through all handlers and routes.
\<close>

locale response_property =
  fixes ok :: "machine \<Rightarrow> bool" and P :: "http_response \<Rightarrow> bool"
  assumes reachable_ok: "session_reachable options build_feature_catalog m \<Longrightarrow> ok m"
    and errors: "s \<in> {400, 404, 409} \<Longrightarrow> P (HttpResponse s (json_error e))"
    and pages: "P (HttpResponseTyped 200 b ''text/html; charset=utf-8'')"
    and feature_document: "FeatureJson fid True m = Some d \<Longrightarrow> ok m \<Longrightarrow> P (HttpResponse 200 d)"
    and session_document: "SessionJson catalog m = Some d \<Longrightarrow> s \<in> {200, 201} \<Longrightarrow> P (HttpResponse s d)"
    and summary_document: "SummaryJson catalog m = Some (d, m') \<Longrightarrow> P (HttpResponse 200 d)"
    and features_document: "P (HttpResponse 200 (FeaturesJson sv))"
    and health_document: "P (HttpResponse 200 ''{\"ok\":true}'')"
begin

lemma error_responses: "P (conflict e)" "P (bad_request e)" "P (not_found e)"
  by (simp_all add: conflict_def bad_request_def not_found_def errors)

lemma start_response: "StartFeature oss options fid m = Some (r, t, m') \<Longrightarrow> ok m' \<Longrightarrow> P r"
  by (auto simp: StartFeature_def start_pending_def Let_def error_responses intro: feature_document
      split: option.splits if_splits prod.splits sum.splits)

lemma complete_locked_response: "complete_locked members ids ex now = Some (Inl r) \<Longrightarrow> P r"
  by (auto simp: complete_locked_def Let_def error_responses split: option.splits if_splits bool.splits)

lemma complete_response: "CompleteFeature fid body m = Some (r, m') \<Longrightarrow> ok m' \<Longrightarrow> P r"
  by (auto simp: CompleteFeature_def complete_report_def Let_def error_responses intro: feature_document complete_locked_response
      split: option.splits if_splits prod.splits sum.splits)

lemma unsupported_response: "UnsupportedFeature fid body m = Some (r, m') \<Longrightarrow> ok m' \<Longrightarrow> P r"
  by (auto simp: UnsupportedFeature_def unsupported_report_def unsupported_locked_def Let_def error_responses
      intro: feature_document split: option.splits if_splits prod.splits sum.splits)

lemma create_response: "CreateSession env body sv = Some (r, sv') \<Longrightarrow> P r"
  by (auto simp: CreateSession_def Let_def errors intro: session_document split: sum.splits)

definition holds :: "request_result \<Rightarrow> bool" where
  "holds result \<longleftrightarrow> (case result of None \<Rightarrow> True | Some (r, t, sv) \<Rightarrow> P r)"

lemma holds_branches:
  "holds (reply sv r) = P r" "holds None" "holds (if c then x else y) = (if c then holds x else holds y)"
  by (simp_all add: holds_def reply_def)

lemma holds_answers:
  assumes "session_reachable options build_feature_catalog m"
  shows "valid_sockets oss \<Longrightarrow> holds (case StartFeature oss options fid m of None \<Rightarrow> None
      | Some (response, task, m') \<Rightarrow> Some (response, f task, g m'))"
    and "holds (case CompleteFeature fid body m of None \<Rightarrow> None | Some (response, m') \<Rightarrow> Some (response, None, g m'))"
    and "holds (case UnsupportedFeature fid body m of None \<Rightarrow> None | Some (response, m') \<Rightarrow> Some (response, None, g m'))"
    and "holds (case FeatureJson fid True m of None \<Rightarrow> None | Some document \<Rightarrow> reply sv (HttpResponse 200 document))"
proof -
  have after: "ok m'" if "session_step options build_feature_catalog m m'" for m'
    using reachable_ok reachable_step [OF assms session_run_one [OF that]] .
  show "holds (case StartFeature oss options fid m of None \<Rightarrow> None
      | Some (response, task, m') \<Rightarrow> Some (response, f task, g m'))" if "valid_sockets oss"
    using after session_step.start [OF _ that] start_response by (fastforce simp: holds_def split: option.split)
  show "holds (case CompleteFeature fid body m of None \<Rightarrow> None | Some (response, m') \<Rightarrow> Some (response, None, g m'))"
    using after session_step.complete complete_response by (fastforce simp: holds_def split: option.split)
  show "holds (case UnsupportedFeature fid body m of None \<Rightarrow> None | Some (response, m') \<Rightarrow> Some (response, None, g m'))"
    using after session_step.decline unsupported_response by (fastforce simp: holds_def split: option.split)
  show "holds (case FeatureJson fid True m of None \<Rightarrow> None | Some document \<Rightarrow> reply sv (HttpResponse 200 document))"
    using reachable_ok [OF assms] feature_document by (simp add: holds_branches split: option.split)
qed

lemma handle_feature_holds:
  assumes "server_ok sv" and "FindSession sv i = Some m" and "valid_sockets (re_sockets env)"
  shows "holds (handle_feature env i parts request sv m)"
proof (cases "FindFeature sv (parts ! 4)")
  case (Some f)
  have "session_reachable (sv_options sv) build_feature_catalog (maybe_timeout (fd_id f) m)"
    by (rule reachable_step [OF server_okD(2) [OF assms(1,2)] polled_run [OF polled_one]])
  note answers = holds_answers(1) [OF this assms(3)] holds_answers(2-4) [OF this]
  show ?thesis
    using Some by (cases "execution_at m (fd_id f)")
      (simp_all only: handle_feature_def Let_def holds_branches answers error_responses option.case if_True if_False
        if_cancel)
qed (simp add: handle_feature_def holds_branches error_responses)

lemma handle_session_holds:
  assumes "server_ok sv" and "valid_sockets (re_sockets env)"
  shows "holds (handle_session env parts request sv)"
proof (cases "FindSession sv (parts ! 2)")
  case (Some m)
  have "holds (case SummaryJson catalog m of None \<Rightarrow> None | Some (document, m') \<Rightarrow> reply (g m') (HttpResponse 200 document))"
    for catalog g using summary_document by (simp add: holds_branches split: option.split prod.split)
  moreover have "holds (case SessionJson catalog m of None \<Rightarrow> None | Some document \<Rightarrow> reply sv (HttpResponse 200 document))"
    for catalog using session_document by (simp add: holds_branches split: option.split)
  ultimately show ?thesis
    using Some handle_feature_holds [OF assms(1) Some assms(2)]
    by (simp add: handle_session_def holds_branches error_responses)
qed (simp add: handle_session_def holds_branches error_responses)

lemma every_response:
  assumes "server_ok sv" and "valid_sockets (re_sockets env)" and "HandleRequest env request sv = Some (r, t, sv')"
  shows "P r"
proof -
  have create: "holds (map_option (\<lambda>(response, sv'). (response, None, sv')) (CreateSession env body sv))" for body
    using create_response by (auto simp: holds_def split: option.split)
  have "holds (HandleRequest env request sv)"
    by (cases "FindSession sv (split_path (rq_path request) ! 1)")
      (simp_all add: HandleRequest_def Let_def holds_branches create handle_session_holds [OF assms(1,2)] error_responses
        pages features_document health_document [simplified])
  with assms(3) show ?thesis by (simp add: holds_def)
qed

end

section \<open>Statuses\<close>

definition known_status :: "http_response \<Rightarrow> bool" where
  "known_status r \<longleftrightarrow> rs_status r \<in> {200, 201, 400, 404, 409}"

interpretation statuses: response_property "\<lambda>m. True" known_status
  by unfold_locales (auto simp: known_status_def HttpResponse_def HttpResponseTyped_def)

end
