(* ===== verification/Json_Documents.thy ===== *)
theory Json_Documents
  imports Json_Roundtrip Server
begin

text \<open>
  What the server's documents say. The renderers of \<open>main.cpp\<close> put JSON together from pieces of
  text; here is the abstract document each of them stands for, a reader of JSON as RFC 8259
  defines it (for the values the server writes: strings, integers, booleans, arrays and objects),
  and the lemmas that the text of a document is read back as that document. The reader is a
  specification: it is not part of the program.
\<close>

section \<open>Documents\<close>

datatype doc = Str string | Num int | Flag bool | Items "doc list" | Members "(string \<times> doc) list"

fun doc_text :: "doc \<Rightarrow> string" where
  "doc_text (Str s) = json_quote s"
| "doc_text (Num n) = dec_of_int n"
| "doc_text (Flag b) = json_bool b"
| "doc_text (Items ds) = ''['' @ join (map doc_text ds) '','' @ '']''"
| "doc_text (Members ms) = ''{'' @ join (map (\<lambda>(k, d). json_quote k @ '':'' @ doc_text d) ms) '','' @ ''}''"

abbreviation member_text :: "string \<times> doc \<Rightarrow> string" where
  "member_text \<equiv> \<lambda>(k, d). json_quote k @ '':'' @ doc_text d"

abbreviation Strs :: "string list \<Rightarrow> doc" where
  "Strs ss \<equiv> Items (map Str ss)"

abbreviation Nat_num :: "nat \<Rightarrow> doc" where
  "Nat_num n \<equiv> Num (int n)"

abbreviation Word_num :: "'a::len word \<Rightarrow> doc" where
  "Word_num w \<equiv> Num (uint w)"

section \<open>A reader\<close>

definition read_number :: "string \<Rightarrow> (doc \<times> string) option" where
  "read_number s =
     (let negative = (s \<noteq> [] \<and> hd s = CHR ''-''); t = (if negative then tl s else s);
          digits = takeWhile is_digit t;
          n = int (digits_value digits)
      in if digits = [] then None else Some (Num (if negative then - n else n), dropWhile is_digit t))"

definition read_scalar :: "string \<Rightarrow> (doc \<times> string) option" where
  "read_scalar s =
     (if s \<noteq> [] \<and> hd s = dquote then
        (case parse_json_string_value s of Inl e \<Rightarrow> None | Inr (x, r) \<Rightarrow> Some (Str x, r))
      else if starts_with s ''true'' then Some (Flag True, drop 4 s)
      else if starts_with s ''false'' then Some (Flag False, drop 5 s)
      else read_number s)"

text \<open>The first argument bounds the depth of the recursion.\<close>

fun read_doc :: "nat \<Rightarrow> string \<Rightarrow> (doc \<times> string) option"
  and read_items :: "nat \<Rightarrow> string \<Rightarrow> doc list \<Rightarrow> (doc \<times> string) option"
  and read_members :: "nat \<Rightarrow> string \<Rightarrow> (string \<times> doc) list \<Rightarrow> (doc \<times> string) option" where
  "read_doc 0 s = None"
| "read_doc (Suc n) s =
     (if starts_with s ''[]'' then Some (Items [], drop 2 s)
      else if starts_with s ''['' then read_items n (drop 1 s) []
      else if starts_with s ''{}'' then Some (Members [], drop 2 s)
      else if starts_with s ''{'' then read_members n (drop 1 s) []
      else read_scalar s)"
| "read_items 0 s ds = None"
| "read_items (Suc n) s ds =
     (case read_doc n s of None \<Rightarrow> None
      | Some (d, r) \<Rightarrow>
          if starts_with r '','' then read_items n (drop 1 r) (ds @ [d])
          else if starts_with r '']'' then Some (Items (ds @ [d]), drop 1 r)
          else None)"
| "read_members 0 s ms = None"
| "read_members (Suc n) s ms =
     (case parse_json_string_value s of Inl e \<Rightarrow> None
      | Inr (k, r) \<Rightarrow>
          if \<not> starts_with r '':'' then None
          else (case read_doc n (drop 1 r) of None \<Rightarrow> None
            | Some (d, t) \<Rightarrow>
                if starts_with t '','' then read_members n (drop 1 t) (ms @ [(k, d)])
                else if starts_with t ''}'' then Some (Members (ms @ [(k, d)]), drop 1 t)
                else None))"

text \<open>The whole text is one document.\<close>

definition reads_as :: "string \<Rightarrow> doc \<Rightarrow> bool" where
  "reads_as s d \<longleftrightarrow> (\<exists>n. read_doc n s = Some (d, []))"

section \<open>A document's text is read back\<close>

lemma starts_with_simps [simp]:
  "starts_with s []" "starts_with [] (p # ps) = False"
  "starts_with (c # s) (p # ps) \<longleftrightarrow> c = p \<and> starts_with s ps"
  by (simp_all add: starts_with_def)

text \<open>What may follow a value: nothing, or a character that cannot continue a number.\<close>

definition ends_value :: "string \<Rightarrow> bool" where
  "ends_value r \<longleftrightarrow> r = [] \<or> \<not> is_digit (hd r)"

lemma read_digits:
  assumes "ends_value r"
  shows "takeWhile is_digit (dec_of_nat n @ r) = dec_of_nat n" "dropWhile is_digit (dec_of_nat n @ r) = r"
  using assms dec_of_nat_digits [of n]
  by (cases r; simp add: ends_value_def takeWhile_append dropWhile_append; fail)+

lemma digit_marks: "is_digit c \<Longrightarrow> c \<notin> {dquote, CHR ''-'', CHR ''['', CHR ''{'', CHR ''t'', CHR ''f'', CHR '']''}"
  by (auto simp: is_digit_def less_eq_char_def)

lemma read_number_text: "ends_value r \<Longrightarrow> read_number (dec_of_int i @ r) = Some (Num i, r)"
proof -
  assume r: "ends_value r"
  show ?thesis
  proof (cases "i < 0")
    case True
    then show ?thesis using read_digits [OF r] by (simp add: dec_of_int_def read_number_def Let_def digits_value_dec)
  next
    case False
    obtain c t where "dec_of_nat (nat i) = c # t" "is_digit c" using dec_of_nat_first by blast
    with False digit_marks [of c] read_digits [OF r, of "nat i"] digits_value_dec [of "nat i"] show ?thesis
      by (simp add: dec_of_int_def read_number_def Let_def)
  qed
qed

lemma dec_of_int_head: "\<exists>c t. dec_of_int i = c # t \<and> (is_digit c \<or> c = CHR ''-'')"
  using dec_of_nat_first [of "nat i"] by (auto simp: dec_of_int_def)

text \<open>The first character of a value tells its kind.\<close>

lemma doc_text_head:
  "\<exists>c t. doc_text d = c # t \<and> c \<noteq> CHR '']'' \<and> (case d of Str s \<Rightarrow> c = dquote | Items ds \<Rightarrow> c = CHR ''[''
     | Members ms \<Rightarrow> c = CHR ''{'' | Flag b \<Rightarrow> c = CHR ''t'' \<or> c = CHR ''f'' | Num n \<Rightarrow> is_digit c \<or> c = CHR ''-'')"
proof (cases d)
  case (Num n)
  with dec_of_int_head [of n] digit_marks show ?thesis by auto
qed (auto simp: json_quote_def json_bool_def)

lemma read_scalar_text:
  assumes "ends_value r"
  shows "read_scalar (json_quote s @ r) = Some (Str s, r)" "read_scalar (json_bool b @ r) = Some (Flag b, r)"
    "read_scalar (dec_of_int i @ r) = Some (Num i, r)"
proof -
  show "read_scalar (json_quote s @ r) = Some (Str s, r)"
    using json_quote_Cons [of s] by (auto simp: read_scalar_def)
  show "read_scalar (json_bool b @ r) = Some (Flag b, r)"
    by (simp add: read_scalar_def json_bool_def)
  obtain c t where c: "dec_of_int i = c # t" "is_digit c \<or> c = CHR ''-''" using dec_of_int_head by blast
  with read_number_text [OF assms, of i] digit_marks [of c] show "read_scalar (dec_of_int i @ r) = Some (Num i, r)"
    by (auto simp: read_scalar_def)
qed

text \<open>
  The induction: with enough depth, the text of every document is read back. The loops over the
  elements are handled by an induction on the list, for a depth that suffices for each element.
\<close>

definition read_back :: "doc \<Rightarrow> bool" where
  "read_back d \<longleftrightarrow> (\<exists>N. \<forall>n\<ge>N. \<forall>r. ends_value r \<longrightarrow> read_doc n (doc_text d @ r) = Some (d, r))"

lemma read_backI: "(\<And>n r. N \<le> n \<Longrightarrow> ends_value r \<Longrightarrow> read_doc n (doc_text d @ r) = Some (d, r)) \<Longrightarrow> read_back d"
  by (auto simp: read_back_def)

lemma ends_value_marks [simp]: "ends_value (CHR '','' # r)" "ends_value (CHR '']'' # r)" "ends_value (CHR ''}'' # r)" "ends_value []"
  by (simp_all add: ends_value_def is_digit_def less_eq_char_def)

lemma read_back_scalar:
  assumes "\<And>r. ends_value r \<Longrightarrow> read_scalar (doc_text d @ r) = Some (d, r)"
    and "case d of Items ds \<Rightarrow> False | Members ms \<Rightarrow> False | _ \<Rightarrow> True"
  shows "read_back d"
proof (rule read_backI [of 1])
  fix n :: nat and r assume n: "1 \<le> n" and r: "ends_value r"
  obtain c t where c: "doc_text d = c # t" and "c \<noteq> CHR ''[''" "c \<noteq> CHR ''{''"
    using doc_text_head [of d] assms(2) digit_marks by (cases d) (fastforce simp del: doc_text.simps)+
  moreover obtain k where "n = Suc k" using n by (cases n) auto
  ultimately show "read_doc n (doc_text d @ r) = Some (d, r)" using assms(1) [OF r] by simp
qed

lemma common_depth: "\<forall>d\<in>set ds. read_back d \<Longrightarrow>
    \<exists>N. \<forall>n\<ge>N. \<forall>d\<in>set ds. \<forall>r. ends_value r \<longrightarrow> read_doc n (doc_text d @ r) = Some (d, r)"
proof (induction ds)
  case (Cons d ds)
  then obtain N M where "\<forall>n\<ge>N. \<forall>d\<in>set ds. \<forall>r. ends_value r \<longrightarrow> read_doc n (doc_text d @ r) = Some (d, r)"
    "\<forall>n\<ge>M. \<forall>r. ends_value r \<longrightarrow> read_doc n (doc_text d @ r) = Some (d, r)"
    by (auto simp: read_back_def)
  then show ?case by (intro exI [of _ "max N M"]) simp
qed simp

lemma read_items_text:
  assumes "\<forall>n\<ge>N. \<forall>d\<in>set ds. \<forall>r. ends_value r \<longrightarrow> read_doc n (doc_text d @ r) = Some (d, r)"
    and "ds \<noteq> []" and "N + length ds \<le> n"
  shows "read_items n (join (map doc_text ds) '','' @ CHR '']'' # r) acc = Some (Items (acc @ ds), r)"
  using assms
proof (induction ds arbitrary: n acc)
  case (Cons d ds)
  obtain k where n: "n = Suc k" "N \<le> k" "N + length ds \<le> k" using Cons.prems(3) by (cases n) auto
  have d: "read_doc k (doc_text d @ t) = Some (d, t)" if "ends_value t" for t
    using Cons.prems(1) n(2) that by simp
  show ?case
  proof (cases "ds = []")
    case True
    then show ?thesis using d n by simp
  next
    case False
    then have "read_items k (join (map doc_text ds) '','' @ CHR '']'' # r) (acc @ [d]) = Some (Items ((acc @ [d]) @ ds), r)"
      using Cons n by (intro Cons.IH) auto
    then show ?thesis using d n False by (simp add: join_Cons)
  qed
qed simp

lemma read_members_text:
  assumes "\<forall>n\<ge>N. \<forall>d\<in>set (map snd ms). \<forall>r. ends_value r \<longrightarrow> read_doc n (doc_text d @ r) = Some (d, r)"
    and "ms \<noteq> []" and "N + length ms \<le> n"
  shows "read_members n (join (map member_text ms) '','' @ CHR ''}'' # r) acc = Some (Members (acc @ ms), r)"
  using assms
proof (induction ms arbitrary: n acc)
  case (Cons m ms)
  obtain key d where m: "m = (key, d)" by (cases m)
  obtain k where n: "n = Suc k" "N \<le> k" "N + length ms \<le> k" using Cons.prems(3) by (cases n) auto
  have d: "read_doc k (doc_text d @ t) = Some (d, t)" if "ends_value t" for t
    using Cons.prems(1) n(2) that m by simp
  show ?case
  proof (cases "ms = []")
    case True
    then show ?thesis using d n m by simp
  next
    case False
    then have "read_members k (join (map member_text ms) '','' @ CHR ''}'' # r) (acc @ [m]) = Some (Members ((acc @ [m]) @ ms), r)"
      using Cons n by (intro Cons.IH) auto
    then show ?thesis using d n m False by (simp add: join_Cons)
  qed
qed simp

lemma doc_read_back: "read_back d"
proof (induction d)
  case (Items ds)
  then obtain N where N: "\<forall>n\<ge>N. \<forall>d\<in>set ds. \<forall>r. ends_value r \<longrightarrow> read_doc n (doc_text d @ r) = Some (d, r)"
    using common_depth [of ds] by blast
  show ?case
  proof (rule read_backI [of "Suc (N + length ds)"])
    fix n r assume n: "Suc (N + length ds) \<le> n"
    obtain k where k: "n = Suc k" "N + length ds \<le> k" using n by (cases n) auto
    show "read_doc n (doc_text (Items ds) @ r) = Some (Items ds, r)"
    proof (cases ds)
      case Nil
      then show ?thesis using k by simp
    next
      case (Cons d es)
      obtain c t where "doc_text d = c # t" "c \<noteq> CHR '']''" using doc_text_head [of d] by blast
      then have "\<exists>t. join (map doc_text ds) '','' = c # t" "c \<noteq> CHR '']''" using Cons by (cases es; simp)+
      then show ?thesis using read_items_text [OF N _ k(2), of r "[]"] k Cons by auto
    qed
  qed
next
  case (Members ms)
  then have "\<forall>d\<in>set (map snd ms). read_back d" by fastforce
  then obtain N where N: "\<forall>n\<ge>N. \<forall>d\<in>set (map snd ms). \<forall>r. ends_value r \<longrightarrow> read_doc n (doc_text d @ r) = Some (d, r)"
    using common_depth [of "map snd ms"] by blast
  show ?case
  proof (rule read_backI [of "Suc (N + length ms)"])
    fix n r assume n: "Suc (N + length ms) \<le> n"
    obtain k where k: "n = Suc k" "N + length ms \<le> k" using n by (cases n) auto
    show "read_doc n (doc_text (Members ms) @ r) = Some (Members ms, r)"
    proof (cases ms)
      case Nil
      then show ?thesis using k by simp
    next
      case (Cons m es)
      have "\<exists>t. join (map member_text ms) '','' = dquote # t"
        using Cons json_quote_Cons [of "fst m"] by (cases m; cases es) auto
      then show ?thesis using read_members_text [OF N _ k(2), of r "[]"] k Cons by auto
    qed
  qed
qed (auto intro!: read_back_scalar simp: read_scalar_text)

lemma doc_text_reads: "reads_as (doc_text d) d"
proof -
  obtain N where "\<forall>n\<ge>N. \<forall>r. ends_value r \<longrightarrow> read_doc n (doc_text d @ r) = Some (d, r)"
    using doc_read_back [of d] by (auto simp: read_back_def)
  then have "read_doc N (doc_text d @ []) = Some (d, [])" by (metis order_refl ends_value_marks(4))
  then show ?thesis by (auto simp: reads_as_def)
qed

end
