(* ===== verification/Document_Theorems.thy ===== *)
theory Document_Theorems
  imports Json_Documents Server_Run
begin

text \<open>
  The abstract document of every JSON renderer of the server, with a lemma for each that the code's
  text is the text of that document. So whatever titles, messages, evidence or identifiers it
  holds, a document is well-formed JSON, is read back with exactly these values, and is one line.
\<close>

section \<open>Text of members\<close>

lemma join_map_Cons: "join (map f (x # xs)) '','' = f x @ concat (map (\<lambda>y. CHR '','' # f y) xs)"
proof (induction xs arbitrary: x)
  case (Cons y ys)
  then show ?case by simp
qed simp

definition plain_char :: "char \<Rightarrow> bool" where
  "plain_char c \<longleftrightarrow> json_escape_char c = [c]"

lemma json_quote_plain: "list_all plain_char s \<Longrightarrow> json_quote s = dquote # s @ [dquote]"
  by (induction s) (auto simp: json_quote_def json_escape_def plain_char_def)

lemma members_text:
  "doc_text (Members ((k, d) # ms)) = CHR ''{'' # json_quote k @ CHR '':'' # doc_text d @
     concat (map (\<lambda>(k, d). CHR '','' # json_quote k @ CHR '':'' # doc_text d) ms) @ ''}''"
proof -
  have "(\<lambda>y. CHR '','' # member_text y) = (\<lambda>(k, d). CHR '','' # json_quote k @ CHR '':'' # doc_text d)"
    by (rule ext) (simp split: prod.split)
  then show ?thesis using join_map_Cons [of member_text "(k, d)" ms] by simp
qed

lemmas doc_simps [render_simps] = members_text json_quote_plain plain_char_def json_escape_char_def

lemma dec_of_word_doc [simp]: "dec_of_int (uint w) = dec_of_word w"
  by (simp add: dec_of_word_def dec_of_int_def flip: unat_eq_nat_uint)

lemma dec_of_nat_doc [simp]: "dec_of_int (int n) = dec_of_nat n"
  by (simp add: dec_of_int_def)

lemma strings_doc: "json_array_strings ss = doc_text (Strs ss)"
  by (simp add: json_array_strings_def o_def)

lemma bytes_doc: "json_array_uint8 ws = doc_text (Items (map Word_num ws))"
  by (simp add: json_array_uint8_def o_def)

section \<open>Features\<close>

definition reference_doc :: "rfc_reference \<Rightarrow> doc" where
  "reference_doc r = Members [(''rfc'', Str (rr_rfc r)), (''section'', Str (rr_section r)),
     (''title'', Str (rr_title r)), (''url'', Str (rr_url r))]"

lemma reference_text: "json_rfc_reference r = doc_text (reference_doc r)"
  by (simp add: json_rfc_reference_def reference_doc_def render_simps del: doc_text.simps(5))

lemma references_text: "json_rfc_references rs = doc_text (Items (map reference_doc rs))"
  by (simp add: json_rfc_references_def o_def reference_text [abs_def])

text \<open>A member that is written only under a condition.\<close>

definition given :: "bool \<Rightarrow> string \<times> doc \<Rightarrow> (string \<times> doc) list" where
  "given c m = (if c then [m] else [])"

lemma given_text [render_simps]: "concat (map f (given c m)) = (if c then f m else [])"
  by (simp add: given_def)

fun opt :: "string \<Rightarrow> ('a \<Rightarrow> doc) \<Rightarrow> 'a option \<Rightarrow> (string \<times> doc) list" where
  "opt key f None = []"
| "opt key f (Some x) = [(key, f x)]"

section \<open>Contracts\<close>

definition message_doc :: "message_spec \<Rightarrow> doc" where
  "message_doc v = Members ([(''payload'', Str (ms_payload v)), (''stream'', Word_num (ms_stream v)), (''ppid'', Word_num (ms_ppid v))]
     @ given (ms_size_bytes v \<noteq> 0) (''size_bytes'', Nat_num (ms_size_bytes v))
     @ given (ms_unordered v) (''unordered'', Flag True)
     @ given (ms_pr_policy v \<noteq> []) (''pr_policy'', Str (ms_pr_policy v))
     @ given (ms_pr_value v \<noteq> 0) (''pr_value'', Word_num (ms_pr_value v))
     @ given (ms_auth_key_id v \<noteq> 0) (''auth_key_id'', Word_num (ms_auth_key_id v)))"

lemma message_text: "json_message v = doc_text (message_doc v)"
  by (simp add: json_message_def message_doc_def render_simps json_bool_def del: doc_text.simps(5))

lemma messages_text: "json_messages vs = doc_text (Items (map message_doc vs))"
  by (simp add: json_messages_def o_def message_text [abs_def])

definition auth_doc :: "auth_contract \<Rightarrow> doc" where
  "auth_doc a = Members [(''chunk_types'', Items (map Word_num (ac_chunk_types a))),
     (''primary_key_id'', Word_num (ac_primary_key_id a)), (''primary_secret'', Str (ac_primary_secret a)),
     (''secondary_key_id'', Word_num (ac_secondary_key_id a)), (''secondary_secret'', Str (ac_secondary_secret a))]"

lemma auth_text: "json_auth_contract a = doc_text (auth_doc a)"
  by (simp add: json_auth_contract_def auth_doc_def bytes_doc render_simps del: doc_text.simps(4,5))

definition reconfig_doc :: "address_reconfig_contract \<Rightarrow> doc" where
  "reconfig_doc c = Members [(''add_addresses'', Strs (ar_add_addresses c)), (''remove_addresses'', Strs (ar_remove_addresses c))]"

lemma reconfig_text: "json_address_reconfig_contract c = doc_text (reconfig_doc c)"
  by (simp add: json_address_reconfig_contract_def reconfig_doc_def strings_doc render_simps del: doc_text.simps(4,5))

definition interleaving_doc :: "interleaving_contract \<Rightarrow> doc" where
  "interleaving_doc c = Members [(''fragment_interleave_level'', Num (ic_fragment_interleave_level c)),
     (''large_message_size'', Nat_num (ic_large_message_size c)), (''large_stream'', Word_num (ic_large_stream c)),
     (''large_ppid'', Word_num (ic_large_ppid c)), (''small_stream'', Word_num (ic_small_stream c)),
     (''small_ppid'', Word_num (ic_small_ppid c)), (''small_message_count'', Num (ic_small_message_count c))]"

lemma interleaving_text: "json_interleaving_contract c = doc_text (interleaving_doc c)"
  by (simp add: json_interleaving_contract_def interleaving_doc_def render_simps del: doc_text.simps(5))

definition scheduler_doc :: "scheduler_contract \<Rightarrow> doc" where
  "scheduler_doc c = Members [(''policy'', Str (sc_policy c)), (''primary_stream'', Word_num (sc_primary_stream c)),
     (''secondary_stream'', Word_num (sc_secondary_stream c)), (''primary_value'', Word_num (sc_primary_value c)),
     (''secondary_value'', Word_num (sc_secondary_value c)), (''message_count'', Num (sc_message_count c))]"

lemma scheduler_text: "json_scheduler_contract c = doc_text (scheduler_doc c)"
  by (simp add: json_scheduler_contract_def scheduler_doc_def render_simps del: doc_text.simps(5))

definition tuning_members :: "socket_tuning_contract \<Rightarrow> (string \<times> doc) list" where
  "tuning_members c =
     given (st_delayed_sack_delay_ms c \<noteq> 0) (''delayed_sack_delay_ms'', Word_num (st_delayed_sack_delay_ms c)) @
     given (st_delayed_sack_freq c \<noteq> 0) (''delayed_sack_freq'', Word_num (st_delayed_sack_freq c)) @
     given (st_max_burst c \<noteq> 0) (''max_burst'', Word_num (st_max_burst c)) @
     given (st_maxseg c \<noteq> 0) (''maxseg'', Word_num (st_maxseg c))"

lemma join_snoc: "join (xs @ [x]) d = (if xs = [] then x else join xs d @ d @ x)"
  by (induction xs d rule: join.induct) auto

lemma tuning_entry_text:
  "tuning_entry key v (ms = [], CHR ''{'' # join (map member_text ms) '','') =
     (ms @ given (v \<noteq> 0) (key, Word_num v) = [],
      CHR ''{'' # join (map member_text (ms @ given (v \<noteq> 0) (key, Word_num v))) '','')"
  by (auto simp: tuning_entry_def given_def join_snoc)

lemma tuning_text: "json_socket_tuning_contract c = doc_text (Members (tuning_members c))"
proof -
  have "(True, ''{'') = ([] = ([] :: (string \<times> doc) list), CHR ''{'' # join (map member_text []) '','')" by simp
  then show ?thesis
    by (simp only: json_socket_tuning_contract_def Let_def tuning_entry_text tuning_members_def append.assoc append_Nil)
      simp
qed

definition associations_doc :: "one_to_many_contract \<Rightarrow> doc" where
  "associations_doc c = Members [(''expected_associations'', Nat_num (om_expected_associations c)),
     (''same_socket_required'', Flag (om_same_socket_required c)),
     (''require_distinct_assoc_ids'', Flag (om_require_distinct_assoc_ids c))]"

lemma associations_text: "json_one_to_many_contract c = doc_text (associations_doc c)"
  by (simp add: json_one_to_many_contract_def associations_doc_def render_simps del: doc_text.simps(5))

definition contract_doc :: "feature_definition \<Rightarrow> string list \<Rightarrow> doc" where
  "contract_doc f connect_addrs = Members ([(''feature_id'', Str (fd_id f)),
     (''completion_mode'', Str (mode_to_string (fd_completion_mode f))), (''transport'', Str ''sctp4''),
     (''connect_addresses'', Strs connect_addrs), (''client_socket_options'', Strs (fd_client_socket_options f)),
     (''client_subscriptions'', Strs (fd_client_subscriptions f)),
     (''client_send_messages'', Items (map message_doc (fd_client_send_messages f))),
     (''server_send_messages'', Items (map message_doc (fd_server_send_messages f))),
     (''trigger_payload'', Str (fd_trigger_payload f)), (''negative_connect_target'', Str (fd_negative_connect_target f)),
     (''timeout_seconds'', Num (fd_timeout_seconds f)), (''manual_setup_required'', Flag (fd_manual_setup_required f)),
     (''manual_setup_instructions'', Strs (fd_manual_setup_instructions f)), (''report_prompt'', Str (fd_report_prompt f)),
     (''instructions_text'', Str (fd_instructions_text f))]
     @ opt ''auth'' auth_doc (fd_auth f) @ opt ''address_reconfig'' reconfig_doc (fd_address_reconfig f)
     @ opt ''interleaving'' interleaving_doc (fd_interleaving f) @ opt ''scheduler'' scheduler_doc (fd_scheduler f)
     @ opt ''socket_tuning'' (\<lambda>c. Members (tuning_members c)) (fd_socket_tuning f)
     @ opt ''one_to_many'' associations_doc (fd_one_to_many f))"

lemma optional_part_text:
  assumes "\<And>x. render x = doc_text (f x)" and "list_all plain_char key"
  shows "optional_part (CHR '','' # dquote # key @ dquote # '':'') render v =
    concat (map (\<lambda>(k, d). CHR '','' # json_quote k @ CHR '':'' # doc_text d) (opt key f v))"
  using assms by (cases v) (simp_all add: optional_part_def json_quote_plain)

lemma contract_text: "build_contract f connect_addrs = doc_text (contract_doc f connect_addrs)"
proof -
  note part = optional_part_text [OF auth_text, where key = "''auth''" and v = "fd_auth f"]
    optional_part_text [OF reconfig_text, where key = "''address_reconfig''" and v = "fd_address_reconfig f"]
    optional_part_text [OF interleaving_text, where key = "''interleaving''" and v = "fd_interleaving f"]
    optional_part_text [OF scheduler_text, where key = "''scheduler''" and v = "fd_scheduler f"]
    optional_part_text [OF tuning_text, where key = "''socket_tuning''" and v = "fd_socket_tuning f"]
    optional_part_text [OF associations_text, where key = "''one_to_many''" and v = "fd_one_to_many f"]
  have plain: "list_all plain_char ''auth''" "list_all plain_char ''address_reconfig''" "list_all plain_char ''interleaving''"
    "list_all plain_char ''scheduler''" "list_all plain_char ''socket_tuning''" "list_all plain_char ''one_to_many''"
    by (simp_all add: plain_char_def json_escape_char_def)
  note parts = part(1) [OF plain(1)] part(2) [OF plain(2)] part(3) [OF plain(3)] part(4) [OF plain(4)]
    part(5) [OF plain(5)] part(6) [OF plain(6)]
  show ?thesis
    unfolding build_contract_def contract_doc_def strings_doc messages_text
    using parts by (simp add: render_simps del: doc_text.simps(4,5))
qed

section \<open>States, sessions, summaries\<close>

text \<open>The document of one execution; the contract is there when it is asked for and stored.\<close>

definition state_doc :: "feature_execution \<Rightarrow> doc option \<Rightarrow> doc" where
  "state_doc ex contract = Members ([(''id'', Str (fd_id (fx_definition ex))), (''title'', Str (fd_title (fx_definition ex))),
     (''category'', Str (fd_category (fx_definition ex))),
     (''completion_mode'', Str (mode_to_string (fd_completion_mode (fx_definition ex)))),
     (''manual_setup_required'', Flag (fd_manual_setup_required (fx_definition ex))),
     (''manual_setup_instructions'', Strs (fd_manual_setup_instructions (fx_definition ex))),
     (''rfc_references'', Items (map reference_doc (fd_rfc_references (fx_definition ex)))),
     (''state'', Str (state_to_string (fx_state ex))), (''message'', Str (fx_message ex)),
     (''started_at'', Str (iso_time (fx_started_at ex))), (''deadline_at'', Str (iso_time (fx_deadline_at ex))),
     (''finished_at'', Str (iso_time (fx_finished_at ex))), (''evidence_kind'', Str (fx_evidence_kind ex)),
     (''evidence_text'', Str (fx_evidence_text ex)), (''report_text'', Str (fx_report_text ex)),
     (''assoc_ids'', Strs (fx_assoc_ids ex))] @ opt ''contract'' (\<lambda>d. d) contract)"

definition contract_stored :: "feature_execution \<Rightarrow> doc option \<Rightarrow> bool" where
  "contract_stored ex contract \<longleftrightarrow> fx_contract_json ex = (case contract of None \<Rightarrow> [] | Some d \<Rightarrow> doc_text d)"

lemma doc_text_not_Nil: "doc_text d \<noteq> []"
  using doc_text_head [of d] by auto

lemma state_text: "FeatureJsonLocked ex False = doc_text (state_doc ex None)"
  unfolding FeatureJsonLocked_def state_doc_def strings_doc references_text
  by (simp add: render_simps del: doc_text.simps(4,5))

lemma state_text_contract:
  assumes "contract_stored ex contract"
  shows "FeatureJsonLocked ex True = doc_text (state_doc ex contract)"
  unfolding FeatureJsonLocked_def state_doc_def strings_doc references_text
  using assms by (cases contract) (simp_all add: contract_stored_def doc_text_not_Nil render_simps del: doc_text.simps(4,5))

definition session_doc :: "machine \<Rightarrow> feature_execution list \<Rightarrow> doc" where
  "session_doc m exs = Members [(''session_id'', Str (ss_id (m_session m))), (''agent_name'', Str (ss_agent_name (m_session m))),
     (''environment_name'', Str (ss_environment_name (m_session m))),
     (''created_at'', Str (iso_time (ss_created_at (m_session m)))),
     (''active_feature_id'', Str (ss_active_feature_id (m_session m))),
     (''dashboard_path'', Str (DashboardPath (ss_id (m_session m)))),
     (''features'', Items (map (\<lambda>ex. state_doc ex None) exs))]"

lemma session_text: "SessionJson catalog m = map_option (\<lambda>exs. doc_text (session_doc m exs)) (catalog_executions catalog m)"
  unfolding SessionJson_def session_doc_def by (simp add: render_simps state_text o_def del: doc_text.simps(5))

definition counts_doc :: "string \<Rightarrow> counts \<Rightarrow> feature_execution list \<Rightarrow> doc" where
  "counts_doc i c exs = Members [(''session_id'', Str i), (''passed'', Nat_num (ct_passed c)), (''failed'', Nat_num (ct_failed c)),
     (''unsupported'', Nat_num (ct_unsupported c)), (''timed_out'', Nat_num (ct_timed_out c)), (''pending'', Nat_num (ct_pending c)),
     (''active'', Nat_num (ct_active c)), (''pending_or_active'', Nat_num (ct_pending c + ct_active c)),
     (''complete'', Flag (ct_pending c = 0 \<and> ct_active c = 0)), (''features'', Items (map (\<lambda>ex. state_doc ex None) exs))]"

lemma counts_text: "summary_text i c (map (\<lambda>ex. FeatureJsonLocked ex False) exs) = doc_text (counts_doc i c exs)"
  unfolding summary_text_def counts_doc_def
  by (simp add: render_simps json_bool_def state_text o_def del: doc_text.simps(5) of_nat_add)

text \<open>The features of a summary are the states the loop saw, one for each entry of the catalogue.\<close>

lemma summary_loop_features:
  "summary_loop catalog c (map (\<lambda>ex. FeatureJsonLocked ex False) exs) m = Some (c', features, m') \<Longrightarrow>
     \<exists>seen. features = map (\<lambda>ex. FeatureJsonLocked ex False) (exs @ seen) \<and> length seen = length catalog"
proof (induction catalog arbitrary: c exs m)
  case (Cons feature catalog)
  from Cons.prems obtain ex where
    "summary_loop catalog (count_state (fx_state ex) c) (map (\<lambda>ex. FeatureJsonLocked ex False) (exs @ [ex]))
       (maybe_timeout (fd_id feature) m) = Some (c', features, m')"
    by (auto simp: Let_def split: option.splits)
  from Cons.IH [OF this] obtain seen where
    "features = map (\<lambda>ex. FeatureJsonLocked ex False) ((exs @ [ex]) @ seen)" "length seen = length catalog" by blast
  then show ?case by (intro exI [of _ "ex # seen"]) simp
qed simp

lemma summary_text_doc:
  assumes "SummaryJson catalog m = Some (document, m')"
  shows "\<exists>c exs. document = doc_text (counts_doc (ss_id (m_session m)) c exs) \<and> length exs = length catalog"
proof -
  obtain c features where "summary_loop catalog no_counts (map (\<lambda>ex. FeatureJsonLocked ex False) []) m = Some (c, features, m')"
    and d: "document = summary_text (ss_id (m_session m)) c features"
    using assms by (auto simp: SummaryJson_def)
  from summary_loop_features [OF this(1)] obtain seen where
    "features = map (\<lambda>ex. FeatureJsonLocked ex False) seen" "length seen = length catalog" by auto
  with d counts_text [of "ss_id (m_session m)" c seen] show ?thesis by blast
qed

section \<open>The catalogue and errors\<close>

definition entry_doc :: "feature_definition \<Rightarrow> doc" where
  "entry_doc f = Members [(''id'', Str (fd_id f)), (''title'', Str (fd_title f)), (''category'', Str (fd_category f)),
     (''summary'', Str (fd_summary f)), (''completion_mode'', Str (mode_to_string (fd_completion_mode f))),
     (''manual_setup_required'', Flag (fd_manual_setup_required f)),
     (''rfc_references'', Items (map reference_doc (fd_rfc_references f))), (''timeout_seconds'', Num (fd_timeout_seconds f))]"

lemma entry_text: "feature_entry f = doc_text (entry_doc f)"
  unfolding feature_entry_def entry_doc_def references_text by (simp add: render_simps del: doc_text.simps(4,5))

lemma features_text: "FeaturesJson sv = doc_text (Members [(''server'', Str ''sctp-feature-server''),
    (''features'', Items (map entry_doc (sv_catalog sv)))])"
  unfolding FeaturesJson_def by (simp add: render_simps entry_text [abs_def] o_def del: doc_text.simps(5))

lemma error_text: "json_error e = doc_text (Members [(''error'', Str e)])"
  by (simp add: json_error_def render_simps del: doc_text.simps(5))

lemma health_text: "''{\"ok\":true}'' = doc_text (Members [(''ok'', Flag True)])"
  by (simp add: render_simps json_bool_def del: doc_text.simps(5))

section \<open>One line\<close>

lemma digit_not_control: "is_digit c \<Longrightarrow> \<not> control_byte c"
  by (simp add: is_digit_def less_eq_char_def control_byte_def)

lemma dec_not_control: "c \<in> set (dec_of_int i) \<Longrightarrow> \<not> control_byte c"
proof -
  assume "c \<in> set (dec_of_int i)"
  then have "c = CHR ''-'' \<or> is_digit c"
    using dec_of_nat_digits by (auto simp: dec_of_int_def split: if_splits)
  then show "\<not> control_byte c" using digit_not_control by (auto simp: control_byte_def)
qed

lemma join_set: "c \<in> set (join vs d) \<Longrightarrow> c \<in> set d \<or> (\<exists>v\<in>set vs. c \<in> set v)"
  by (induction vs d rule: join.induct) auto

lemma doc_text_clean: "c \<in> set (doc_text d) \<Longrightarrow> \<not> control_byte c"
proof (induction d)
  case (Items ds)
  have "\<not> control_byte (CHR ''['')" "\<not> control_byte (CHR '']'')" "\<not> control_byte (CHR '','')" by (simp_all add: control_byte_def)
  with Items show ?case by (auto dest!: join_set)
next
  case (Members ms)
  have marks: "\<not> control_byte (CHR ''{'')" "\<not> control_byte (CHR ''}'')" "\<not> control_byte (CHR '','')" "\<not> control_byte (CHR '':'')"
    by (simp_all add: control_byte_def)
  from Members.prems consider "c \<in> {CHR ''{'', CHR ''}''}" | "c \<in> set (join (map member_text ms) '','')" by auto
  then show ?case
  proof cases
    case 2
    from join_set [OF 2] marks Members.IH json_quote_clean show ?thesis by fastforce
  qed (use marks in auto)
qed (auto dest: json_quote_clean dec_not_control simp: json_bool_def control_byte_def split: if_splits)

section \<open>Contracts of a session\<close>

text \<open>Every stored contract is one that \<open>build_contract\<close> made.\<close>

definition contracts_ok :: "machine \<Rightarrow> bool" where
  "contracts_ok m \<longleftrightarrow> (\<forall>fid ex. execution_at m fid = Some ex \<longrightarrow>
     fx_contract_json ex = [] \<or> (\<exists>d addrs. fx_contract_json ex = build_contract d addrs))"

lemma contracts_stored:
  "contracts_ok m \<Longrightarrow> execution_at m fid = Some ex \<Longrightarrow> \<exists>contract. contract_stored ex contract"
  unfolding contracts_ok_def contract_stored_def contract_text
  by (metis option.case)

lemma operation_keeps_contracts: "final_operation f fid \<Longrightarrow> contracts_ok m \<Longrightarrow> contracts_ok (f m)"
  unfolding contracts_ok_def using final_operation.contract_kept by metis

lemma scenario_contract:
  "start_scenario oss options fid d m = (Inr (c, t), m') \<Longrightarrow> \<exists>addrs. c = build_contract d addrs"
  by (auto simp: start_scenario_def split: scenario_kind.splits prod.splits sum.splits if_splits)

lemma start_keeps_contracts:
  assumes valid: "valid_sockets oss" and ok: "contracts_ok m"
  shows "contracts_ok (start_step oss options fid m)"
proof (cases "execution_at m fid")
  case None
  with ok show ?thesis by (simp add: start_step_def start_pending_def)
next
  case (Some ex)
  obtain r m' where s: "start_scenario oss options fid (fx_definition ex) m = (r, m')" by fastforce
  have same: "contracts_ok m1" if "same_features m m1" for m1
    using ok that by (simp add: contracts_ok_def same_features_def)
  show ?thesis
  proof (cases "active_feature m \<noteq> '''' \<or> fx_state ex \<noteq> Pending \<or> (\<exists>e. r = Inl e)")
    case True
    then show ?thesis
      using Some s ok same start_scenario_cases [OF s valid]
      by (auto simp: start_step_def start_pending_def scenario_fails_def)
  next
    case False
    then obtain c t where r: "r = Inr (c, t)" by (cases r) auto
    obtain xs m1 where m': "m' = begin_feature fid xs (fd_id (fx_definition ex)) m1" "same_features m m1"
      using start_scenario_cases [OF s valid] r by (auto simp: scenario_opens_def)
    have ex1: "execution_at m1 fid = Some ex" using m'(2) Some by (simp add: same_features_def)
    obtain ex2 where ex2: "execution_at m' fid = Some ex2"
      using begin_feature_reads(1) [OF ex1] m'(1) by blast
    let ?n = "refresh_message fid (store_contract fid c m')"
    have step: "start_step oss options fid m = ?n"
      using False Some s r contract_written(1) [OF ex2, of c]
      by (auto simp: start_step_def start_pending_def FeatureJson_def Let_def)
    have "fx_contract_json e = [] \<or> (\<exists>d addrs. fx_contract_json e = build_contract d addrs)" if e: "execution_at ?n g = Some e" for g e
    proof (cases "g = fid")
      case True
      then show ?thesis using e contract_written(1) [OF ex2, of c] scenario_contract [OF s [unfolded r]] by auto
    next
      case False
      then have "execution_at m g = Some e"
        using e contract_storing.other_executions message_refreshing.other_executions begin_feature_reads(2) [OF ex1 False] m'
        by (simp add: same_features_def)
      then show ?thesis using ok by (auto simp: contracts_ok_def)
    qed
    then show ?thesis unfolding step by (simp add: contracts_ok_def)
  qed
qed

lemma run_keeps_contracts: "session_run options catalog m m' \<Longrightarrow> contracts_ok m \<Longrightarrow> contracts_ok m'"
  by (erule session_run_keeps) (auto intro: operation_keeps_contracts start_keeps_contracts)

lemma reachable_contracts:
  assumes "session_reachable options catalog m"
  shows "contracts_ok m"
proof -
  obtain i params clock where "session_run options catalog (new_machine catalog i params clock) m"
    using assms by (auto simp: session_reachable_def)
  then show ?thesis
    by (rule run_keeps_contracts) (auto simp: contracts_ok_def new_machine_reads FeatureExecution_def)
qed

end
