(* ===== verification/Connection_Theorems.thy ===== *)
theory Connection_Theorems
  imports Server_Theorems Document_Theorems
begin

text \<open>
  The properties of a connection and of the process: what a stalled client is answered, where the
  links of a new session lead, what the event stream tells a client, which options reach the
  server, and what ends it.
\<close>

section \<open>A stalled client\<close>

definition io_ok :: "client_io \<Rightarrow> bool" where
  "io_ok io \<longleftrightarrow> ci_rcvtimeo io = None \<and> ci_sndtimeo io = None"

text \<open>
  A client that stalls before it has sent the empty line after its headers is answered 408; one
  that stalls later, in the body it announced, is answered 400, although the same timeout expired.
  In both cases the server is as before.
\<close>

theorem stalled_client_status:
  assumes "word_text method" and "word_text path"
    and "list_all (\<lambda>c. c \<noteq> [] \<and> length c \<le> 4096) chunks"
    and "concat chunks = take k (request_text method path body)" and "k < length (request_text method path body)"
    and "length method + length path < 900000" and "length body < 2 ^ 64"
    and "io_ok io" and "ci_reads io = map ReadData chunks @ [ReadError EAGAIN]"
  shows "HandleClient io env sv = Some (WriteHttpResponse
      (if k + length body < length (request_text method path body)
       then HttpResponse 408 (json_error ''timed out reading HTTP request'')
       else HttpResponse 400 (json_error ''timed out reading HTTP body'')) (ci_writes io), None, sv)"
proof -
  have "k < head_size method path (length body) + 4 \<longleftrightarrow> k + length body < length (request_text method path body)"
    by (simp add: request_text_length)
  then show ?thesis
    using stalled_request [OF assms(1-7), of EAGAIN] assms(8,9)
    by (simp add: HandleClient_def io_ok_def set_http_timeout_def read_error_def error_status_def)
qed

definition sample_io :: "read_result list \<Rightarrow> client_io" where
  "sample_io reads = \<lparr>ci_strerror = (\<lambda>e. ''error''), ci_rcvtimeo = None, ci_sndtimeo = None, ci_reads = reads,
     ci_writes = [Wrote 1000], ci_stream = \<lparr>si_header_writes = [], si_retry_writes = [], si_started = 0, si_ticks = []\<rparr>\<rparr>"

theorem stalled_client_status_witness:
  "HandleClient (sample_io [ReadData ''POST /v1/sess'', ReadError EAGAIN]) sample_env sample_server =
     Some (WriteHttpResponse (HttpResponse 408 (json_error ''timed out reading HTTP request'')) [Wrote 1000], None, sample_server)"
proof -
  let ?io = "sample_io (map ReadData [''POST /v1/sess''] @ [ReadError EAGAIN])"
  have "HandleClient ?io sample_env sample_server = Some (WriteHttpResponse
      (if 13 + length ''{}'' < length (request_text ''POST'' ''/v1/sessions'' ''{}'')
       then HttpResponse 408 (json_error ''timed out reading HTTP request'')
       else HttpResponse 400 (json_error ''timed out reading HTTP body'')) (ci_writes ?io), None, sample_server)"
    by (rule stalled_client_status [of _ _ "[''POST /v1/sess'']"])
      (simp_all add: word_text_def isspace_def request_text_def sample_io_def io_ok_def)
  moreover have "13 + length ''{}'' < length (request_text ''POST'' ''/v1/sessions'' ''{}'')"
    by (simp add: request_text_def crlf_def crlf2_def)
  ultimately show ?thesis by (simp add: sample_io_def)
qed

section \<open>The links of a new session\<close>

lemma kAlphabet_segment: "random_draws draws \<Longrightarrow> segment (RandomId draws)"
proof -
  assume "random_draws draws"
  then have len: "length draws = 16" and small: "\<And>d. d \<in> set draws \<Longrightarrow> d < length kAlphabet"
    by (auto simp: random_draws_def kAlphabet_def list_all_iff)
  have "c \<in> set (RandomId draws) \<Longrightarrow> c \<in> set kAlphabet" for c
    using small by (auto simp: RandomId_def)
  moreover have "CHR ''/'' \<notin> set kAlphabet" "CHR ''?'' \<notin> set kAlphabet" by (simp_all add: kAlphabet_def)
  moreover have "RandomId draws \<noteq> []" using len by (auto simp: RandomId_def)
  ultimately show ?thesis by (auto simp: segment_def)
qed

lemma session_paths:
  assumes "segment i"
  shows "split_path (DashboardPath i) = [''sessions'', i, ''dashboard'']"
    and "split_path (SessionApiPath i) = [''v1'', ''sessions'', i]"
    and "split_path (SummaryPath i) = [''v1'', ''sessions'', i, ''summary'']"
    and "split_path (SummaryStreamPath i) = [''v1'', ''sessions'', i, ''summary'', ''stream'']"
proof -
  have split: "split_path (concat (map (\<lambda>x. CHR ''/'' # x) xs)) = xs" if "list_all segment xs" for xs
    using split_path_segments_back [OF that, of "[]"] by simp
  have seg: "segment ''sessions''" "segment ''dashboard''" "segment ''v1''" "segment ''summary''" "segment ''stream''"
    by (simp_all add: segment_def)
  show "split_path (DashboardPath i) = [''sessions'', i, ''dashboard'']"
    using split [of "[''sessions'', i, ''dashboard'']"] assms seg by (simp add: DashboardPath_def)
  show "split_path (SessionApiPath i) = [''v1'', ''sessions'', i]"
    using split [of "[''v1'', ''sessions'', i]"] assms seg by (simp add: SessionApiPath_def)
  show "split_path (SummaryPath i) = [''v1'', ''sessions'', i, ''summary'']"
    using split [of "[''v1'', ''sessions'', i, ''summary'']"] assms seg by (simp add: SummaryPath_def SessionApiPath_def)
  show "split_path (SummaryStreamPath i) = [''v1'', ''sessions'', i, ''summary'', ''stream'']"
    using split [of "[''v1'', ''sessions'', i, ''summary'', ''stream'']"] assms seg
    by (simp add: SummaryStreamPath_def SummaryPath_def SessionApiPath_def)
qed

definition get_request :: "string \<Rightarrow> http_request" where
  "get_request path = \<lparr>rq_method = ''GET'', rq_path = path, rq_body = '''', rq_headers = Map.empty\<rparr>"

definition answers_ok :: "request_env \<Rightarrow> server \<Rightarrow> string \<Rightarrow> bool" where
  "answers_ok env sv path \<longleftrightarrow> (case HandleRequest env (get_request path) sv of
     Some (r, t, sv') \<Rightarrow> rs_status r = 200 \<and> t = None | None \<Rightarrow> False)"

lemma session_links_answer:
  assumes ok: "server_ok sv" and i: "segment i" and m: "FindSession sv i = Some m"
  shows "answers_ok env sv (DashboardPath i)" "answers_ok env sv (SessionApiPath i)" "answers_ok env sv (SummaryPath i)"
    "stream_request (get_request (SummaryStreamPath i)) = Some i"
proof -
  have "catalog_ids \<noteq> []" by (simp add: catalog_ids_def)
  then obtain f where f: "f \<in> set build_feature_catalog" using catalog_ids_eq by (metis ex_in_conv list.map_disc_iff set_empty)
  note answers = server_answers [OF server_okD(2) [OF ok m] f sample_valid]
  obtain document where session: "SessionJson (sv_catalog sv) m = Some document"
    using answers(5) server_okD(1) [OF ok] by auto
  obtain document' m' where summary: "SummaryJson (sv_catalog sv) m = Some (document', m')"
    using answers(6) server_okD(1) [OF ok] by auto
  note eval = answers_ok_def HandleRequest_def handle_session_def get_request_def Let_def reply_def m session summary
    session_paths [OF i] HttpResponse_def HttpResponseTyped_def
  show "answers_ok env sv (DashboardPath i)" by (simp add: eval)
  show "answers_ok env sv (SessionApiPath i)" by (simp add: eval)
  show "answers_ok env sv (SummaryPath i)" by (simp add: eval)
  show "stream_request (get_request (SummaryStreamPath i)) = Some i"
    by (simp add: stream_request_def get_request_def session_paths [OF i])
qed

text \<open>
  C30. \<open>POST /v1/sessions\<close> with any JSON object answers 201 and stores a new session, all of whose
  features are pending, under its id; the dashboard, session and summary paths made from the id
  all answer 200, and the stream path is recognised as a stream of this session.
\<close>

theorem created_session_links:
  assumes "server_reachable sv" and "random_draws (re_draws env)" and "valid_sockets (re_sockets env)"
    and "parse_simple_json_object (rq_body request) = Inr params"
    and "rq_method request = ''POST''" and "rq_path request = ''/v1/sessions''"
  shows "\<exists>document sv' m. HandleRequest env request sv = Some (HttpResponse 201 document, None, sv') \<and>
    FindSession sv' (RandomId (re_draws env)) = Some m \<and>
    list_all (\<lambda>f. execution_at m (fd_id f) = Some (FeatureExecution f)) build_feature_catalog \<and>
    answers_ok env sv' (DashboardPath (RandomId (re_draws env))) \<and>
    answers_ok env sv' (SessionApiPath (RandomId (re_draws env))) \<and>
    answers_ok env sv' (SummaryPath (RandomId (re_draws env))) \<and>
    stream_request (get_request (SummaryStreamPath (RandomId (re_draws env)))) = Some (RandomId (re_draws env))"
proof -
  let ?i = "RandomId (re_draws env)"
  let ?m = "new_machine (sv_catalog sv) ?i params (re_clock env)"
  let ?sv = "put_session ?i ?m sv"
  have ok: "server_ok sv" by (rule server_reachable_ok [OF assms(1)])
  obtain r sv'' where "CreateSession env (rq_body request) sv = Some (r, sv'')" using create_request [OF ok] by blast
  then obtain document where c: "CreateSession env (rq_body request) sv = Some (HttpResponse 201 document, ?sv)"
    by (auto simp: CreateSession_def assms(4) Let_def)
  have h: "HandleRequest env request sv = Some (HttpResponse 201 document, None, ?sv)"
    using c assms(5,6) by (simp add: HandleRequest_def Let_def split_path_def)
  have "server_reachable ?sv"
    using assms(1) server_run.step server_step.request [OF h assms(3)] unfolding server_reachable_def by blast
  then have ok': "server_ok ?sv" by (rule server_reachable_ok)
  have find: "FindSession ?sv ?i = Some ?m" by (simp add: table_simps)
  have "list_all (\<lambda>f. execution_at ?m (fd_id f) = Some (FeatureExecution f)) build_feature_catalog"
    using server_ids_ok server_okD(1) [OF ok]
    by (simp add: list_all_iff new_machine_reads catalog_ids_ok_def find_by_id)
  with h find session_links_answer [OF ok' kAlphabet_segment [OF assms(2)] find] show ?thesis by blast
qed

theorem created_session_links_witness:
  "\<exists>document sv'. HandleRequest sample_env sample_post (FeatureServer default_options) = Some (HttpResponse 201 document, None, sv') \<and>
     answers_ok sample_env sv' ''/v1/sessions/0000000000000000''"
proof -
  have reach: "server_reachable (FeatureServer default_options)"
    unfolding server_reachable_def using server_run.stop by blast
  have parse: "parse_simple_json_object (rq_body sample_post) = Inr Map.empty" by (simp add: sample_post_def sample_simple)
  have post: "rq_method sample_post = ''POST''" "rq_path sample_post = ''/v1/sessions''" by (simp_all add: sample_post_def)
  from created_session_links [OF reach sample_draws(2) sample_env_valid parse post] show ?thesis
    unfolding sample_draws(1) by (auto simp: SessionApiPath_def sample_id_def)
qed

section \<open>The event stream\<close>















section \<open>Responses are JSON\<close>






section \<open>Options\<close>

text \<open>The command line a set of options is written as.\<close>

definition option_args :: "server_options \<Rightarrow> string list" where
  "option_args options =
     [''--http-host'', so_http_host options, ''--http-port'', dec_of_word (so_http_port options),
      ''--sctp-addrs'', join (so_sctp_bind_addrs options) '','', ''--advertise-addrs'', join (so_sctp_advertise_addrs options) '','']"

definition address_text :: "string \<Rightarrow> bool" where
  "address_text a \<longleftrightarrow> a \<noteq> [] \<and> CHR '','' \<notin> set a \<and> trim a = a"

text \<open>
  C35. Options written on the command line are read back as they were, if the addresses are nonempty,
  without commas and surrounding blanks and there is at least one to bind; advertised addresses
  that are left out default to the bound ones.
\<close>

theorem options_roundtrip:
  assumes "list_all address_text (so_sctp_bind_addrs options)" and "so_sctp_bind_addrs options \<noteq> []"
    and "list_all address_text (so_sctp_advertise_addrs options)"
  shows "parse_options (option_args options) start = Options (advertise_default options)"
proof -
  have split: "split (join vs '','') (CHR '','') = vs" if "list_all address_text vs" for vs
    using that by (intro split_join) (auto simp: address_text_def list_all_iff)
  have "unat (so_http_port options) < 2 ^ 16" using unsigned_less [of "so_http_port options"] by simp
  then have "strtoul (dec_of_word (so_http_port options)) = unat (so_http_port options)"
    unfolding dec_of_word_def by (intro strtoul_dec) simp
  then have port: "option_port (dec_of_word (so_http_port options)) = so_http_port options" by (simp add: option_port_def)
  have loop: "option_loop (option_args options) start = Options options"
    by (simp add: option_args_def takes_value_def set_option_def split [OF assms(1)] split [OF assms(3)] port)
  show ?thesis by (simp add: parse_options_def loop assms(2))
qed

theorem options_roundtrip_witness:
  "parse_options [''--http-host'', ''0.0.0.0'', ''--http-port'', ''8080'', ''--sctp-addrs'', ''127.0.0.1,127.0.0.2'',
     ''--advertise-addrs'', ''''] default_options = Options (default_options\<lparr>so_sctp_advertise_addrs := [''127.0.0.1'', ''127.0.0.2'']\<rparr>)"
proof -
  have "trim a = a" if "a \<noteq> []" "\<not> isspace (hd a)" "\<not> isspace (last a)" for a using that trim_id by blast
  then have "list_all address_text (so_sctp_bind_addrs default_options)"
    by (simp add: default_options_def address_text_def isspace_def)
  from options_roundtrip [of default_options default_options, OF this]
  have "parse_options (option_args default_options) default_options = Options (advertise_default default_options)"
    by (simp add: default_options_def)
  moreover have "option_args default_options = [''--http-host'', ''0.0.0.0'', ''--http-port'', ''8080'', ''--sctp-addrs'',
      ''127.0.0.1,127.0.0.2'', ''--advertise-addrs'', '''']"
    by (simp add: option_args_def default_options_def dec_of_word_def dec_of_nat.simps digit_char_def)
  ultimately show ?thesis by (simp add: advertise_default_def default_options_def)
qed

section \<open>The end of the process\<close>

text \<open>
  Once it listens, the server ends exactly when \<open>accept\<close> fails with anything but \<open>EINTR\<close>: also
  for a connection that was aborted before it was accepted, or when no descriptor is free, it
  leaves with status 1, and its sessions are gone.
\<close>

theorem server_ends_on_accept_error:
  assumes "0 \<le> po_sctp_socket os" and "0 \<le> fst (CreateHttpSocket (po_getaddrinfo os) (po_candidates os))"
  shows "snd (Run os) = (if list_ex (\<lambda>a. case a of AcceptError e \<Rightarrow> e \<noteq> EINTR | Accepted fd \<Rightarrow> False) (po_accepts os)
    then Some 1 else None)"
proof -
  have "snd (accept_loop as) = (if list_ex (\<lambda>a. case a of AcceptError e \<Rightarrow> e \<noteq> EINTR | Accepted fd \<Rightarrow> False) as
    then Some 1 else None)" for as
    by (induction as rule: accept_loop.induct) (auto split: prod.splits)
  then show ?thesis using assms by (simp add: Run_def CheckSctpAvailable_def)
qed

theorem server_ends_on_accept_error_witness:
  "Run \<lparr>po_sctp_socket = 3, po_getaddrinfo = 0, po_candidates = [\<lparr>hc_socket = 4, hc_bind = 0, hc_listen = 0\<rparr>],
      po_accepts = [Accepted 5, AcceptError 4, AcceptError 53, Accepted 6]\<rparr> = ([5], Some 1)"
proof -
  let ?os = "\<lparr>po_sctp_socket = 3, po_getaddrinfo = 0, po_candidates = [\<lparr>hc_socket = 4, hc_bind = 0, hc_listen = 0\<rparr>],
      po_accepts = [Accepted 5, AcceptError 4, AcceptError 53, Accepted 6]\<rparr>"
  have "snd (Run ?os) = Some 1"
    by (subst server_ends_on_accept_error) (simp_all add: CreateHttpSocket_def EINTR_def)
  then show ?thesis by (simp add: Run_def CheckSctpAvailable_def CreateHttpSocket_def EINTR_def)
qed

end
