(* ===== verification/Page_Theorems.thy ===== *)
theory Page_Theorems
  imports Pages
begin

text \<open>
  The index page lists every session once, the active ones apart and each group newest first, and
  nothing a client names itself can add markup to it.
\<close>

section \<open>Markup\<close>

abbreviation markup :: "string \<Rightarrow> string" where
  "markup s \<equiv> filter html_special s"

lemma markup_escape: "markup (html_escape s) = []"
  using html_escape_clean by (simp add: filter_empty_conv)

lemma markup_dec: "markup (dec_of_nat n) = []"
  using dec_of_nat_digits [of n]
  by (auto simp: filter_empty_conv html_special_def is_digit_def less_eq_char_def)

lemma markup_state: "markup (if b then ''active'' else ''idle'') = []"
  by (simp add: html_special_def)

text \<open>The markup of a card is the same for all cards.\<close>

definition no_card :: session_card where
  "no_card = \<lparr>sc_id = [], sc_agent_name = [], sc_environment_name = [], sc_created_at = [],
     sc_active_feature_id = [], sc_dashboard_path = [], sc_created_at_point = 0\<rparr>"

lemma markup_card: "markup (render_card c) = markup (render_card no_card)"
  unfolding render_card_def Let_def filter_append markup_escape markup_state ..

lemma markup_cards:
  assumes "length cards = length cards'"
  shows "markup (render_cards cards text) = markup (render_cards cards' text)"
proof -
  have card: "filter html_special \<circ> render_card = (\<lambda>c. markup (render_card no_card))"
    by (rule ext) (simp only: o_apply, rule markup_card)
  have "map (\<lambda>c. markup (render_card no_card)) cards = map (\<lambda>c. markup (render_card no_card)) cards'"
    using assms by (simp add: map_replicate_const)
  moreover have "cards = [] \<longleftrightarrow> cards' = []" using assms by (metis length_0_conv)
  ultimately show ?thesis
    unfolding render_cards_def filter_append filter_concat map_map card if_distrib [of markup] by simp
qed

section \<open>Cards\<close>

lemma collect_cards_filter:
  "collect_cards sessions as bs =
     (as @ map card_of (filter (\<lambda>m. active_feature m \<noteq> '''') sessions),
      bs @ map card_of (filter (\<lambda>m. active_feature m = '''') sessions))"
  by (induction sessions as bs rule: collect_cards.induct) (auto simp: card_of_def active_feature_def)

text \<open>
  C34. The tags and quotes of the index page, in their order, depend only on how many sessions are
  active and how many are not: no agent name, environment name or feature id that a client or the
  catalogue supplies can open a tag, close one, or end an attribute.
\<close>

theorem index_markup_fixed:
  assumes "length (filter (\<lambda>m. active_feature m \<noteq> '''') sessions) = length (filter (\<lambda>m. active_feature m \<noteq> '''') sessions')"
    and "length (filter (\<lambda>m. active_feature m = '''') sessions) = length (filter (\<lambda>m. active_feature m = '''') sessions')"
  shows "filter html_special (SessionIndexHtml sessions) = filter html_special (SessionIndexHtml sessions')"
proof -
  have page: "markup (index_page as bs) = markup (index_page as' bs')"
    if "length as = length as'" "length bs = length bs'" for as bs as' bs'
    unfolding index_page_def filter_append markup_dec markup_cards [OF that(1)] markup_cards [OF that(2)] ..
  show ?thesis
    unfolding SessionIndexHtml_def collect_cards_filter prod.case
    by (rule page) (use assms in \<open>simp_all add: newest_first_def\<close>)
qed

definition named_session :: "string \<Rightarrow> machine" where
  "named_session name = \<lparr>m_session = \<lparr>ss_id = ''1'', ss_agent_name = name, ss_environment_name = name, ss_created_at = 1,
     ss_features = Map.empty, ss_active_feature_id = ''''\<rparr>, m_opened = [], m_closed = [], m_clock = (\<lambda>i. 0), m_reads = 0\<rparr>"

theorem index_markup_fixed_witness:
  "filter html_special (SessionIndexHtml [named_session ''</span><script>x</script>'']) =
     filter html_special (SessionIndexHtml [named_session ''agent''])"
  by (rule index_markup_fixed) (simp_all add: named_session_def active_feature_def)

text \<open>
  Each section of the index page shows every session of its kind exactly once, the newest
  first: the cards of the first section are those of the sessions with an active feature, the
  cards of the second those of all others.
\<close>

theorem index_lists_sessions:
  "\<exists>active_cards other_cards. SessionIndexHtml sessions = index_page active_cards other_cards \<and>
     mset active_cards = mset (map card_of (filter (\<lambda>m. active_feature m \<noteq> '''') sessions)) \<and>
     mset other_cards = mset (map card_of (filter (\<lambda>m. active_feature m = '''') sessions)) \<and>
     sorted_wrt (\<lambda>a b. sc_created_at_point b \<le> sc_created_at_point a) active_cards \<and>
     sorted_wrt (\<lambda>a b. sc_created_at_point b \<le> sc_created_at_point a) other_cards"
proof -
  have sorted: "sorted_wrt (\<lambda>a b. sc_created_at_point b \<le> sc_created_at_point a) (newest_first cards)" for cards
  proof -
    have "sorted (map (\<lambda>c. - sc_created_at_point c) (newest_first cards))" by (simp add: newest_first_def)
    then show ?thesis by (simp add: sorted_map)
  qed
  have perm: "mset (newest_first cards) = mset cards" for cards
    by (simp add: newest_first_def)
  show ?thesis
    unfolding SessionIndexHtml_def collect_cards_filter prod.case append_Nil
    using sorted perm by blast
qed

end
