(* ===== verification/Session_Spec.thy ===== *)
theory Session_Spec
  imports Session_Theorems
begin

text \<open>
  What a session promises, without messages, descriptors, clocks or JSON: its features are
  pending, active or settled, and at most one is active. Three events change it. The session of
  the code refines this specification: every request and every worker result is a sequence of
  events of it, under the map \<open>abs_session\<close>.
\<close>

section \<open>The specification\<close>

record abstract_session =
  as_states :: "string \<rightharpoonup> feature_state"
  as_active :: "string option"

text \<open>A free session begins a pending feature; the active one is settled; a pending one is declined.\<close>

inductive session_event :: "abstract_session \<Rightarrow> abstract_session \<Rightarrow> bool" where
  begin_event: "as_active s = None \<Longrightarrow> as_states s f = Some Pending \<Longrightarrow>
    session_event s \<lparr>as_states = (as_states s)(f \<mapsto> Active), as_active = Some f\<rparr>"
| settle_event: "as_active s = Some f \<Longrightarrow> terminal t \<Longrightarrow>
    session_event s \<lparr>as_states = (as_states s)(f \<mapsto> t), as_active = None\<rparr>"
| decline_event: "as_states s f = Some Pending \<Longrightarrow>
    session_event s (s\<lparr>as_states := (as_states s)(f \<mapsto> Unsupported)\<rparr>)"

definition session_events :: "abstract_session \<Rightarrow> abstract_session \<Rightarrow> bool" where
  "session_events = session_event\<^sup>*\<^sup>*"

definition abs_session :: "machine \<Rightarrow> abstract_session" where
  "abs_session m = \<lparr>as_states = (\<lambda>fid. map_option fx_state (execution_at m fid)),
     as_active = (if active_feature m = '''' then None else Some (active_feature m))\<rparr>"

lemma session_events_trans: "session_events a b \<Longrightarrow> session_events b c \<Longrightarrow> session_events a c"
  by (simp add: session_events_def)

lemma session_events_refl: "session_events a a"
  by (simp add: session_events_def)

lemma session_event_one: "session_event a b \<Longrightarrow> session_events a b"
  by (simp add: session_events_def)

section \<open>The session refines it\<close>

text \<open>In a well-formed session \<open>active_feature_id\<close> is determined by the states.\<close>

lemma abs_active:
  assumes ok: "session_ok m"
  shows "as_active (abs_session m) = Some f \<longleftrightarrow> as_states (abs_session m) f = Some Active"
proof
  assume "as_active (abs_session m) = Some f"
  then have "active_feature m \<noteq> ''''" "f = active_feature m" by (auto simp: abs_session_def split: if_splits)
  with session_okD(3) [OF ok] show "as_states (abs_session m) f = Some Active" by (auto simp: abs_session_def)
next
  assume "as_states (abs_session m) f = Some Active"
  then obtain ex where ex: "execution_at m f = Some ex" "fx_state ex = Active" by (auto simp: abs_session_def)
  from session_okD(1) [OF ok ex(1)] have "f \<noteq> ''''" by (simp add: execution_ok_def)
  with session_okD(2) [OF ok ex] show "as_active (abs_session m) = Some f" by (simp add: abs_session_def)
qed

lemma abs_session_eqI:
  assumes "session_ok m" and "\<And>g. map_option fx_state (execution_at m g) = as_states s g"
    and "\<And>f. as_active s = Some f \<longleftrightarrow> as_states s f = Some Active"
  shows "abs_session m = s"
proof -
  have states: "as_states (abs_session m) = as_states s" using assms(2) by (simp add: abs_session_def fun_eq_iff)
  have "as_active (abs_session m) = Some f \<longleftrightarrow> as_active s = Some f" for f
    unfolding abs_active [OF assms(1)] assms(3) states ..
  then have "as_active (abs_session m) = as_active s" by (metis not_None_eq)
  with states show ?thesis by (simp add: abstract_session.equality)
qed

lemma operation_refines:
  assumes f: "final_operation f fid" and ok: "session_ok m"
  shows "session_events (abs_session m) (abs_session (f m))"
proof -
  note op = final_operation.axioms(1) [OF f]
  have ok': "session_ok (f m)" by (rule feature_operation.keeps_session [OF op ok])
  show ?thesis
  proof (cases "execution_at m fid")
    case None
    have "execution_at (f m) g = execution_at m g" for g
      using None feature_operation.unknown_feature [OF op None] feature_operation.other_executions [OF op] by (cases "g = fid") auto
    then have "abs_session (f m) = abs_session m"
      using abs_active [OF ok] by (intro abs_session_eqI ok') (simp_all add: abs_session_def)
    then show ?thesis by (simp add: session_events_refl)
  next
    case (Some ex)
    obtain ex' where ex': "execution_at (f m) fid = Some ex'" "fx_state ex \<le> fx_state ex'"
      using feature_operation.forward [OF op Some] by blast
    have ex_ok: "execution_ok fid ex" by (rule session_okD(1) [OF ok Some])
    have states: "map_option fx_state (execution_at (f m) g) = ((as_states (abs_session m))(fid \<mapsto> fx_state ex')) g" for g
      using ex' feature_operation.other_executions [OF op, of g m] by (simp add: abs_session_def)
    note active = abs_active [OF ok]
    show ?thesis
    proof (cases "fx_state ex' = fx_state ex")
      case True
      have "abs_session (f m) = abs_session m"
        by (rule abs_session_eqI [OF ok']) (use states True Some active in \<open>auto simp: abs_session_def\<close>)
      then show ?thesis by (simp add: session_events_refl)
    next
      case False
      with ex'(2) have "fx_state ex = Pending \<or> fx_state ex = Active \<and> terminal (fx_state ex')"
        by (simp add: less_eq_feature_state_def)
      then show ?thesis
      proof
        assume p: "fx_state ex = Pending"
        then have u: "fx_state ex' = Unsupported" using final_operation.pending_declined_only [OF f Some p ex'(1)] False by simp
        let ?s = "abs_session m\<lparr>as_states := (as_states (abs_session m))(fid \<mapsto> Unsupported)\<rparr>"
        have pending: "as_states (abs_session m) fid = Some Pending" using Some p by (simp add: abs_session_def)
        have "abs_session (f m) = ?s"
          by (rule abs_session_eqI [OF ok']) (use states u active pending in \<open>auto split: if_splits\<close>)
        with session_event.decline_event [OF pending] show ?thesis by (simp add: session_event_one)
      next
        assume a: "fx_state ex = Active \<and> terminal (fx_state ex')"
        let ?s = "\<lparr>as_states = (as_states (abs_session m))(fid \<mapsto> fx_state ex'), as_active = None\<rparr>"
        have named: "as_active (abs_session m) = Some fid" using active [of fid] a Some by (simp add: abs_session_def)
        have "abs_session (f m) = ?s"
        proof (rule abs_session_eqI [OF ok'])
          have "as_states (abs_session m) g = Some Active \<Longrightarrow> g = fid" for g using active [of g] named by simp
          then show "as_active ?s = Some g \<longleftrightarrow> as_states ?s g = Some Active" for g using a by auto
        qed (use states in simp)
        with session_event.settle_event [OF named] a show ?thesis by (simp add: session_event_one)
      qed
    qed
  qed
qed

lemma start_refines:
  assumes ok: "session_inv m" and valid: "valid_sockets oss"
  shows "session_events (abs_session m) (abs_session (start_step oss options fid m))"
proof (cases "execution_at m fid")
  case None
  then show ?thesis by (simp add: start_step_def start_pending_def session_events_refl)
next
  case (Some ex)
  have ok': "session_ok (start_step oss options fid m)"
    using start_keeps_inv [OF valid ok] by (simp add: session_inv_def)
  from start_pending_cases [OF Some valid, of options] consider
      (refused) r where "start_pending oss options fid m = Some (r, None, m)"
    | (failed) r m' where "start_pending oss options fid m = Some (r, None, m')" "scenario_fails m m'"
    | (begun) r t c fds m1 where "active_feature m = ''''" "fx_state ex = Pending" "scenario_opens fds m m1"
        "start_pending oss options fid m = Some (r, t, refresh_message fid (store_contract fid c
           (begin_feature fid fds (fd_id (fx_definition ex)) m1)))"
    by blast
  then show ?thesis
  proof cases
    case refused
    then show ?thesis by (simp add: start_step_def session_events_refl)
  next
    case failed
    then have "abs_session (start_step oss options fid m) = abs_session m"
      by (simp add: start_step_def abs_session_def scenario_fails_def same_features_def)
    then show ?thesis by (simp add: session_events_refl)
  next
    case begun
    let ?b = "begin_feature fid fds (fd_id (fx_definition ex)) m1"
    let ?s = "\<lparr>as_states = (as_states (abs_session m))(fid \<mapsto> Active), as_active = Some fid\<rparr>"
    have m1: "execution_at m1 g = execution_at m g" for g using begun(3) by (simp add: scenario_opens_def same_features_def)
    then obtain ex1 where ex1: "execution_at ?b fid = Some ex1" "fx_state ex1 = Active"
      using begin_feature_reads(1) [of m1 fid ex fds "fd_id (fx_definition ex)"] Some by (auto simp del: fun_upd_apply)
    have new: "start_step oss options fid m = refresh_message fid (store_contract fid c ?b)"
      using begun(4) by (simp add: start_step_def)
    have free: "as_active (abs_session m) = None" using begun(1) by (simp add: abs_session_def)
    have pending: "as_states (abs_session m) fid = Some Pending" using Some begun(2) by (simp add: abs_session_def)
    have "abs_session (start_step oss options fid m) = ?s"
    proof (rule abs_session_eqI [OF ok'])
      fix g
      show "map_option fx_state (execution_at (start_step oss options fid m) g) = as_states ?s g"
      proof (cases "g = fid")
        case True
        then show ?thesis using contract_written(1) [OF ex1(1), of c] ex1(2) by (auto simp: new)
      next
        case False
        have "execution_at m1 fid = Some ex" using m1 Some by simp
        from begin_feature_reads(2) [OF this False] show ?thesis using False
          by (simp add: new m1 contract_storing.other_executions message_refreshing.other_executions abs_session_def)
      qed
      have "as_states (abs_session m) g \<noteq> Some Active"
        using free abs_active [of m g] ok by (auto simp: session_inv_def)
      then show "as_active ?s = Some g \<longleftrightarrow> as_states ?s g = Some Active" by auto
    qed
    with session_event.begin_event [OF free pending] show ?thesis by (simp add: session_event_one)
  qed
qed

lemma step_refines:
  assumes "session_step options catalog m m'" and "session_inv m"
  shows "session_events (abs_session m) (abs_session m')"
proof -
  have "session_inv m' \<and> session_events (abs_session m) (abs_session m')"
    by (rule session_step_keeps [OF assms(1), of "\<lambda>n. session_inv n \<and> session_events (abs_session m) (abs_session n)"])
      (use assms(2) operation_keeps_inv start_keeps_inv operation_refines start_refines in
        \<open>auto simp: session_events_refl session_inv_def intro: session_events_trans\<close>)
  then show ?thesis by simp
qed

text \<open>
  C3. The session refines its specification: from any reachable state, every run of requests and
  worker results is a run of the three events - a free session begins a pending feature, the
  active feature is settled and the session freed, a pending feature is declined - and a new
  session is the specification's initial state, with every feature pending and none active.
\<close>

theorem session_refines:
  assumes "session_reachable options catalog m" and "session_run options catalog m m'" and "catalog_ids_ok catalog"
  shows "session_events (abs_session m) (abs_session m') \<and>
    abs_session (new_machine catalog random_id params clock) =
      \<lparr>as_states = (\<lambda>fid. if fid \<in> set (map fd_id catalog) then Some Pending else None), as_active = None\<rparr>"
proof
  from assms(2,1) show "session_events (abs_session m) (abs_session m')"
  proof induction
    case (step m m1 m2)
    have "session_inv m1" by (rule reachable_inv [OF reachable_step [OF step(4,1)] assms(3)])
    from session_events_trans [OF step(3) [OF step(4)] step_refines [OF step(2) this]] show ?case .
  qed (rule session_events_refl)
  show "abs_session (new_machine catalog random_id params clock) =
      \<lparr>as_states = (\<lambda>fid. if fid \<in> set (map fd_id catalog) then Some Pending else None), as_active = None\<rparr>"
  proof -
    have found: "List.find (\<lambda>f. fd_id f = g) catalog = None \<longleftrightarrow> g \<notin> set (map fd_id catalog)" for g
      by (auto simp: find_None_iff)
    have "map_option fx_state (execution_at (new_machine catalog random_id params clock) g) =
        (if g \<in> set (map fd_id catalog) then Some Pending else None)" for g
      using found [of g] by (cases "List.find (\<lambda>f. fd_id f = g) catalog") (auto simp: new_machine_reads FeatureExecution_def)
    then show ?thesis by (simp add: abs_session_def new_machine_reads)
  qed
qed

theorem session_refines_witness:
  "session_events (abs_session sample_new) (abs_session sample_started)"
  using session_refines [OF sample_reachable_new sample_run_started sample_ids_ok] by blast

section \<open>A session can always be finished\<close>







end
