(* ===== verification/Interleaving.thy ===== *)
theory Interleaving
  imports Session_Theorems "HOL-Library.Multiset_Order"
begin

text \<open>
  The same handlers as they run from several threads at once. \<open>Run\<close> serves every connection from
  a thread of its own and \<open>StartFeature\<close> starts worker threads, so between two critical sections
  of a handler any other thread may run. A handler is here the list of the blocks it still has to
  run: each block is one critical section under \<open>session->mutex\<close> or \<open>execution->mutex\<close>, one
  \<open>close\<close>, or the opening of sockets, which only the thread itself sees. Run alone, the blocks
  are the handlers of Session_Api; the theorems about their interleavings are in
  Interleaving_Theorems.
\<close>

section \<open>Blocks\<close>

datatype block =
    TimeoutCheck string
  | TakeFds string
  | CloseFd int
  | ClearActive string
  | FailLocked string string
  | NetworkLocked string
  | CheckFree
  | CheckPending string
  | OpenScenario "nat \<Rightarrow> listen_os" server_options string
  | Activate string
  | SetFds string "int list"
  | SetActiveFeature string
  | StartWorker string worker_task
  | StoreContract string string
  | RefreshMessage string
  | CompleteLocked string "(string \<times> json_value) list" "string list"
  | UnsupportedLocked string "string \<rightharpoonup> string"
  | Respond http_response
  | RespondFeature string

text \<open>
  What a block leaves: the blocks to run before the rest of the handler, the response that ends
  it, or undefined behaviour (a null execution, a read past the end of a vector).
\<close>

datatype after = GoesOn "block list" | Answers http_response | Crashes

text \<open>The scenario kinds of \<open>StartFeature\<close> up to the sockets: what is left to do once they are open.\<close>

definition begin_blocks :: "string \<Rightarrow> int list option \<Rightarrow> feature_definition \<Rightarrow> string \<Rightarrow> worker_task option \<Rightarrow> block list" where
  "begin_blocks fid fds d contract task =
     [Activate fid] @ (case fds of None \<Rightarrow> [] | Some xs \<Rightarrow> [SetFds fid xs]) @ [SetActiveFeature (fd_id d)] @
     (case task of None \<Rightarrow> [] | Some t \<Rightarrow> [StartWorker fid t]) @
     [StoreContract fid contract, RefreshMessage fid, RespondFeature fid]"

definition open_scenario :: "(nat \<Rightarrow> listen_os) \<Rightarrow> server_options \<Rightarrow> string \<Rightarrow> feature_definition \<Rightarrow> machine \<Rightarrow> after \<times> machine" where
  "open_scenario oss options fid d m =
     (case fd_scenario_kind d of
        AgentOnly \<Rightarrow> (GoesOn (begin_blocks fid None d (build_contract d []) None), m)
      | ReceiveMessagesMultiTarget \<Rightarrow>
          (if target_count d = 0 then (Answers (conflict ''one-to-many feature is missing expected associations''), m)
           else case open_targets oss options (fd_bind_address_count d) (target_count d) 0 [] [] m of
             (Inl error, m') \<Rightarrow> (Answers (conflict error), m')
           | (Inr (fds, connect_addrs), m') \<Rightarrow>
               (GoesOn (begin_blocks fid (Some fds) d (build_contract d connect_addrs)
                  (Some (MultiTargetTask fds (fd_client_send_messages d)))), m'))
      | kind \<Rightarrow>
          (case create_listening_socket (oss 0) options (fd_bind_address_count d) m of
             (Inl error, m') \<Rightarrow> (Answers (conflict error), m')
           | (Inr socket_info, m') \<Rightarrow>
               (GoesOn (begin_blocks fid (Some [ls_fd socket_info]) d (build_contract d (ls_advertise_addrs socket_info))
                  (Some (if kind = ReceivePRMessages
                         then PrReceiveTask (ls_fd socket_info) (fd_client_send_messages d)
                         else if kind = ReceiveMessages
                         then ReceiveTask (ls_fd socket_info) (fd_client_send_messages d) (fd_expected_peer_addr_count d)
                         else SendAfterTriggerTask (ls_fd socket_info) (fd_trigger_payload d) (fd_server_send_messages d)))), m')))"

text \<open>The two statements that follow the critical section of a settling operation.\<close>

definition release_blocks :: "string \<Rightarrow> block list" where
  "release_blocks fid = [TakeFds fid, ClearActive fid]"

fun run_block :: "block \<Rightarrow> machine \<Rightarrow> after \<times> machine" where
  "run_block (TimeoutCheck fid) m =
     (case maybe_timeout_locked fid m of (finished, m') \<Rightarrow> (GoesOn (if finished then release_blocks fid else []), m'))"
| "run_block (TakeFds fid) m = (case take_active_fds fid m of (fds, m') \<Rightarrow> (GoesOn (map CloseFd fds), m'))"
| "run_block (CloseFd fd) m = (GoesOn [], if 0 \<le> fd then close_fd fd m else m)"
| "run_block (ClearActive fid) m = (GoesOn [], clear_active_feature (definition_id fid m) m)"
| "run_block (FailLocked fid message) m =
     (case mark_failed_locked fid message m of (proceed, m') \<Rightarrow> (GoesOn (if proceed then release_blocks fid else []), m'))"
| "run_block (NetworkLocked fid) m =
     (case mark_network_complete_locked fid m of (r, m') \<Rightarrow>
        (GoesOn (case r of None \<Rightarrow> [] | Some finished \<Rightarrow> if finished then release_blocks fid else [TakeFds fid]), m'))"
| "run_block CheckFree m =
     (if active_feature m \<noteq> '''' then Answers (conflict ''another feature is already active in this session'')
      else GoesOn [], m)"
| "run_block (CheckPending fid) m =
     (case execution_at m fid of None \<Rightarrow> Crashes
      | Some ex \<Rightarrow> if fx_state ex \<noteq> Pending then Answers (conflict ''feature has already been started in this session'')
                   else GoesOn [], m)"
| "run_block (OpenScenario oss options fid) m =
     (case execution_at m fid of None \<Rightarrow> (Crashes, m) | Some ex \<Rightarrow> open_scenario oss options fid (fx_definition ex) m)"
| "run_block (Activate fid) m = (GoesOn [], activate_execution fid m)"
| "run_block (SetFds fid fds) m = (GoesOn [], set_active_fds fid fds m)"
| "run_block (SetActiveFeature feature_id) m = (GoesOn [], set_active_feature feature_id m)"
| "run_block (StartWorker fid task) m = (GoesOn [], m)"
| "run_block (StoreContract fid contract) m = (GoesOn [], store_contract fid contract m)"
| "run_block (RefreshMessage fid) m = (GoesOn [], refresh_message fid m)"
| "run_block (CompleteLocked fid members assoc_ids) m =
     (case execution_at m fid of None \<Rightarrow> (Crashes, m)
      | Some ex \<Rightarrow>
          (case complete_locked members assoc_ids ex (m_clock m (m_reads m)) of
             None \<Rightarrow> (Crashes, m)
           | Some (Inl response) \<Rightarrow> (Answers response, m)
           | Some (Inr (finished, ex')) \<Rightarrow>
               (GoesOn (if finished then release_blocks fid else []),
                put_execution fid ex' (if finished then snd (Clock_now m) else m))))"
| "run_block (UnsupportedLocked fid params) m =
     (case execution_at m fid of None \<Rightarrow> (Crashes, m)
      | Some ex \<Rightarrow>
          (case unsupported_locked params ex (m_clock m (m_reads m)) of
             Inl response \<Rightarrow> (Answers response, m)
           | Inr ex' \<Rightarrow> (GoesOn (release_blocks fid), put_execution fid ex' (snd (Clock_now m)))))"
| "run_block (Respond response) m = (Answers response, m)"
| "run_block (RespondFeature fid) m =
     (case FeatureJson fid True m of None \<Rightarrow> Crashes | Some body \<Rightarrow> Answers (HttpResponse 200 body), m)"

section \<open>The handlers as lists of blocks\<close>

definition start_blocks :: "(nat \<Rightarrow> listen_os) \<Rightarrow> server_options \<Rightarrow> string \<Rightarrow> block list" where
  "start_blocks oss options fid = [TimeoutCheck fid, CheckFree, CheckPending fid, OpenScenario oss options fid]"

definition complete_blocks :: "string \<Rightarrow> string \<Rightarrow> block list" where
  "complete_blocks fid body =
     TimeoutCheck fid #
     (case parse_json_root_object body of
        Inl error \<Rightarrow> [Respond (bad_request error)]
      | Inr members \<Rightarrow>
          (case assoc_ids_of members of
             Inl error \<Rightarrow> [Respond (bad_request error)]
           | Inr assoc_ids \<Rightarrow> [CompleteLocked fid members assoc_ids, RespondFeature fid]))"

definition unsupported_blocks :: "string \<Rightarrow> string \<Rightarrow> block list" where
  "unsupported_blocks fid body =
     TimeoutCheck fid #
     (case parse_simple_json_object body of
        Inl error \<Rightarrow> [Respond (bad_request error)]
      | Inr params \<Rightarrow> [UnsupportedLocked fid params, RespondFeature fid])"

text \<open>A worker thread: its receives and sends touch nothing shared, then it settles the feature.\<close>

definition worker_blocks :: "string \<Rightarrow> worker_outcome \<Rightarrow> block list" where
  "worker_blocks fid outcome =
     (case outcome of Waiting \<Rightarrow> [] | Fails message \<Rightarrow> [FailLocked fid message] | Completes \<Rightarrow> [NetworkLocked fid])"

text \<open>The summary of a session: it changes the session only by the timeouts.\<close>

definition summary_blocks :: "feature_definition list \<Rightarrow> block list" where
  "summary_blocks catalog = map (\<lambda>feature. TimeoutCheck (fd_id feature)) catalog"

section \<open>Each block ends, and a handler has finitely many\<close>

fun block_rank :: "block \<Rightarrow> nat" where
  "block_rank (TakeFds fid) = 1"
| "block_rank (TimeoutCheck fid) = 2"
| "block_rank (FailLocked fid message) = 2"
| "block_rank (NetworkLocked fid) = 2"
| "block_rank (CompleteLocked fid members assoc_ids) = 2"
| "block_rank (UnsupportedLocked fid params) = 2"
| "block_rank (StartWorker fid task) = 3"
| "block_rank (OpenScenario oss options fid) = 4"
| "block_rank _ = 0"

definition ranks :: "block list \<Rightarrow> nat multiset" where
  "ranks bs = mset (map block_rank bs)"

lemma ranks_simps [simp]: "ranks [] = {#}" "ranks (b # bs) = add_mset (block_rank b) (ranks bs)" "ranks (bs @ cs) = ranks bs + ranks cs"
  by (simp_all add: ranks_def)

lemma in_ranks: "r \<in># ranks bs \<longleftrightarrow> (\<exists>b\<in>set bs. r = block_rank b)"
  by (auto simp: ranks_def)

lemma begin_blocks_rank: "b \<in> set (begin_blocks fid fds d contract task) \<Longrightarrow> block_rank b < 4"
  by (auto simp: begin_blocks_def split: option.splits)

lemma open_scenario_rank: "open_scenario oss options fid d m = (GoesOn new, m') \<Longrightarrow> b \<in> set new \<Longrightarrow> block_rank b < 4"
  by (auto simp: open_scenario_def split: scenario_kind.splits prod.splits sum.splits if_splits dest: begin_blocks_rank)

lemma run_block_rank: "run_block b m = (GoesOn new, m') \<Longrightarrow> c \<in> set new \<Longrightarrow> block_rank c < block_rank b"
  by (cases b)
    (auto simp: release_blocks_def split: prod.splits option.splits if_splits sum.splits dest: open_scenario_rank)

lemma fewer_blocks:
  assumes "\<And>c. c \<in> set new \<Longrightarrow> block_rank c < block_rank b"
  shows "(ranks (new @ bs), ranks (b # bs)) \<in> mult less_than"
proof -
  have "(ranks bs + ranks new, ranks bs + {#block_rank b#}) \<in> mult less_than"
    using assms by (intro one_step_implies_mult) (auto simp: in_ranks)
  then show ?thesis by (simp add: ac_simps)
qed

text \<open>
  A handler with no other thread around: its end, the workers it started, and the session.
\<close>

function alone :: "block list \<Rightarrow> machine \<Rightarrow> after \<times> (string \<times> worker_task) list \<times> machine" where
  "alone [] m = (GoesOn [], [], m)"
| "alone (b # bs) m =
     (case run_block b m of (r, m') \<Rightarrow>
        (case r of
           GoesOn new \<Rightarrow>
             (case alone (new @ bs) m' of (r', workers, m'') \<Rightarrow>
                (r', (case b of StartWorker fid task \<Rightarrow> (fid, task) # workers | _ \<Rightarrow> workers), m''))
         | _ \<Rightarrow> (r, [], m')))"
  by pat_completeness auto
termination
  by (relation "inv_image (mult less_than) (\<lambda>(bs, m). ranks bs)")
    (auto intro!: wf_mult fewer_blocks [unfolded ranks_simps] dest: run_block_rank sym)

section \<open>Alone, the blocks are the handlers\<close>

lemma alone_closes: "alone (map CloseFd fds @ bs) m = alone bs (close_all fds m)"
proof (induction fds arbitrary: m)
  case (Cons fd fds)
  then show ?case by (simp split: prod.split)
qed simp

lemma alone_release:
  "alone (release_blocks fid @ bs) m =
     (let m2 = close_active_fds fid m in alone bs (clear_active_feature (definition_id fid m2) m2))"
  by (simp add: release_blocks_def close_active_fds_def alone_closes Let_def split: prod.split)

lemma alone_take: "alone (TakeFds fid # bs) m = alone bs (close_active_fds fid m)"
  by (simp add: close_active_fds_def alone_closes split: prod.split)

lemma alone_timeout: "alone (TimeoutCheck fid # bs) m = alone bs (maybe_timeout fid m)"
  by (simp add: maybe_timeout_def alone_release Let_def split: prod.split)

lemma alone_worker: "alone (worker_blocks fid outcome @ bs) m = alone bs (settle fid outcome m)"
  by (cases outcome)
    (auto simp: worker_blocks_def settle_def mark_failed_def mark_network_complete_def alone_release alone_take
      close_active_fds_def alone_closes Let_def split: prod.split option.split)

text \<open>How a run ends, as the handlers of Session_Api tell it.\<close>

definition answered :: "string \<Rightarrow> (http_response \<times> worker_task option \<times> machine) option \<Rightarrow>
    (after \<times> (string \<times> worker_task) list \<times> machine) \<Rightarrow> bool" where
  "answered fid handler run =
     (case handler of None \<Rightarrow> fst run = Crashes
      | Some (r, task, m') \<Rightarrow> run = (Answers r, (case task of None \<Rightarrow> [] | Some t \<Rightarrow> [(fid, t)]), m'))"

lemma alone_begin:
  assumes "execution_at m fid = Some ex"
  shows "answered fid (let m'' = refresh_message fid (store_contract fid contract (begin_feature fid fds (fd_id d) m))
      in map_option (\<lambda>body. (HttpResponse 200 body, task, m'')) (FeatureJson fid True m''))
    (alone (begin_blocks fid fds d contract task) m)"
proof -
  obtain ex' where "execution_at (begin_feature fid fds (fd_id d) m) fid = Some ex'"
    using begin_feature_reads(1) [OF assms] by blast
  then obtain ex'' where "execution_at (refresh_message fid (store_contract fid contract (begin_feature fid fds (fd_id d) m))) fid = Some ex''"
    using contract_storing.forward message_refreshing.forward by metis
  then show ?thesis
    by (cases fds; cases task)
      (auto simp: begin_blocks_def answered_def FeatureJson_def begin_feature_def Let_def)
qed

lemma alone_scenario:
  assumes "execution_at m fid = Some ex"
  shows "answered fid
    (case start_scenario oss options fid d m of
       (Inl error, m') \<Rightarrow> Some (conflict error, None, m')
     | (Inr (contract, task), m') \<Rightarrow>
         let m'' = refresh_message fid (store_contract fid contract m')
         in map_option (\<lambda>body. (HttpResponse 200 body, task, m'')) (FeatureJson fid True m''))
    (case open_scenario oss options fid d m of
       (GoesOn new, m') \<Rightarrow> alone new m' | (r, m') \<Rightarrow> (r, [], m'))"
proof -
  have opened: "execution_at m' fid = Some ex" if "open_targets oss options b n 0 [] [] m = (r, m')" for r m' b n
    using open_targets_keeps [OF that] assms by simp
  have created: "execution_at m' fid = Some ex" if "create_listening_socket os options b m = (r, m')" for r m' b os
    using create_keeps_executions [OF that] assms by simp
  show ?thesis
    using assms opened created
    by (cases "fd_scenario_kind d")
      (auto simp: open_scenario_def start_scenario_def answered_def [of _ "Some _"]
        split: prod.split sum.split intro!: alone_begin)
qed

lemma alone_open:
  "execution_at m fid = Some ex \<Longrightarrow> alone [OpenScenario oss options fid] m =
     (case open_scenario oss options fid (fx_definition ex) m of (GoesOn new, m') \<Rightarrow> alone new m' | (r, m') \<Rightarrow> (r, [], m'))"
  by (simp split: prod.split after.split)

lemma alone_pending:
  assumes "execution_at m fid = Some ex"
  shows "answered fid (start_pending oss options fid m) (alone [CheckFree, CheckPending fid, OpenScenario oss options fid] m)"
proof -
  have "alone [CheckFree, CheckPending fid, OpenScenario oss options fid] m =
      (if active_feature m \<noteq> '''' then (Answers (conflict ''another feature is already active in this session''), [], m)
       else if fx_state ex \<noteq> Pending then (Answers (conflict ''feature has already been started in this session''), [], m)
       else alone [OpenScenario oss options fid] m)"
    using assms by (simp del: run_block.simps(9) split: prod.split)
  then show ?thesis
    using assms alone_scenario [OF assms, of oss options "fx_definition ex"] unfolding alone_open [OF assms]
    by (simp add: start_pending_def answered_def)
qed

lemma alone_start:
  assumes "execution_at m fid = Some ex"
  shows "answered fid (StartFeature oss options fid m) (alone (start_blocks oss options fid) m)"
proof -
  obtain ex' where "execution_at (maybe_timeout fid m) fid = Some ex'" using timing_out.forward [OF assms] by blast
  from alone_pending [OF this] show ?thesis unfolding StartFeature_def start_blocks_def alone_timeout .
qed

lemma report_tails:
  "complete_blocks fid body = TimeoutCheck fid # tl (complete_blocks fid body)"
  "unsupported_blocks fid body = TimeoutCheck fid # tl (unsupported_blocks fid body)"
  by (simp_all add: complete_blocks_def unsupported_blocks_def)

lemma alone_respond:
  "execution_at m fid = Some ex \<Longrightarrow> alone [RespondFeature fid] m = (Answers (HttpResponse 200 (FeatureJsonLocked ex True)), [], m)"
  by (simp add: FeatureJson_def)

lemma released_known: "execution_at m fid = Some ex \<Longrightarrow>
    execution_at (clear_active_feature f (close_active_fds fid m)) fid = Some (ex\<lparr>fx_active_fds := []\<rparr>)"
  by simp

lemma alone_release_respond:
  assumes "execution_at m fid = Some ex"
  shows "alone (release_blocks fid @ [RespondFeature fid]) m =
    (let m2 = close_active_fds fid m; m3 = clear_active_feature (definition_id fid m2) m2
     in (Answers (HttpResponse 200 (FeatureJsonLocked (ex\<lparr>fx_active_fds := []\<rparr>) True)), [], m3))"
  unfolding alone_release Let_def alone_respond [OF released_known [OF assms]] ..

lemma alone_complete:
  assumes "execution_at m fid = Some ex" and "complete_locked members assoc_ids ex (m_clock m (m_reads m)) = c"
  shows "alone [CompleteLocked fid members assoc_ids, RespondFeature fid] m =
    (case c of None \<Rightarrow> (Crashes, [], m)
     | Some (Inl response) \<Rightarrow> (Answers response, [], m)
     | Some (Inr (finished, ex')) \<Rightarrow>
         alone ((if finished then release_blocks fid else []) @ [RespondFeature fid])
           (put_execution fid ex' (if finished then snd (Clock_now m) else m)))"
  using assms by (simp del: alone.simps add: alone.simps(2) [of "CompleteLocked fid members assoc_ids"] split: option.split sum.split prod.split)

lemma alone_unsupported:
  assumes "execution_at m fid = Some ex" and "unsupported_locked params ex (m_clock m (m_reads m)) = c"
  shows "alone [UnsupportedLocked fid params, RespondFeature fid] m =
    (case c of Inl response \<Rightarrow> (Answers response, [], m)
     | Inr ex' \<Rightarrow> alone (release_blocks fid @ [RespondFeature fid]) (put_execution fid ex' (snd (Clock_now m))))"
  using assms by (simp del: alone.simps add: alone.simps(2) [of "UnsupportedLocked fid params"] split: sum.split prod.split)

lemma alone_tails:
  assumes "execution_at m fid = Some ex"
  shows "answered fid (map_option (\<lambda>(r, m'). (r, None, m')) (complete_report fid body m)) (alone (tl (complete_blocks fid body)) m)"
    and "answered fid (map_option (\<lambda>(r, m'). (r, None, m')) (unsupported_report fid body m)) (alone (tl (unsupported_blocks fid body)) m)"
  using assms
  by (auto simp: complete_report_def complete_blocks_def unsupported_report_def unsupported_blocks_def answered_def
      alone_complete [OF assms refl] alone_unsupported [OF assms refl] alone_release_respond alone_respond
      FeatureJson_def Let_def alone.simps(2) [of "Respond _"] simp del: alone.simps split: sum.split option.split prod.split)

lemma alone_report:
  assumes "execution_at m fid = Some ex"
  shows "answered fid (map_option (\<lambda>(r, m'). (r, None, m')) (CompleteFeature fid body m)) (alone (complete_blocks fid body) m)"
    and "answered fid (map_option (\<lambda>(r, m'). (r, None, m')) (UnsupportedFeature fid body m)) (alone (unsupported_blocks fid body) m)"
proof -
  obtain ex' where "execution_at (maybe_timeout fid m) fid = Some ex'" using timing_out.forward [OF assms] by blast
  note tails = alone_tails [OF this, of body]
  show "answered fid (map_option (\<lambda>(r, m'). (r, None, m')) (CompleteFeature fid body m)) (alone (complete_blocks fid body) m)"
    by (subst report_tails(1)) (simp only: CompleteFeature_def alone_timeout tails)
  show "answered fid (map_option (\<lambda>(r, m'). (r, None, m')) (UnsupportedFeature fid body m)) (alone (unsupported_blocks fid body) m)"
    by (subst report_tails(2)) (simp only: UnsupportedFeature_def alone_timeout tails)
qed

lemma alone_summary: "SummaryJson catalog m = Some (text, m') \<Longrightarrow> alone (summary_blocks catalog) m = (GoesOn [], [], m')"
proof -
  have "summary_loop catalog c fs m = Some (c', fs', m') \<Longrightarrow> alone (summary_blocks catalog) m = (GoesOn [], [], m')" for c fs c' fs'
    by (induction catalog c fs m rule: summary_loop.induct)
      (auto simp: summary_blocks_def alone_timeout Let_def simp del: alone.simps(2) split: option.splits)
  then show "SummaryJson catalog m = Some (text, m') \<Longrightarrow> alone (summary_blocks catalog) m = (GoesOn [], [], m')"
    by (auto simp: SummaryJson_def)
qed

end
