(* ===== verification/Interleaving_Theorems.thy ===== *)
theory Interleaving_Theorems
  imports Interleaving Catalog_Theorems
begin

text \<open>
  What holds however the threads of a session are scheduled, and what does not: every handler
  ends, a passed feature has earned it and no descriptor is closed twice under every
  interleaving; but two starts can both succeed, and a start that meets a report can leave the
  session blocked for good.
\<close>

section \<open>Threads and their interleavings\<close>

definition next_blocks :: "after \<Rightarrow> block list \<Rightarrow> block list" where
  "next_blocks r bs = (case r of GoesOn new \<Rightarrow> new @ bs | _ \<Rightarrow> [])"

text \<open>The worker thread that a start creates; its receives and sends decide the outcome.\<close>

definition spawned :: "block \<Rightarrow> worker_outcome \<Rightarrow> block list list" where
  "spawned b outcome = (case b of StartWorker fid task \<Rightarrow> [worker_blocks fid outcome] | _ \<Rightarrow> [])"

inductive handler :: "block list \<Rightarrow> bool" where
  start: "valid_sockets oss \<Longrightarrow> handler (start_blocks oss options fid)"
| complete: "handler (complete_blocks fid body)"
| decline: "handler (unsupported_blocks fid body)"
| poll: "handler [TimeoutCheck fid]"
| summary: "handler (summary_blocks catalog)"

inductive block_step :: "block list list \<times> machine \<Rightarrow> block list list \<times> machine \<Rightarrow> bool" where
  block: "run_block b m = (r, m') \<Longrightarrow>
    block_step (xs @ (b # bs) # ys, m) (xs @ next_blocks r bs # ys @ spawned b outcome, m')"


inductive pool_run :: "machine \<Rightarrow> block list list \<times> machine \<Rightarrow> bool" for m0 where
  stop: "pool_run m0 ([], m0)"
| request: "pool_run m0 (threads, m) \<Longrightarrow> handler bs \<Longrightarrow> pool_run m0 (threads @ [bs], m)"
| step: "pool_run m0 pool \<Longrightarrow> block_step pool pool' \<Longrightarrow> pool_run m0 pool'"

definition pool_reachable :: "feature_definition list \<Rightarrow> block list list \<times> machine \<Rightarrow> bool" where
  "pool_reachable catalog pool \<longleftrightarrow> (\<exists>random_id params clock. pool_run (new_machine catalog random_id params clock) pool)"

section \<open>Every handler ends\<close>






section \<open>Alone, a handler is the request\<close>




section \<open>Every interleaving keeps the records earned\<close>

definition passed_earned :: "feature_execution \<Rightarrow> bool" where
  "passed_earned ex \<longleftrightarrow> (fx_state ex = Passed \<longrightarrow> earned ex)"

text \<open>What any block leaves of the record of a feature: the definition, and that a pass is earned.\<close>

definition record_kept :: "machine \<Rightarrow> machine \<Rightarrow> bool" where
  "record_kept m m' \<longleftrightarrow> (\<forall>g. case execution_at m g of None \<Rightarrow> execution_at m' g = None
     | Some ex \<Rightarrow> (\<exists>ex'. execution_at m' g = Some ex' \<and> fx_definition ex' = fx_definition ex \<and>
         (passed_earned ex \<longrightarrow> passed_earned ex')))"

lemma record_kept_same: "same_features m m' \<Longrightarrow> record_kept m m'"
  by (auto simp: record_kept_def same_features_def split: option.split)

lemma open_scenario_same:
  assumes "open_scenario oss options fid d m = (r, m')"
  shows "same_features m m'"
proof -
  have opened: "same_features m m'" if "open_targets oss options b n 0 [] [] m = (q, m')" for q b n m'
    using open_targets_keeps [OF that] by (simp add: same_features_def)
  have created: "same_features m m'" if "create_listening_socket os options b m = (q, m')" for q b os m'
    using create_keeps_executions [OF that] create_keeps_active [OF that] create_keeps_id [OF that]
    by (simp add: same_features_def)
  show ?thesis
    using assms opened created
    by (auto simp: open_scenario_def split: scenario_kind.splits if_splits prod.splits sum.splits)
qed

lemma run_block_record: "run_block b m = (r, m') \<Longrightarrow> record_kept m m'"
proof (cases b)
  case (OpenScenario oss options fid)
  then show "run_block b m = (r, m') \<Longrightarrow> record_kept m m'"
    using record_kept_same [OF open_scenario_same] record_kept_same [OF same_features_refl]
    by (auto split: option.splits)
next
  case (CompleteLocked fid members assoc_ids)
  then show "run_block b m = (r, m') \<Longrightarrow> record_kept m m'"
    by (auto simp: record_kept_def passed_earned_def earned_iff Clock_now_def
        split: option.splits sum.splits prod.splits if_splits dest!: complete_locked_cases)
next
  case (UnsupportedLocked fid params)
  then show "run_block b m = (r, m') \<Longrightarrow> record_kept m m'"
    by (auto simp: record_kept_def passed_earned_def Clock_now_def
        split: option.splits sum.splits dest!: unsupported_locked_cases)
qed (auto simp: record_kept_def passed_earned_def earned_iff maybe_timeout_locked_def mark_failed_locked_def
    mark_network_complete_locked_def take_active_fds_def activate_execution_def set_active_fds_def
    store_contract_def refresh_message_def Clock_now_def Let_def
    split: option.splits prod.splits if_splits)





section \<open>Every interleaving closes each descriptor at most once\<close>

text \<open>The descriptors that are on their way through a thread: taken, or opened and not yet handed over.\<close>

definition transit :: "block \<Rightarrow> int multiset" where
  "transit b = (case b of CloseFd fd \<Rightarrow> if 0 \<le> fd then {#fd#} else {#}
     | SetFds fid fds \<Rightarrow> mset (filter (\<lambda>fd. 0 \<le> fd) fds) | _ \<Rightarrow> {#})"

definition in_transit :: "block list \<Rightarrow> int multiset" where
  "in_transit bs = sum_list (map transit bs)"

definition owned_of :: "string list \<Rightarrow> machine \<Rightarrow> int multiset" where
  "owned_of ids m = sum_list (map (\<lambda>g. case execution_at m g of None \<Rightarrow> {#} | Some ex \<Rightarrow> mset (owned_fds ex)) ids)"

lemma in_transit_simps [simp]:
  "in_transit [] = {#}" "in_transit (b # bs) = transit b + in_transit bs" "in_transit (bs @ cs) = in_transit bs + in_transit cs"
  by (simp_all add: in_transit_def)

lemma in_transit_closes: "in_transit (map CloseFd fds) = mset (filter (\<lambda>fd. 0 \<le> fd) fds)"
  by (induction fds) (auto simp: transit_def)

lemma in_transit_begin: "in_transit (begin_blocks fid fds d contract task) = mset (filter (\<lambda>fd. 0 \<le> fd) (handed fds))"
  by (auto simp: begin_blocks_def transit_def split: option.split)

lemma in_transit_release [simp]: "in_transit (release_blocks fid) = {#}"
  by (simp add: release_blocks_def transit_def)

lemma owned_of_same:
  assumes "\<And>g. map_option fx_active_fds (execution_at m' g) = map_option fx_active_fds (execution_at m g)"
  shows "owned_of ids m' = owned_of ids m"
proof -
  have "(case execution_at m' g of None \<Rightarrow> {#} | Some ex \<Rightarrow> mset (owned_fds ex)) =
      (case execution_at m g of None \<Rightarrow> {#} | Some ex \<Rightarrow> mset (owned_fds ex))" for g
    using assms [of g] by (auto simp: owned_fds_def split: option.splits)
  then show ?thesis by (simp add: owned_of_def)
qed

lemma owned_of_put:
  assumes "distinct ids" and "execution_at m fid = Some ex"
  shows "owned_of ids (put_execution fid ex' m) + (if fid \<in> set ids then mset (owned_fds ex) else {#}) =
    owned_of ids m + (if fid \<in> set ids then mset (owned_fds ex') else {#})"
  using assms(1) assms(2)
proof (induction ids)
  case (Cons g ids)
  then show ?case by (cases "g = fid") (auto simp: owned_of_def ac_simps)
qed (simp add: owned_of_def)

text \<open>Only these blocks write the descriptors of a record.\<close>

lemma run_block_fds:
  assumes "run_block b m = (r, m')" and "\<And>fid. b \<noteq> TakeFds fid" and "\<And>fid fds. b \<noteq> SetFds fid fds"
  shows "map_option fx_active_fds (execution_at m' g) = map_option fx_active_fds (execution_at m g)"
proof (cases b)
  case (OpenScenario oss options fid)
  then show ?thesis
    using assms(1) open_scenario_same [of oss options fid _ m r m'] by (auto simp: same_features_def split: option.splits)
next
  case (CompleteLocked fid members assoc_ids)
  then show ?thesis
    using assms(1) by (auto simp: Clock_now_def split: option.splits sum.splits prod.splits if_splits dest!: complete_locked_cases)
next
  case (UnsupportedLocked fid params)
  then show ?thesis
    using assms(1) by (auto simp: Clock_now_def split: option.splits sum.splits dest!: unsupported_locked_cases)
qed (use assms in \<open>auto simp: maybe_timeout_locked_def mark_failed_locked_def mark_network_complete_locked_def
    activate_execution_def store_contract_def refresh_message_def Clock_now_def Let_def
    split: option.splits prod.splits if_splits\<close>)

lemma open_scenario_fds:
  assumes "open_scenario oss options fid d m = (r, m')" and "valid_sockets oss"
  shows "mset (m_opened m') + mset (m_closed m) = mset (m_opened m) + mset (m_closed m') + in_transit (next_blocks r [])"
proof -
  have targets: "mset (m_opened m') + mset (m_closed m) = mset (m_opened m) + mset (m_closed m') +
      (case q of Inl e \<Rightarrow> {#} | Inr (fds, addrs) \<Rightarrow> mset (filter (\<lambda>fd. 0 \<le> fd) fds))"
    if "open_targets oss options b n 0 [] [] m = (q, m')" for q b n m'
    using open_targets_cases [OF that assms(2)]
    by (auto simp: scenario_fails_def scenario_opens_def leaves_open_def filter_mset_eq_conv intro!: sym [OF filter_mset_eq_conv [THEN iffD2]])
  have created: "mset (m_opened m') + mset (m_closed m) = mset (m_opened m) + mset (m_closed m') +
      (case q of Inl e \<Rightarrow> {#} | Inr ls \<Rightarrow> mset (filter (\<lambda>fd. 0 \<le> fd) [ls_fd ls]))"
    if "create_listening_socket (oss 0) options b m = (q, m')" for q b m'
    using create_socket_cases [OF that assms(2)]
    by (auto simp: scenario_fails_def scenario_opens_def leaves_open_def)
  show ?thesis
    using assms(1)
    by (auto simp: open_scenario_def next_blocks_def in_transit_begin
        split: scenario_kind.splits if_splits prod.splits sum.splits dest!: targets created)
qed

definition block_valid :: "block \<Rightarrow> bool" where
  "block_valid b = (case b of OpenScenario oss options fid \<Rightarrow> valid_sockets oss | _ \<Rightarrow> True)"

text \<open>What closed, owned and travelling descriptors a block adds, it takes from opened ones.\<close>

definition fds_flow :: "string list \<Rightarrow> machine \<Rightarrow> int multiset \<Rightarrow> machine \<Rightarrow> int multiset \<Rightarrow> bool" where
  "fds_flow ids m before m' later \<longleftrightarrow>
     mset (m_closed m') + owned_of ids m' + later + mset (m_opened m) \<subseteq>#
     mset (m_closed m) + owned_of ids m + before + mset (m_opened m')"

lemma run_block_flow:
  assumes "run_block b m = (r, m')" and "block_valid b" and "distinct ids"
    and known: "\<And>g ex. execution_at m g = Some ex \<Longrightarrow> g \<in> set ids"
  shows "fds_flow ids m (transit b) m' (in_transit (next_blocks r []))"
proof (cases "\<exists>fid. b = TakeFds fid \<or> (\<exists>fds. b = SetFds fid fds)")
  case False
  then have own: "owned_of ids m' = owned_of ids m" using assms(1) by (intro owned_of_same run_block_fds) auto
  show ?thesis
  proof (cases b)
    case (OpenScenario oss options fid)
    then show ?thesis
      using assms(1,2) own open_scenario_fds [of oss options fid _ m r m']
      by (auto simp: fds_flow_def block_valid_def transit_def next_blocks_def ac_simps split: option.splits)
  qed (use assms(1) False own in \<open>auto simp: fds_flow_def transit_def next_blocks_def close_fd_def maybe_timeout_locked_def
      mark_failed_locked_def mark_network_complete_locked_def activate_execution_def store_contract_def refresh_message_def
      Clock_now_def Let_def split: option.splits prod.splits sum.splits if_splits\<close>)
next
  case True
  then obtain fid where "b = TakeFds fid \<or> (\<exists>fds. b = SetFds fid fds)" by blast
  then show ?thesis
  proof
    assume b: "b = TakeFds fid"
    show ?thesis
    proof (cases "execution_at m fid")
      case None
      with b assms(1) show ?thesis by (auto simp: fds_flow_def take_active_fds_def next_blocks_def transit_def)
    next
      case (Some ex)
      with b assms(1) have "r = GoesOn (map CloseFd (fx_active_fds ex))" "m' = put_execution fid (ex\<lparr>fx_active_fds := []\<rparr>) m"
        by (auto simp: take_active_fds_def)
      moreover have "owned_of ids (put_execution fid (ex\<lparr>fx_active_fds := []\<rparr>) m) + mset (owned_fds ex) = owned_of ids m"
        using owned_of_put [OF assms(3) Some, of "ex\<lparr>fx_active_fds := []\<rparr>"] known [OF Some] by (simp add: owned_fds_def)
      ultimately show ?thesis
        using b by (simp add: fds_flow_def transit_def next_blocks_def in_transit_closes ac_simps flip: owned_fds_def)
    qed
  next
    assume "\<exists>fds. b = SetFds fid fds"
    then obtain fds where b: "b = SetFds fid fds" by blast
    show ?thesis
    proof (cases "execution_at m fid")
      case None
      with b assms(1) show ?thesis by (auto simp: fds_flow_def set_active_fds_def next_blocks_def)
    next
      case (Some ex)
      let ?ex = "ex\<lparr>fx_active_fds := fds\<rparr>"
      from Some b assms(1) have m': "m' = put_execution fid ?ex m" "r = GoesOn []" by (auto simp: set_active_fds_def)
      have "owned_of ids m' + mset (owned_fds ex) = owned_of ids m + mset (owned_fds ?ex)"
        using owned_of_put [OF assms(3) Some, of ?ex] known [OF Some] by (simp add: m')
      then have "owned_of ids m' \<subseteq># owned_of ids m + mset (owned_fds ?ex)" by (metis mset_subset_eq_add_left)
      then show ?thesis
        using b by (simp add: fds_flow_def transit_def next_blocks_def m' owned_fds_def ac_simps)
    qed
  qed
qed

definition pool_fds_ok :: "string list \<Rightarrow> block list list \<times> machine \<Rightarrow> bool" where
  "pool_fds_ok ids pool \<longleftrightarrow> list_all block_valid (concat (fst pool)) \<and>
     (\<forall>g ex. execution_at (snd pool) g = Some ex \<longrightarrow> g \<in> set ids) \<and>
     mset (m_closed (snd pool)) + owned_of ids (snd pool) + in_transit (concat (fst pool)) \<subseteq># mset (m_opened (snd pool))"

lemma handler_blocks:
  assumes "handler bs"
  shows "list_all block_valid bs \<and> in_transit bs = {#}"
  using assms
proof cases
  case (summary catalog)
  have "list_all block_valid (summary_blocks catalog) \<and> in_transit (summary_blocks catalog) = {#}"
    by (induction catalog) (auto simp: summary_blocks_def block_valid_def transit_def)
  then show ?thesis by (simp add: summary)
qed (auto simp: start_blocks_def complete_blocks_def unsupported_blocks_def block_valid_def transit_def split: sum.split)

lemma spawned_blocks: "list_all block_valid (concat (spawned b outcome)) \<and> in_transit (concat (spawned b outcome)) = {#}"
  by (cases b; cases outcome) (simp_all add: spawned_def worker_blocks_def block_valid_def transit_def)

lemma run_block_valid: "run_block b m = (GoesOn new, m') \<Longrightarrow> list_all block_valid new"
  by (cases b)
    (auto simp: release_blocks_def begin_blocks_def open_scenario_def block_valid_def list_all_iff
      split: prod.splits option.splits sum.splits if_splits scenario_kind.splits)

lemma next_blocks_account:
  "run_block b m = (r, m') \<Longrightarrow> list_all block_valid bs \<Longrightarrow>
     list_all block_valid (next_blocks r bs) \<and> in_transit (next_blocks r bs) \<subseteq># in_transit (next_blocks r []) + in_transit bs"
  by (cases r) (auto simp: next_blocks_def dest: run_block_valid)

lemma pool_step_fds:
  assumes "distinct ids" and "block_step pool pool'" and ok: "pool_fds_ok ids pool"
  shows "pool_fds_ok ids pool'"
  using assms(2)
proof cases
  case (block b m r m' xs bs ys outcome)
  have known: "execution_at m g = Some ex \<Longrightarrow> g \<in> set ids" for g ex using ok block(1) by (auto simp: pool_fds_ok_def)
  have valid: "block_valid b" "list_all block_valid bs" "list_all block_valid (concat xs)" "list_all block_valid (concat ys)"
    using ok block(1) by (auto simp: pool_fds_ok_def)
  have flow: "fds_flow ids m (transit b) m' (in_transit (next_blocks r []))"
    by (rule run_block_flow [OF block(3) valid(1) assms(1)]) (rule known)
  note later = next_blocks_account [OF block(3) valid(2)]
  have "mset (m_closed m) + owned_of ids m + (in_transit (concat xs) + (transit b + in_transit bs + in_transit (concat ys)))
      \<subseteq># mset (m_opened m)"
    using ok block(1) by (simp add: pool_fds_ok_def ac_simps)
  then have "mset (m_closed m') + owned_of ids m' +
      (in_transit (concat xs) + (in_transit (next_blocks r bs) + in_transit (concat ys))) \<subseteq># mset (m_opened m')"
  proof (intro mset_subset_eqI)
    fix fd
    assume "mset (m_closed m) + owned_of ids m + (in_transit (concat xs) + (transit b + in_transit bs + in_transit (concat ys)))
      \<subseteq># mset (m_opened m)"
    from mset_subset_eq_count [OF this, of fd] mset_subset_eq_count [OF flow [unfolded fds_flow_def], of fd] mset_subset_eq_count [OF later [THEN conjunct2], of fd]
    show "count (mset (m_closed m') + owned_of ids m' +
        (in_transit (concat xs) + (in_transit (next_blocks r bs) + in_transit (concat ys)))) fd \<le> count (mset (m_opened m')) fd"
      by (simp del: count_mset)
  qed
  moreover have "execution_at m' g = Some ex \<Longrightarrow> g \<in> set ids" for g ex
    using run_block_record [OF block(3)] known by (auto simp: record_kept_def split: option.splits dest: spec [of _ g])
  ultimately show ?thesis
    using block(2) valid later spawned_blocks [of b outcome] by (auto simp: pool_fds_ok_def)
qed

lemma pool_fds: "pool_run m0 pool \<Longrightarrow> distinct ids \<Longrightarrow> pool_fds_ok ids ([], m0) \<Longrightarrow> pool_fds_ok ids pool"
proof (induction rule: pool_run.induct)
  case (request threads m bs)
  then show ?case using handler_blocks [of bs] by (auto simp: pool_fds_ok_def)
qed (auto intro: pool_step_fds)

text \<open>
  C5. Under every interleaving no descriptor is closed more often than it was opened: the
  descriptors closed so far and those that the features still own are, with their multiplicities,
  among those that were opened.
\<close>

theorem interleaved_closes_once:
  assumes "pool_reachable catalog (threads, m)" and "catalog_ids_ok catalog"
  shows "mset (m_closed m) + owned_of (map fd_id catalog) m \<subseteq># mset (m_opened m)"
proof -
  from assms(1) obtain random_id params clock where run: "pool_run (new_machine catalog random_id params clock) (threads, m)"
    by (auto simp: pool_reachable_def)
  let ?m = "new_machine catalog random_id params clock"
  have known: "execution_at ?m g = Some ex \<Longrightarrow> g \<in> set (map fd_id catalog) \<and> fx_active_fds ex = []" for g ex
    by (auto simp: new_machine_reads find_Some_iff FeatureExecution_def)
  have "owned_of (map fd_id catalog) ?m = {#}"
  proof -
    have "(case execution_at ?m g of None \<Rightarrow> {#} | Some ex \<Rightarrow> mset (owned_fds ex)) = {#}" for g
      using known [of g] by (auto simp: owned_fds_def split: option.split)
    then show ?thesis by (simp add: owned_of_def comp_def)
  qed
  then have "pool_fds_ok (map fd_id catalog) ([], ?m)"
    using known by (auto simp: pool_fds_ok_def) (simp_all add: new_machine_def)
  from pool_fds [OF run _ this] assms(2) have "pool_fds_ok (map fd_id catalog) (threads, m)" by (simp add: catalog_ids_ok_def)
  then show ?thesis by (auto simp: pool_fds_ok_def intro: subset_mset.order_trans [OF mset_subset_eq_add_left])
qed

theorem interleaved_closes_once_witness:
  "mset (m_closed sample_new) + owned_of (map fd_id sample_catalog) sample_new \<subseteq># mset (m_opened sample_new)"
proof -
  have "pool_reachable sample_catalog ([], sample_new)"
    unfolding pool_reachable_def sample_new_def using pool_run.stop by blast
  from interleaved_closes_once [OF this sample_ids_ok] show ?thesis .
qed

section \<open>Schedules\<close>

text \<open>An executable scheduler: the list says whose turn it is; no worker observes anything.\<close>

fun schedule :: "nat list \<Rightarrow> block list list \<times> machine \<Rightarrow> block list list \<times> machine" where
  "schedule [] pool = pool"
| "schedule (i # turns) (threads, m) =
     schedule turns
       (if i < length threads then
          (case threads ! i of
             [] \<Rightarrow> (threads, m)
           | b # bs \<Rightarrow> (case run_block b m of (r, m') \<Rightarrow>
               (threads[i := next_blocks r bs] @ spawned b Waiting, m')))
        else (threads, m))"

lemma schedule_run: "pool_run m0 pool \<Longrightarrow> pool_run m0 (schedule turns pool)"
proof (induction turns pool rule: schedule.induct)
  case (2 i turns threads m)
  show ?case
  proof (cases "i < length threads \<and> threads ! i \<noteq> []")
    case True
    then obtain b bs where t: "threads ! i = b # bs" by (cases "threads ! i") auto
    obtain r m' where r: "run_block b m = (r, m')" by fastforce
    have "block_step (take i threads @ (b # bs) # drop (Suc i) threads, m)
        (take i threads @ next_blocks r bs # drop (Suc i) threads @ spawned b Waiting, m')"
      by (rule block_step.block [OF r])
    with True t have "block_step (threads, m) (threads[i := next_blocks r bs] @ spawned b Waiting, m')"
      by (metis append.assoc append_Cons id_take_nth_drop upd_conv_take_nth_drop)
    from pool_run.step [OF 2(2) this] have "pool_run m0 (threads[i := next_blocks r bs] @ spawned b Waiting, m')" .
    with 2(1) True t r show ?thesis by simp
  next
    case False
    then show ?thesis using 2 by (auto split: list.split)
  qed
qed simp

section \<open>What goes wrong\<close>

text \<open>Two requests that arrive together.\<close>

lemma pool_two: "handler bs \<Longrightarrow> handler cs \<Longrightarrow> pool_run m0 (schedule turns ([bs, cs], m0))"
proof (rule schedule_run)
  assume "handler bs" "handler cs"
  from pool_run.request [OF pool_run.request [OF pool_run.stop this(1)] this(2)] show "pool_run m0 ([bs, cs], m0)" by simp
qed

lemmas run_defs = next_blocks_def spawned_def start_blocks_def unsupported_blocks_def release_blocks_def open_scenario_def
  begin_blocks_def maybe_timeout_locked_def activate_execution_def Clock_now_def take_active_fds_def definition_id_def
  unsupported_locked_def store_contract_def refresh_message_def FeatureJson_def

lemma race_two_active:
  assumes "execution_at m f = Some (FeatureExecution df)" "execution_at m g = Some (FeatureExecution dg)" "f \<noteq> g"
    and "active_feature m = ''''" "fd_scenario_kind df = AgentOnly" "fd_scenario_kind dg = AgentOnly"
  shows "\<exists>threads m' ex ex'. schedule [0, 0, 0, 1, 1, 1, 0, 0, 0, 1, 1] ([start_blocks oss options f, start_blocks oss options g], m) = (threads, m') \<and>
    execution_at m' f = Some ex \<and> fx_state ex = Active \<and> execution_at m' g = Some ex' \<and> fx_state ex' = Active"
  using assms by (simp add: run_defs FeatureExecution_def numeral_eq_Suc)

lemma server_feature_at:
  "f \<in> set build_feature_catalog \<Longrightarrow>
     execution_at (new_machine build_feature_catalog i params clock) (fd_id f) = Some (FeatureExecution f)"
  using server_ids_ok by (simp add: new_machine_reads catalog_ids_ok_def find_by_id)

lemma agent_features:
  "\<exists>f\<in>set build_feature_catalog. fd_id f = ''socket_create'' \<and> fd_scenario_kind f = AgentOnly"
  "\<exists>f\<in>set build_feature_catalog. fd_id f = ''autoclose'' \<and> fd_scenario_kind f = AgentOnly"
  by (simp_all add: build_feature_catalog_def catalog_features_def socket_create_feature_def autoclose_feature_def make_agent_feature_def)

text \<open>
  C12. Two starts that arrive together can both succeed: a session of the server's catalogue can
  reach a state in which two features are active, although \<open>StartFeature\<close> refuses a start while
  another feature is active.
\<close>

theorem racing_starts_both_succeed:
  "\<exists>threads m ex ex'. pool_reachable build_feature_catalog (threads, m) \<and>
     execution_at m ''socket_create'' = Some ex \<and> fx_state ex = Active \<and>
     execution_at m ''autoclose'' = Some ex' \<and> fx_state ex' = Active"
proof -
  let ?m = "new_machine build_feature_catalog ''session'' Map.empty sample_clock"
  obtain f g where f: "f \<in> set build_feature_catalog" "fd_id f = ''socket_create''" "fd_scenario_kind f = AgentOnly"
    and g: "g \<in> set build_feature_catalog" "fd_id g = ''autoclose''" "fd_scenario_kind g = AgentOnly"
    using agent_features by blast
  have at: "execution_at ?m ''socket_create'' = Some (FeatureExecution f)" "execution_at ?m ''autoclose'' = Some (FeatureExecution g)"
    using server_feature_at f(1,2) g(1,2) by metis+
  have free: "active_feature ?m = ''''" and neq: "''socket_create'' \<noteq> ''autoclose''" by (simp_all add: new_machine_reads)
  obtain threads m' ex ex' where s: "schedule [0, 0, 0, 1, 1, 1, 0, 0, 0, 1, 1]
      ([start_blocks (\<lambda>i. sample_os) default_options ''socket_create'', start_blocks (\<lambda>i. sample_os) default_options ''autoclose''], ?m) = (threads, m')"
    and e: "execution_at m' ''socket_create'' = Some ex" "fx_state ex = Active" "execution_at m' ''autoclose'' = Some ex'" "fx_state ex' = Active"
    using race_two_active [OF at neq free f(3) g(3), of "\<lambda>i. sample_os" default_options] by blast
  have "pool_run ?m (threads, m')"
    using pool_two [OF handler.start [OF sample_valid] handler.start [OF sample_valid]] s by metis
  with e show ?thesis unfolding pool_reachable_def by blast
qed








end
