(* ===== verification/Locking.thy ===== *)
theory Locking
  imports Interleaving
begin

text \<open>
  The mutexes of \<open>main.cpp\<close>: \<open>sessions_mutex_\<close>, one \<open>mutex\<close> per \<open>Session\<close> and one per
  \<open>FeatureExecution\<close>, none of which may be locked twice by one thread. Every \<open>std::lock_guard\<close> of
  the source is a section below; two of them nest, the snapshot of \<open>SessionJson\<close> and the one of
  \<open>SessionIndexHtml\<close>. The theory Interleaving runs the other sections as blocks that do not
  overlap; here the threads are stopped at every lock and unlock instead, and it is shown that
  they cannot stop each other for good.
\<close>

section \<open>Locks and sections\<close>

datatype lock = SessionsMutex | SessionMutex string | ExecutionMutex string string

fun lock_level :: "lock \<Rightarrow> nat" where
  "lock_level SessionsMutex = 0"
| "lock_level (SessionMutex sid) = 1"
| "lock_level (ExecutionMutex sid fid) = 2"

datatype lock_op = Acquire lock | Release lock

text \<open>
  The scopes of the lock guards: the session table (\<open>FindSession\<close>, \<open>CreateSession\<close>), one session
  (\<open>clear_active_feature\<close>, \<open>StartFeature\<close>), one execution (the \<open>_locked\<close> blocks, the descriptor
  operations, \<open>SummaryJson\<close>, \<open>FeatureJson\<close>), a session with its executions one after the other
  (\<open>SessionJson\<close>), and the table with its sessions one after the other (\<open>SessionIndexHtml\<close>).
\<close>

datatype guarded =
    TableSection
  | SessionSection string
  | ExecutionSection string string
  | SnapshotSection string "string list"
  | IndexSection "string list"

definition guarding :: "lock \<Rightarrow> lock_op list \<Rightarrow> lock_op list" where
  "guarding l inner = Acquire l # inner @ [Release l]"

fun guarded_ops :: "guarded \<Rightarrow> lock_op list" where
  "guarded_ops TableSection = guarding SessionsMutex []"
| "guarded_ops (SessionSection sid) = guarding (SessionMutex sid) []"
| "guarded_ops (ExecutionSection sid fid) = guarding (ExecutionMutex sid fid) []"
| "guarded_ops (SnapshotSection sid fids) =
     guarding (SessionMutex sid) (concat (map (\<lambda>fid. guarding (ExecutionMutex sid fid) []) fids))"
| "guarded_ops (IndexSection sids) =
     guarding SessionsMutex (concat (map (\<lambda>sid. guarding (SessionMutex sid) []) sids))"

text \<open>The section of each block of the theory Interleaving; opening, closing and answering hold no lock.\<close>

fun block_guard :: "string \<Rightarrow> block \<Rightarrow> guarded option" where
  "block_guard sid (TimeoutCheck fid) = Some (ExecutionSection sid fid)"
| "block_guard sid (TakeFds fid) = Some (ExecutionSection sid fid)"
| "block_guard sid (ClearActive fid) = Some (SessionSection sid)"
| "block_guard sid (FailLocked fid message) = Some (ExecutionSection sid fid)"
| "block_guard sid (NetworkLocked fid) = Some (ExecutionSection sid fid)"
| "block_guard sid CheckFree = Some (SessionSection sid)"
| "block_guard sid (CheckPending fid) = Some (ExecutionSection sid fid)"
| "block_guard sid (Activate fid) = Some (ExecutionSection sid fid)"
| "block_guard sid (SetFds fid fds) = Some (ExecutionSection sid fid)"
| "block_guard sid (SetActiveFeature fid) = Some (SessionSection sid)"
| "block_guard sid (StoreContract fid contract) = Some (ExecutionSection sid fid)"
| "block_guard sid (RefreshMessage fid) = Some (ExecutionSection sid fid)"
| "block_guard sid (CompleteLocked fid members assoc_ids) = Some (ExecutionSection sid fid)"
| "block_guard sid (UnsupportedLocked fid params) = Some (ExecutionSection sid fid)"
| "block_guard sid (RespondFeature fid) = Some (ExecutionSection sid fid)"
| "block_guard sid _ = None"

text \<open>What a block may write with the lock it holds.\<close>

definition writes_only :: "guarded option \<Rightarrow> machine \<Rightarrow> machine \<Rightarrow> bool" where
  "writes_only guard m m' \<longleftrightarrow>
     (\<forall>fid. (case guard of Some (ExecutionSection s f) \<Rightarrow> fid \<noteq> f | _ \<Rightarrow> True) \<longrightarrow> execution_at m' fid = execution_at m fid) \<and>
     ((case guard of Some (SessionSection s) \<Rightarrow> False | _ \<Rightarrow> True) \<longrightarrow> active_feature m' = active_feature m)"

lemma locked_writes:
  "maybe_timeout_locked fid m = (b, m') \<Longrightarrow> writes_only (Some (ExecutionSection sid fid)) m m'"
  "mark_failed_locked fid message m = (b, m') \<Longrightarrow> writes_only (Some (ExecutionSection sid fid)) m m'"
  "mark_network_complete_locked fid m = (r, m') \<Longrightarrow> writes_only (Some (ExecutionSection sid fid)) m m'"
  "take_active_fds fid m = (fds, m') \<Longrightarrow> writes_only (Some (ExecutionSection sid fid)) m m'"
  by (auto simp: writes_only_def maybe_timeout_locked_def mark_failed_locked_def mark_network_complete_locked_def take_active_fds_def Let_def Clock_now_def
      split: option.splits if_splits prod.splits)

lemma opening_writes:
  "open_scenario oss options fid d m = (r, m') \<Longrightarrow> writes_only None m m'"
  using open_targets_keeps create_keeps_executions
  by (auto simp: writes_only_def open_scenario_def split: scenario_kind.splits prod.splits sum.splits if_splits)

text \<open>
  C8. No block writes what another thread may be writing: a block under the mutex of an execution
  changes that execution only and not \<open>active_feature_id\<close>, one under the mutex of the session
  changes no execution, and one that holds no lock changes neither.
\<close>

theorem blocks_write_what_they_lock: "writes_only (block_guard sid b) m (snd (run_block b m))"
proof (cases b)
  case (OpenScenario oss options fid)
  then show ?thesis
    by (cases "execution_at m fid") (simp add: writes_only_def, simp add: opening_writes [OF surjective_pairing])
qed (auto split: prod.splits option.splits sum.splits dest: locked_writes [where sid = sid],
    auto simp: writes_only_def Clock_now_def activate_execution_def set_active_fds_def store_contract_def refresh_message_def Let_def split: option.splits)

section \<open>Threads\<close>

text \<open>The locks a thread holds, and what it still does with locks.\<close>

type_synonym lock_thread = "lock list \<times> lock_op list"

definition lock_thread :: "guarded list \<Rightarrow> lock_thread" where
  "lock_thread sections = ([], concat (map guarded_ops sections))"

inductive lock_step :: "lock_thread list \<Rightarrow> lock_thread list \<Rightarrow> bool" where
  acquire: "i < length ts \<Longrightarrow> ts ! i = (held, Acquire l # ops) \<Longrightarrow> \<forall>t\<in>set ts. l \<notin> set (fst t) \<Longrightarrow>
    lock_step ts (ts[i := (l # held, ops)])"
| release: "i < length ts \<Longrightarrow> ts ! i = (held, Release l # ops) \<Longrightarrow> l \<in> set held \<Longrightarrow>
    lock_step ts (ts[i := (remove1 l held, ops)])"

inductive_cases lock_stepE: "lock_step ts ts'"

definition finished :: "lock_thread list \<Rightarrow> bool" where
  "finished ts \<longleftrightarrow> list_all (\<lambda>t. t = ([], [])) ts"

definition remaining :: "lock_thread list \<Rightarrow> nat" where
  "remaining ts = sum_list (map (length \<circ> snd) ts)"

section \<open>Mutual exclusion\<close>

text \<open>The locks held by all threads together; no lock is held twice.\<close>

definition all_held :: "lock_thread list \<Rightarrow> lock list" where
  "all_held ts = concat (map fst ts)"

lemma exclusive_step: "lock_step ts ts' \<Longrightarrow> distinct (all_held ts) \<Longrightarrow> distinct (all_held ts')"
proof (induction rule: lock_step.induct)
  case (acquire i ts held l ops)
  have "ts = take i ts @ (held, Acquire l # ops) # drop (Suc i) ts" using id_take_nth_drop [OF acquire(1)] acquire(2) by simp
  then obtain before behind where ts: "ts = before @ (held, Acquire l # ops) # behind" "i = length before"
    using acquire(1) by (metis length_take min.absorb4)
  with acquire(3,4) show ?case by (auto simp: all_held_def)
next
  case (release i ts held l ops)
  have "ts = take i ts @ (held, Release l # ops) # drop (Suc i) ts" using id_take_nth_drop [OF release(1)] release(2) by simp
  then obtain before behind where ts: "ts = before @ (held, Release l # ops) # behind" "i = length before"
    using release(1) by (metis length_take min.absorb4)
  with release(4) show ?case by (auto simp: all_held_def distinct_remove1 dest: set_remove1_subset [THEN subsetD])
qed

lemma exclusive_reach: "lock_step\<^sup>*\<^sup>* ts ts' \<Longrightarrow> distinct (all_held ts) \<Longrightarrow> distinct (all_held ts')"
  by (induction rule: rtranclp_induct) (auto intro: exclusive_step)

section \<open>A discipline that excludes deadlock\<close>

fun ordered :: "(lock \<Rightarrow> nat) \<Rightarrow> lock list \<Rightarrow> lock_op list \<Rightarrow> bool" where
  "ordered level held [] \<longleftrightarrow> held = []"
| "ordered level held (Acquire l # ops) \<longleftrightarrow> (\<forall>h\<in>set held. level h < level l) \<and> ordered level (l # held) ops"
| "ordered level held (Release l # ops) \<longleftrightarrow> l \<in> set held \<and> ordered level (remove1 l held) ops"

text \<open>
  What a set of sections has to promise: run with no lock held, each takes its locks in the order
  of their levels and gives all of them back.
\<close>

locale lock_hierarchy =
  fixes level :: "lock \<Rightarrow> nat" and ops_of :: "'s \<Rightarrow> lock_op list"
  assumes section_ordered: "ordered level [] (ops_of s)"
begin

definition disciplined :: "lock_thread list \<Rightarrow> bool" where
  "disciplined ts \<longleftrightarrow> (\<forall>t\<in>set ts. ordered level (fst t) (snd t))"

lemma ordered_append: "ordered level held ops \<Longrightarrow> ordered level [] ops' \<Longrightarrow> ordered level held (ops @ ops')"
  by (induction level held ops rule: ordered.induct) auto

lemma ordered_sections: "ordered level [] (concat (map ops_of ss))"
  by (induction ss) (auto intro: ordered_append section_ordered)

lemma disciplined_start: "disciplined (map (\<lambda>ss. ([], concat (map ops_of ss))) threads)"
  by (auto simp: disciplined_def ordered_sections)

lemma disciplined_step: "lock_step ts ts' \<Longrightarrow> disciplined ts \<Longrightarrow> disciplined ts'"
proof (induction rule: lock_step.induct)
  case (acquire i ts held l ops)
  then have "ordered level held (Acquire l # ops)" by (metis disciplined_def fst_conv nth_mem snd_conv)
  with acquire show ?case by (auto simp: disciplined_def dest!: set_update_subset_insert [THEN subsetD])
next
  case (release i ts held l ops)
  then have "ordered level held (Release l # ops)" by (metis disciplined_def fst_conv nth_mem snd_conv)
  with release show ?case by (auto simp: disciplined_def dest!: set_update_subset_insert [THEN subsetD])
qed

lemma disciplined_reach: "lock_step\<^sup>*\<^sup>* ts ts' \<Longrightarrow> disciplined ts \<Longrightarrow> disciplined ts'"
  by (induction rule: rtranclp_induct) (auto intro: disciplined_step)

text \<open>A thread that waits for the highest lock waited for is not kept waiting by another waiting one.\<close>

lemma not_stuck:
  assumes ok: "disciplined ts" and unfinished: "\<not> finished ts"
  shows "\<exists>ts'. lock_step ts ts'"
proof (rule ccontr)
  assume stuck: "\<nexists>ts'. lock_step ts ts'"
  have thread: "ordered level (fst t) (snd t)" if "t \<in> set ts" for t using ok that by (simp add: disciplined_def)
  have acquires: "\<exists>l ops. snd t = Acquire l # ops" if t: "t \<in> set ts" and "t \<noteq> ([], [])" for t
  proof (cases "snd t")
    case Nil
    with thread [OF t] that(2) show ?thesis by (cases t) simp
  next
    case (Cons x ops)
    obtain i where i: "i < length ts" "ts ! i = t" using t by (auto simp: in_set_conv_nth)
    have "x \<noteq> Release l" for l
      using thread [OF t] stuck i Cons lock_step.release [of i ts "fst t" l ops] by (cases t) auto
    with Cons show ?thesis by (cases x) auto
  qed
  define wanted where "wanted = {l. \<exists>held ops. (held, Acquire l # ops) \<in> set ts}"
  have "wanted \<subseteq> (\<lambda>t. case hd (snd t) of Acquire l \<Rightarrow> l | Release l \<Rightarrow> l) ` set ts"
    by (force simp: wanted_def)
  then have "finite wanted" by (rule finite_subset) simp
  moreover have "wanted \<noteq> {}"
    using unfinished acquires by (fastforce simp: finished_def list_all_iff wanted_def)
  ultimately obtain l where l: "l \<in> wanted" and highest: "\<And>l'. l' \<in> wanted \<Longrightarrow> level l' \<le> level l"
    using Max_in [of "level ` wanted"] Max_ge [of "level ` wanted"] by fastforce
  then obtain held ops i where i: "i < length ts" "ts ! i = (held, Acquire l # ops)"
    by (auto simp: wanted_def in_set_conv_nth)
  then obtain u where u: "u \<in> set ts" "l \<in> set (fst u)" using stuck lock_step.acquire by blast
  then obtain l' ops' where next_op: "snd u = Acquire l' # ops'" using acquires by fastforce
  then have "level l < level l'" using thread [OF u(1)] u(2) by simp
  moreover have "l' \<in> wanted" using u(1) next_op unfolding wanted_def by (metis (mono_tags, lifting) mem_Collect_eq prod.collapse)
  ultimately show False using highest by fastforce
qed

lemma step_remaining: "lock_step ts ts' \<Longrightarrow> remaining ts' < remaining ts"
proof -
  have "remaining (ts[i := (held, ops)]) < remaining ts" if i: "i < length ts" "ts ! i = (h, x # ops)" for i ts h held x ops
  proof -
    have "ts = take i ts @ (h, x # ops) # drop (Suc i) ts" using id_take_nth_drop [OF i(1)] i(2) by simp
    then have "remaining ts = remaining (take i ts @ (h, x # ops) # drop (Suc i) ts)" by simp
    then show ?thesis by (simp add: remaining_def upd_conv_take_nth_drop [OF i(1)])
  qed
  then show "lock_step ts ts' \<Longrightarrow> remaining ts' < remaining ts" by (auto elim!: lock_stepE)
qed

lemma can_finish: "disciplined ts \<Longrightarrow> \<exists>ts'. lock_step\<^sup>*\<^sup>* ts ts' \<and> finished ts'"
proof (induction ts rule: measure_induct_rule [of remaining])
  case (less ts)
  show ?case
  proof (cases "finished ts")
    case False
    then obtain ts1 where "lock_step ts ts1" using not_stuck less.prems by blast
    with less.IH [OF step_remaining] less.prems show ?thesis
      by (meson converse_rtranclp_into_rtranclp disciplined_step)
  qed auto
qed

end

lemma ordered_leaves:
  "\<forall>h\<in>set held. \<forall>x\<in>set xs. lock_level h < lock_level (f x) \<Longrightarrow> ordered lock_level held ops \<Longrightarrow>
     ordered lock_level held (concat (map (\<lambda>x. guarding (f x) []) xs) @ ops)"
  by (induction xs) (auto simp: guarding_def)

interpretation server_locks: lock_hierarchy lock_level guarded_ops
proof
  show "ordered lock_level [] (guarded_ops s)" for s
    by (cases s) (auto simp: guarding_def [of _ "concat _"] intro!: ordered_leaves, auto simp: guarding_def)
qed

section \<open>The server's threads never deadlock\<close>

text \<open>
  C7. However many threads run whatever handlers, on whatever sessions, and wherever each of them
  has stopped at a lock: no lock is held twice; unless all threads are through, one of them can
  go on; and all of them can get through.
\<close>

theorem locks_never_deadlock:
  assumes "lock_step\<^sup>*\<^sup>* (map lock_thread threads) ts"
  shows "distinct (all_held ts) \<and> (finished ts \<or> (\<exists>ts'. lock_step ts ts')) \<and> (\<exists>ts'. lock_step\<^sup>*\<^sup>* ts ts' \<and> finished ts')"
proof -
  have "server_locks.disciplined (map lock_thread threads)"
    using server_locks.disciplined_start [of threads] by (simp add: lock_thread_def [abs_def])
  then have "server_locks.disciplined ts" using server_locks.disciplined_reach assms by blast
  moreover have "distinct (all_held ts)"
    by (rule exclusive_reach [OF assms]) (induction threads; simp add: all_held_def lock_thread_def)
  ultimately show ?thesis using server_locks.not_stuck server_locks.can_finish by blast
qed

text \<open>The index page has the table and waits for the session that a snapshot holds.\<close>

theorem locks_never_deadlock_witness:
  "\<exists>ts'. lock_step\<^sup>*\<^sup>*
     [([SessionsMutex], [Acquire (SessionMutex ''s''), Release (SessionMutex ''s''), Release SessionsMutex]),
      ([SessionMutex ''s''], [Acquire (ExecutionMutex ''s'' ''f''), Release (ExecutionMutex ''s'' ''f''), Release (SessionMutex ''s'')])] ts' \<and>
     finished ts'"
proof -
  let ?index = "[Acquire (SessionMutex ''s''), Release (SessionMutex ''s''), Release SessionsMutex]"
  let ?snapshot = "[Acquire (ExecutionMutex ''s'' ''f''), Release (ExecutionMutex ''s'' ''f''), Release (SessionMutex ''s'')]"
  have start: "map lock_thread [[IndexSection [''s'']], [SnapshotSection ''s'' [''f'']]] =
      [([], Acquire SessionsMutex # ?index), ([], Acquire (SessionMutex ''s'') # ?snapshot)]"
    by (simp add: lock_thread_def guarding_def)
  have "lock_step [([], Acquire SessionsMutex # ?index), ([], Acquire (SessionMutex ''s'') # ?snapshot)]
      [([SessionsMutex], ?index), ([], Acquire (SessionMutex ''s'') # ?snapshot)]"
    using lock_step.acquire [of 0 "[([], Acquire SessionsMutex # ?index), ([], Acquire (SessionMutex ''s'') # ?snapshot)]" "[]" SessionsMutex ?index]
    by simp
  moreover have "lock_step [([SessionsMutex], ?index), ([], Acquire (SessionMutex ''s'') # ?snapshot)]
      [([SessionsMutex], ?index), ([SessionMutex ''s''], ?snapshot)]"
    using lock_step.acquire [of 1 "[([SessionsMutex], ?index), ([], Acquire (SessionMutex ''s'') # ?snapshot)]" "[]" "SessionMutex ''s''" ?snapshot]
    by simp
  ultimately have "lock_step\<^sup>*\<^sup>* (map lock_thread [[IndexSection [''s'']], [SnapshotSection ''s'' [''f'']]])
      [([SessionsMutex], ?index), ([SessionMutex ''s''], ?snapshot)]"
    unfolding start by (meson converse_rtranclp_into_rtranclp r_into_rtranclp)
  from locks_never_deadlock [OF this] show ?thesis by blast
qed

end
