(* ===== verification/Helper.thy ===== *)
theory Helper
  imports Http
begin

text \<open>
  The FreeBSD client helper (\<open>src/adapters/freebsd_c/helper.c\<close>): a C program that the conformance
  runner starts as a server or as a client and whose events it reads as lines of JSON. A
  \<open>char *\<close> that ends at its NUL is a string without that byte, a null pointer is \<open>None\<close>; a copy
  into a buffer of \<open>n\<close> bytes keeps \<open>n - 1\<close> of them. What the system calls, the allocator and the
  address conversions of the C library answer is the record \<open>helper_io\<close>.
\<close>

section \<open>Data\<close>

definition MAX_ADDRS :: nat where "MAX_ADDRS = 8"
definition MAX_MESSAGES :: nat where "MAX_MESSAGES = 16"

record message_spec_c =
  hm_payload :: string
  hm_stream :: u16
  hm_ppid :: u32

record sctp_initmsg =
  sinit_num_ostreams :: u16
  sinit_max_instreams :: u16
  sinit_max_attempts :: u16
  sinit_max_init_timeo :: u16

record options_c =
  ho_mode :: string
  ho_bind_addrs :: "string option"
  ho_connect_addrs :: "string option"
  ho_subscribe :: "string option"
  ho_messages :: "string option"
  ho_expect_failure :: "string option"
  ho_read_messages :: int
  ho_set_nodelay :: bool
  ho_emit_local_addrs :: bool
  ho_emit_peer_addrs :: bool
  ho_initmsg :: sctp_initmsg

record event_subscribe =
  ev_association :: bool
  ev_shutdown :: bool
  ev_dataio :: bool

datatype sockopt = NoDelay | InitMsg sctp_initmsg | Events event_subscribe | RecvRcvInfo

record sockaddr_in =
  sin_addr :: u32
  sin_port :: u16

datatype socket_address = InetAddress sockaddr_in | OtherAddress

text \<open>What \<open>sctp_recvv\<close> returns: an error, a notification with its type and flags, or a message.\<close>

datatype helper_recv = HelperError | HelperNotification u16 int | HelperMessage string u16 u32 u32

record helper_io =
  hi_alloc :: "nat \<Rightarrow> bool"
  hi_inet_pton :: "string \<Rightarrow> u32 option"
  hi_inet_ntop :: "u32 \<Rightarrow> string option"
  hi_socket :: int
  hi_setsockopt :: "sockopt \<Rightarrow> bool"
  hi_bind :: "sockaddr_in \<Rightarrow> bool"
  hi_bound_port :: "u16 option"
  hi_bindx :: "sockaddr_in list \<Rightarrow> bool"
  hi_listen :: bool
  hi_laddrs :: "u32 \<Rightarrow> socket_address list"
  hi_listening_port :: "u16 option"
  hi_paddrs :: "u32 \<Rightarrow> socket_address list"
  hi_recvs :: "helper_recv list"
  hi_connectx :: "sockaddr_in list \<Rightarrow> string + u32"
  hi_sends :: "nat \<Rightarrow> string option"
  hi_strerror :: string

section \<open>Events as lines of JSON\<close>

definition json_escape_byte :: "char \<Rightarrow> string" where
  "json_escape_byte c =
     (if c = bslash \<or> c = dquote then [bslash, c]
      else if c = newline then [bslash, CHR ''n'']
      else if c = creturn then [bslash, CHR ''r'']
      else if c = htab then [bslash, CHR ''t'']
      else [c])"

definition json_escape_c :: "string \<Rightarrow> string" where
  "json_escape_c value = [dquote] @ concat (map json_escape_byte (c_string value)) @ [dquote]"

definition emit_ready :: "string list \<Rightarrow> string" where
  "emit_ready addrs = ''{\"event\":\"ready\",\"local_addrs\":['' @ join (map json_escape_c addrs) '','' @ '']}'' @ [newline]"

definition emit_addrs :: "string \<Rightarrow> string list \<Rightarrow> string" where
  "emit_addrs event addrs =
     ''{\"event\":'' @ json_escape_c event @ '',\"addrs\":['' @ join (map json_escape_c addrs) '','' @ '']}'' @ [newline]"

definition emit_recv :: "string \<Rightarrow> u16 \<Rightarrow> u32 \<Rightarrow> u32 \<Rightarrow> string" where
  "emit_recv payload stream ppid assoc_id =
     ''{\"event\":\"recv\",\"payload\":'' @ json_escape_c payload @ '',\"stream\":'' @ dec_of_word stream @
     '',\"ppid\":'' @ dec_of_word ppid @ '',\"assoc_id\":'' @ dec_of_word assoc_id @ ''}'' @ [newline]"

definition emit_sent :: "string \<Rightarrow> u16 \<Rightarrow> u32 \<Rightarrow> string" where
  "emit_sent payload stream ppid =
     ''{\"event\":\"sent\",\"payload\":'' @ json_escape_c payload @ '',\"stream\":'' @ dec_of_word stream @
     '',\"ppid\":'' @ dec_of_word ppid @ ''}'' @ [newline]"

definition emit_notify :: "u16 \<Rightarrow> int \<Rightarrow> string" where
  "emit_notify sn_type flags =
     ''{\"event\":\"notify\",\"type\":'' @ dec_of_word sn_type @ '',\"flags\":'' @ dec_of_int flags @ ''}'' @ [newline]"

definition emit_expected_failure :: "string \<Rightarrow> string \<Rightarrow> string" where
  "emit_expected_failure stage message =
     ''{\"event\":\"expected_failure\",\"stage\":'' @ json_escape_c stage @ '',\"message\":'' @ json_escape_c message @ ''}'' @ [newline]"

definition emit_complete :: "int \<Rightarrow> string \<Rightarrow> string" where
  "emit_complete amount field =
     ''{\"event\":\"complete\",\"'' @ field @ ''\":'' @ dec_of_int amount @ ''}'' @ [newline]"

definition emit_error :: "string \<Rightarrow> string" where
  "emit_error message = ''{\"event\":\"error\",\"message\":'' @ json_escape_c message @ ''}'' @ [newline]"

section \<open>Reading the arguments\<close>

text \<open>\<open>strtok (raw, ",")\<close> called until it returns null: the nonempty pieces.\<close>

fun strtok_loop :: "string \<Rightarrow> string \<Rightarrow> string list" where
  "strtok_loop token [] = (if token = [] then [] else [token])"
| "strtok_loop token (c # s) =
     (if c = CHR '','' then (if token = [] then strtok_loop [] s else token # strtok_loop [] s)
      else strtok_loop (token @ [c]) s)"

text \<open>The growing array; \<open>None\<close> is the null pointer of a failed allocation of so many entries.\<close>

fun csv_loop :: "(nat \<Rightarrow> bool) \<Rightarrow> nat \<Rightarrow> string list \<Rightarrow> string list \<Rightarrow> string list option" where
  "csv_loop alloc capacity out [] = Some out"
| "csv_loop alloc capacity out (token # tokens) =
     (if length out = capacity then
        (if alloc (2 * capacity) then csv_loop alloc (2 * capacity) (out @ [token]) tokens else None)
      else csv_loop alloc capacity (out @ [token]) tokens)"

definition split_csv :: "(nat \<Rightarrow> bool) \<Rightarrow> string option \<Rightarrow> string list option" where
  "split_csv alloc raw =
     (case raw of None \<Rightarrow> None
      | Some s \<Rightarrow> if s = [] then None else if \<not> alloc 8 then None else csv_loop alloc 8 [] (strtok_loop [] s))"

text \<open>\<open>strtol\<close> to base 10 with a 64-bit \<open>long\<close>, which saturates, and \<open>atoi\<close>, its truncation to \<open>int\<close>.\<close>

definition strtol :: "string \<Rightarrow> int" where
  "strtol value =
     (let s = dropWhile isspace value;
          negative = (s \<noteq> [] \<and> hd s = CHR ''-'');
          digits = takeWhile is_digit (if s \<noteq> [] \<and> (hd s = CHR ''-'' \<or> hd s = CHR ''+'') then tl s else s);
          n = int (digits_value digits)
      in if negative then max (- n) (- (2 ^ 63)) else min n (2 ^ 63 - 1))"

definition atoi :: "string \<Rightarrow> int" where
  "atoi value = sint (word_of_int (strtol value) :: u32)"

text \<open>\<open>strrchr (host, ':')\<close>: what stands before the last colon and after it.\<close>

definition split_last_colon :: "string \<Rightarrow> (string \<times> string) option" where
  "split_last_colon s =
     (if CHR '':'' \<notin> set s then None
      else let after_colon = rev (takeWhile (\<lambda>c. c \<noteq> CHR '':'') (rev s))
           in Some (take (length s - length after_colon - 1) s, after_colon))"

definition parse_addr :: "helper_io \<Rightarrow> string \<Rightarrow> sockaddr_in option" where
  "parse_addr io raw =
     (if 64 \<le> length raw then None
      else case split_last_colon raw of None \<Rightarrow> None
      | Some (host, port_text) \<Rightarrow>
          (let port = strtol port_text in
           if port < 0 \<or> 65535 < port then None
           else case hi_inet_pton io host of None \<Rightarrow> None
           | Some a \<Rightarrow> Some \<lparr>sin_addr = a, sin_port = word_of_int port\<rparr>))"

fun parse_all :: "('a \<Rightarrow> 'b option) \<Rightarrow> 'a list \<Rightarrow> 'b list option" where
  "parse_all f [] = Some []"
| "parse_all f (x # xs) = (case f x of None \<Rightarrow> None | Some y \<Rightarrow> map_option (\<lambda>ys. y # ys) (parse_all f xs))"

definition parse_addr_list :: "helper_io \<Rightarrow> string \<Rightarrow> sockaddr_in list option" where
  "parse_addr_list io raw =
     (case split_csv (hi_alloc io) (Some raw) of
        None \<Rightarrow> if raw \<noteq> [] then None else Some []
      | Some parts \<Rightarrow> if MAX_ADDRS < length parts then None else parse_all (parse_addr io) parts)"

text \<open>\<open>strchr (s, ':')\<close>: what stands before the first colon and after it.\<close>

definition split_colon :: "string \<Rightarrow> (string \<times> string) option" where
  "split_colon s =
     (if CHR '':'' \<notin> set s then None
      else let before = takeWhile (\<lambda>c. c \<noteq> CHR '':'') s in Some (before, drop (length before + 1) s))"

definition parse_message :: "string \<Rightarrow> message_spec_c option" where
  "parse_message spec =
     (case split_colon spec of None \<Rightarrow> None
      | Some (payload, rest) \<Rightarrow>
          (case split_colon rest of None \<Rightarrow> None
           | Some (stream_str, ppid_str) \<Rightarrow>
               Some \<lparr>hm_payload = take 255 payload, hm_stream = of_nat (strtoul stream_str), hm_ppid = of_nat (strtoul ppid_str)\<rparr>))"

definition parse_messages :: "helper_io \<Rightarrow> string \<Rightarrow> message_spec_c list option" where
  "parse_messages io raw =
     (if raw = [] then Some []
      else case split_csv (hi_alloc io) (Some raw) of None \<Rightarrow> None
      | Some parts \<Rightarrow> if MAX_MESSAGES < length parts then None else parse_all parse_message parts)"

section \<open>The command line\<close>

definition no_options :: "string \<Rightarrow> options_c" where
  "no_options mode = \<lparr>ho_mode = mode, ho_bind_addrs = None, ho_connect_addrs = None, ho_subscribe = None,
     ho_messages = None, ho_expect_failure = None, ho_read_messages = 0, ho_set_nodelay = False,
     ho_emit_local_addrs = False, ho_emit_peer_addrs = False,
     ho_initmsg = \<lparr>sinit_num_ostreams = 0, sinit_max_instreams = 0, sinit_max_attempts = 0, sinit_max_init_timeo = 0\<rparr>\<rparr>"

definition set_initmsg :: "(sctp_initmsg \<Rightarrow> sctp_initmsg) \<Rightarrow> options_c \<Rightarrow> options_c" where
  "set_initmsg f opts = opts\<lparr>ho_initmsg := f (ho_initmsg opts)\<rparr>"

text \<open>The options that take the next argument, with what they do with it.\<close>

definition value_option :: "string \<Rightarrow> (string \<Rightarrow> options_c \<Rightarrow> options_c) option" where
  "value_option arg =
     (if arg = ''--bind-addrs'' then Some (\<lambda>v opts. opts\<lparr>ho_bind_addrs := Some v\<rparr>)
      else if arg = ''--connect-addrs'' then Some (\<lambda>v opts. opts\<lparr>ho_connect_addrs := Some v\<rparr>)
      else if arg = ''--subscribe'' then Some (\<lambda>v opts. opts\<lparr>ho_subscribe := Some v\<rparr>)
      else if arg = ''--messages'' then Some (\<lambda>v opts. opts\<lparr>ho_messages := Some v\<rparr>)
      else if arg = ''--expect-failure'' then Some (\<lambda>v opts. opts\<lparr>ho_expect_failure := Some v\<rparr>)
      else if arg = ''--read-messages'' then Some (\<lambda>v opts. opts\<lparr>ho_read_messages := atoi v\<rparr>)
      else if arg = ''--init-ostreams'' then Some (\<lambda>v. set_initmsg (\<lambda>i. i\<lparr>sinit_num_ostreams := word_of_int (atoi v)\<rparr>))
      else if arg = ''--init-instreams'' then Some (\<lambda>v. set_initmsg (\<lambda>i. i\<lparr>sinit_max_instreams := word_of_int (atoi v)\<rparr>))
      else if arg = ''--init-attempts'' then Some (\<lambda>v. set_initmsg (\<lambda>i. i\<lparr>sinit_max_attempts := word_of_int (atoi v)\<rparr>))
      else if arg = ''--init-timeout'' then Some (\<lambda>v. set_initmsg (\<lambda>i. i\<lparr>sinit_max_init_timeo := word_of_int (atoi v)\<rparr>))
      else None)"

definition flag_option :: "string \<Rightarrow> (options_c \<Rightarrow> options_c) option" where
  "flag_option arg =
     (if arg = ''--set-nodelay'' then Some (\<lambda>opts. opts\<lparr>ho_set_nodelay := True\<rparr>)
      else if arg = ''--emit-local-addrs'' then Some (\<lambda>opts. opts\<lparr>ho_emit_local_addrs := True\<rparr>)
      else if arg = ''--emit-peer-addrs'' then Some (\<lambda>opts. opts\<lparr>ho_emit_peer_addrs := True\<rparr>)
      else None)"

text \<open>An option that misses its value falls through the chain of tests to the final error.\<close>

fun option_args_loop :: "string list \<Rightarrow> options_c \<Rightarrow> options_c option" where
  "option_args_loop [] opts = Some opts"
| "option_args_loop [arg] opts = (case flag_option arg of None \<Rightarrow> None | Some f \<Rightarrow> Some (f opts))"
| "option_args_loop (arg # v # args) opts =
     (case value_option arg of
        Some f \<Rightarrow> option_args_loop args (f v opts)
      | None \<Rightarrow> (case flag_option arg of None \<Rightarrow> None | Some f \<Rightarrow> option_args_loop (v # args) (f opts)))"

text \<open>\<open>argv\<close> with the program's name.\<close>

definition parse_options_c :: "string list \<Rightarrow> options_c option" where
  "parse_options_c argv = (if length argv < 2 then None else option_args_loop (drop 2 argv) (no_options (argv ! 1)))"

section \<open>Socket options and addresses\<close>

fun subscribe_loop :: "string list \<Rightarrow> event_subscribe \<Rightarrow> event_subscribe option" where
  "subscribe_loop [] subscribe = Some subscribe"
| "subscribe_loop (part # parts) subscribe =
     (if part = ''association'' then subscribe_loop parts (subscribe\<lparr>ev_association := True\<rparr>)
      else if part = ''shutdown'' then subscribe_loop parts (subscribe\<lparr>ev_shutdown := True\<rparr>)
      else if part = ''dataio'' then subscribe_loop parts (subscribe\<lparr>ev_dataio := True\<rparr>)
      else None)"

definition apply_subscriptions :: "helper_io \<Rightarrow> string option \<Rightarrow> bool" where
  "apply_subscriptions io raw =
     (let enable_rcvinfo = hi_setsockopt io RecvRcvInfo
      in case raw of None \<Rightarrow> enable_rcvinfo
       | Some s \<Rightarrow> if s = [] then enable_rcvinfo
           else (case split_csv (hi_alloc io) (Some (take 255 s)) of None \<Rightarrow> False
             | Some parts \<Rightarrow>
                 (case subscribe_loop parts \<lparr>ev_association = False, ev_shutdown = False, ev_dataio = False\<rparr> of None \<Rightarrow> False
                  | Some subscribe \<Rightarrow> hi_setsockopt io (Events subscribe) \<and> enable_rcvinfo)))"

definition apply_common_socket_options :: "helper_io \<Rightarrow> options_c \<Rightarrow> bool" where
  "apply_common_socket_options io opts =
     (let i = ho_initmsg opts
      in (ho_set_nodelay opts \<longrightarrow> hi_setsockopt io NoDelay) \<and>
         (sinit_num_ostreams i \<noteq> 0 \<or> sinit_max_instreams i \<noteq> 0 \<or> sinit_max_attempts i \<noteq> 0 \<or> sinit_max_init_timeo i \<noteq> 0 \<longrightarrow>
            hi_setsockopt io (InitMsg i)) \<and>
         apply_subscriptions io (ho_subscribe opts))"

definition format_sockaddr_c :: "helper_io \<Rightarrow> socket_address \<Rightarrow> string option" where
  "format_sockaddr_c io sa =
     (case sa of OtherAddress \<Rightarrow> None
      | InetAddress a \<Rightarrow> (case hi_inet_ntop io (sin_addr a) of None \<Rightarrow> None
          | Some host \<Rightarrow> Some (take 63 (host @ '':'' @ dec_of_word (sin_port a)))))"

definition load_addrs :: "helper_io \<Rightarrow> socket_address list \<Rightarrow> string list option" where
  "load_addrs io addrs = (if addrs = [] then None else parse_all (format_sockaddr_c io) (take MAX_ADDRS addrs))"

definition load_laddrs :: "helper_io \<Rightarrow> u32 \<Rightarrow> string list option" where
  "load_laddrs io assoc_id = load_addrs io (hi_laddrs io assoc_id)"

definition load_paddrs :: "helper_io \<Rightarrow> u32 \<Rightarrow> string list option" where
  "load_paddrs io assoc_id = load_addrs io (hi_paddrs io assoc_id)"

section \<open>The server\<close>

text \<open>
  How a run ends: with a return value, in undefined behaviour, or not yet, as when the list of
  receives is used up and the program waits in \<open>sctp_recvv\<close>; with what it wrote to its standard
  output, the descriptors it closed and the text of \<open>fatal_error\<close>.
\<close>

datatype helper_end = Returns int | Undefined | Waiting

record helper_run =
  hr_end :: helper_end
  hr_output :: string
  hr_closed :: "int list"
  hr_fatal :: string

definition returns :: "int \<Rightarrow> string \<Rightarrow> int list \<Rightarrow> helper_run" where
  "returns rc out closed = \<lparr>hr_end = Returns rc, hr_output = out, hr_closed = closed, hr_fatal = ''''\<rparr>"

definition SCTP_FUTURE_ASSOC :: u32 where "SCTP_FUTURE_ASSOC = 0"

text \<open>Binding the first address, and the others on the port the system gave it.\<close>

definition bind_all :: "helper_io \<Rightarrow> sockaddr_in list \<Rightarrow> bool" where
  "bind_all io addrs =
     (hi_bind io (hd addrs) \<and>
      (1 < length addrs \<longrightarrow>
         (case hi_bound_port io of None \<Rightarrow> False
          | Some port \<Rightarrow> hi_bindx io (map (\<lambda>a. a\<lparr>sin_port := port\<rparr>) (tl addrs)))))"

text \<open>The addresses to report: those of the system, or the bound ones on the port it listens on.\<close>

definition ready_addrs :: "helper_io \<Rightarrow> sockaddr_in list \<Rightarrow> string list option" where
  "ready_addrs io addrs =
     (case load_laddrs io SCTP_FUTURE_ASSOC of
        Some local_addrs \<Rightarrow> Some local_addrs
      | None \<Rightarrow> (case hi_listening_port io of None \<Rightarrow> None
          | Some port \<Rightarrow> parse_all (\<lambda>a. format_sockaddr_c io (InetAddress (a\<lparr>sin_port := port\<rparr>))) addrs))"

definition recv_output :: "helper_io \<Rightarrow> options_c \<Rightarrow> int \<Rightarrow> string \<Rightarrow> u16 \<Rightarrow> u32 \<Rightarrow> u32 \<Rightarrow> string" where
  "recv_output io opts recv_count payload stream ppid assoc_id =
     emit_recv payload stream ppid assoc_id @
     (if ho_emit_peer_addrs opts \<and> recv_count = 1
      then (case load_paddrs io assoc_id of None \<Rightarrow> [] | Some peer_addrs \<Rightarrow> emit_addrs ''peer_addrs'' peer_addrs)
      else [])"

fun recv_loop :: "helper_io \<Rightarrow> options_c \<Rightarrow> int \<Rightarrow> helper_recv list \<Rightarrow> string \<Rightarrow> helper_run" where
  "recv_loop io opts recv_count recvs out =
     (if \<not> recv_count < ho_read_messages opts
      then returns 0 (out @ emit_complete recv_count ''recv_count'') [hi_socket io]
      else case recvs of
        [] \<Rightarrow> \<lparr>hr_end = Waiting, hr_output = out, hr_closed = [], hr_fatal = ''''\<rparr>
      | HelperError # rest \<Rightarrow> returns (-1) out [hi_socket io]
      | HelperNotification sn_type flags # rest \<Rightarrow> recv_loop io opts recv_count rest (out @ emit_notify sn_type flags)
      | HelperMessage payload stream ppid assoc_id # rest \<Rightarrow>
          recv_loop io opts (recv_count + 1) rest
            (out @ recv_output io opts (recv_count + 1) payload stream ppid assoc_id))"

text \<open>An empty list of addresses leaves \<open>bind_addrs[0]\<close> uninitialised, and \<open>bind\<close> reads it.\<close>

definition run_server :: "helper_io \<Rightarrow> options_c \<Rightarrow> helper_run" where
  "run_server io opts =
     (case ho_bind_addrs opts of None \<Rightarrow> returns (-1) [] []
      | Some raw \<Rightarrow>
     (case parse_addr_list io (take 255 raw) of None \<Rightarrow> returns (-1) [] []
      | Some bind_addrs \<Rightarrow>
     (let fd = hi_socket io; failed = returns (-1) [] [fd]
      in if fd < 0 then returns (-1) [] []
         else if \<not> apply_common_socket_options io opts then failed
         else if bind_addrs = [] then \<lparr>hr_end = Undefined, hr_output = [], hr_closed = [], hr_fatal = ''''\<rparr>
         else if \<not> bind_all io bind_addrs then failed
         else if \<not> hi_listen io then failed
         else (case ready_addrs io bind_addrs of None \<Rightarrow> failed
           | Some local_addrs \<Rightarrow> recv_loop io opts 0 (hi_recvs io) (emit_ready local_addrs)))))"

section \<open>The client\<close>

definition expects :: "options_c \<Rightarrow> string \<Rightarrow> bool" where
  "expects opts stage \<longleftrightarrow> ho_expect_failure opts = Some stage \<or> ho_expect_failure opts = Some ''connect_or_send''"

definition fatal :: "string \<Rightarrow> string \<Rightarrow> int list \<Rightarrow> helper_run" where
  "fatal message out closed = (returns (-1) out closed)\<lparr>hr_fatal := take 255 message\<rparr>"

text \<open>The loop over the messages and what follows it; \<open>i\<close> messages of \<open>total\<close> were sent.\<close>

fun helper_send_loop :: "helper_io \<Rightarrow> options_c \<Rightarrow> nat \<Rightarrow> message_spec_c list \<Rightarrow> string \<Rightarrow> helper_run" where
  "helper_send_loop io opts i [] out =
     (if expects opts ''send'' then fatal ''send succeeded unexpectedly'' out [hi_socket io]
      else returns 0 (out @ emit_complete (int i) ''sent_count'') [hi_socket io])"
| "helper_send_loop io opts i (msg # msgs) out =
     (case hi_sends io i of
        Some error \<Rightarrow>
          if expects opts ''send'' then returns 0 (out @ emit_expected_failure ''send'' error) [hi_socket io]
          else returns (-1) out [hi_socket io]
      | None \<Rightarrow> helper_send_loop io opts (Suc i) msgs (out @ emit_sent (hm_payload msg) (hm_stream msg) (hm_ppid msg)))"

text \<open>After the association is up: the addresses, the messages.\<close>

definition connected_output :: "helper_io \<Rightarrow> options_c \<Rightarrow> u32 \<Rightarrow> string" where
  "connected_output io opts assoc_id =
     (if ho_emit_local_addrs opts
      then (case load_laddrs io assoc_id of None \<Rightarrow> [] | Some addrs \<Rightarrow> emit_addrs ''local_addrs'' addrs) else []) @
     (if ho_emit_peer_addrs opts
      then (case load_paddrs io assoc_id of None \<Rightarrow> [] | Some addrs \<Rightarrow> emit_addrs ''peer_addrs'' addrs) else [])"

definition client_messages :: "helper_io \<Rightarrow> options_c \<Rightarrow> message_spec_c list option" where
  "client_messages io opts =
     (case ho_messages opts of None \<Rightarrow> Some [] | Some raw \<Rightarrow> parse_messages io (take 511 raw))"

definition run_client :: "helper_io \<Rightarrow> options_c \<Rightarrow> helper_run" where
  "run_client io opts =
     (case ho_connect_addrs opts of None \<Rightarrow> returns (-1) [] []
      | Some raw \<Rightarrow>
     (case parse_addr_list io (take 255 raw) of None \<Rightarrow> returns (-1) [] []
      | Some connect_addrs \<Rightarrow>
     (let fd = hi_socket io; failed = returns (-1) [] [fd]
      in if fd < 0 then returns (-1) [] []
         else if \<not> apply_common_socket_options io opts then failed
         else (case hi_connectx io connect_addrs of
             Inl error \<Rightarrow>
               if expects opts ''connect'' then returns 0 (emit_expected_failure ''connect'' error) [fd] else failed
           | Inr assoc_id \<Rightarrow>
               if ho_expect_failure opts = Some ''connect'' then fatal ''connect succeeded unexpectedly'' [] [fd]
               else (case client_messages io opts of
                   None \<Rightarrow> returns (-1) (connected_output io opts assoc_id) [fd]
                 | Some msgs \<Rightarrow> helper_send_loop io opts 0 msgs (connected_output io opts assoc_id))))))"

section \<open>The program\<close>

definition usage :: helper_run where "usage = returns 2 [] []"

definition main_c :: "string list \<Rightarrow> helper_io \<Rightarrow> helper_run" where
  "main_c argv io =
     (case parse_options_c argv of None \<Rightarrow> usage
      | Some opts \<Rightarrow>
          if ho_mode opts \<noteq> ''server'' \<and> ho_mode opts \<noteq> ''client'' then usage
          else let r = (if ho_mode opts = ''server'' then run_server io opts else run_client io opts)
            in (case hr_end r of
                 Returns rc \<Rightarrow>
                   (let message = (if hr_fatal r \<noteq> '''' then hr_fatal r else hi_strerror io)
                    in if rc \<noteq> 0 then r\<lparr>hr_end := Returns 1, hr_output := hr_output r @ emit_error message\<rparr> else r)
               | _ \<Rightarrow> r))"

end
