(* ===== verification/Helper_Theorems.thy ===== *)
theory Helper_Theorems
  imports Helper Http_Theorems Document_Theorems
begin

text \<open>
  The helper of the theory Helper: its socket is closed on every path, its message lists are read
  as they are written, and its lines are JSON exactly as far as its escaper goes - the runner on
  the other side reads each line with a JSON parser. A client and a server helper agree on the
  messages between them.
\<close>

section \<open>The socket is closed\<close>

text \<open>What a run does with a socket it has opened: it closes it, once, when it returns.\<close>

definition closes :: "helper_io \<Rightarrow> helper_run \<Rightarrow> bool" where
  "closes io r \<longleftrightarrow> hr_closed r = (case hr_end r of Returns rc \<Rightarrow> [hi_socket io] | _ \<Rightarrow> [])"

text \<open>The runs that get as far as a socket.\<close>

definition helper_addrs :: "options_c \<Rightarrow> string option" where
  "helper_addrs opts = (if ho_mode opts = ''server'' then ho_bind_addrs opts else if ho_mode opts = ''client'' then ho_connect_addrs opts else None)"

definition opens :: "helper_io \<Rightarrow> string option \<Rightarrow> bool" where
  "opens io addrs \<longleftrightarrow> 0 \<le> hi_socket io \<and> (case addrs of None \<Rightarrow> False | Some raw \<Rightarrow> parse_addr_list io (take 255 raw) \<noteq> None)"

definition opens_socket :: "string list \<Rightarrow> helper_io \<Rightarrow> bool" where
  "opens_socket argv io \<longleftrightarrow> (case parse_options_c argv of None \<Rightarrow> False | Some opts \<Rightarrow> opens io (helper_addrs opts))"

text \<open>The server that is given no address at all, as in \<open>--bind-addrs ,\<close>, and would bind one.\<close>

definition binds_nothing :: "helper_io \<Rightarrow> options_c \<Rightarrow> bool" where
  "binds_nothing io opts \<longleftrightarrow> opens io (ho_bind_addrs opts) \<and> apply_common_socket_options io opts \<and>
     (case ho_bind_addrs opts of None \<Rightarrow> False | Some raw \<Rightarrow> parse_addr_list io (take 255 raw) = Some [])"

lemma recv_loop_closes: "closes io (recv_loop io opts n recvs out) \<and> hr_end (recv_loop io opts n recvs out) \<noteq> Undefined"
proof (induction io opts n recvs out rule: recv_loop.induct)
  case (1 io opts recv_count recvs out)
  then show ?case
    by (subst (1 2) recv_loop.simps) (auto simp: closes_def returns_def simp del: recv_loop.simps split: list.split helper_recv.split)
qed

lemma send_loop_closes: "\<exists>rc. hr_end (helper_send_loop io opts i msgs out) = Returns rc \<and> hr_closed (helper_send_loop io opts i msgs out) = [hi_socket io]"
  by (induction io opts i msgs out rule: helper_send_loop.induct) (auto simp: returns_def fatal_def split: option.split)

lemma run_server_closes:
  "if opens io (ho_bind_addrs opts) then closes io (run_server io opts) else run_server io opts = returns (-1) [] []"
  by (auto simp: run_server_def opens_def closes_def [of _ "returns _ _ _"] closes_def [of _ "\<lparr>hr_end = _, hr_output = _, hr_closed = _, hr_fatal = _\<rparr>"]
      returns_def Let_def recv_loop_closes simp del: recv_loop.simps split: option.split)

lemma run_server_undefined: "hr_end (run_server io opts) = Undefined \<longleftrightarrow> binds_nothing io opts"
  by (auto simp: run_server_def opens_def binds_nothing_def returns_def Let_def recv_loop_closes simp del: recv_loop.simps split: option.split)

lemma run_client_closes:
  "if opens io (ho_connect_addrs opts)
   then \<exists>rc. hr_end (run_client io opts) = Returns rc \<and> hr_closed (run_client io opts) = [hi_socket io]
   else run_client io opts = returns (-1) [] []"
  using send_loop_closes by (auto simp: run_client_def opens_def returns_def fatal_def Let_def split: option.split sum.split)

section \<open>Messages on the command line\<close>

definition plain_field :: "string \<Rightarrow> bool" where
  "plain_field s \<longleftrightarrow> CHR '','' \<notin> set s \<and> CHR '':'' \<notin> set s"

definition message_text_c :: "message_spec_c \<Rightarrow> string" where
  "message_text_c m = hm_payload m @ '':'' @ dec_of_word (hm_stream m) @ '':'' @ dec_of_word (hm_ppid m)"

lemma digits_plain: "plain_field (dec_of_nat n)"
  using dec_of_nat_digits [of n] by (auto simp: plain_field_def is_digit_def less_eq_char_def)

lemma split_colon_text: "CHR '':'' \<notin> set s \<Longrightarrow> split_colon (s @ CHR '':'' # t) = Some (s, t)"
  by (simp add: split_colon_def Let_def takeWhile_append)

lemma parse_message_text:
  assumes "plain_field (hm_payload m)" and "length (hm_payload m) \<le> 255"
  shows "parse_message (message_text_c m) = Some m"
proof -
  have "unat (hm_stream m) < 2 ^ 16" "unat (hm_ppid m) < 2 ^ 32"
    using unsigned_less [of "hm_stream m"] unsigned_less [of "hm_ppid m"] by simp_all
  then have stream: "strtoul (dec_of_word (hm_stream m)) = unat (hm_stream m)" "strtoul (dec_of_word (hm_ppid m)) = unat (hm_ppid m)"
    by (simp_all add: dec_of_word_def strtoul_dec)
  have "CHR '':'' \<notin> set (dec_of_word (hm_stream m))" using digits_plain by (simp add: dec_of_word_def plain_field_def)
  then show ?thesis
    using assms by (simp add: parse_message_def message_text_c_def split_colon_text plain_field_def stream)
qed

lemma message_text_pieces: "plain_field (hm_payload m) \<Longrightarrow> CHR '','' \<notin> set (message_text_c m) \<and> message_text_c m \<noteq> []"
  using digits_plain by (auto simp: message_text_c_def dec_of_word_def plain_field_def)

lemma strtok_piece: "CHR '','' \<notin> set p \<Longrightarrow> strtok_loop token (p @ s) = strtok_loop (token @ p) s"
  by (induction p arbitrary: token) auto

lemma strtok_join: "\<forall>p\<in>set ps. CHR '','' \<notin> set p \<and> p \<noteq> [] \<Longrightarrow> strtok_loop [] (join ps '','') = ps"
proof (induction ps)
  case (Cons p ps)
  then show ?case
    using strtok_piece [of p "[]" "[]"] strtok_piece [of p "[]" "CHR '','' # join ps '',''"]
    by (cases ps) (auto simp: join_Cons)
qed simp

lemma csv_fits: "length out + length tokens \<le> capacity \<Longrightarrow> csv_loop alloc capacity out tokens = Some (out @ tokens)"
  by (induction alloc capacity out tokens rule: csv_loop.induct) auto

lemma csv_grows:
  "alloc (2 * capacity) \<Longrightarrow> 0 < capacity \<Longrightarrow> length out \<le> capacity \<Longrightarrow> length out + length tokens \<le> 2 * capacity \<Longrightarrow>
     csv_loop alloc capacity out tokens = Some (out @ tokens)"
proof (induction tokens arbitrary: out)
  case (Cons token tokens)
  show ?case
  proof (cases "length out = capacity")
    case True
    then show ?thesis using Cons.prems csv_fits [of "out @ [token]" tokens "2 * capacity"] by simp
  next
    case False
    then show ?thesis using Cons.prems Cons.IH [of "out @ [token]"] by simp
  qed
qed simp

lemma parse_all_map: "\<forall>x\<in>set xs. f (g x) = Some x \<Longrightarrow> parse_all f (map g xs) = Some xs"
  by (induction xs) auto

text \<open>
  C28. A list of at most 16 messages written as the runner writes it - \<open>payload:stream:ppid\<close>,
  separated by commas - is read back as it was, if the payloads have no comma and no colon and at
  most 255 bytes and the array of tokens can be allocated.
\<close>

theorem messages_roundtrip:
  assumes "list_all (\<lambda>m. plain_field (hm_payload m) \<and> length (hm_payload m) \<le> 255) messages"
    and "length messages \<le> MAX_MESSAGES" and "hi_alloc io 8" and "hi_alloc io 16"
  shows "parse_messages io (join (map message_text_c messages) '','') = Some messages"
proof (cases messages)
  case Nil
  then show ?thesis by (simp add: parse_messages_def)
next
  case (Cons m ms)
  have pieces: "\<forall>p\<in>set (map message_text_c messages). CHR '','' \<notin> set p \<and> p \<noteq> []"
    using assms(1) message_text_pieces by (auto simp: list_all_iff)
  have nonempty: "join (map message_text_c messages) '','' \<noteq> []"
    using Cons pieces by (cases ms) auto
  have "split_csv (hi_alloc io) (Some (join (map message_text_c messages) '','')) = Some (map message_text_c messages)"
    using strtok_join [OF pieces] nonempty assms(2,3,4) csv_grows [of "hi_alloc io" 8 "[]" "map message_text_c messages"]
    by (simp add: split_csv_def MAX_MESSAGES_def)
  moreover have "parse_all parse_message (map message_text_c messages) = Some messages"
    using assms(1) parse_message_text by (intro parse_all_map) (auto simp: list_all_iff)
  ultimately show ?thesis using nonempty assms(2) by (simp add: parse_messages_def)
qed

text \<open>A library and a system on which everything succeeds, for the examples.\<close>

definition sample_io :: helper_io where
  "sample_io = \<lparr>hi_alloc = (\<lambda>n. True), hi_inet_pton = (\<lambda>s. if s = ''127.0.0.1'' then Some 0x7F000001 else None),
     hi_inet_ntop = (\<lambda>a. Some ''127.0.0.1''), hi_socket = 3, hi_setsockopt = (\<lambda>x. True), hi_bind = (\<lambda>a. True),
     hi_bound_port = Some 5000, hi_bindx = (\<lambda>as. True), hi_listen = True,
     hi_laddrs = (\<lambda>a. [InetAddress \<lparr>sin_addr = 0x7F000001, sin_port = 5000\<rparr>]), hi_listening_port = Some 5000,
     hi_paddrs = (\<lambda>a. []), hi_recvs = [HelperMessage ''hello'' 1 7 9], hi_connectx = (\<lambda>as. Inr 5), hi_sends = (\<lambda>i. None),
     hi_strerror = ''error''\<rparr>"

theorem messages_roundtrip_witness:
  "parse_messages sample_io ''ping:1:7,pong:2:8'' =
     Some [\<lparr>hm_payload = ''ping'', hm_stream = 1, hm_ppid = 7\<rparr>, \<lparr>hm_payload = ''pong'', hm_stream = 2, hm_ppid = 8\<rparr>]"
  using messages_roundtrip [of "[\<lparr>hm_payload = ''ping'', hm_stream = 1, hm_ppid = 7\<rparr>, \<lparr>hm_payload = ''pong'', hm_stream = 2, hm_ppid = 8\<rparr>]" sample_io]
  by (simp add: plain_field_def MAX_MESSAGES_def sample_io_def message_text_c_def dec_of_word_def dec_of_nat.simps digit_char_def)

section \<open>The lines are JSON\<close>

text \<open>The texts that \<open>json_escape\<close> renders as JSON: no control byte but line feed, return and tab.\<close>

definition escapable :: "string \<Rightarrow> bool" where
  "escapable s \<longleftrightarrow> list_all (\<lambda>c. control_byte c \<longrightarrow> c = newline \<or> c = creturn \<or> c = htab) s"


lemma escapable_append [simp]: "escapable (s @ t) \<longleftrightarrow> escapable s \<and> escapable t"
  by (simp add: escapable_def)

lemma escapable_c_string: "escapable s \<Longrightarrow> c_string s = s"
  by (auto simp: c_string_def escapable_def list_all_iff takeWhile_eq_all_conv control_byte_def)

lemma json_escape_byte_eq: "control_byte c \<longrightarrow> c = newline \<or> c = creturn \<or> c = htab \<Longrightarrow> json_escape_byte c = json_escape_char c"
  by (auto simp: json_escape_byte_def json_escape_char_def control_byte_def)

lemma escape_doc: "escapable s \<Longrightarrow> json_escape_c s = json_quote s"
  unfolding json_escape_c_def escapable_c_string json_quote_def json_escape_def
  by (simp add: escapable_c_string) (auto simp: escapable_def list_all_iff json_escape_byte_eq intro!: arg_cong [of _ _ concat])

text \<open>Text that is a sequence of lines, each a JSON document.\<close>

definition json_lines :: "string \<Rightarrow> bool" where
  "json_lines out \<longleftrightarrow> (\<exists>ds. out = concat (map (\<lambda>d. doc_text d @ [newline]) ds))"

lemma json_lines_Nil [simp]: "json_lines []"
  unfolding json_lines_def by (rule exI [of _ "[]"]) simp


lemma json_lines_one: "json_lines (doc_text d @ [newline])"
  unfolding json_lines_def by (rule exI [of _ "[d]"]) simp


lemma strings_escaped: "list_all escapable ss \<Longrightarrow> map json_escape_c ss = map doc_text (map Str ss)"
  by (induction ss) (auto simp: escape_doc)

lemma field_texts: "escapable ''recv''" "escapable ''peer_addrs''" "escapable ''local_addrs''" "escapable ''connect''" "escapable ''send''"
  by (simp_all add: escapable_def control_byte_def)

definition event_doc :: "string \<Rightarrow> (string \<times> doc) list \<Rightarrow> doc" where
  "event_doc event ms = Members ((''event'', Str event) # ms)"

lemma emit_docs:
  "list_all escapable addrs \<Longrightarrow> emit_ready addrs = doc_text (event_doc ''ready'' [(''local_addrs'', Strs addrs)]) @ [newline]"
  "list_all escapable addrs \<Longrightarrow> escapable event \<Longrightarrow> emit_addrs event addrs = doc_text (event_doc event [(''addrs'', Strs addrs)]) @ [newline]"
  "escapable payload \<Longrightarrow> emit_recv payload stream ppid assoc_id = doc_text (event_doc ''recv'' [(''payload'', Str payload),
     (''stream'', Word_num stream), (''ppid'', Word_num ppid), (''assoc_id'', Word_num assoc_id)]) @ [newline]"
  "escapable payload \<Longrightarrow> emit_sent payload stream ppid = doc_text (event_doc ''sent'' [(''payload'', Str payload),
     (''stream'', Word_num stream), (''ppid'', Word_num ppid)]) @ [newline]"
  "emit_notify sn_type flags = doc_text (event_doc ''notify'' [(''type'', Word_num sn_type), (''flags'', Num flags)]) @ [newline]"
  "escapable stage \<Longrightarrow> escapable message \<Longrightarrow> emit_expected_failure stage message =
     doc_text (event_doc ''expected_failure'' [(''stage'', Str stage), (''message'', Str message)]) @ [newline]"
  "list_all plain_char field \<Longrightarrow> emit_complete n field = doc_text (event_doc ''complete'' [(field, Num n)]) @ [newline]"
  "escapable message \<Longrightarrow> emit_error message = doc_text (event_doc ''error'' [(''message'', Str message)]) @ [newline]"
  by (simp_all add: emit_ready_def emit_addrs_def emit_recv_def emit_sent_def emit_notify_def emit_expected_failure_def
      emit_complete_def emit_error_def event_doc_def render_simps escape_doc strings_escaped o_def del: doc_text.simps(5))

lemma emit_lines [intro]:
  "list_all escapable addrs \<Longrightarrow> json_lines (emit_ready addrs)"
  "list_all escapable addrs \<Longrightarrow> escapable event \<Longrightarrow> json_lines (emit_addrs event addrs)"
  "escapable payload \<Longrightarrow> json_lines (emit_recv payload stream ppid assoc_id)"
  "escapable payload \<Longrightarrow> json_lines (emit_sent payload stream ppid)"
  "json_lines (emit_notify sn_type flags)"
  "escapable stage \<Longrightarrow> escapable message \<Longrightarrow> json_lines (emit_expected_failure stage message)"
  "list_all plain_char field \<Longrightarrow> json_lines (emit_complete n field)"
  "escapable message \<Longrightarrow> json_lines (emit_error message)"
  by (simp_all add: emit_docs json_lines_one)







lemma fixed_lines [simp]:
  "json_lines (emit_complete n ''recv_count'')" "json_lines (emit_complete n ''sent_count'')" "json_lines (emit_notify sn_type flags)"
  by (rule emit_lines; simp add: plain_char_def json_escape_char_def)+

lemmas text_lines_simps [simp] =
  emit_lines(6) [OF field_texts(4)] emit_lines(6) [OF field_texts(5)]
  emit_lines(2) [OF _ field_texts(2)] emit_lines(2) [OF _ field_texts(3)]
















lemma main_c_modes:
  assumes "parse_options_c argv = Some opts" and "ho_mode opts = ''server'' \<and> r = run_server io opts \<or> ho_mode opts = ''client'' \<and> r = run_client io opts"
  shows "main_c argv io = (case hr_end r of
        Returns rc \<Rightarrow> if rc \<noteq> 0
          then r\<lparr>hr_end := Returns 1, hr_output := hr_output r @ emit_error (if hr_fatal r \<noteq> '''' then hr_fatal r else hi_strerror io)\<rparr> else r
      | _ \<Rightarrow> r)"
  using assms(2) unfolding main_c_def assms(1) option.case Let_def by (elim disjE conjE) (simp_all only: simp_thms if_False if_True list.inject char.inject)




text \<open>
  The condition is needed: the line of a received message is a JSON document exactly if its payload,
  up to the first zero byte, has none of these bytes; the helper passes all others on as they are.
\<close>

theorem recv_line_json_iff:
  "(\<exists>d. emit_recv payload stream ppid assoc_id = doc_text d @ [newline]) \<longleftrightarrow> escapable (c_string payload)"
proof
  assume "\<exists>d. emit_recv payload stream ppid assoc_id = doc_text d @ [newline]"
  then obtain d where "emit_recv payload stream ppid assoc_id = doc_text d @ [newline]" by blast
  then have "doc_text d = butlast (emit_recv payload stream ppid assoc_id)" by simp
  then have "set (json_escape_c payload) \<subseteq> set (doc_text d)"
    by (simp add: emit_recv_def butlast_append) blast
  then have clean: "\<not> control_byte c" if "c \<in> set (json_escape_c payload)" for c
    using that doc_text_clean by blast
  have "c = newline \<or> c = creturn \<or> c = htab" if "c \<in> set (c_string payload)" "control_byte c" for c
  proof (rule ccontr)
    assume "\<not> (c = newline \<or> c = creturn \<or> c = htab)"
    then have "c \<in> set (json_escape_byte c)" by (simp add: json_escape_byte_def)
    then have "c \<in> set (json_escape_c payload)" using that(1) by (auto simp: json_escape_c_def)
    with clean that(2) show False by blast
  qed
  then show "escapable (c_string payload)" by (auto simp: escapable_def list_all_iff)
next
  assume e: "escapable (c_string payload)"
  have "c_string (c_string payload) = c_string payload" by (simp add: escapable_c_string [OF e])
  then have "emit_recv payload stream ppid assoc_id = emit_recv (c_string payload) stream ppid assoc_id"
    by (simp add: emit_recv_def json_escape_c_def)
  with emit_docs(3) [OF e] show "\<exists>d. emit_recv payload stream ppid assoc_id = doc_text d @ [newline]" by metis
qed

section \<open>The helper as a whole\<close>

lemma returns_case: "(case e of Returns rc \<Rightarrow> x | _ \<Rightarrow> []) = (if e = Undefined \<or> e = Waiting then [] else x)"
  by (cases e) auto

lemma main_c_run:
  assumes "parse_options_c argv = Some opts" and "ho_mode opts = ''server'' \<and> r = run_server io opts \<or> ho_mode opts = ''client'' \<and> r = run_client io opts"
  shows "hr_closed (main_c argv io) = hr_closed r" and "hr_end (main_c argv io) = Undefined \<longleftrightarrow> hr_end r = Undefined"
    and "hr_end (main_c argv io) = Waiting \<longleftrightarrow> hr_end r = Waiting"
  using main_c_modes [OF assms] by (cases "hr_end r"; simp)+

text \<open>
  C27. A run of the helper that returns closes a descriptor exactly if it came to open one: its
  socket, once, on every path, whatever fails. It has undefined behaviour exactly if it is a
  server that has no address to bind.
\<close>

theorem helper_closes_socket:
  "hr_closed (main_c argv io) = (case hr_end (main_c argv io) of
       Returns rc \<Rightarrow> (if opens_socket argv io then [hi_socket io] else []) | _ \<Rightarrow> []) \<and>
   (hr_end (main_c argv io) = Undefined \<longleftrightarrow>
     (case parse_options_c argv of None \<Rightarrow> False | Some opts \<Rightarrow> ho_mode opts = ''server'' \<and> binds_nothing io opts))"
proof (cases "parse_options_c argv")
  case None
  then show ?thesis by (simp add: main_c_def usage_def returns_def opens_socket_def)
next
  case (Some opts)
  consider (server) "ho_mode opts = ''server''" | (client) "ho_mode opts = ''client''" | (neither) "ho_mode opts \<noteq> ''server''" "ho_mode opts \<noteq> ''client''"
    by blast
  then show ?thesis
  proof cases
    case server
    note run = main_c_run [OF Some, of "run_server io opts" io, simplified server, simplified]
    show ?thesis
      using run_server_closes [of io opts] run run_server_undefined [of io opts] server
      by (auto simp: returns_case closes_def opens_socket_def helper_addrs_def Some returns_def split: if_splits)
  next
    case client
    note run = main_c_run [OF Some, of "run_client io opts" io, simplified client, simplified]
    show ?thesis
      using run_client_closes [of io opts] run client
      by (auto simp: returns_case opens_socket_def helper_addrs_def Some returns_def split: if_splits)
  next
    case neither
    then show ?thesis by (simp add: main_c_def usage_def returns_def opens_socket_def helper_addrs_def opens_def Some)
  qed
qed

section \<open>Two helpers talk\<close>

text \<open>The messages among the results of \<open>sctp_recvv\<close>, and the results up to the \<open>n\<close>-th message.\<close>

fun messages_in :: "helper_recv list \<Rightarrow> (string \<times> u16 \<times> u32) list" where
  "messages_in [] = []"
| "messages_in (HelperMessage payload stream ppid assoc_id # rest) = (payload, stream, ppid) # messages_in rest"
| "messages_in (r # rest) = messages_in rest"

fun read_until :: "nat \<Rightarrow> helper_recv list \<Rightarrow> helper_recv list" where
  "read_until 0 recvs = []"
| "read_until (Suc n) [] = []"
| "read_until (Suc n) (r # rest) = r # read_until (case r of HelperMessage payload stream ppid assoc_id \<Rightarrow> n | _ \<Rightarrow> Suc n) rest"

fun recv_line :: "helper_recv \<Rightarrow> string" where
  "recv_line (HelperMessage payload stream ppid assoc_id) = emit_recv payload stream ppid assoc_id"
| "recv_line (HelperNotification sn_type flags) = emit_notify sn_type flags"
| "recv_line HelperError = []"

definition sent_line :: "message_spec_c \<Rightarrow> string" where
  "sent_line m = emit_sent (hm_payload m) (hm_stream m) (hm_ppid m)"

lemma messages_read: "messages_in (read_until (length (messages_in recvs)) recvs) = messages_in recvs"
proof (induction recvs)
  case (Cons r rest)
  then show ?case by (cases r; cases "length (messages_in rest)") auto
qed simp

lemma recv_loop_reads:
  "HelperError \<notin> set recvs \<Longrightarrow> \<not> ho_emit_peer_addrs opts \<Longrightarrow> ho_read_messages opts = k + int (length (messages_in recvs)) \<Longrightarrow>
     recv_loop io opts k recvs out = returns 0 (out @ concat (map recv_line (read_until (length (messages_in recvs)) recvs)) @
       emit_complete (ho_read_messages opts) ''recv_count'') [hi_socket io]"
proof (induction recvs arbitrary: k out)
  case Nil
  then show ?case by (subst recv_loop.simps) simp
next
  case (Cons r rest)
  show ?case
  proof (cases r)
    case (HelperMessage payload stream ppid assoc_id)
    then show ?thesis
      using Cons.prems Cons.IH [of "k + 1" "out @ emit_recv payload stream ppid assoc_id"]
      by (subst recv_loop.simps) (simp add: recv_output_def del: recv_loop.simps)
  next
    case (HelperNotification t f)
    then show ?thesis
      using Cons.prems Cons.IH [of k "out @ emit_notify t f"]
      by (subst recv_loop.simps) (cases "length (messages_in rest)"; simp del: recv_loop.simps)
  qed (use Cons.prems in simp)
qed

lemma send_loop_sends:
  "hr_end (helper_send_loop io opts i msgs out) = Returns 0 \<Longrightarrow> ho_expect_failure opts = None \<Longrightarrow>
     hr_output (helper_send_loop io opts i msgs out) = out @ concat (map sent_line msgs) @ emit_complete (int (i + length msgs)) ''sent_count''"
  by (induction io opts i msgs out rule: helper_send_loop.induct) (auto simp: expects_def returns_def sent_line_def split: option.splits)

lemma client_sends:
  assumes "hr_end (run_client io opts) = Returns 0" and "ho_expect_failure opts = None" and "client_messages io opts = Some msgs"
  obtains assoc_id where "hr_output (run_client io opts) =
    connected_output io opts assoc_id @ concat (map sent_line msgs) @ emit_complete (int (length msgs)) ''sent_count''"
proof -
  obtain assoc_id where "run_client io opts = helper_send_loop io opts 0 msgs (connected_output io opts assoc_id)"
    using assms by (auto simp: run_client_def returns_def expects_def Let_def split: option.splits sum.splits if_splits)
  with send_loop_sends [of io opts 0 msgs "connected_output io opts assoc_id"] assms that show ?thesis by simp
qed

lemma server_loops:
  assumes "hr_end (run_server io opts) \<noteq> Returns (-1)" and "hr_end (run_server io opts) \<noteq> Undefined"
  obtains addrs where "run_server io opts = recv_loop io opts 0 (hi_recvs io) (emit_ready addrs)"
  using assms by (auto simp: run_server_def returns_def Let_def simp del: recv_loop.simps split: option.splits if_splits)

text \<open>
  C26. Two helpers agree on what they exchanged: if the client has sent its messages, the server is
  up and is to read as many, and the network delivers them in order, with notifications anywhere
  between them, then the server returns success and its \<open>recv\<close> lines are, in order, the payloads,
  streams and protocol ids of the client's \<open>sent\<close> lines; both report the same count.
\<close>

theorem helpers_agree:
  assumes "hr_end (run_client cio copts) = Returns 0" and "ho_expect_failure copts = None" and "client_messages cio copts = Some msgs"
    and "hr_end (run_server sio sopts) \<noteq> Returns (-1)" and "hr_end (run_server sio sopts) \<noteq> Undefined"
    and "ho_read_messages sopts = int (length msgs)" and "\<not> ho_emit_peer_addrs sopts"
    and "messages_in (hi_recvs sio) = map (\<lambda>m. (hm_payload m, hm_stream m, hm_ppid m)) msgs" and "HelperError \<notin> set (hi_recvs sio)"
  shows "\<exists>assoc_id addrs received.
    hr_output (run_client cio copts) = connected_output cio copts assoc_id @ concat (map sent_line msgs) @
      emit_complete (int (length msgs)) ''sent_count'' \<and>
    hr_end (run_server sio sopts) = Returns 0 \<and>
    hr_output (run_server sio sopts) = emit_ready addrs @ concat (map recv_line received) @
      emit_complete (int (length msgs)) ''recv_count'' \<and>
    messages_in received = map (\<lambda>m. (hm_payload m, hm_stream m, hm_ppid m)) msgs"
proof -
  obtain assoc_id where client: "hr_output (run_client cio copts) = connected_output cio copts assoc_id @
      concat (map sent_line msgs) @ emit_complete (int (length msgs)) ''sent_count''"
    using client_sends [OF assms(1-3)] .
  obtain addrs where server: "run_server sio sopts = recv_loop sio sopts 0 (hi_recvs sio) (emit_ready addrs)"
    using server_loops [OF assms(4,5)] .
  have "length (messages_in (hi_recvs sio)) = length msgs" using assms(8) by simp
  then have "run_server sio sopts = returns 0 (emit_ready addrs @ concat (map recv_line (read_until (length (messages_in (hi_recvs sio))) (hi_recvs sio))) @
      emit_complete (ho_read_messages sopts) ''recv_count'') [hi_socket sio]"
    using server recv_loop_reads [OF assms(9,7), of 0] assms(6) by simp
  moreover have "messages_in (read_until (length (messages_in (hi_recvs sio))) (hi_recvs sio)) = map (\<lambda>m. (hm_payload m, hm_stream m, hm_ppid m)) msgs"
    using messages_read [of "hi_recvs sio"] assms(8) by simp
  ultimately show ?thesis using client assms(6) unfolding returns_def by fastforce
qed

text \<open>A server that reads one message, and a client that sends it, on the sample system.\<close>

definition sample_server_options :: options_c where
  "sample_server_options = (no_options ''server'')\<lparr>ho_bind_addrs := Some ''127.0.0.1:0'', ho_read_messages := 1\<rparr>"

definition sample_client_options :: options_c where
  "sample_client_options = (no_options ''client'')\<lparr>ho_connect_addrs := Some ''127.0.0.1:5000'', ho_messages := Some ''hello:1:7''\<rparr>"

lemmas sample_options = sample_io_def sample_server_options_def sample_client_options_def no_options_def

lemma sample_addrs:
  "parse_addr_list sample_io ''127.0.0.1:0'' = Some [\<lparr>sin_addr = 0x7F000001, sin_port = 0\<rparr>]"
  "parse_addr_list sample_io ''127.0.0.1:5000'' = Some [\<lparr>sin_addr = 0x7F000001, sin_port = 5000\<rparr>]"
  by (simp_all add: parse_addr_list_def split_csv_def sample_io_def MAX_ADDRS_def parse_addr_def split_last_colon_def strtol_def
      digits_value_def isspace_def is_digit_def Let_def)

lemma sample_subscriptions: "apply_common_socket_options sample_io sample_client_options" "apply_common_socket_options sample_io sample_server_options"
  by (simp_all add: apply_common_socket_options_def apply_subscriptions_def sample_options)

lemma sample_client:
  "hr_end (run_client sample_io sample_client_options) = Returns 0"
  "client_messages sample_io sample_client_options = Some [\<lparr>hm_payload = ''hello'', hm_stream = 1, hm_ppid = 7\<rparr>]"
proof -
  have "parse_message ''hello:1:7'' = Some \<lparr>hm_payload = ''hello'', hm_stream = 1, hm_ppid = 7\<rparr>"
    using parse_message_text [of "\<lparr>hm_payload = ''hello'', hm_stream = 1, hm_ppid = 7\<rparr>"]
    by (simp add: plain_field_def message_text_c_def dec_of_word_def dec_of_nat.simps digit_char_def)
  then show msgs: "client_messages sample_io sample_client_options = Some [\<lparr>hm_payload = ''hello'', hm_stream = 1, hm_ppid = 7\<rparr>]"
    by (simp add: client_messages_def parse_messages_def split_csv_def MAX_MESSAGES_def sample_options)
  have "ho_connect_addrs sample_client_options = Some ''127.0.0.1:5000''" "ho_expect_failure sample_client_options = None"
    by (simp_all add: sample_client_options_def no_options_def)
  then show "hr_end (run_client sample_io sample_client_options) = Returns 0"
    using msgs sample_addrs sample_subscriptions
    by (simp add: run_client_def expects_def returns_def sample_io_def [THEN arg_cong [of _ _ hi_socket]]
        sample_io_def [THEN arg_cong [of _ _ hi_connectx]] sample_io_def [THEN arg_cong [of _ _ hi_sends]])
qed

lemma sample_server: "hr_end (run_server sample_io sample_server_options) = Returns 0"
proof -
  have opts: "ho_bind_addrs sample_server_options = Some ''127.0.0.1:0''" "ho_read_messages sample_server_options = 1"
    "\<not> ho_emit_peer_addrs sample_server_options"
    by (simp_all add: sample_server_options_def no_options_def)
  have io: "hi_socket sample_io = 3" "hi_recvs sample_io = [HelperMessage ''hello'' 1 7 9]" "hi_listen sample_io" "hi_bind sample_io a" for a
    by (simp_all add: sample_io_def)
  have "\<exists>local_addrs. ready_addrs sample_io addrs = Some local_addrs" for addrs
    by (simp add: ready_addrs_def load_laddrs_def load_addrs_def format_sockaddr_c_def sample_io_def MAX_ADDRS_def)
  then obtain local_addrs where "ready_addrs sample_io [\<lparr>sin_addr = 0x7F000001, sin_port = 0\<rparr>] = Some local_addrs" by blast
  then show ?thesis
    using recv_loop_reads [of "hi_recvs sample_io" sample_server_options 0 sample_io] sample_subscriptions(2) opts io
    by (simp add: run_server_def sample_addrs bind_all_def returns_def Let_def del: recv_loop.simps)
qed

theorem helpers_agree_witness:
  "\<exists>assoc_id addrs received.
    hr_output (run_client sample_io sample_client_options) = connected_output sample_io sample_client_options assoc_id @
      emit_sent ''hello'' 1 7 @ emit_complete 1 ''sent_count'' \<and>
    hr_end (run_server sample_io sample_server_options) = Returns 0 \<and>
    hr_output (run_server sample_io sample_server_options) = emit_ready addrs @ concat (map recv_line received) @
      emit_complete 1 ''recv_count'' \<and> messages_in received = [(''hello'', 1, 7)]"
  using helpers_agree [OF sample_client(1) _ sample_client(2), of sample_io sample_server_options]
  by (simp add: sample_server sent_line_def) (simp add: sample_options)

end
