(* ===== verification/Spec2Isabelle.thy ===== *)
theory Spec2Isabelle
  imports Session_Theorems Worker_Theorems Catalog_Theorems Http_Theorems Server_Theorems Connection_Theorems Page_Theorems
    Session_Spec Interleaving_Theorems Locking Helper_Theorems
begin

text \<open>
  A verification library for the two native programs of the SCTP conformance suite: the feature
  server \<open>src/server/freebsd_ref/main.cpp\<close> and the FreeBSD client helper
  \<open>src/adapters/freebsd_c/helper.c\<close>.

  The server offers a catalogue of SCTP features over HTTP. A client opens a session, starts one
  feature at a time, runs the SCTP scenario the answer describes, and reports; the server listens
  on SCTP sockets of its own and observes what it can. A feature ends as passed, failed, timed out
  or unsupported. Pages and a stream of events show the progress. Each connection is served by a
  thread of its own, each started feature may have a worker thread that receives on its sockets,
  and all of them share the sessions. The helper is a single-threaded program that opens one SCTP
  socket as a server or as a client and reports what happens as lines of JSON.

  \<^bold>\<open>The model and the code.\<close> One theory per part, with the names of the source.

  \<^item> Prelude, Model_Types: bytes and strings, the functions of the standard library that the code
    uses, the structs (records), the enums (datatypes), time stamps.
  \<^item> Text_Util, Json_Render: \<open>trim\<close>, \<open>split\<close>, \<open>join\<close>, \<open>json_escape\<close>, \<open>html_escape\<close>, the
    \<open>json_\<close> renderers, \<open>materialize_payload\<close>. Json_Parse: \<open>append_utf8_codepoint\<close> and the
    \<open>parse_json_\<close> functions, where the cursor is the text that is left.
  \<^item> Lifecycle: \<open>Session\<close> and \<open>FeatureExecution\<close> as the state \<open>machine\<close> with the logs of opened
    and closed descriptors, \<open>clear_active_feature\<close>, \<open>close_active_fds\<close>, \<open>mark_failed\<close>,
    \<open>mark_network_complete\<close>, \<open>maybe_timeout\<close>, \<open>activate_execution\<close>.
  \<^item> Sockets: \<open>create_listening_socket\<close> with every failing system call. Workers: the four worker
    threads over the results of \<open>sctp_recvv\<close> and \<open>sctp_sendv\<close>.
  \<^item> Catalog: \<open>build_feature_catalog\<close> with its 43 features and their RFC references.
  \<^item> Session_Api: \<open>StartFeature\<close>, \<open>CompleteFeature\<close>, \<open>UnsupportedFeature\<close>, \<open>SessionJson\<close>,
    \<open>SummaryJson\<close>, \<open>FeatureJson\<close>, \<open>build_contract\<close>.
  \<^item> Http: \<open>write_all\<close>, \<open>ReadHttpRequest\<close>, \<open>split_path\<close>, \<open>WriteHttpResponse\<close>. Server:
    \<open>parse_options\<close>, the session table, \<open>CreateSession\<close>, \<open>FeaturesJson\<close>, \<open>HandleRequest\<close>.
    Connection: \<open>HandleClient\<close>, \<open>HandleSummaryStream\<close>, \<open>CreateHttpSocket\<close>, \<open>Run\<close>, \<open>main\<close>.
    Pages: \<open>SessionIndexHtml\<close> and \<open>DashboardHtml\<close>, markup and script included.
  \<^item> Interleaving: the same handlers and workers cut into blocks, one per critical section. Locking:
    the mutexes behind the blocks, each \<open>lock_guard\<close> with what it nests.
  \<^item> Helper: all of \<open>helper.c\<close>.

  A call into the operating system is an input of the model: a list of results in the order of the
  calls (\<open>read\<close>, \<open>write\<close>, \<open>sctp_recvv\<close>, \<open>accept\<close>), or a record of answers (\<open>listen_os\<close>,
  \<open>helper_io\<close>). The clock is a function of the number of readings. A result that the code obtains by
  reading through a null pointer, past the end of a vector or with a throwing \<open>at\<close> is \<open>None\<close>,
  \<open>Crashes\<close> or \<open>Undefined\<close>, so that its absence is something to prove.
\<close>

text \<open>
  \<^bold>\<open>What is shown.\<close>

  \<^item> One session (Session_Run, Session_Proofs, Session_Theorems): over every run of requests and
    worker results at most one feature is active and \<open>active_feature_id\<close> names it, states only go
    forward, settled features are final, a passed feature has what its completion mode asks for,
    and each descriptor is closed once or held by the active feature. The laws of an operation on
    one feature are the locale \<open>feature_operation\<close>, extended by \<open>final_operation\<close>; the failing,
    completing, timing-out, reporting and declining operations are its interpretations. Each
    request is characterised on all its branches.
  \<^item> Its specification (Session_Spec): an abstract session with three events, which the code
    refines; and the client can always bring a session to its end.
  \<^item> Threads (Interleaving_Theorems, Locking): under every interleaving of the blocks, what a passed
    feature has earned and that no descriptor is closed twice; that the blocks run alone are
    the handlers; that all handlers end; that the locks cannot deadlock and guard what is written
    under them. And what does not survive interleaving: the invariant of one active feature, and
    that a session always becomes free again, each with the run that breaks it.
  \<^item> Workers (Worker_Theorems): each completes its feature exactly on the messages its scenario
    asks for. Catalogue (Catalog_Theorems): identifiers, message sizes and streams, and that no
    feature fails by its own definition.
  \<^item> Text (Json_Documents, Document_Theorems, Json_Roundtrip): every document of the server is a
    line of JSON that is read back as the values it was made of, whatever these hold; the server's
    own reader reads what its writer writes. A page holds no markup from a client (Page_Theorems).
  \<^item> The wire and the server (Http_Theorems, Responses, Server_Run, Server_Theorems,
    Connection_Theorems): requests are read as sent in whatever chunks, within bounds; every
    request in every reachable state is answered; requests touch one session only; the stream
    tells each change once; the command line is read as written.
  \<^item> The helper (Helper_Theorems): its socket is closed on every path, its lines are JSON as far as
    its escaper goes, message lists are read as written, and a client and a server helper agree
    on what they exchanged.

  \<^bold>\<open>Recursion and bounds.\<close> The loops of the code are recursive functions without fuel. The JSON
  reader and the readers of requests end by the length of what is left: the reader of a request
  goes on only while the list of reads has an element, and \<open>request_read_ends\<close> bounds how many it
  takes. The loops that have no end of their own (\<open>accept\<close>, the event stream, the workers, the
  helper's receives) run over the list of what the next turns meet, and have a result for the
  thread that still waits when it is used up. The blocks of a handler end by a multiset order on
  their ranks. The reader of documents in Json_Documents, a specification, takes a depth, and its
  theorems provide one that is enough.

  \<^bold>\<open>Atomicity.\<close> A block of Interleaving is one critical section, one \<open>close\<close>, or the opening of
  sockets that no other thread knows yet. The server's mutexes nest only from the session table to
  a session and from a session to an execution, and only for reading. Runs in Session_Run let each
  handler finish before the next begins; Interleaving drops that.

  \<^bold>\<open>Not modelled.\<close> The SCTP stack, the kernel and the C library, beyond their answers; memory
  exhaustion in the server; the signal that \<open>write\<close> raises on a closed connection (SIGPIPE ends the
  process, see the findings); the reuse of a descriptor's number while a thread still waits on
  it; the order of the server's hash table of sessions, which is a parameter of the page. What a
  browser does with the pages is not modelled, their text is. The Go helper
  (\<open>src/adapters/go_net\<close>), the runner (\<open>src/runner\<close>) and the smoke test (\<open>src/scripts\<close>) are programs
  in other languages that start or test these two; scenarios, profiles and artefacts are data.
\<close>

end
